(* ===== verification/Prelude.thy ===== *)
theory Prelude
  imports Complex_Main "HOL-Library.Word"
begin

text \<open>
  Shared vocabulary of the development: reachable states of a page (its handlers, the answers
  of its requests and its timers are the events), the locale that turns a preserved predicate
  into an invariant of all reachable states, and the list and map lemmas the pages share.
\<close>

named_theorems page_simps "unfolding rules of the page models"

section \<open>Reachable states\<close>

text \<open>
  A page is an initial state, a step function over its events and a predicate that says which
  events can happen in a state: a handler the page offers, the answer of a request that is in
  flight, or a timer that is armed.
\<close>

inductive reach :: "'s \<Rightarrow> ('s \<Rightarrow> 'e \<Rightarrow> 's) \<Rightarrow> ('s \<Rightarrow> 'e \<Rightarrow> bool) \<Rightarrow> 's \<Rightarrow> bool"
  for i :: 's and step :: "'s \<Rightarrow> 'e \<Rightarrow> 's" and ok :: "'s \<Rightarrow> 'e \<Rightarrow> bool"
where
  reach_init: "reach i step ok i"
| reach_step: "reach i step ok s \<Longrightarrow> ok s e \<Longrightarrow> reach i step ok (step s e)"

fun run :: "('s \<Rightarrow> 'e \<Rightarrow> 's) \<Rightarrow> 's \<Rightarrow> 'e list \<Rightarrow> 's" where
  "run step s [] = s"
| "run step s (e # es) = run step (step s e) es"

fun possible :: "('s \<Rightarrow> 'e \<Rightarrow> 's) \<Rightarrow> ('s \<Rightarrow> 'e \<Rightarrow> bool) \<Rightarrow> 's \<Rightarrow> 'e list \<Rightarrow> bool" where
  "possible step ok s [] = True"
| "possible step ok s (e # es) = (ok s e \<and> possible step ok (step s e) es)"

lemma run_append: "run step s (es @ fs) = run step (run step s es) fs"
  by (induction es arbitrary: s) auto

lemma possible_append:
  "possible step ok s es \<Longrightarrow> possible step ok (run step s es) fs \<Longrightarrow> possible step ok s (es @ fs)"
  by (induction es arbitrary: s) auto

lemma possible_prefix: "possible step ok s (es @ fs) \<Longrightarrow> possible step ok s es"
  by (induction es arbitrary: s) auto

lemma reach_run: "reach i step ok s \<Longrightarrow> possible step ok s es \<Longrightarrow> reach i step ok (run step s es)"
  by (induction es arbitrary: s) (auto intro: reach_step)

locale machine_invariant =
  fixes init :: 's
    and step :: "'s \<Rightarrow> 'e \<Rightarrow> 's"
    and ok :: "'s \<Rightarrow> 'e \<Rightarrow> bool"
    and inv :: "'s \<Rightarrow> bool"
  assumes inv_init: "inv init"
    and inv_step: "inv s \<Longrightarrow> ok s e \<Longrightarrow> inv (step s e)"
begin

lemma reach_inv: "reach init step ok s \<Longrightarrow> inv s"
  by (induction rule: reach.induct) (auto intro: inv_init inv_step)

lemma run_inv: "inv s \<Longrightarrow> possible step ok s es \<Longrightarrow> inv (run step s es)"
  by (induction es arbitrary: s) (auto intro: inv_step)

end

section \<open>Lists that keep the answer of the latest request\<close>

text \<open>
  A page numbers its requests and drops every answer that is not the latest one's. \<open>shown\<close> is what
  the user sees of the list; \<open>answer\<close> is the continuation of a request with its number.
\<close>

locale latest_wins =
  fixes latest :: "'s \<Rightarrow> nat"
    and shown :: "'s \<Rightarrow> 'v"
    and answer :: "nat \<Rightarrow> 'r \<Rightarrow> 's \<Rightarrow> 's"
  assumes stale_shown: "rid \<noteq> latest s \<Longrightarrow> shown (answer rid r s) = shown s"
    and stale_latest: "rid \<noteq> latest s \<Longrightarrow> latest (answer rid r s) = latest s"
begin

lemma stale_answers_ignored:
  "\<forall>a\<in>set as. fst a \<noteq> latest s \<Longrightarrow>
   shown (fold (\<lambda>(rid, r). answer rid r) as s) = shown s
   \<and> latest (fold (\<lambda>(rid, r). answer rid r) as s) = latest s"
  by (induction as arbitrary: s) (auto simp: stale_shown stale_latest)

end

section \<open>Keyed lists\<close>

text \<open>
  \<open>items.map((item) => item.id === k ? f(item) : item)\<close> and
  \<open>items.filter((item) => item.id !== k)\<close>, the two list updates of the dashboard pages.
\<close>

definition update_where :: "('a \<Rightarrow> 'k) \<Rightarrow> 'k \<Rightarrow> ('a \<Rightarrow> 'a) \<Rightarrow> 'a list \<Rightarrow> 'a list" where
  "update_where key k f xs = map (\<lambda>x. if key x = k then f x else x) xs"

definition remove_where :: "('a \<Rightarrow> 'k) \<Rightarrow> 'k \<Rightarrow> 'a list \<Rightarrow> 'a list" where
  "remove_where key k xs = filter (\<lambda>x. key x \<noteq> k) xs"

lemma map_update_where [simp]:
  "(\<And>x. g (f x) = g x) \<Longrightarrow> map g (update_where key k f xs) = map g xs"
  by (simp add: update_where_def)

lemma length_update_where [simp]: "length (update_where key k f xs) = length xs"
  by (simp add: update_where_def)

lemma set_remove_where [simp]: "set (remove_where key k xs) = {x \<in> set xs. key x \<noteq> k}"
  by (auto simp: remove_where_def)

lemma map_remove_where: "map key (remove_where key k xs) = filter (\<lambda>i. i \<noteq> k) (map key xs)"
  by (induction xs) (auto simp: remove_where_def)

lemma distinct_remove_where [intro]:
  "distinct (map key xs) \<Longrightarrow> distinct (map key (remove_where key k xs))"
  by (simp add: map_remove_where)

lemma in_update_whereE [elim]:
  assumes "y \<in> set (update_where key k f xs)"
  obtains x where "x \<in> set xs" "key x = k" "y = f x" | "y \<in> set xs" "key y \<noteq> k"
  using assms by (auto simp: update_where_def split: if_splits)

text \<open>Removing the \<open>k\<close>-th element: the answered request leaves the list of requests in flight.\<close>

definition drop_nth :: "nat \<Rightarrow> 'a list \<Rightarrow> 'a list" where
  "drop_nth k xs = take k xs @ drop (Suc k) xs"

lemma set_drop_nth: "set (drop_nth k xs) \<subseteq> set xs"
  by (auto simp: drop_nth_def dest: in_set_takeD in_set_dropD)

lemma in_drop_nth [dest]: "x \<in> set (drop_nth k xs) \<Longrightarrow> x \<in> set xs"
  using set_drop_nth by fastforce

lemma length_drop_nth: "k < length xs \<Longrightarrow> length (drop_nth k xs) = length xs - 1"
  by (simp add: drop_nth_def)

lemma length_filter_drop_nth:
  assumes "k < length xs"
  shows "length (filter P (drop_nth k xs)) = length (filter P xs) - (if P (xs ! k) then 1 else 0)"
proof -
  have "filter P xs = filter P (take k xs) @ filter P (xs ! k # drop (Suc k) xs)"
    using id_take_nth_drop [OF assms] by (metis filter_append)
  then show ?thesis by (simp add: drop_nth_def)
qed

lemma length_filter_nth_pos: "k < length xs \<Longrightarrow> P (xs ! k) \<Longrightarrow> 0 < length (filter P xs)"
  by (auto simp: filter_empty_conv)

lemma nat_minus_flag: "(R \<longleftrightarrow> n - (if b then 1 else 0) = (0::nat)) \<Longrightarrow> (b \<Longrightarrow> 0 < n) \<Longrightarrow>
  R \<longleftrightarrow> n = (if b then 1 else 0)"
  by (cases b) auto

lemma filter_drop_nth_Nil_iff:
  assumes "k < length xs"
  shows "filter P (drop_nth k xs) = [] \<longleftrightarrow> length (filter P xs) = (if P (xs ! k) then 1 else 0)"
proof (rule nat_minus_flag)
  show "filter P (drop_nth k xs) = [] \<longleftrightarrow> length (filter P xs) - (if P (xs ! k) then 1 else 0) = 0"
    using length_filter_drop_nth [OF assms, of P] by (metis length_0_conv)
qed (rule length_filter_nth_pos [OF assms])

lemma drop_nth_simps [simp]: "drop_nth 0 (x # xs) = xs" "drop_nth (Suc k) (x # xs) = x # drop_nth k xs"
  by (simp_all add: drop_nth_def)

lemma drop_nth_singleton [simp]: "length xs = Suc 0 \<Longrightarrow> drop_nth 0 xs = []"
  by (cases xs) auto

text \<open>Results of fallible code: \<open>Inl\<close> is the error.\<close>

lemma map_sum_eq_Inr [simp]: "map_sum f g x = Inr y \<longleftrightarrow> (\<exists>z. x = Inr z \<and> g z = y)"
  by (cases x) auto

lemma map_sum_eq_Inl [simp]: "map_sum f g x = Inl y \<longleftrightarrow> (\<exists>z. x = Inl z \<and> f z = y)"
  by (cases x) auto

section \<open>Prefix codes\<close>

text \<open>
  An encoder of symbols whose outputs cannot be confused at the front of a longer text. The
  encoders of this development (digits of a percent escape, UTF-8 sequences, escaped bytes) meet
  this contract, so the encoding of whole texts is injective.
\<close>

locale prefix_code =
  fixes P :: "'a \<Rightarrow> bool"
    and enc :: "'a \<Rightarrow> 'b list"
  assumes nonempty: "P x \<Longrightarrow> enc x \<noteq> []"
    and decodable: "P x \<Longrightarrow> P y \<Longrightarrow> enc x @ r = enc y @ s \<Longrightarrow> x = y"
begin

lemma concat_inj:
  "list_all P xs \<Longrightarrow> list_all P ys \<Longrightarrow> concat (map enc xs) = concat (map enc ys) \<Longrightarrow> xs = ys"
proof (induction xs arbitrary: ys)
  case Nil
  then show ?case by (cases ys) (auto dest: nonempty)
next
  case (Cons x xs)
  from Cons.prems nonempty obtain y zs where ys: "ys = y # zs"
    by (cases ys) auto
  from Cons.prems ys have "x = y"
    by (auto dest: decodable)
  with Cons ys show ?case by auto
qed

lemma concat_comparable:
  "list_all P xs \<Longrightarrow> list_all P ys \<Longrightarrow>
   concat (map enc xs) @ r = concat (map enc ys) @ s \<Longrightarrow> \<exists>t. xs = ys @ t \<or> ys = xs @ t"
proof (induction xs arbitrary: ys)
  case Nil
  then show ?case by auto
next
  case (Cons x xs)
  show ?case
  proof (cases ys)
    case Nil
    then show ?thesis by auto
  next
    case (Cons y zs)
    with Cons.prems have "x = y" by (auto dest: decodable)
    with Cons Cons.prems Cons.IH [of zs] show ?thesis by auto
  qed
qed

end

end
