(* ===== verification/JsText.thy ===== *)
theory JsText
  imports Prelude
begin

text \<open>
  Text as the TypeScript code has it: a string is a list of 16-bit code units. The operations
  of \<open>String.prototype\<close>, \<open>encodeURIComponent\<close>, \<open>TextEncoder\<close> and \<open>URLSearchParams\<close> that the
  code under \<open>src/frontend/src\<close> uses. They belong to the language and its runtime, not to the
  repository; \<open>toLowerCase\<close> (a Unicode table) and \<open>new URL\<close> stay parameters of the
  definitions that use them.
\<close>

unbundle bit_operations_syntax

type_synonym unit16 = "16 word"
type_synonym jstr = "16 word list"

definition js :: "string \<Rightarrow> jstr" where
  "js s = map of_char s"

lemma unat_of_nat_16: "n < 65536 \<Longrightarrow> unat (of_nat n :: 16 word) = n"
  by (simp add: unsigned_of_nat take_bit_nat_eq_self_iff)

lemma unat_less_16: "unat (u :: 16 word) < 65536"
  using unsigned_less [of u] by simp

lemma unat_of_char: "unat (of_char c :: 16 word) = of_char c"
proof -
  have "(of_char c :: nat) < 256" by simp
  then have "(of_char c :: nat) < 2 ^ 16" by (rule less_trans) simp
  then have "take_bit 16 (of_char c :: nat) = of_char c"
    by (simp add: take_bit_nat_eq_self_iff)
  then show ?thesis
    by (simp flip: of_nat_of_char [where 'a = "16 word"] add: unsigned_of_nat)
qed

lemma of_char_word_eq [simp]: "(of_char c :: 16 word) = of_char d \<longleftrightarrow> c = d"
  by (metis unat_of_char of_char_eq_iff)

lemma js_eq_iff [simp]: "js s = js t \<longleftrightarrow> s = t"
  unfolding js_def by (simp add: inj_map_eq_map inj_def)

lemma js_Nil [simp]: "js [] = []" and js_eq_Nil [simp]: "js s = [] \<longleftrightarrow> s = []" "[] = js s \<longleftrightarrow> s = []"
  by (auto simp: js_def)

lemma js_append: "js (s @ t) = js s @ js t"
  by (simp add: js_def)

lemma length_js [simp]: "length (js s) = length s"
  by (simp add: js_def)

section \<open>String methods\<close>

definition js_ws :: "unit16 \<Rightarrow> bool" where
  "js_ws u = (unat u \<in> set ([9, 10, 11, 12, 13, 32, 0xA0, 0x1680] @ [0x2000..<0x200B] @
     [0x2028, 0x2029, 0x202F, 0x205F, 0x3000, 0xFEFF]))"

definition trim :: "jstr \<Rightarrow> jstr" where
  "trim s = rev (dropWhile js_ws (rev (dropWhile js_ws s)))"

lemma trim_Nil [simp]: "trim [] = []"
  by (simp add: trim_def)

lemma dropWhile_rev_dropWhile_hd:
  "s \<noteq> [] \<Longrightarrow> \<not> P (hd s) \<Longrightarrow> dropWhile P (rev (dropWhile P (rev s))) = rev (dropWhile P (rev s))"
proof (cases s)
  case (Cons x xs)
  assume "\<not> P (hd s)"
  with Cons have "rev (dropWhile P (rev s)) = x # rev (dropWhile P (rev xs))"
    by (simp add: dropWhile_append3)
  with \<open>\<not> P (hd s)\<close> Cons show ?thesis by simp
qed simp

lemma trim_trim [simp]: "trim (trim s) = trim s"
proof -
  let ?d = "dropWhile js_ws s"
  have "dropWhile js_ws (rev (dropWhile js_ws (rev ?d))) = rev (dropWhile js_ws (rev ?d))"
  proof (cases "?d = []")
    case False
    then have "\<not> js_ws (hd ?d)" by (rule hd_dropWhile)
    with False show ?thesis by (rule dropWhile_rev_dropWhile_hd)
  next
    case True
    then show ?thesis by (simp only: rev.simps dropWhile.simps)
  qed
  then show ?thesis by (simp add: trim_def)
qed

lemma trim_ends:
  assumes "trim s \<noteq> []"
  shows "\<not> js_ws (hd (trim s))" "\<not> js_ws (last (trim s))"
proof -
  from assms have e: "dropWhile js_ws (rev (dropWhile js_ws s)) \<noteq> []"
    by (simp add: trim_def)
  then show "\<not> js_ws (last (trim s))"
    by (simp add: trim_def last_rev hd_dropWhile)
  from assms have "hd (trim (trim s)) = hd (dropWhile js_ws (trim s))"
    by (metis trim_def trim_trim dropWhile_eq_Nil_conv dropWhile_rev_dropWhile_hd hd_dropWhile
        rev_rev_ident rev.simps(1))
  show "\<not> js_ws (hd (trim s))"
  proof
    assume w: "js_ws (hd (trim s))"
    from assms obtain x xs where t: "trim s = x # xs" by (cases "trim s") auto
    have "length (trim (trim s)) < length (trim s)"
    proof -
      have "length (trim (x # xs)) \<le> length (dropWhile js_ws (x # xs))"
        by (metis trim_def length_rev length_dropWhile_le)
      also have "\<dots> < length (x # xs)"
        using w t by (simp add: le_imp_less_Suc length_dropWhile_le)
      finally show ?thesis by (simp only: t)
    qed
    then show False by simp
  qed
qed

fun split_on :: "unit16 \<Rightarrow> jstr \<Rightarrow> jstr list" where
  "split_on d [] = [[]]"
| "split_on d (u # us) =
     (if u = d then [] # split_on d us
      else (case split_on d us of w # ws \<Rightarrow> (u # w) # ws | [] \<Rightarrow> [[u]]))"

fun join_with :: "jstr \<Rightarrow> jstr list \<Rightarrow> jstr" where
  "join_with d [] = []"
| "join_with d [w] = w"
| "join_with d (w # ws) = w @ d @ join_with d ws"

lemma split_on_nonempty [simp]: "split_on d s \<noteq> []"
  by (induction s) (auto split: list.splits)

lemma join_split: "join_with [d] (split_on d s) = s"
proof (induction s)
  case (Cons u us)
  obtain w ws where sp: "split_on d us = w # ws" by (cases "split_on d us") auto
  show ?case
  proof (cases ws)
    case Nil
    with Cons sp show ?thesis by simp
  next
    case (Cons v vs)
    with Cons.IH sp show ?thesis by simp
  qed
qed simp

lemma split_on_free: "w \<in> set (split_on d s) \<Longrightarrow> d \<notin> set w"
  by (induction s arbitrary: w) (auto split: if_splits list.splits)

lemma split_join:
  "ws \<noteq> [] \<Longrightarrow> \<forall>w\<in>set ws. d \<notin> set w \<Longrightarrow> split_on d (join_with [d] ws) = ws"
proof (induction ws rule: induct_list012)
  case (2 w)
  have "d \<notin> set w \<Longrightarrow> split_on d w = [w]" for w by (induction w) auto
  with 2 show ?case by simp
next
  case (3 v w ws)
  have step: "d \<notin> set v \<Longrightarrow> split_on d (v @ d # r) = v # split_on d r" for v r
    by (induction v) auto
  from 3 show ?case by (simp add: step)
qed simp

definition starts_with :: "jstr \<Rightarrow> jstr \<Rightarrow> bool" where
  "starts_with p s = (take (length p) s = p)"

lemma starts_with_append [simp]: "starts_with p (p @ s)"
  by (simp add: starts_with_def)

definition digit16 :: "unit16 \<Rightarrow> bool" where
  "digit16 u = (48 \<le> unat u \<and> unat u \<le> 57)"

fun nat_str :: "nat \<Rightarrow> jstr" where
  "nat_str n = (if n < 10 then [of_nat (48 + n)] else nat_str (n div 10) @ [of_nat (48 + n mod 10)])"

declare nat_str.simps [simp del]

definition int_str :: "int \<Rightarrow> jstr" where
  "int_str i = (if i < 0 then js ''-'' @ nat_str (nat (- i)) else nat_str (nat i))"

lemma nat_str_digits: "\<forall>u \<in> set (nat_str n). digit16 u"
proof (induction n rule: nat_str.induct)
  case (1 n)
  have d: "digit16 (of_nat (48 + k))" if "k < 10" for k
    using that unat_of_nat_16 [of "48 + k"] by (simp add: digit16_def del: of_nat_add)
  show ?case
  proof (cases "n < 10")
    case True
    then show ?thesis using d [of n] by (subst nat_str.simps) simp
  next
    case False
    with "1.IH" d [of "n mod 10"] show ?thesis by (subst nat_str.simps) simp
  qed
qed

lemma nat_str_inj: "nat_str m = nat_str n \<Longrightarrow> m = n"
proof (induction m arbitrary: n rule: nat_str.induct)
  case (1 m)
  have digit: "(of_nat (48 + a) :: 16 word) = of_nat (48 + b) \<longleftrightarrow> a = b" if "a < 10" "b < 10" for a b
  proof
    assume h: "(of_nat (48 + a) :: 16 word) = of_nat (48 + b)"
    have "unat (of_nat (48 + a) :: 16 word) = 48 + a" "unat (of_nat (48 + b) :: 16 word) = 48 + b"
      using that by (intro unat_of_nat_16; simp)+
    with h show "a = b" by simp
  qed simp
  have ne: "nat_str k \<noteq> []" for k by (subst nat_str.simps) simp
  show ?case
  proof (cases "m < 10 \<or> n < 10")
    case True
    with "1.prems" ne ne [symmetric] digit show ?thesis
      by (auto simp: nat_str.simps [of m] nat_str.simps [of n] simp del: of_nat_add split: if_splits)
  next
    case False
    with "1.prems" have e: "nat_str (m div 10) = nat_str (n div 10)"
      and l: "(of_nat (48 + m mod 10) :: 16 word) = of_nat (48 + n mod 10)"
      by (auto simp: nat_str.simps [of m] nat_str.simps [of n] simp del: of_nat_add)
    from e False "1.IH" have "m div 10 = n div 10" by simp
    moreover from l digit have "m mod 10 = n mod 10" by simp
    ultimately show ?thesis by (metis div_mult_mod_eq)
  qed
qed

section \<open>Code points, UTF-8 and percent escapes\<close>

definition is_high :: "unit16 \<Rightarrow> bool" where
  "is_high u = (0xD800 \<le> unat u \<and> unat u < 0xDC00)"

definition is_low :: "unit16 \<Rightarrow> bool" where
  "is_low u = (0xDC00 \<le> unat u \<and> unat u < 0xE000)"

definition surrogate :: "nat \<Rightarrow> bool" where
  "surrogate c = (0xD800 \<le> c \<and> c < 0xE000)"

text \<open>The iteration of a string (\<open>Array.from\<close>, spread): pairs are joined, lone surrogates stay.\<close>

fun code_points :: "jstr \<Rightarrow> nat list" where
  "code_points [] = []"
| "code_points [u] = [unat u]"
| "code_points (u # v # us) =
     (if is_high u \<and> is_low v
      then (0x10000 + (unat u - 0xD800) * 0x400 + (unat v - 0xDC00)) # code_points us
      else unat u # code_points (v # us))"

definition units_of :: "nat \<Rightarrow> jstr" where
  "units_of c = (if c < 0x10000 then [of_nat c]
     else [of_nat (0xD800 + (c - 0x10000) div 0x400), of_nat (0xDC00 + (c - 0x10000) mod 0x400)])"

lemma units_of_unat [simp]: "units_of (unat (u :: 16 word)) = [u]"
  using unat_less_16 [of u] by (simp add: units_of_def)

lemma units_of_pair:
  assumes "is_high u" "is_low v"
  shows "units_of (0x10000 + (unat u - 0xD800) * 0x400 + (unat v - 0xDC00)) = [u, v]"
proof -
  define a b where "a = unat u - 0xD800" and "b = unat v - 0xDC00"
  from assms have b: "b < 0x400" and u: "unat u = 0xD800 + a" and v: "unat v = 0xDC00 + b"
    by (auto simp: a_def b_def is_high_def is_low_def)
  have "units_of (0x10000 + a * 0x400 + b) = [of_nat (0xD800 + a), of_nat (0xDC00 + b)]"
    using b by (simp add: units_of_def)
  also have "\<dots> = [u, v]"
    by (simp only: u [symmetric] v [symmetric] of_nat_unat ucast_id)
  finally show ?thesis by (simp add: a_def b_def)
qed

lemma units_code_points: "concat (map units_of (code_points s)) = s"
  by (induction s rule: code_points.induct) (auto simp: units_of_pair)

lemma code_points_inj: "code_points s = code_points t \<Longrightarrow> s = t"
  by (metis units_code_points)

lemma code_points_bound: "c \<in> set (code_points s) \<Longrightarrow> c < 0x110000"
proof (induction s rule: code_points.induct)
  case (2 u)
  then show ?case using unat_less_16 [of u] by simp
next
  case (3 u v us)
  then show ?case using unat_less_16 [of u]
    by (auto simp: is_high_def is_low_def split: if_splits)
qed simp

text \<open>Texts without surrogate units: one code point per unit.\<close>

definition plain :: "jstr \<Rightarrow> bool" where
  "plain s = list_all (\<lambda>u. \<not> surrogate (unat u)) s"

lemma plain_simps [simp]:
  "plain []" "plain (u # s) = (\<not> surrogate (unat u) \<and> plain s)" "plain (s @ t) = (plain s \<and> plain t)"
  by (auto simp: plain_def)

lemma plain_js [simp]: "plain (js s)"
proof -
  have "\<not> surrogate (unat (of_char c :: 16 word))" for c :: char
  proof -
    have "of_char c < (256 :: nat)" by simp
    then have "of_char c < (55296 :: nat)" by linarith
    then show ?thesis unfolding surrogate_def unat_of_char by linarith
  qed
  then show ?thesis by (simp add: plain_def js_def list_all_iff)
qed

lemma code_points_plain: "plain s \<Longrightarrow> code_points s = map unat s"
  by (induction s rule: code_points.induct) (auto simp: surrogate_def is_high_def)

lemma length_code_points: "length (code_points s) \<le> length s"
  by (induction s rule: code_points.induct) auto

definition utf8 :: "nat \<Rightarrow> nat list" where
  "utf8 c =
     (if c < 0x80 then [c]
      else if c < 0x800 then [0xC0 + c div 64, 0x80 + c mod 64]
      else if c < 0x10000 then [0xE0 + c div 4096, 0x80 + c div 64 mod 64, 0x80 + c mod 64]
      else [0xF0 + c div 262144, 0x80 + c div 4096 mod 64, 0x80 + c div 64 mod 64, 0x80 + c mod 64])"

text \<open>\<open>new TextEncoder().encode(s)\<close>: lone surrogates become U+FFFD.\<close>

definition usv :: "nat \<Rightarrow> nat" where
  "usv c = (if surrogate c then 0xFFFD else c)"

definition text_encode :: "jstr \<Rightarrow> nat list" where
  "text_encode s = concat (map (\<lambda>c. utf8 (usv c)) (code_points s))"

lemma utf8_bytes: "c < 0x110000 \<Longrightarrow> b \<in> set (utf8 c) \<Longrightarrow> b < 256"
  by (auto simp: utf8_def split: if_splits)

lemma utf8_length: "length (utf8 c) = (if c < 0x80 then 1 else if c < 0x800 then 2
   else if c < 0x10000 then 3 else 4)"
  by (simp add: utf8_def)

lemma utf8_decodable:
  assumes "x < 0x110000" "y < 0x110000" and eq: "utf8 x @ r = utf8 y @ s"
  shows "x = y"
proof -
  have t: "a = b" if "a div 64 = b div 64" "a mod 64 = b mod 64" for a b :: nat
    using that by (metis div_mult_mod_eq)
  have s2: "a div 4096 = a div 64 div 64" for a :: nat by (simp add: div_mult2_eq [symmetric])
  have s3: "a div 262144 = a div 64 div 64 div 64" for a :: nat by (simp add: div_mult2_eq [symmetric])
  have "hd (utf8 x) = hd (utf8 y)" using eq by (simp add: utf8_def split: if_splits)
  then have len: "length (utf8 x) = length (utf8 y)"
    using assms(1,2) by (auto simp: utf8_def split: if_splits)
  with eq have "utf8 x = utf8 y" by simp
  with len show ?thesis using assms(1,2)
    by (auto simp: utf8_def s2 s3 intro!: t split: if_splits)
qed

interpretation utf8_code: prefix_code "\<lambda>c. c < 0x110000" utf8
proof unfold_locales
  show "c < 0x110000 \<Longrightarrow> utf8 c \<noteq> []" for c by (simp add: utf8_def)
next
  show "x < 0x110000 \<Longrightarrow> y < 0x110000 \<Longrightarrow> utf8 x @ r = utf8 y @ s \<Longrightarrow> x = y" for x y r s
    by (rule utf8_decodable)
qed

definition hex_digit :: "nat \<Rightarrow> unit16" where
  "hex_digit d = of_nat (if d < 10 then 48 + d else 55 + d)"

definition pct :: "nat \<Rightarrow> jstr" where
  "pct b = [37, hex_digit (b div 16), hex_digit (b mod 16)]"

lemma hex_digit_unat: "d < 16 \<Longrightarrow> unat (hex_digit d) = (if d < 10 then 48 + d else 55 + d)"
  unfolding hex_digit_def by (rule unat_of_nat_16) simp

lemma hex_digit_inj:
  assumes "a < 16" "b < 16"
  shows "hex_digit a = hex_digit b \<longleftrightarrow> a = b"
proof
  assume "hex_digit a = hex_digit b"
  with assms have "(if a < 10 then 48 + a else 55 + a) = (if b < 10 then 48 + b else 55 + b)"
    by (simp only: hex_digit_unat [symmetric])
  with assms show "a = b" by (simp split: if_splits)
qed simp

interpretation pct_code: prefix_code "\<lambda>b. b < 256" pct
proof unfold_locales
  show "b < 256 \<Longrightarrow> pct b \<noteq> []" for b by (simp add: pct_def)
next
  fix x y :: nat and r s
  assume b: "x < 256" "y < 256" and e: "pct x @ r = pct y @ s"
  have "x div 16 < 16" "y div 16 < 16" using b by auto
  with e have "x div 16 = y div 16" "x mod 16 = y mod 16"
    by (auto simp: pct_def hex_digit_inj)
  then show "x = y" by (metis div_mult_mod_eq)
qed

section \<open>encodeURIComponent and URLSearchParams\<close>

definition alnum :: "nat \<Rightarrow> bool" where
  "alnum c = ((48 \<le> c \<and> c \<le> 57) \<or> (65 \<le> c \<and> c \<le> 90) \<or> (97 \<le> c \<and> c \<le> 122))"

text \<open>The characters \<open>encodeURIComponent\<close> keeps besides letters and digits: \<open>- _ . ! ~ * ' ( )\<close>.\<close>

definition uri_keep :: "nat \<Rightarrow> bool" where
  "uri_keep c = (alnum c \<or> c \<in> {45, 95, 46, 33, 126, 42, 39, 40, 41})"

definition form_keep :: "nat \<Rightarrow> bool" where
  "form_keep c = (alnum c \<or> c \<in> {42, 45, 46, 95})"

definition escape_cp :: "(nat \<Rightarrow> bool) \<Rightarrow> nat \<Rightarrow> jstr" where
  "escape_cp keep c = (if keep c then [of_nat c] else concat (map pct (utf8 c)))"

definition well_formed :: "jstr \<Rightarrow> bool" where
  "well_formed s = list_all (\<lambda>c. \<not> surrogate c) (code_points s)"

lemma well_formed_plain: "plain s \<Longrightarrow> well_formed s"
  by (simp add: well_formed_def code_points_plain plain_def list_all_iff)

text \<open>\<open>encodeURIComponent\<close> throws a \<open>URIError\<close> (here \<open>None\<close>) on a lone surrogate.\<close>

definition encodeURIComponent :: "jstr \<Rightarrow> jstr option" where
  "encodeURIComponent s =
     (if well_formed s then Some (concat (map (escape_cp uri_keep) (code_points s))) else None)"

definition form_cp :: "nat \<Rightarrow> jstr" where
  "form_cp c = (if c = 32 then [43] else escape_cp form_keep c)"

definition form_encode :: "jstr \<Rightarrow> jstr" where
  "form_encode s = concat (map (\<lambda>c. form_cp (usv c)) (code_points s))"

type_synonym query = "(jstr \<times> jstr) list"

definition query_string :: "query \<Rightarrow> jstr" where
  "query_string ps = join_with (js ''&'') (map (\<lambda>(n, v). form_encode n @ js ''='' @ form_encode v) ps)"

text \<open>\<open>params.get(name)\<close> is the first value; \<open>params.set(name, value)\<close> replaces the first
  occurrence, drops the others, and appends a pair when there is none.\<close>

definition query_get :: "query \<Rightarrow> string \<Rightarrow> jstr option" where
  "query_get ps n = map_of ps (js n)"

definition query_set :: "string \<Rightarrow> jstr \<Rightarrow> query \<Rightarrow> query" where
  "query_set n v ps =
     (let before = takeWhile (\<lambda>p. fst p \<noteq> js n) ps;
          after = dropWhile (\<lambda>p. fst p \<noteq> js n) ps
      in case after of
           [] \<Rightarrow> ps @ [(js n, v)]
         | _ # rest \<Rightarrow> before @ (js n, v) # filter (\<lambda>p. fst p \<noteq> js n) rest)"

lemma query_get_set [simp]: "query_get (query_set n v ps) n = Some v"
proof -
  let ?b = "takeWhile (\<lambda>p. fst p \<noteq> js n) ps"
  have b: "map_of ?b (js n) = None"
    by (auto simp: map_of_eq_None_iff dest: set_takeWhileD)
  show ?thesis
  proof (cases "dropWhile (\<lambda>p. fst p \<noteq> js n) ps")
    case Nil
    then have "map_of ps (js n) = None"
      by (metis b takeWhile_dropWhile_id append_Nil2)
    then show ?thesis
      unfolding query_get_def query_set_def Let_def Nil by (simp add: map_add_def)
  next
    case (Cons p rest)
    with b show ?thesis by (simp add: query_get_def query_set_def Let_def map_add_def)
  qed
qed

lemma query_set_Cons:
  "query_set n v (p # ps) =
   (if fst p = js n then (js n, v) # filter (\<lambda>q. fst q \<noteq> js n) ps else p # query_set n v ps)"
  by (cases "dropWhile (\<lambda>p. fst p \<noteq> js n) ps") (simp_all add: query_set_def Let_def del: dropWhile_eq_Nil_conv)

lemma query_get_set_other:
  assumes "n \<noteq> m"
  shows "query_get (query_set n v ps) m = query_get ps m"
proof (induction ps)
  case Nil
  then show ?case using assms by (simp add: query_set_def query_get_def)
next
  case (Cons p ps)
  have "map_of (filter (\<lambda>q. fst q \<noteq> js n) qs) (js m) = map_of qs (js m)" for qs :: query
    using assms by (induction qs) auto
  with Cons assms show ?case by (auto simp: query_set_Cons query_get_def)
qed

text \<open>Setting a parameter keeps the others, in their order.\<close>

lemma query_set_once: "filter (\<lambda>p. fst p = js n) (query_set n v ps) = [(js n, v)]"
proof (induction ps)
  case Nil
  then show ?case by (simp add: query_set_def)
next
  case (Cons p ps)
  have "filter (\<lambda>q. fst q = js n) (filter (\<lambda>q. fst q \<noteq> js n) qs) = []" for qs :: query
    by (simp add: filter_empty_conv)
  with Cons show ?case by (simp add: query_set_Cons)
qed

lemma query_set_others:
  assumes "\<And>v. \<not> P (js n, v)"
  shows "filter P (query_set n v ps) = filter P ps"
proof (induction ps)
  case Nil
  then show ?case using assms by (simp add: query_set_def)
next
  case (Cons p ps)
  have "filter P (filter (\<lambda>q. fst q \<noteq> js n) qs) = filter P qs" for qs :: query
    using assms by (induction qs) auto
  moreover have "fst p = js n \<Longrightarrow> \<not> P p" using assms [of "snd p"] by (cases p) simp
  ultimately show ?case using Cons assms by (auto simp: query_set_Cons)
qed

lemma escape_cp_code:
  assumes keep: "\<And>c. keep c \<Longrightarrow> c < 128 \<and> c \<noteq> 37"
    and x: "x < 0x110000" and y: "y < 0x110000"
    and eq: "escape_cp keep x @ r = escape_cp keep y @ s"
  shows "x = y"
proof -
  have kept: "unat (of_nat c :: unit16) = c \<and> (of_nat c :: unit16) \<noteq> 37" if "keep c" for c
  proof -
    from keep [OF that] have "unat (of_nat c :: unit16) = c" by (intro unat_of_nat_16) simp
    moreover have "unat (37 :: unit16) = 37" by simp
    ultimately show ?thesis using keep [OF that] by metis
  qed
  have esc: "\<exists>t. concat (map pct (utf8 c)) = 37 # t" for c
    by (auto simp: utf8_def pct_def)
  have bytes: "list_all (\<lambda>b. b < 256) (utf8 c)" if "c < 0x110000" for c
    using utf8_bytes [OF that] by (simp add: list_all_iff)
  show ?thesis
  proof (cases "keep x \<and> keep y")
    case True
    with eq have "(of_nat x :: unit16) = of_nat y" by (simp add: escape_cp_def)
    with True kept show ?thesis by metis
  next
    case False
    obtain t u where "concat (map pct (utf8 x)) = 37 # t" "concat (map pct (utf8 y)) = 37 # u"
      using esc by meson
    with False eq kept have n: "\<not> keep x \<and> \<not> keep y"
      by (fastforce simp: escape_cp_def split: if_splits)
    with eq have "concat (map pct (utf8 x)) @ r = concat (map pct (utf8 y)) @ s"
      by (simp add: escape_cp_def)
    from pct_code.concat_comparable [OF bytes [OF x] bytes [OF y] this] obtain t
      where "utf8 x = utf8 y @ t \<or> utf8 y = utf8 x @ t" by blast
    then show ?thesis
      using utf8_decodable [OF x y, of "[]" t] utf8_decodable [OF y x, of "[]" t] by auto
  qed
qed

lemma escape_cp_nonempty: "escape_cp keep c \<noteq> []"
  by (simp add: escape_cp_def utf8_def pct_def)

interpretation uri_code: prefix_code "\<lambda>c. c < 0x110000" "escape_cp uri_keep"
proof unfold_locales
  show "escape_cp uri_keep c \<noteq> []" for c by (rule escape_cp_nonempty)
next
  show "x < 0x110000 \<Longrightarrow> y < 0x110000 \<Longrightarrow> escape_cp uri_keep x @ r = escape_cp uri_keep y @ s
      \<Longrightarrow> x = y" for x y r s
    by (rule escape_cp_code [of uri_keep]) (auto simp: uri_keep_def alnum_def)
qed

lemma encodeURIComponent_inj:
  assumes "encodeURIComponent s = Some e" "encodeURIComponent t = Some e"
  shows "s = t"
proof -
  have "list_all (\<lambda>c. c < 0x110000) (code_points x)" for x
    by (simp add: list_all_iff code_points_bound)
  with assms have "code_points s = code_points t"
    by (auto simp: encodeURIComponent_def split: if_splits intro: uri_code.concat_inj)
  then show ?thesis by (rule code_points_inj)
qed

text \<open>
  What \<open>encodeURIComponent\<close> returns holds no character that ends a path segment or a query:
  every code unit is a kept character or belongs to a percent escape.
\<close>

definition uri_safe :: "unit16 \<Rightarrow> bool" where
  "uri_safe u = (uri_keep (unat u) \<or> u = 37)"

lemma hex_digit_safe: "d < 16 \<Longrightarrow> uri_safe (hex_digit d)"
  using hex_digit_unat [of d] by (auto simp: uri_safe_def uri_keep_def alnum_def)

lemma encodeURIComponent_safe:
  assumes "encodeURIComponent s = Some e" "u \<in> set e"
  shows "uri_safe u"
proof -
  from assms obtain c where c: "c \<in> set (code_points s)" "u \<in> set (escape_cp uri_keep c)"
    by (auto simp: encodeURIComponent_def split: if_splits)
  show ?thesis
  proof (cases "uri_keep c")
    case True
    then have "c < 65536" by (auto simp: uri_keep_def alnum_def)
    then have "unat (of_nat c :: unit16) = c" by (rule unat_of_nat_16)
    with True c show ?thesis by (simp add: escape_cp_def uri_safe_def)
  next
    case False
    with c obtain b where b: "b \<in> set (utf8 c)" "u \<in> set (pct b)"
      by (auto simp: escape_cp_def)
    from b(1) c(1) code_points_bound utf8_bytes have "b < 256" by blast
    then have "b div 16 < 16" "b mod 16 < 16" by auto
    with b(2) show ?thesis by (auto simp: pct_def hex_digit_safe) (simp add: uri_safe_def)
  qed
qed

text \<open>
  The segments a URL parser resolves away instead of keeping them: a dot or two, each also as an escape.
  \<open>encodeURIComponent\<close> keeps dots, so it makes such a segment of nothing but dots.
\<close>

definition dot_segment :: "jstr \<Rightarrow> bool" where
  "dot_segment seg =
     (map (\<lambda>u. if u = 69 then 101 else u) seg
        \<in> js ` {''.'', ''%2e'', ''..'', ''.%2e'', ''%2e.'', ''%2e%2e''})"

lemma escape_first:
  assumes "list_all (\<lambda>c. c < 0x110000) cs" "concat (map (escape_cp uri_keep) cs) = u # r"
  shows "(\<exists>cs'. cs = unat u # cs' \<and> r = concat (map (escape_cp uri_keep) cs') \<and> u \<noteq> 37)
    \<or> (u = 37 \<and> take 2 r \<noteq> [50, 69] \<and> take 2 r \<noteq> [50, 101])"
proof -
  obtain c cs' where cs: "cs = c # cs'" using assms(2) by (cases cs) auto
  then have c: "c < 0x110000" using assms(1) by simp
  show ?thesis
  proof (cases "uri_keep c")
    case True
    then have k: "c < 128" "c \<noteq> 37" by (auto simp: uri_keep_def alnum_def)
    then have n: "unat (of_nat c :: unit16) = c" by (intro unat_of_nat_16) simp
    have "unat (37 :: unit16) = 37" by simp
    with n k have "(of_nat c :: unit16) \<noteq> 37" by metis
    with True cs assms(2) n show ?thesis by (auto simp: escape_cp_def)
  next
    case False
    obtain b bs where b: "utf8 c = b # bs" by (cases "utf8 c") (auto simp: utf8_def split: if_splits)
    have "b \<noteq> 46" using b False by (auto simp: utf8_def uri_keep_def split: if_splits)
    moreover have "b < 256" using utf8_bytes [OF c, of b] b by simp
    ultimately have d: "b div 16 < 16" "b mod 16 < 16" "b div 16 \<noteq> 2 \<or> b mod 16 \<noteq> 14"
      by presburger+
    have digit: "unat (hex_digit (b div 16)) = 50 \<Longrightarrow> b div 16 = 2"
      "unat (hex_digit (b mod 16)) = 69 \<Longrightarrow> b mod 16 = 14" "unat (hex_digit (b mod 16)) \<noteq> 101"
      using d by (auto simp: hex_digit_unat split: if_splits)
    have "u = 37" "take 2 r = [hex_digit (b div 16), hex_digit (b mod 16)]"
      using assms(2) cs False b by (auto simp: escape_cp_def pct_def)
    with digit d(3) show ?thesis by auto
  qed
qed

lemma encode_dots:
  "encodeURIComponent (js ''.'') = Some (js ''.'')" "encodeURIComponent (js ''..'') = Some (js ''..'')"
  "encodeURIComponent [] = Some []"
  by (simp_all add: encodeURIComponent_def well_formed_def js_def surrogate_def is_high_def escape_cp_def uri_keep_def)

lemma encode_dot_segment:
  assumes e: "encodeURIComponent s = Some e"
  shows "dot_segment e \<longleftrightarrow> s \<in> {js ''.'', js ''..''}"
proof
  let ?f = "\<lambda>u :: unit16. if u = 69 then 101 else u"
  let ?enc = "\<lambda>cs. concat (map (escape_cp uri_keep) cs)"
  have all: "list_all (\<lambda>c. c < 0x110000) (code_points s)" by (simp add: list_all_iff code_points_bound)
  have ec: "?enc (code_points s) = e" using e by (simp add: encodeURIComponent_def split: if_splits)
  have fe: "?f x = 101 \<longleftrightarrow> x = 69 \<or> x = 101" "?f x = 46 \<longleftrightarrow> x = 46" "?f x = 37 \<longleftrightarrow> x = 37" "?f x = 50 \<longleftrightarrow> x = 50" for x
    by auto
  have none: "?enc cs \<noteq> 37 # 50 # x # r" if "list_all (\<lambda>c. c < 0x110000) cs" "x = 69 \<or> x = 101" for cs x r
    using escape_first [OF that(1), of 37 "50 # x # r"] that(2) by auto
  have dotted: "?enc (code_points s) \<noteq> 46 # 37 # 50 # x # r" if "x = 69 \<or> x = 101" for x r
  proof
    assume h: "?enc (code_points s) = 46 # 37 # 50 # x # r"
    from escape_first [OF all h] obtain cs where "code_points s = unat (46 :: unit16) # cs" "37 # 50 # x # r = ?enc cs" by auto
    with all none [of cs x r] that show False by auto
  qed
  assume "dot_segment e"
  then consider "map ?f e = js ''.''" | "map ?f e = js ''..''" | "\<exists>r. map ?f e = js ''%2e'' @ r" | "map ?f e = js ''.%2e''"
    unfolding dot_segment_def by (auto simp: js_def)
  then show "s \<in> {js ''.'', js ''..''}"
  proof cases
    case 1
    then have "e = js ''.''" by (auto simp: js_def map_eq_Cons_conv fe)
    with e encode_dots(1) encodeURIComponent_inj show ?thesis by blast
  next
    case 2
    then have "e = js ''..''" by (auto simp: js_def map_eq_Cons_conv fe)
    with e encode_dots(2) encodeURIComponent_inj show ?thesis by blast
  next
    case 3
    then obtain x r where "e = 37 # 50 # x # r" "x = 69 \<or> x = 101" by (auto simp: js_def map_eq_Cons_conv fe)
    with ec none [OF all] show ?thesis by blast
  next
    case 4
    then obtain x r where "e = 46 # 37 # 50 # x # r" "x = 69 \<or> x = 101" by (auto simp: js_def map_eq_Cons_conv fe)
    with ec dotted show ?thesis by blast
  qed
next
  assume "s \<in> {js ''.'', js ''..''}"
  then show "dot_segment e" using e encode_dots by (auto simp: dot_segment_def js_def)
qed

section \<open>Substring search and number parsing\<close>

fun str_includes :: "jstr \<Rightarrow> jstr \<Rightarrow> bool" where
  "str_includes p [] = (p = [])"
| "str_includes p (u # us) = (starts_with p (u # us) \<or> str_includes p us)"

fun digits_val :: "nat \<Rightarrow> jstr \<Rightarrow> nat" where
  "digits_val acc [] = acc"
| "digits_val acc (u # us) = digits_val (10 * acc + (unat u - 48)) us"

lemma digits_val_append: "digits_val acc (s @ t) = digits_val (digits_val acc s) t"
  by (induction s arbitrary: acc) auto

lemma digits_val_nat_str: "digits_val 0 (nat_str n) = n"
proof (induction n rule: nat_str.induct)
  case (1 n)
  have d: "unat (of_nat (48 + k) :: unit16) - 48 = k" if "k < 10" for k
    using that unat_of_nat_16 [of "48 + k"] by simp
  show ?case
  proof (cases "n < 10")
    case True
    then show ?thesis using d [of n] by (subst nat_str.simps) simp
  next
    case False
    with "1.IH" d [of "n mod 10"] show ?thesis
      by (subst nat_str.simps) (simp add: digits_val_append)
  qed
qed

text \<open>
  \<open>Number(text)\<close>: blank text is 0, the decimal grammar with fraction and exponent, and
  \<open>None\<close> for every result that \<open>Number.isFinite\<close> rejects (not a number, infinite). The value of a
  literal is rounded to the nearest double, ties to even. The prefixed radix forms (\<open>0x\<close>, \<open>0o\<close>,
  \<open>0b\<close>) go through \<open>radix_val\<close>.
\<close>

fun bit_length :: "nat \<Rightarrow> nat" where
  "bit_length n = (if n = 0 then 0 else Suc (bit_length (n div 2)))"

declare bit_length.simps [simp del]

text \<open>The largest \<open>e\<close> with \<open>2^e \<le> v\<close>, for a positive \<open>v\<close>.\<close>

definition scale2 :: "int \<Rightarrow> rat \<Rightarrow> rat" where
  "scale2 e v = (if 0 \<le> e then v * 2 ^ nat e else v / 2 ^ nat (- e))"

definition binary_exponent :: "rat \<Rightarrow> int" where
  "binary_exponent v =
     (let (n, d) = quotient_of v; e = int (bit_length (nat n)) - int (bit_length (nat d))
      in if scale2 e 1 \<le> v then e else e - 1)"

definition round_even :: "rat \<Rightarrow> int" where
  "round_even v =
     (let f = \<lfloor>v\<rfloor>; r = v - of_int f
      in if r < 1 / 2 \<or> r = 1 / 2 \<and> even f then f else f + 1)"

definition round_double :: "rat \<Rightarrow> rat" where
  "round_double v =
     (if v = 0 then 0
      else (let q = max (binary_exponent \<bar>v\<bar> - 52) (- 1074); m = of_int (round_even (scale2 (- q) \<bar>v\<bar>))
            in if v < 0 then - scale2 q m else scale2 q m))"

definition hex_val :: "unit16 \<Rightarrow> nat option" where
  "hex_val u = (let c = unat u in
     if 48 \<le> c \<and> c \<le> 57 then Some (c - 48)
     else if 65 \<le> c \<and> c \<le> 70 then Some (c - 55)
     else if 97 \<le> c \<and> c \<le> 102 then Some (c - 87) else None)"

fun radix_val :: "nat \<Rightarrow> nat \<Rightarrow> jstr \<Rightarrow> nat option" where
  "radix_val r acc [] = Some acc"
| "radix_val r acc (u # us) =
     (case hex_val u of Some d \<Rightarrow> if d < r then radix_val r (r * acc + d) us else None
      | None \<Rightarrow> None)"

definition finite_number :: "rat \<Rightarrow> rat option" where
  "finite_number v = (let r = round_double v in if \<bar>r\<bar> < 2 ^ 1024 then Some r else None)"

definition exponent_part :: "jstr \<Rightarrow> int option" where
  "exponent_part s = (case s of [] \<Rightarrow> Some 0
     | e # t \<Rightarrow> if unat e \<in> {69, 101} then
         (let neg = (t \<noteq> [] \<and> hd t = 45);
              ds = (if t \<noteq> [] \<and> unat (hd t) \<in> {43, 45} then tl t else t)
          in if ds \<noteq> [] \<and> list_all digit16 ds
             then Some (if neg then - int (digits_val 0 ds) else int (digits_val 0 ds)) else None)
       else None)"

definition unsigned_number :: "jstr \<Rightarrow> rat option" where
  "unsigned_number s =
     (let whole = takeWhile digit16 s; rest = dropWhile digit16 s;
          dot = (rest \<noteq> [] \<and> hd rest = 46);
          frac = (if dot then takeWhile digit16 (tl rest) else []);
          tail = (if dot then dropWhile digit16 (tl rest) else rest)
      in if whole = [] \<and> frac = [] then None
         else (case exponent_part tail of None \<Rightarrow> None
               | Some e \<Rightarrow> finite_number
                   ((of_nat (digits_val 0 whole) + of_nat (digits_val 0 frac) / 10 ^ length frac)
                    * (if e < 0 then 1 / 10 ^ nat (- e) else 10 ^ nat e))))"

definition js_number :: "jstr \<Rightarrow> rat option" where
  "js_number s =
     (case trim s of
        [] \<Rightarrow> Some 0
      | [u] \<Rightarrow> unsigned_number [u]
      | u # v # t \<Rightarrow>
          if u = 48 \<and> unat v \<in> {88, 120} \<and> t \<noteq> [] then
            Option.bind (radix_val 16 0 t) (\<lambda>n. finite_number (of_nat n))
          else if u = 48 \<and> unat v \<in> {79, 111} \<and> t \<noteq> [] then
            Option.bind (radix_val 8 0 t) (\<lambda>n. finite_number (of_nat n))
          else if u = 48 \<and> unat v \<in> {66, 98} \<and> t \<noteq> [] then
            Option.bind (radix_val 2 0 t) (\<lambda>n. finite_number (of_nat n))
          else if u = 43 then unsigned_number (v # t)
          else if u = 45 then map_option uminus (unsigned_number (v # t))
          else unsigned_number (u # v # t))"

lemma digit16_not_ws: "digit16 u \<Longrightarrow> \<not> js_ws u"
  by (auto simp: digit16_def js_ws_def)

lemma trim_no_ws: "\<forall>u \<in> set s. \<not> js_ws u \<Longrightarrow> trim s = s"
  by (cases s rule: rev_cases) (auto simp: trim_def dropWhile_append3 dropWhile_eq_self_iff)

text \<open>Integers below \<open>2^53\<close> are doubles.\<close>

lemma bit_length_bound: "n < 2 ^ k \<Longrightarrow> bit_length n \<le> k"
proof (induction k arbitrary: n)
  case (Suc k)
  then have "n div 2 < 2 ^ k" by (simp add: less_mult_imp_div_less)
  with Suc.IH show ?case by (subst bit_length.simps) simp
qed (simp add: bit_length.simps)

lemma round_even_int: "round_even (of_int i) = i"
  by (simp add: round_even_def)

lemma round_double_nat:
  assumes "n < 2 ^ 53"
  shows "round_double (of_nat n) = of_nat n"
proof (cases "n = 0")
  case False
  have q: "quotient_of (of_nat n) = (int n, 1)" by (simp add: of_nat_rat quotient_of_Fract)
  have one: "bit_length 1 = 1" by (simp add: bit_length.simps)
  have "int (bit_length n) \<le> 53" using bit_length_bound [OF assms] by simp
  then have b: "binary_exponent (of_nat n) \<le> 52"
    unfolding binary_exponent_def q by (simp add: Let_def one [simplified])
  define q where "q = max (binary_exponent (of_nat n) - 52) (- 1074)"
  with b have q0: "q \<le> 0" by simp
  have s: "scale2 (- q) (of_nat n) = of_int (int n * 2 ^ nat (- q))" using q0 by (simp add: scale2_def)
  have "scale2 q (of_int (int n * 2 ^ nat (- q))) = of_nat n"
    using q0 by (cases "q = 0") (simp_all add: scale2_def)
  with False show ?thesis
    unfolding round_double_def by (simp add: q_def [symmetric] s round_even_int del: of_int_mult)
qed (simp add: round_double_def)

lemma unsigned_number_digits:
  assumes "\<forall>u \<in> set s. digit16 u" "s \<noteq> []" "digits_val 0 s < 2 ^ 53"
  shows "unsigned_number s = Some (of_nat (digits_val 0 s))"
proof -
  from assms(1) have tw: "takeWhile digit16 s = s" and dw: "dropWhile digit16 s = []"
    by (auto simp only: takeWhile_eq_all_conv dropWhile_eq_Nil_conv)
  have "(2::nat) ^ 53 \<le> 2 ^ 1024" by (rule power_increasing) simp_all
  with assms(3) have "digits_val 0 s < 2 ^ 1024" by (rule less_le_trans)
  then have "(of_nat (digits_val 0 s) :: rat) < of_nat (2 ^ 1024)"
    by (simp only: of_nat_less_iff)
  then have "finite_number (of_nat (digits_val 0 s)) = Some (of_nat (digits_val 0 s))"
    by (simp only: finite_number_def Let_def round_double_nat [OF assms(3)] of_nat_power of_nat_numeral abs_of_nat if_True)
  with assms(2) show ?thesis
    unfolding unsigned_number_def tw dw Let_def by (simp add: exponent_part_def)
qed

lemma js_number_nat_str: "n < 2 ^ 53 \<Longrightarrow> js_number (nat_str n) = Some (of_nat n)"
proof -
  assume n: "n < 2 ^ 53"
  have d: "\<forall>u \<in> set (nat_str n). digit16 u" by (rule nat_str_digits)
  have ne: "nat_str n \<noteq> []" by (subst nat_str.simps) simp
  from d have t: "trim (nat_str n) = nat_str n" by (intro trim_no_ws) (auto dest: digit16_not_ws)
  have v: "unsigned_number (nat_str n) = Some (of_nat n)"
    using unsigned_number_digits [OF d ne] n by (simp add: digits_val_nat_str)
  show ?thesis
  proof (cases "nat_str n")
    case (Cons u s)
    show ?thesis
    proof (cases s)
      case Nil
      with Cons t v show ?thesis by (simp add: js_number_def)
    next
      case (Cons w r)
      with \<open>nat_str n = u # s\<close> d have "digit16 u" "digit16 w" by auto
      then have "unat w \<notin> {88, 120, 79, 111, 66, 98}" "u \<noteq> 43" "u \<noteq> 45"
        by (auto simp: digit16_def)
      with Cons \<open>nat_str n = u # s\<close> t v show ?thesis by (simp add: js_number_def)
    qed
  qed (use ne in simp)
qed

lemma js_number_int_str:
  assumes "0 \<le> i" "i < 2 ^ 53"
  shows "js_number (int_str i) = Some (of_int i)"
proof -
  have "nat i < 2 ^ 53" using assms by simp
  then have "js_number (nat_str (nat i)) = Some (of_nat (nat i))" by (rule js_number_nat_str)
  moreover have "int_str i = nat_str (nat i)" using assms(1) by (simp only: int_str_def) simp
  moreover have "(of_nat (nat i) :: rat) = of_int i" using assms(1) by (rule of_nat_nat)
  ultimately show ?thesis by (simp only:)
qed

end
