(* ===== verification/View.thy ===== *)
theory View
  imports JsText
begin

text \<open>
  What a component renders: a tree of text and elements with their props. Props that only
  style (\<open>className\<close>, icons' sizes) are left out. A handler prop carries the event of the page
  that it fires, so the tree also says which events the user can cause in a state.
\<close>

datatype 'e attr =
    Attr string jstr
  | Num string int
  | Flag string bool
  | OnClick 'e
  | OnSubmit 'e
  | OnInput "jstr \<Rightarrow> 'e"

datatype 'e node = Txt jstr | El string "'e attr list" "'e node list"

datatype 'e act = Fire 'e | Type "jstr \<Rightarrow> 'e"

definition show_if :: "bool \<Rightarrow> 'a list \<Rightarrow> 'a list" where
  "show_if c ns = (if c then ns else [])"

definition lit :: "string \<Rightarrow> 'e node" where
  "lit s = Txt (js s)"

lemma show_if_simps [simp]: "show_if True ns = ns" "show_if False ns = []"
  by (simp_all add: show_if_def)

lemma set_show_if [simp]: "set (show_if c ns) = (if c then set ns else {})"
  by (simp add: show_if_def)

fun flag_set :: "string \<Rightarrow> bool \<Rightarrow> 'e attr \<Rightarrow> bool" where
  "flag_set n b (Flag m c) = (n = m \<and> b = c)"
| "flag_set n b _ = False"

fun attr_is :: "string \<Rightarrow> string \<Rightarrow> 'e attr \<Rightarrow> bool" where
  "attr_is n v (Attr m w) = (n = m \<and> js v = w)"
| "attr_is n v _ = False"

definition disabled :: "'e attr list \<Rightarrow> bool" where
  "disabled ps = list_ex (flag_set ''disabled'' True) ps"

text \<open>A dialog with \<open>open={false}\<close> renders nothing.\<close>

definition closed :: "'e attr list \<Rightarrow> bool" where
  "closed ps = list_ex (flag_set ''open'' False) ps"

text \<open>
  A form is submitted through an enabled button that is not \<open>type="button"\<close>; the browser also
  blocks submission with Enter when the form's submit button is disabled.
\<close>

fun submits :: "'e node \<Rightarrow> bool" where
  "submits (Txt s) = False"
| "submits (El t ps ns) =
     ((t = ''Button'' \<and> \<not> disabled ps \<and> \<not> list_ex (attr_is ''type'' ''button'') ps)
      \<or> list_ex submits ns)"

fun attr_acts :: "bool \<Rightarrow> 'e attr \<Rightarrow> 'e act list" where
  "attr_acts sub (OnClick e) = [Fire e]"
| "attr_acts sub (OnSubmit e) = (if sub then [Fire e] else [])"
| "attr_acts sub (OnInput f) = [Type f]"
| "attr_acts sub _ = []"

fun acts :: "'e node \<Rightarrow> 'e act list" where
  "acts (Txt s) = []"
| "acts (El t ps ns) =
     (if closed ps then []
      else (if disabled ps then [] else concat (map (attr_acts (list_ex submits ns)) ps))
           @ concat (map acts ns))"

definition offers :: "'e node \<Rightarrow> 'e \<Rightarrow> bool" where
  "offers n e = list_ex (\<lambda>a. case a of Fire x \<Rightarrow> x = e | Type f \<Rightarrow> \<exists>s. f s = e) (acts n)"

text \<open>
  What a tree displays as text: the texts between its elements. Props are not displayed (\<open>key\<close> least of
  all); a placeholder or a title would be, and is not counted.
\<close>

fun texts :: "'e node \<Rightarrow> jstr list" where
  "texts (Txt s) = [s]"
| "texts (El t ps ns) = (if closed ps then [] else concat (map texts ns))"

fun tags :: "'e node \<Rightarrow> string list" where
  "tags (Txt s) = []"
| "tags (El t ps ns) = (if closed ps then [] else t # concat (map tags ns))"

text \<open>The links of a tree.\<close>

fun attr_hrefs :: "'e attr \<Rightarrow> jstr list" where
  "attr_hrefs (Attr n v) = (if n = ''href'' then [v] else [])"
| "attr_hrefs _ = []"

fun hrefs :: "'e node \<Rightarrow> jstr list" where
  "hrefs (Txt t) = []"
| "hrefs (El t ps ns) = concat (map attr_hrefs ps) @ concat (map hrefs ns)"

lemma disabled_simps [simp]:
  "disabled [] = False"
  "disabled (p # ps) = (flag_set ''disabled'' True p \<or> disabled ps)"
  by (simp_all add: disabled_def)

lemma closed_simps [simp]:
  "closed [] = False"
  "closed (p # ps) = (flag_set ''open'' False p \<or> closed ps)"
  by (simp_all add: closed_def)

lemma offers_iff: "offers n e \<longleftrightarrow> Fire e \<in> set (acts n) \<or> (\<exists>f s. Type f \<in> set (acts n) \<and> f s = e)"
proof
  assume "offers n e"
  then obtain a where a: "a \<in> set (acts n)" "case a of Fire x \<Rightarrow> x = e | Type f \<Rightarrow> \<exists>s. f s = e"
    unfolding offers_def list_ex_iff by blast
  show "Fire e \<in> set (acts n) \<or> (\<exists>f s. Type f \<in> set (acts n) \<and> f s = e)"
  proof (cases a)
    case (Fire x)
    with a show ?thesis by simp
  next
    case (Type f)
    with a(2) obtain s where "f s = e" by auto
    with a(1) Type show ?thesis by blast
  qed
next
  assume "Fire e \<in> set (acts n) \<or> (\<exists>f s. Type f \<in> set (acts n) \<and> f s = e)"
  then show "offers n e"
  proof (elim disjE exE conjE)
    assume "Fire e \<in> set (acts n)"
    then show "offers n e" unfolding offers_def list_ex_iff by (intro bexI [of _ "Fire e"]) simp_all
  next
    fix f s
    assume "Type f \<in> set (acts n)" "f s = e"
    then show "offers n e" unfolding offers_def list_ex_iff by (intro bexI [of _ "Type f"]) auto
  qed
qed

end
