(* ===== verification/Api.thy ===== *)
theory Api
  imports View
begin

text \<open>
  The shared client of the backend (\<open>src/frontend/src/lib/api.ts\<close>), its data types, and the
  checked environment values (\<open>lib/public-env.ts\<close>, \<open>lib/server-env.ts\<close>). A request is what
  \<open>apiFetch\<close> hands to \<open>fetch\<close>; the answer is a parameter of the pages, turned into a value or a
  thrown error by \<open>apiFetch_settle\<close>.
\<close>

section \<open>Values and errors\<close>

datatype json = JNull | JBool bool | JNum rat | JStr jstr | JArr "json list"
  | JObj "(string \<times> json) list"

text \<open>
  What a handler can catch: an \<open>APIError\<close>, another \<open>Error\<close> (its name, the numeric \<open>code\<close> of a
  \<open>DOMException\<close>, its message), or a thrown object that is no \<open>Error\<close>, such as a
  \<open>GeolocationPositionError\<close>, with its \<open>code\<close>.
\<close>

datatype js_error =
    APIError jstr nat "json option" "json option"
  | JsError string "int option" jstr
  | Thrown "int option"

definition getErrorMessage :: "js_error \<Rightarrow> jstr" where
  "getErrorMessage e = (case e of APIError m _ _ _ \<Rightarrow> m | JsError _ _ m \<Rightarrow> m
     | Thrown _ \<Rightarrow> js ''Terjadi kesalahan yang tidak diketahui.'')"

fun is_api_error :: "js_error \<Rightarrow> bool" where
  "is_api_error (APIError _ _ _ _) = True"
| "is_api_error _ = False"

definition json_prop :: "json option \<Rightarrow> string \<Rightarrow> json option" where
  "json_prop p n = (case p of Some (JObj fs) \<Rightarrow> map_of fs n | _ \<Rightarrow> None)"

text \<open>The operator \<open>??\<close>: the right side when the left is \<open>null\<close> or \<open>undefined\<close>.\<close>

definition nullish :: "json option \<Rightarrow> json option \<Rightarrow> json option" where
  "nullish a b = (case a of None \<Rightarrow> b | Some JNull \<Rightarrow> b | Some v \<Rightarrow> Some v)"

section \<open>Data types of the API\<close>

datatype role = Anggota | SuperAdmin

datatype gender = Male | Female | Other | Unset

record user =
  u_id :: jstr
  u_email :: jstr
  u_name :: jstr
  u_phone :: jstr
  u_bio :: jstr
  u_gender :: gender
  u_avatar :: jstr
  u_role :: role
  u_is_active :: bool
  u_email_verified :: bool
  u_email_verified_at :: "jstr option"
  u_created_at :: jstr
  u_updated_at :: jstr

datatype access_policy = AssignedOnly | AllActiveUsers

datatype client_status = Active | Suspended

record oauth_client =
  c_client_id :: jstr
  c_client_secret :: "jstr option"
  c_secret_available :: bool
  c_secret_version :: int
  c_name :: jstr
  c_description :: jstr
  c_redirect_uris :: "jstr list"
  c_allowed_scopes :: "jstr list"
  c_owner_id :: jstr
  c_access_policy :: access_policy
  c_status :: client_status
  c_assignment_count :: int

record oauth_client_assignment =
  a_id :: jstr
  a_user_id :: jstr
  a_name :: jstr
  a_email :: jstr
  a_avatar :: jstr

record assignable_user =
  au_user_id :: jstr
  au_name :: jstr
  au_email :: jstr
  au_avatar :: jstr

record client_assignments_response =
  ca_client :: oauth_client
  ca_assignments :: "oauth_client_assignment list option"
  ca_total :: "int option"
  ca_page :: int
  ca_page_size :: int
  ca_total_pages :: "int option"

text \<open>The roles are ordered by what the dashboard opens to them.\<close>

instantiation role :: linorder
begin

definition less_eq_role :: "role \<Rightarrow> role \<Rightarrow> bool" where
  "less_eq_role a b = (a = Anggota \<or> b = SuperAdmin)"

definition less_role :: "role \<Rightarrow> role \<Rightarrow> bool" where
  "less_role a b = (a = Anggota \<and> b = SuperAdmin)"

instance
proof
  fix a b c :: role
  show "(a < b) = (a \<le> b \<and> \<not> b \<le> a)"
    by (cases a; cases b) (auto simp: less_role_def less_eq_role_def)
  show "a \<le> a" by (cases a) (auto simp: less_eq_role_def)
  show "a \<le> b \<Longrightarrow> b \<le> c \<Longrightarrow> a \<le> c" by (auto simp: less_eq_role_def)
  show "a \<le> b \<Longrightarrow> b \<le> a \<Longrightarrow> a = b" by (auto simp: less_eq_role_def)
  show "a \<le> b \<or> b \<le> a" by (cases a; cases b) (auto simp: less_eq_role_def)
qed

end

section \<open>Requests\<close>

datatype request_body = JsonText json | FormData "(string \<times> jstr) list"

record request_init =
  ri_method :: string
  ri_headers :: "(string \<times> string) list"
  ri_body :: "request_body option"
  ri_signal :: bool

record fetch_request =
  fr_url :: jstr
  fr_method :: string
  fr_headers :: "(string \<times> string) list"
  fr_body :: "request_body option"
  fr_signal :: bool
  fr_credentials :: string
  fr_cache :: string

definition fetch_init :: request_init where
  "fetch_init = \<lparr>ri_method = ''GET'', ri_headers = [], ri_body = None, ri_signal = False\<rparr>"

text \<open>
  The first half of \<open>apiFetch\<close>: header names are compared in lower case, as the \<open>Headers\<close> object
  stores them.
\<close>

definition apiFetch_request :: "jstr \<Rightarrow> jstr \<Rightarrow> request_init \<Rightarrow> fetch_request" where
  "apiFetch_request API_URL path init =
     (let headers = (case ri_body init of
            Some (JsonText _) \<Rightarrow>
              if map_of (ri_headers init) ''content-type'' = None
              then (''content-type'', ''application/json'') # ri_headers init
              else ri_headers init
          | _ \<Rightarrow> ri_headers init)
      in \<lparr>fr_url = API_URL @ path, fr_method = ri_method init, fr_headers = headers,
          fr_body = ri_body init, fr_signal = ri_signal init,
          fr_credentials = ''include'', fr_cache = ''no-store''\<rparr>)"

record http_response =
  hr_status :: nat
  hr_content_type :: "jstr option"
  hr_json :: "js_error + json"

definition hr_ok :: "http_response \<Rightarrow> bool" where
  "hr_ok r = (200 \<le> hr_status r \<and> hr_status r \<le> 299)"

text \<open>
  The second half, after \<open>fetch\<close> has settled: the rejection, the failure of \<open>response.json()\<close>, the
  \<open>APIError\<close> of a response that is not OK, or the payload (\<open>undefined\<close> when the body is not
  JSON). \<open>coerce\<close> is the conversion of a non-string \<open>message\<close> to text by the \<open>Error\<close> constructor.
\<close>

definition error_text :: "(json \<Rightarrow> jstr) \<Rightarrow> json option \<Rightarrow> jstr" where
  "error_text coerce payload =
     (case nullish (json_prop payload ''message'')
             (nullish (json_prop payload ''error_description'')
                (Some (JStr (js ''Permintaan tidak dapat diproses.'')))) of
        Some (JStr s) \<Rightarrow> s
      | Some v \<Rightarrow> coerce v
      | None \<Rightarrow> [])"

definition apiFetch_settle :: "(json \<Rightarrow> jstr) \<Rightarrow> js_error + http_response \<Rightarrow> js_error + json option" where
  "apiFetch_settle coerce outcome =
     (case outcome of Inl e \<Rightarrow> Inl e
      | Inr r \<Rightarrow>
          (let ct = (case hr_content_type r of Some t \<Rightarrow> t | None \<Rightarrow> []);
               payload = (if str_includes (js ''application/json'') ct
                          then map_sum id Some (hr_json r) else Inr None)
           in case payload of Inl e \<Rightarrow> Inl e
              | Inr p \<Rightarrow>
                  if \<not> hr_ok r
                  then Inl (APIError (error_text coerce p) (hr_status r) (json_prop p ''error'') p)
                  else Inr p))"

section \<open>Environment values\<close>

definition missing_env :: "string \<Rightarrow> js_error" where
  "missing_env n = JsError ''Error'' None (js (n @ '' wajib diatur melalui environment frontend.''))"

definition drop_slash :: "jstr \<Rightarrow> jstr" where
  "drop_slash s = (if s \<noteq> [] \<and> last s = 47 then butlast s else s)"

definition requiredPublicValue :: "string \<Rightarrow> jstr option \<Rightarrow> js_error + jstr" where
  "requiredPublicValue n value =
     (case map_option (\<lambda>v. drop_slash (trim v)) value of
        None \<Rightarrow> Inl (missing_env n)
      | Some v \<Rightarrow> if v = [] then Inl (missing_env n) else Inr v)"

definition requiredServerValue :: "string \<Rightarrow> jstr option \<Rightarrow> js_error + jstr" where
  "requiredServerValue n value =
     (case map_option trim value of
        None \<Rightarrow> Inl (missing_env n)
      | Some v \<Rightarrow> if v = [] then Inl (missing_env n) else Inr v)"

text \<open>The values \<open>public-env.ts\<close> exports, read when the module loads: one missing value throws.\<close>

record public_env =
  PUBLIC_BACKEND_URL :: jstr
  PUBLIC_DOCUMENTATION_URL :: jstr
  PUBLIC_APP_NAME :: jstr
  PUBLIC_APP_TAGLINE :: jstr
  PUBLIC_APP_DESCRIPTION :: jstr
  PUBLIC_ORGANIZATION_NAME :: jstr
  PUBLIC_TURNSTILE_SITE_KEY :: jstr

definition public_names :: "string list" where
  "public_names = [''NEXT_PUBLIC_BACKEND_URL'', ''NEXT_PUBLIC_DOCUMENTATION_URL'',
     ''NEXT_PUBLIC_APP_NAME'', ''NEXT_PUBLIC_APP_TAGLINE'', ''NEXT_PUBLIC_APP_DESCRIPTION'',
     ''NEXT_PUBLIC_ORGANIZATION_NAME'', ''NEXT_PUBLIC_TURNSTILE_SITE_KEY'']"

fun require_all :: "(string \<rightharpoonup> jstr) \<Rightarrow> string list \<Rightarrow> js_error + jstr list" where
  "require_all env [] = Inr []"
| "require_all env (n # ns) =
     (case requiredPublicValue n (env n) of Inl e \<Rightarrow> Inl e
      | Inr v \<Rightarrow> map_sum id ((#) v) (require_all env ns))"

definition load_public_env :: "(string \<rightharpoonup> jstr) \<Rightarrow> js_error + public_env" where
  "load_public_env env =
     map_sum id (\<lambda>vs. \<lparr>PUBLIC_BACKEND_URL = vs ! 0, PUBLIC_DOCUMENTATION_URL = vs ! 1,
        PUBLIC_APP_NAME = vs ! 2, PUBLIC_APP_TAGLINE = vs ! 3, PUBLIC_APP_DESCRIPTION = vs ! 4,
        PUBLIC_ORGANIZATION_NAME = vs ! 5, PUBLIC_TURNSTILE_SITE_KEY = vs ! 6\<rparr>)
       (require_all env public_names)"

section \<open>Lemmas\<close>

lemma settle_ok_iff:
  "(\<exists>p. apiFetch_settle coerce outcome = Inr p) \<longleftrightarrow>
   (\<exists>r. outcome = Inr r \<and> hr_ok r \<and>
      (str_includes (js ''application/json'') (case hr_content_type r of Some t \<Rightarrow> t | None \<Rightarrow> [])
       \<longrightarrow> (\<exists>j. hr_json r = Inr j)))"
  by (cases outcome) (auto simp: apiFetch_settle_def Let_def split: sum.splits if_splits option.splits
      elim: sum.exhaust)

lemma request_credentials [simp]:
  "fr_credentials (apiFetch_request u p i) = ''include''" "fr_cache (apiFetch_request u p i) = ''no-store''"
  "fr_url (apiFetch_request u p i) = u @ p" "fr_body (apiFetch_request u p i) = ri_body i"
  by (simp_all add: apiFetch_request_def Let_def)

lemma require_all_length: "require_all env ns = Inr vs \<Longrightarrow> length vs = length ns"
proof (induction ns arbitrary: vs)
  case (Cons n ns)
  then show ?case by (cases "require_all env ns") (auto split: sum.splits)
qed simp

text \<open>The body can be read: it does not claim to be JSON, or it parses.\<close>

definition readable :: "http_response \<Rightarrow> bool" where
  "readable r = (str_includes (js ''application/json'') (case hr_content_type r of Some t \<Rightarrow> t | None \<Rightarrow> [])
     \<longrightarrow> (\<exists>j. hr_json r = Inr j))"

lemma settle_error:
  "readable r \<Longrightarrow> \<not> hr_ok r \<Longrightarrow> \<exists>m c p. apiFetch_settle coerce (Inr r) = Inl (APIError m (hr_status r) c p)"
  by (auto simp: apiFetch_settle_def readable_def Let_def)

lemma require_all_ok:
  "(\<exists>vs. require_all env ns = Inr vs) =
     list_all (\<lambda>n. case env n of None \<Rightarrow> False | Some v \<Rightarrow> drop_slash (trim v) \<noteq> []) ns"
proof (induction ns)
  case (Cons n ns)
  then show ?case
    by (cases "require_all env ns") (auto simp: requiredPublicValue_def split: option.splits)
qed simp

section \<open>Further facts\<close>

text \<open>The module of the public configuration loads exactly when each of its seven environment values is set
  and not blank (after trimming and removing one final slash).\<close>

lemma public_env_all_or_nothing:
  "(\<exists>p. load_public_env env = Inr p) =
     list_all (\<lambda>n. case env n of None \<Rightarrow> False | Some v \<Rightarrow> drop_slash (trim v) \<noteq> []) public_names"
  by (simp add: load_public_env_def require_all_ok)

end
