(* ===== verification/Browser.thy ===== *)
theory Browser
  imports Api
begin

text \<open>
  What the pages take from the browser and from Next.js: the location, the parsed query
  (\<open>useSearchParams\<close>), the URL parser of \<open>new URL\<close> and the Unicode lower-casing, as fields of one
  record of parameters; and the effects a handler has outside its component, as values.
\<close>

record url =
  url_origin :: jstr
  url_protocol :: jstr
  url_hostname :: jstr
  url_pathname :: jstr
  url_search :: jstr
  url_hash :: jstr
  url_params :: query

text \<open>
  \<open>b_parse_url value base\<close> is \<open>new URL(value, base)\<close>, \<open>None\<close> where it throws; \<open>b_url_string\<close> is
  \<open>url.toString()\<close>. Both are the URL standard's algorithms, which the repository does not contain.
\<close>

record browser =
  b_api_url :: jstr
  b_origin :: jstr
  b_pathname :: jstr
  b_search :: jstr
  b_params :: query
  b_parse_url :: "jstr \<Rightarrow> jstr option \<Rightarrow> url option"
  b_url_string :: "url \<Rightarrow> jstr"
  b_lower :: "jstr \<Rightarrow> jstr"
  b_upper :: "jstr \<Rightarrow> jstr"
  b_platform :: jstr
  b_language :: jstr
  b_timezone :: jstr

datatype toast_kind = Success | Failure | Warning | Message

datatype effect =
    Toast toast_kind jstr
  | Send fetch_request
  | RouterReplace jstr
  | RouterRefresh
  | LocationAssign jstr
  | SetUser "user option"
  | RequestLocation
  | HistoryReplace jstr
  | Clipboard jstr
  | SaveFile jstr "nat list"
  | CreateURL nat
  | RevokeURL nat
  | PreloadImage jstr
  | PickFile
  | CropperZoom int
  | CropperRotate int

definition api :: "browser \<Rightarrow> jstr \<Rightarrow> request_init \<Rightarrow> effect" where
  "api b path init = Send (apiFetch_request (b_api_url b) path init)"

definition get :: request_init where
  "get = fetch_init"

definition post :: "json \<Rightarrow> request_init" where
  "post body = fetch_init\<lparr>ri_method := ''POST'', ri_body := Some (JsonText body)\<rparr>"

definition post_empty :: request_init where
  "post_empty = fetch_init\<lparr>ri_method := ''POST''\<rparr>"

definition patch :: "json \<Rightarrow> request_init" where
  "patch body = fetch_init\<lparr>ri_method := ''PATCH'', ri_body := Some (JsonText body)\<rparr>"

definition delete_init :: request_init where
  "delete_init = fetch_init\<lparr>ri_method := ''DELETE''\<rparr>"

definition with_signal :: "request_init \<Rightarrow> request_init" where
  "with_signal i = i\<lparr>ri_signal := True\<rparr>"

text \<open>A query parameter with the \<open>?? ""\<close> the pages put behind \<open>get\<close>.\<close>

definition param :: "query \<Rightarrow> string \<Rightarrow> jstr" where
  "param q n = (case query_get q n of Some v \<Rightarrow> v | None \<Rightarrow> [])"

text \<open>Requests among effects.\<close>

fun sent :: "effect list \<Rightarrow> fetch_request list" where
  "sent [] = []"
| "sent (Send r # es) = r # sent es"
| "sent (_ # es) = sent es"

lemma sent_append [simp]: "sent (xs @ ys) = sent xs @ sent ys"
  by (induction xs rule: sent.induct) auto

lemma sent_api [simp]: "sent (api b p i # es) = apiFetch_request (b_api_url b) p i # sent es"
  by (simp add: api_def)

text \<open>Shared pieces of the views.\<close>

definition alert :: "'e node list \<Rightarrow> 'e node" where
  "alert ns = El ''Alert'' [Attr ''variant'' (js ''destructive'')] ns"

definition error_alert :: "jstr \<Rightarrow> 'e node list" where
  "error_alert e = show_if (e \<noteq> [])
     [alert [El ''AlertCircle'' [] [], El ''AlertDescription'' [] [Txt e]]]"

definition label :: "string \<Rightarrow> string \<Rightarrow> 'e node" where
  "label for_id text = El ''Label'' [Attr ''htmlFor'' (js for_id)] [lit text]"

definition link :: "jstr \<Rightarrow> 'e node list \<Rightarrow> 'e node" where
  "link href ns = El ''Link'' [Attr ''href'' href] ns"

text \<open>An expression of a view that throws while rendering (a \<open>URIError\<close>) leaves this node.\<close>

definition throwing_node :: "'e node" where
  "throwing_node = El ''URIError'' [] []"

definition uri_link :: "jstr \<Rightarrow> jstr \<Rightarrow> 'e node list \<Rightarrow> 'e node" where
  "uri_link prefix s ns =
     (case encodeURIComponent s of Some e \<Rightarrow> link (prefix @ e) ns | None \<Rightarrow> throwing_node)"


end
