(* ===== verification/AuthShell.thy ===== *)
theory AuthShell
  imports Browser
begin

text \<open>
  The frame of the public pages (\<open>components/auth-shell.tsx\<close>), the brand (\<open>components/brand.tsx\<close>)
  and the password field with its visibility toggle (\<open>components/ui/password-input.tsx\<close>).
\<close>

definition Brand :: "public_env \<Rightarrow> bool \<Rightarrow> 'e node" where
  "Brand env isCompact =
     El ''div'' []
      (El ''Image'' [Attr ''src'' (js ''/images/logo-sso.png''),
         Attr ''alt'' (js ''Logo '' @ PUBLIC_APP_NAME env), Num ''width'' 44, Num ''height'' 44,
         Flag ''priority'' True] []
       # show_if (\<not> isCompact)
          [El ''span'' [] [El ''span'' [] [Txt (PUBLIC_APP_NAME env)],
                           El ''span'' [] [Txt (PUBLIC_APP_TAGLINE env)]]])"

definition AuthShell ::
  "public_env \<Rightarrow> jstr \<Rightarrow> jstr \<Rightarrow> jstr option \<Rightarrow> jstr option \<Rightarrow> jstr option \<Rightarrow> 'e node list \<Rightarrow> 'e node" where
  "AuthShell env title description panelBadge panelTitle panelDescription children =
     El ''main'' []
      [El ''div'' [] [],
       El ''div'' []
        [El ''div'' []
          [El ''section'' []
            [El ''div'' [] [], El ''div'' [] [],
             Brand env False,
             El ''div'' []
              [El ''Badge'' [Attr ''variant'' (js ''secondary'')]
                 [Txt (case panelBadge of Some t \<Rightarrow> t | None \<Rightarrow> js ''SSO terpusat & aman'')],
               El ''h1'' [] [Txt (case panelTitle of Some t \<Rightarrow> t
                 | None \<Rightarrow> js ''Satu identitas untuk seluruh layanan organisasi.'')],
               El ''p'' [] [Txt (case panelDescription of Some t \<Rightarrow> t
                 | None \<Rightarrow> js ''Gunakan satu akun untuk mengakses semua layanan digital PC IPNU IPPNU Kabupaten Magetan.'')]],
             El ''p'' [] [Txt (js ''PelajarNU Magetan ID '' @ [0xB7] @ js '' Single Sign-On'')]],
           El ''div'' []
            [El ''Card'' []
              [El ''CardHeader'' []
                [El ''div'' [] [Brand env False],
                 El ''CardTitle'' [] [Txt title],
                 El ''CardDescription'' [] [Txt description]],
               El ''CardContent'' [] children]]]]]"

text \<open>
  \<open>PasswordInput\<close> keeps whether the text is shown; the field's own props come from the page.
\<close>

definition toggle_visible :: "bool \<Rightarrow> bool" where
  "toggle_visible current = (\<not> current)"

definition PasswordInput :: "bool \<Rightarrow> bool \<Rightarrow> 'e attr list \<Rightarrow> 'e attr list \<Rightarrow> 'e node" where
  "PasswordInput visible off props toggle =
     El ''div'' []
      [El ''Input'' (props @ [Attr ''type'' (if visible then js ''text'' else js ''password''),
                              Flag ''disabled'' off]) [],
       El ''button'' ([Attr ''type'' (js ''button''), Flag ''disabled'' off,
           Attr ''aria-label'' (if visible then js ''Sembunyikan kata sandi'' else js ''Tampilkan kata sandi''),
           Flag ''aria-pressed'' visible] @ toggle)
        [El (if visible then ''EyeOff'' else ''Eye'') [] []]]"

definition password_field :: "'e attr list \<Rightarrow> 'e node" where
  "password_field props = PasswordInput False False props []"

section \<open>Lemmas\<close>

lemma Brand_acts [simp]: "acts (Brand env c) = []" "submits (Brand env c) = False" "hrefs (Brand env c) = []"
  by (simp_all add: Brand_def show_if_def)

lemma AuthShell_acts [simp]:
  "acts (AuthShell env t d b p q ns) = concat (map acts ns)"
  "submits (AuthShell env t d b p q ns) = list_ex submits ns"
  by (simp_all add: AuthShell_def)

lemma password_field_acts [simp]:
  "submits (password_field ps) = False"
  "\<not> disabled ps \<Longrightarrow> \<not> closed ps \<Longrightarrow>
   acts (password_field ps) = concat (map (attr_acts False) ps)"
  by (simp_all add: password_field_def PasswordInput_def disabled_def closed_def)

lemma error_alert_acts [simp]:
  "concat (map acts (error_alert e)) = []" "list_ex submits (error_alert e) = False"
  by (simp_all add: error_alert_def show_if_def alert_def)

lemma link_acts [simp]: "acts (link h ns) = concat (map acts ns)" "submits (link h ns) = list_ex submits ns"
  by (simp_all add: link_def)

lemma label_acts [simp]: "acts (label i t) = []" "submits (label i t) = False"
  by (simp_all add: label_def lit_def)

lemma lit_acts [simp]: "acts (lit t) = []" "submits (lit t) = False" "texts (lit t) = [js t]"
  by (simp_all add: lit_def)

lemma uri_link_acts [simp]:
  "list_ex submits ns = False \<Longrightarrow> submits (uri_link p s ns) = False"
  "concat (map acts ns) = [] \<Longrightarrow> acts (uri_link p s ns) = []"
  by (simp_all add: uri_link_def throwing_node_def split: option.split)

end
