(* ===== verification/EmailOtp.thy ===== *)
theory EmailOtp
  imports Api
begin

text \<open>
  The resend cooldown of the e-mail code (\<open>src/frontend/src/lib/email-verification.ts\<close>): a
  deadline per e-mail address in the browser's \<open>localStorage\<close>. The store, the clock and the
  lower-casing of \<open>String.prototype.toLowerCase\<close> are arguments. The locale \<open>resend_store\<close> is the
  contract the register and verification pages use; it is interpreted on the functions below.
\<close>

section \<open>The browser store\<close>

text \<open>
  \<open>ls_window\<close> is false during server rendering; \<open>ls_access\<close> is false when touching
  \<open>localStorage\<close> throws; \<open>ls_write\<close> is false when \<open>setItem\<close> throws (quota).
\<close>

record local_storage =
  ls_items :: "jstr \<rightharpoonup> jstr"
  ls_window :: bool
  ls_access :: bool
  ls_write :: bool

definition RESEND_STORAGE_PREFIX :: jstr where
  "RESEND_STORAGE_PREFIX = js ''ipnu-ippnu-id:otp-resend-deadline:v1:''"

definition OTP_RESEND_DELAY_SECONDS :: int where
  "OTP_RESEND_DELAY_SECONDS = 60"

definition normalize_email :: "(jstr \<Rightarrow> jstr) \<Rightarrow> jstr \<Rightarrow> jstr" where
  "normalize_email lower email = lower (trim email)"

definition storageKey :: "(jstr \<Rightarrow> jstr) \<Rightarrow> jstr \<Rightarrow> jstr option" where
  "storageKey lower email =
     map_option (\<lambda>k. RESEND_STORAGE_PREFIX @ k) (encodeURIComponent (normalize_email lower email))"

section \<open>The three operations\<close>

definition readOTPResendDeadline ::
  "(jstr \<Rightarrow> jstr) \<Rightarrow> jstr \<Rightarrow> int \<Rightarrow> local_storage \<Rightarrow> rat \<times> local_storage" where
  "readOTPResendDeadline lower email now st =
     (if \<not> ls_window st \<or> trim email = [] then (0, st)
      else case storageKey lower email of
        None \<Rightarrow> (0, st)
      | Some k \<Rightarrow>
          if \<not> ls_access st then (0, st)
          else
            (let value = (case ls_items st k of None \<Rightarrow> Some 0 | Some t \<Rightarrow> js_number t);
                 removed = st\<lparr>ls_items := (ls_items st)(k := None)\<rparr>
             in case value of
                  None \<Rightarrow> (0, removed)
                | Some v \<Rightarrow> if v \<le> of_int now then (0, removed) else (v, st)))"

definition startOTPResendCooldown ::
  "(jstr \<Rightarrow> jstr) \<Rightarrow> jstr \<Rightarrow> int \<Rightarrow> local_storage \<Rightarrow> int \<times> local_storage" where
  "startOTPResendCooldown lower email now st =
     (let deadline = now + OTP_RESEND_DELAY_SECONDS * 1000
      in if ls_window st \<and> trim email \<noteq> [] then
           (case storageKey lower email of
              None \<Rightarrow> (deadline, st)
            | Some k \<Rightarrow>
                if ls_access st \<and> ls_write st
                then (deadline, st\<lparr>ls_items := (ls_items st)(k \<mapsto> int_str deadline)\<rparr>)
                else (deadline, st))
         else (deadline, st))"

definition clearOTPResendCooldown ::
  "(jstr \<Rightarrow> jstr) \<Rightarrow> jstr \<Rightarrow> local_storage \<Rightarrow> local_storage" where
  "clearOTPResendCooldown lower email st =
     (if \<not> ls_window st \<or> trim email = [] then st
      else case storageKey lower email of
        None \<Rightarrow> st
      | Some k \<Rightarrow> if ls_access st then st\<lparr>ls_items := (ls_items st)(k := None)\<rparr> else st)"

section \<open>Lemmas\<close>

definition usable :: "local_storage \<Rightarrow> bool" where
  "usable st = (ls_window st \<and> ls_access st \<and> ls_write st)"

definition has_key :: "(jstr \<Rightarrow> jstr) \<Rightarrow> jstr \<Rightarrow> bool" where
  "has_key lower email = (trim email \<noteq> [] \<and> well_formed (normalize_email lower email))"

text \<open>Clock values (milliseconds) for which the deadline is an exact double.\<close>

definition clock :: "int \<Rightarrow> bool" where
  "clock t = (0 \<le> t \<and> t < 2 ^ 52)"

lemma storageKey_some: "has_key lower e \<Longrightarrow> \<exists>k. storageKey lower e = Some k"
  by (simp add: has_key_def storageKey_def encodeURIComponent_def)

lemma storageKey_eq_iff:
  assumes "storageKey lower e = Some k" "storageKey lower f = Some l"
  shows "k = l \<longleftrightarrow> normalize_email lower e = normalize_email lower f"
  using assms encodeURIComponent_inj by (auto simp: storageKey_def)

lemma deadline_number:
  assumes "clock t"
  shows "js_number (int_str (t + 60000)) = Some (of_int (t + 60000))"
  by (rule js_number_int_str) (use assms in \<open>simp_all add: clock_def\<close>)

lemma start_result: "fst (startOTPResendCooldown lower e t st) = t + 60000"
  by (simp add: startOTPResendCooldown_def OTP_RESEND_DELAY_SECONDS_def Let_def split: option.split)

lemma start_usable [simp]: "usable (snd (startOTPResendCooldown lower e t st)) = usable st"
  by (simp add: startOTPResendCooldown_def Let_def usable_def split: option.split)

lemma read_usable [simp]: "usable (snd (readOTPResendDeadline lower e t st)) = usable st"
  by (simp add: readOTPResendDeadline_def Let_def usable_def split: option.split)

lemma clear_usable [simp]: "usable (clearOTPResendCooldown lower e st) = usable st"
  by (simp add: clearOTPResendCooldown_def usable_def split: option.split)

lemma read_positive: "fst (readOTPResendDeadline lower e t st) \<noteq> 0 \<Longrightarrow>
  of_int t < fst (readOTPResendDeadline lower e t st)"
  by (auto simp: readOTPResendDeadline_def Let_def split: option.splits if_splits)

lemma read_after_start:
  assumes "usable st" "has_key lower e" "clock t" "t \<le> u"
  shows "fst (readOTPResendDeadline lower e u (snd (startOTPResendCooldown lower e t st)))
    = (if u < t + 60000 then of_int (t + 60000) else 0)"
proof -
  from assms(2) obtain k where k: "storageKey lower e = Some k" using storageKey_some by blast
  from assms(2) have ne: "trim e \<noteq> []" by (simp add: has_key_def)
  let ?d = "t + 60000"
  have w: "snd (startOTPResendCooldown lower e t st) = st\<lparr>ls_items := (ls_items st)(k \<mapsto> int_str ?d)\<rparr>"
    using assms(1) k ne
    by (simp add: startOTPResendCooldown_def usable_def OTP_RESEND_DELAY_SECONDS_def Let_def)
  have r: "fst (readOTPResendDeadline lower e u s') = (if (of_int ?d :: rat) \<le> of_int u then 0 else of_int ?d)"
    if "s' = st\<lparr>ls_items := (ls_items st)(k \<mapsto> int_str ?d)\<rparr>" for s'
    unfolding that readOTPResendDeadline_def Let_def using assms(1) k ne deadline_number [OF assms(3)]
    by (simp add: usable_def del: of_int_add)
  show ?thesis unfolding r [OF w] of_int_le_iff by simp
qed

lemma read_after_start_other:
  assumes "normalize_email lower e \<noteq> normalize_email lower f"
  shows "fst (readOTPResendDeadline lower f u (snd (startOTPResendCooldown lower e t st)))
    = fst (readOTPResendDeadline lower f u st)"
proof (cases "storageKey lower e")
  case None
  then show ?thesis by (simp add: startOTPResendCooldown_def Let_def)
next
  case (Some k)
  have "k \<noteq> l" if "storageKey lower f = Some l" for l
    using storageKey_eq_iff [OF Some that] assms by simp
  with Some show ?thesis
    by (auto simp: readOTPResendDeadline_def startOTPResendCooldown_def Let_def split: option.splits)
qed

lemma read_after_clear:
  assumes "usable st" "0 \<le> u"
  shows "fst (readOTPResendDeadline lower e u (clearOTPResendCooldown lower e st)) = 0"
  using assms by (auto simp: readOTPResendDeadline_def clearOTPResendCooldown_def usable_def Let_def
      split: option.splits)

section \<open>The contract\<close>

locale resend_store =
  fixes read :: "'k \<Rightarrow> int \<Rightarrow> 's \<Rightarrow> rat \<times> 's"
    and start :: "'k \<Rightarrow> int \<Rightarrow> 's \<Rightarrow> int \<times> 's"
    and clear :: "'k \<Rightarrow> 's \<Rightarrow> 's"
    and good :: "'s \<Rightarrow> bool"
    and key :: "'k \<Rightarrow> bool"
    and same :: "'k \<Rightarrow> 'k \<Rightarrow> bool"
    and time :: "int \<Rightarrow> bool"
    and delay :: int
  assumes start_deadline: "fst (start k t s) = t + delay"
    and good_start: "good s \<Longrightarrow> good (snd (start k t s))"
    and good_clear: "good s \<Longrightarrow> good (clear k s)"
    and read_start: "good s \<Longrightarrow> key k \<Longrightarrow> time t \<Longrightarrow> t \<le> u \<Longrightarrow>
      fst (read k u (snd (start k t s))) = (if u < t + delay then of_int (t + delay) else 0)"
    and read_start_other: "\<not> same k l \<Longrightarrow> fst (read l u (snd (start k t s))) = fst (read l u s)"
    and read_clear: "good s \<Longrightarrow> 0 \<le> u \<Longrightarrow> fst (read k u (clear k s)) = 0"
begin

text \<open>
  After a resend at \<open>t\<close>, a page that reads the store at any later time is told to wait exactly
  while less than \<open>delay\<close> has passed, and never longer than \<open>delay\<close>.
\<close>

lemma wait_iff:
  assumes "good s" "key k" "time t" "t \<le> u" "0 \<le> t" "0 < delay"
  shows "fst (read k u (snd (start k t s))) \<noteq> 0 \<longleftrightarrow> u < t + delay"
proof -
  have "(of_int (t + delay) :: rat) \<noteq> 0" using assms by simp
  then show ?thesis using read_start [OF assms(1-4)] by simp
qed

lemma wait_bound:
  assumes "good s" "key k" "time t" "t \<le> u" "0 \<le> delay" "0 \<le> t"
  shows "fst (read k u (snd (start k t s))) - of_int u \<le> of_int delay"
proof -
  have "of_int (t + delay) - of_int u \<le> (of_int delay :: rat)"
    using assms(4) by (simp only: of_int_diff [symmetric] of_int_le_iff)
  moreover have "- of_int u \<le> (of_int delay :: rat)"
    using assms by (simp only: of_int_minus [symmetric] of_int_le_iff)
  ultimately show ?thesis using read_start [OF assms(1-4)] by (simp split: if_splits)
qed

lemma independent:
  assumes "good s" "key l" "time t" "t \<le> u" "\<not> same k l"
  shows "fst (read l u (snd (start k v (snd (start l t s)))))
    = (if u < t + delay then of_int (t + delay) else 0)"
  using assms by (simp add: read_start_other read_start)

end

interpretation otp: resend_store "readOTPResendDeadline lower" "startOTPResendCooldown lower"
  "clearOTPResendCooldown lower" usable "has_key lower"
  "\<lambda>e f. normalize_email lower e = normalize_email lower f" clock 60000
  for lower :: "jstr \<Rightarrow> jstr"
  by unfold_locales
    (auto simp only: start_result start_usable clear_usable read_after_start read_after_clear
      intro: read_after_start_other)

text \<open>Only the normalised address matters to a read of an address that is not blank.\<close>

lemma read_same:
  assumes "normalize_email lower e = normalize_email lower f" "trim e = [] \<longleftrightarrow> trim f = []"
  shows "readOTPResendDeadline lower e u st = readOTPResendDeadline lower f u st"
  using assms by (simp add: readOTPResendDeadline_def storageKey_def)

lemma cooldowns_are_independent:
  assumes "usable st" and "has_key lower f" and "clock t" and "t \<le> u" and "0 \<le> u"
    and "normalize_email lower e \<noteq> normalize_email lower f"
  shows "fst (readOTPResendDeadline lower f u (snd (startOTPResendCooldown lower e v (snd (startOTPResendCooldown lower f t st)))))
      = (if u < t + 60000 then of_int (t + 60000) else 0)
    \<and> fst (readOTPResendDeadline lower f u (clearOTPResendCooldown lower f (snd (startOTPResendCooldown lower f t st)))) = 0"
  using otp.independent [OF assms(1,2,3,4)] otp.read_clear [OF otp.good_start [OF assms(1)] assms(5)] assms(6)
  by blast

section \<open>Refinement of a map of deadlines\<close>

text \<open>
  What the three operations promise: a map from normalised addresses to deadlines. The store implements
  it with texts under percent-encoded keys, numbers read back from texts, and entries dropped when they
  are found expired.
\<close>

datatype otp_op = StartOp jstr int | ClearOp jstr | ReadOp jstr int

definition spec_read :: "(jstr \<rightharpoonup> int) \<Rightarrow> jstr \<Rightarrow> int \<Rightarrow> rat" where
  "spec_read m k now = (case m k of None \<Rightarrow> 0 | Some d \<Rightarrow> if d \<le> now then 0 else of_int d)"

fun spec_run :: "(jstr \<Rightarrow> jstr) \<Rightarrow> (jstr \<rightharpoonup> int) \<Rightarrow> otp_op list \<Rightarrow> rat list" where
  "spec_run lower m [] = []"
| "spec_run lower m (StartOp e t # ops) = spec_run lower (m(normalize_email lower e \<mapsto> t + 60000)) ops"
| "spec_run lower m (ClearOp e # ops) = spec_run lower (m(normalize_email lower e := None)) ops"
| "spec_run lower m (ReadOp e t # ops) = spec_read m (normalize_email lower e) t # spec_run lower m ops"

fun otp_run :: "(jstr \<Rightarrow> jstr) \<Rightarrow> local_storage \<Rightarrow> otp_op list \<Rightarrow> rat list" where
  "otp_run lower st [] = []"
| "otp_run lower st (StartOp e t # ops) = otp_run lower (snd (startOTPResendCooldown lower e t st)) ops"
| "otp_run lower st (ClearOp e # ops) = otp_run lower (clearOTPResendCooldown lower e st) ops"
| "otp_run lower st (ReadOp e t # ops) =
     (let (d, st') = readOTPResendDeadline lower e t st in d # otp_run lower st' ops)"

text \<open>The clock does not go back, and the addresses are those a form accepts.\<close>

fun in_order :: "(jstr \<Rightarrow> jstr) \<Rightarrow> int \<Rightarrow> otp_op list \<Rightarrow> bool" where
  "in_order lower now [] = True"
| "in_order lower now (StartOp e t # ops) = (has_key lower e \<and> clock t \<and> now \<le> t \<and> in_order lower t ops)"
| "in_order lower now (ClearOp e # ops) = (has_key lower e \<and> in_order lower now ops)"
| "in_order lower now (ReadOp e t # ops) = (has_key lower e \<and> now \<le> t \<and> in_order lower t ops)"

definition implements :: "(jstr \<Rightarrow> jstr) \<Rightarrow> local_storage \<Rightarrow> (jstr \<rightharpoonup> int) \<Rightarrow> int \<Rightarrow> bool" where
  "implements lower st m now =
     (usable st \<and> 0 \<le> now \<and> (\<forall>e u. has_key lower e \<longrightarrow> now \<le> u \<longrightarrow>
        fst (readOTPResendDeadline lower e u st) = spec_read m (normalize_email lower e) u))"

lemma read_key:
  "has_key lower e \<Longrightarrow> has_key lower f \<Longrightarrow> normalize_email lower e = normalize_email lower f \<Longrightarrow>
   readOTPResendDeadline lower f u st = readOTPResendDeadline lower e u st"
  by (rule read_same) (simp_all add: has_key_def)

lemma read_after_clear_other:
  assumes "normalize_email lower e \<noteq> normalize_email lower f"
  shows "fst (readOTPResendDeadline lower f u (clearOTPResendCooldown lower e st)) = fst (readOTPResendDeadline lower f u st)"
proof (cases "storageKey lower e")
  case (Some k)
  have "k \<noteq> l" if "storageKey lower f = Some l" for l
    using storageKey_eq_iff [OF Some that] assms by simp
  with Some show ?thesis
    by (auto simp: readOTPResendDeadline_def clearOTPResendCooldown_def Let_def split: option.splits)
qed (simp add: clearOTPResendCooldown_def)

lemma read_after_read:
  assumes "t \<le> u"
  shows "fst (readOTPResendDeadline lower f u (snd (readOTPResendDeadline lower e t st))) = fst (readOTPResendDeadline lower f u st)"
proof -
  have le: "v \<le> (of_int t :: rat) \<Longrightarrow> v \<le> of_int u" for v
    using assms by (meson of_int_le_iff order_trans)
  show ?thesis
    by (auto simp: readOTPResendDeadline_def Let_def dest: le split: option.splits if_splits)
qed

lemma implements_start:
  assumes "implements lower st m now" "has_key lower e" "clock t" "now \<le> t"
  shows "implements lower (snd (startOTPResendCooldown lower e t st)) (m(normalize_email lower e \<mapsto> t + 60000)) t"
proof -
  have "fst (readOTPResendDeadline lower f u (snd (startOTPResendCooldown lower e t st)))
      = spec_read (m(normalize_email lower e \<mapsto> t + 60000)) (normalize_email lower f) u" if "has_key lower f" "t \<le> u" for f u
  proof (cases "normalize_email lower e = normalize_email lower f")
    case True
    from assms(1) have "usable st" by (simp add: implements_def)
    from read_after_start [OF this assms(2,3) that(2)] read_key [OF assms(2) that(1) True]
    show ?thesis using True by (simp add: spec_read_def)
  next
    case False
    from assms(1,4) that have "fst (readOTPResendDeadline lower f u st) = spec_read m (normalize_email lower f) u"
      by (simp add: implements_def)
    with False show ?thesis by (simp add: read_after_start_other spec_read_def)
  qed
  then show ?thesis using assms by (simp add: implements_def clock_def)
qed

lemma implements_clear:
  assumes "implements lower st m now" "has_key lower e"
  shows "implements lower (clearOTPResendCooldown lower e st) (m(normalize_email lower e := None)) now"
proof -
  have "fst (readOTPResendDeadline lower f u (clearOTPResendCooldown lower e st))
      = spec_read (m(normalize_email lower e := None)) (normalize_email lower f) u" if "has_key lower f" "now \<le> u" for f u
  proof (cases "normalize_email lower e = normalize_email lower f")
    case True
    with assms that read_key [OF assms(2) that(1) True] show ?thesis
      by (simp add: implements_def read_after_clear spec_read_def)
  next
    case False
    with assms that show ?thesis by (simp add: implements_def read_after_clear_other spec_read_def)
  qed
  then show ?thesis using assms by (simp add: implements_def)
qed

lemma implements_read:
  "implements lower st m now \<Longrightarrow> now \<le> t \<Longrightarrow> implements lower (snd (readOTPResendDeadline lower e t st)) m t"
  by (simp add: implements_def read_after_read)

lemma implements_run:
  "implements lower st m now \<Longrightarrow> in_order lower now ops \<Longrightarrow> otp_run lower st ops = spec_run lower m ops"
proof (induction lower m ops arbitrary: st now rule: spec_run.induct)
  case (4 lower m e t ops)
  then have "fst (readOTPResendDeadline lower e t st) = spec_read m (normalize_email lower e) t"
    by (simp add: implements_def)
  moreover have "otp_run lower (snd (readOTPResendDeadline lower e t st)) ops = spec_run lower m ops"
    using "4.IH" implements_read "4.prems" by fastforce
  ultimately show ?case by (simp add: case_prod_beta)
qed (auto intro: implements_start implements_clear)

lemma implements_fresh:
  assumes "usable st" "\<And>e k. has_key lower e \<Longrightarrow> storageKey lower e = Some k \<Longrightarrow> ls_items st k = None"
  shows "implements lower st Map.empty 0"
proof -
  have "fst (readOTPResendDeadline lower e u st) = 0" if "has_key lower e" for e u
    using assms that by (auto simp: readOTPResendDeadline_def Let_def split: option.splits)
  then show ?thesis using assms by (simp add: implements_def spec_read_def)
qed

end
