(* ===== verification/Login.thy ===== *)
theory Login
  imports AuthShell
begin

text \<open>
  The login page (\<open>src/frontend/src/app/login/page.tsx\<close>): the request for the position, the login
  request, the destination after a login (\<open>safeLoginDestination\<close>) and the form. A handler that
  awaits twice leaves a pending continuation with the values it captured when it was called.
\<close>

section \<open>Where a login leads\<close>

definition DEFAULT_LOGIN_DESTINATION :: jstr where
  "DEFAULT_LOGIN_DESTINATION = js ''/dashboard/profil''"

definition truthy :: "jstr option \<Rightarrow> bool" where
  "truthy v = (case v of None \<Rightarrow> False | Some s \<Rightarrow> s \<noteq> [])"

definition hasRequiredOAuthParameters :: "query \<Rightarrow> bool" where
  "hasRequiredOAuthParameters q =
     (let scope = param q ''scope''
      in query_get q ''response_type'' = Some (js ''code'')
         \<and> query_get q ''code_challenge_method'' = Some (js ''S256'')
         \<and> truthy (query_get q ''client_id'')
         \<and> truthy (query_get q ''redirect_uri'')
         \<and> truthy (query_get q ''state'')
         \<and> truthy (query_get q ''code_challenge'')
         \<and> scope \<noteq> []
         \<and> (js ''openid'' \<notin> set (split_on 32 scope) \<or> truthy (query_get q ''nonce'')))"

definition safeLoginDestination :: "bool \<Rightarrow> browser \<Rightarrow> jstr option \<Rightarrow> jstr" where
  "safeLoginDestination has_window b value =
     (if \<not> truthy value \<or> \<not> has_window then DEFAULT_LOGIN_DESTINATION
      else case b_parse_url b (the value) (Some (b_origin b)) of
        None \<Rightarrow> DEFAULT_LOGIN_DESTINATION
      | Some target \<Rightarrow>
          if url_origin target \<noteq> b_origin b \<or> url_pathname target \<noteq> js ''/oauth/authorize''
          then DEFAULT_LOGIN_DESTINATION
          else if hasRequiredOAuthParameters (url_params target)
               then url_pathname target @ url_search target
               else DEFAULT_LOGIN_DESTINATION)"

section \<open>The position\<close>

record position =
  latitude :: rat
  longitude :: rat
  accuracy :: rat

text \<open>\<open>answer\<close> is what \<open>getCurrentPosition\<close> calls back with, when the browser has it.\<close>

definition requestLocation :: "bool \<Rightarrow> js_error + position \<Rightarrow> js_error + position" where
  "requestLocation geolocation answer =
     (if \<not> geolocation
      then Inl (JsError ''Error'' None (js ''Browser ini tidak mendukung akses lokasi.''))
      else answer)"

definition error_code :: "js_error \<Rightarrow> int option" where
  "error_code e = (case e of APIError _ _ _ _ \<Rightarrow> None | JsError _ c _ \<Rightarrow> c | Thrown c \<Rightarrow> c)"

definition locationErrorMessage :: "js_error \<Rightarrow> jstr" where
  "locationErrorMessage e =
     (if error_code e = Some 1 then js ''Izin lokasi wajib diberikan untuk masuk.''
      else if error_code e = Some 3 then js ''Lokasi tidak berhasil diperoleh. Silakan coba lagi.''
      else case e of JsError _ _ m \<Rightarrow> m | APIError m _ _ _ \<Rightarrow> m
           | Thrown _ \<Rightarrow> js ''Lokasi tidak berhasil diperoleh.'')"

section \<open>The form\<close>

datatype login_pending = AwaitLocation jstr jstr | AwaitLogin

record login_state =
  li_email :: jstr
  li_password :: jstr
  li_error :: jstr
  li_errorCode :: json
  li_submitting :: bool
  li_pending :: "login_pending list"

datatype login_event =
    LoginEmail jstr
  | LoginPassword jstr
  | LoginSubmit
  | LocationAnswer nat "js_error + position"
  | LoginAnswer nat "js_error + user"

definition login_init :: login_state where
  "login_init = \<lparr>li_email = [], li_password = [], li_error = [], li_errorCode = JStr [],
     li_submitting = False, li_pending = []\<rparr>"

definition login_body :: "browser \<Rightarrow> jstr \<Rightarrow> jstr \<Rightarrow> position \<Rightarrow> json" where
  "login_body b email password p =
     JObj [(''email'', JStr email), (''password'', JStr password),
       (''location'', JObj [(''latitude'', JNum (latitude p)), (''longitude'', JNum (longitude p)),
          (''accuracy'', JNum (accuracy p))]),
       (''device'', JObj [(''platform'', JStr (if b_platform b = [] then js ''Browser'' else b_platform b)),
          (''language'', JStr (b_language b)), (''timezone'', JStr (b_timezone b))])]"

definition login_failed :: "js_error \<Rightarrow> login_state \<Rightarrow> login_state \<times> effect list" where
  "login_failed e s =
     (let message = (if is_api_error e then getErrorMessage e else locationErrorMessage e);
          s' = s\<lparr>li_error := message, li_submitting := False\<rparr>
      in (case e of
            APIError _ _ code _ \<Rightarrow>
              s'\<lparr>li_errorCode := (case code of None \<Rightarrow> JStr [] | Some JNull \<Rightarrow> JStr [] | Some c \<Rightarrow> c)\<rparr>
          | _ \<Rightarrow> s',
          [Toast Failure message]))"

fun login_step :: "browser \<Rightarrow> bool \<Rightarrow> login_state \<Rightarrow> login_event \<Rightarrow> login_state \<times> effect list" where
  "login_step b geo s (LoginEmail v) = (s\<lparr>li_email := v\<rparr>, [])"
| "login_step b geo s (LoginPassword v) = (s\<lparr>li_password := v\<rparr>, [])"
| "login_step b geo s LoginSubmit =
     (s\<lparr>li_submitting := True, li_error := [], li_errorCode := JStr [],
        li_pending := li_pending s @ [AwaitLocation (li_email s) (li_password s)]\<rparr>, [RequestLocation])"
| "login_step b geo s (LocationAnswer k r) =
     (let s' = s\<lparr>li_pending := drop_nth k (li_pending s)\<rparr>
      in case (li_pending s ! k, requestLocation geo r) of
           (AwaitLocation email password, Inr p) \<Rightarrow>
             (s'\<lparr>li_pending := li_pending s' @ [AwaitLogin]\<rparr>,
              [api b (js ''/api/auth/login'') (post (login_body b email password p))])
         | (AwaitLocation _ _, Inl e) \<Rightarrow> login_failed e s'
         | (AwaitLogin, _) \<Rightarrow> (s, []))"
| "login_step b geo s (LoginAnswer k r) =
     (let s' = s\<lparr>li_pending := drop_nth k (li_pending s)\<rparr>
      in case r of
           Inl e \<Rightarrow> login_failed e s'
         | Inr u \<Rightarrow> (s'\<lparr>li_submitting := False\<rparr>,
             [SetUser (Some u), Toast Success (js ''Login berhasil. Selamat datang kembali.''),
              RouterReplace (safeLoginDestination True b (query_get (b_params b) ''callbackUrl'')),
              RouterRefresh]))"

section \<open>The rendered form\<close>

definition LoginForm :: "browser \<Rightarrow> login_state \<Rightarrow> login_event node" where
  "LoginForm b s =
     El ''form'' [OnSubmit LoginSubmit]
      (show_if (query_get (b_params b) ''reset'' = Some (js ''success''))
         [El ''Alert'' [] [El ''CheckCircle2'' [] [],
            El ''AlertDescription'' [] [lit ''Kata sandi berhasil diperbarui. Silakan masuk menggunakan kata sandi baru.'']]]
       @ show_if (li_error s \<noteq> [])
         [alert
           [El (if li_errorCode s = JStr (js ''email_unverified'') then ''MailWarning''
                else if li_errorCode s = JStr (js ''account_inactive'') then ''Ban'' else ''AlertCircle'') [] [],
            El ''AlertDescription'' []
             (El ''p'' [] [Txt (li_error s)]
              # show_if (li_errorCode s = JStr (js ''email_unverified''))
                  [uri_link (js ''/verify-email?email='') (li_email s) [lit ''Verifikasi email sekarang'']]
              @ show_if (li_errorCode s = JStr (js ''account_inactive''))
                  [El ''p'' [] [lit ''Hubungi super admin PelajarNU Magetan ID untuk mengaktifkan kembali akun Anda.'']])]]
       @ [El ''div'' []
           [label ''email'' ''Email'',
            El ''Input'' [Attr ''id'' (js ''email''), Attr ''type'' (js ''email''), Attr ''autoComplete'' (js ''email''),
              Attr ''value'' (li_email s), OnInput LoginEmail, Attr ''placeholder'' (js ''nama@organisasi.id''),
              Flag ''required'' True] []],
          El ''div'' []
           [El ''div'' []
             [label ''password'' ''Kata sandi'', link (js ''/reset-password'') [lit ''Lupa kata sandi?'']],
            password_field [Attr ''id'' (js ''password''), Attr ''autoComplete'' (js ''current-password''),
              Attr ''value'' (li_password s), OnInput LoginPassword, Flag ''required'' True]],
          El ''Button'' [Flag ''disabled'' (li_submitting s)]
           [El (if li_submitting s then ''Spinner'' else ''LogIn'') [] [],
            lit (if li_submitting s then ''Memeriksa lokasi dan akun...'' else ''Masuk'')],
          El ''p'' [] [El ''LocateFixed'' [] [],
            lit ''Login memerlukan izin lokasi. Lokasi, IP, dan perangkat dicatat untuk keamanan akun.''],
          El ''p'' [] [lit ''Belum memiliki akun? '', link (js ''/register'') [lit ''Daftar'']]])"

definition LoginPage :: "public_env \<Rightarrow> browser \<Rightarrow> login_state \<Rightarrow> login_event node" where
  "LoginPage env b s =
     AuthShell env (js ''Selamat datang kembali'') (js ''Masuk menggunakan akun PelajarNU Magetan ID Anda.'')
       (Some (js ''Akses cepat & aman'')) (Some (js ''Kembali terhubung ke seluruh layanan.''))
       (Some (js ''Masuk sekali untuk melanjutkan aktivitas Anda di seluruh layanan digital PC IPNU IPPNU Kabupaten Magetan.''))
       [LoginForm b s]"

text \<open>
  The events that can happen: what the rendered page offers, and the answer of something pending.
\<close>

fun login_ok :: "public_env \<Rightarrow> browser \<Rightarrow> login_state \<Rightarrow> login_event \<Rightarrow> bool" where
  "login_ok env b s (LocationAnswer k r) =
     (k < length (li_pending s) \<and> li_pending s ! k \<noteq> AwaitLogin)"
| "login_ok env b s (LoginAnswer k r) = (k < length (li_pending s) \<and> li_pending s ! k = AwaitLogin)"
| "login_ok env b s e = offers (LoginPage env b s) e"

definition login_next :: "browser \<Rightarrow> bool \<Rightarrow> login_state \<Rightarrow> login_event \<Rightarrow> login_state" where
  "login_next b geo s e = fst (login_step b geo s e)"

section \<open>Lemmas\<close>

lemma login_offers_submit: "offers (LoginPage env b s) LoginSubmit \<longleftrightarrow> \<not> li_submitting s"
  by (auto simp: offers_def LoginPage_def LoginForm_def show_if_def alert_def split: option.split)

definition login_inv :: "login_state \<Rightarrow> bool" where
  "login_inv s = (length (li_pending s) = (if li_submitting s then 1 else 0))"

interpretation login: machine_invariant login_init "login_next b geo" "login_ok env b" login_inv
  for b :: browser and geo :: bool and env :: public_env
proof unfold_locales
  show "login_inv login_init" by (simp add: login_inv_def login_init_def)
next
  fix s e
  assume inv: "login_inv s" and ok: "login_ok env b s e"
  have one: "li_submitting s" "li_pending s = [li_pending s ! k]" "k = 0" if "k < length (li_pending s)" for k
    using inv that by (auto simp: login_inv_def length_Suc_conv split: if_splits)
  show "login_inv (login_next b geo s e)"
  proof (cases e)
    case LoginSubmit
    with ok have "\<not> li_submitting s" using login_offers_submit by simp
    with inv LoginSubmit show ?thesis by (simp add: login_inv_def login_next_def)
  next
    case (LocationAnswer k r)
    with ok one [of k] show ?thesis
      by (auto simp: login_inv_def login_next_def login_failed_def Let_def length_drop_nth
          split: login_pending.splits sum.splits js_error.splits)
  next
    case (LoginAnswer k r)
    with ok one [of k] show ?thesis
      by (auto simp: login_inv_def login_next_def login_failed_def Let_def length_drop_nth
          split: sum.splits js_error.splits)
  qed (use inv in \<open>auto simp: login_inv_def login_next_def\<close>)
qed

lemma safe_destination_cong:
  "b_origin b = b_origin b' \<Longrightarrow> b_parse_url b = b_parse_url b' \<Longrightarrow>
   safeLoginDestination w b v = safeLoginDestination w b' v"
  by (auto simp: safeLoginDestination_def split: option.split)

lemma safe_destination_cases:
  "safeLoginDestination w b v = DEFAULT_LOGIN_DESTINATION \<or>
   (\<exists>t. b_parse_url b (the v) (Some (b_origin b)) = Some t \<and> url_origin t = b_origin b
      \<and> url_pathname t = js ''/oauth/authorize'' \<and> hasRequiredOAuthParameters (url_params t)
      \<and> safeLoginDestination w b v = js ''/oauth/authorize'' @ url_search t)"
  by (auto simp: safeLoginDestination_def split: option.splits)

section \<open>Further facts\<close>

text \<open>In every reachable state of the login page at most one login (its request for the position or its
  request to the server) is under way, and none while its button is enabled.\<close>

lemma login_once:
  assumes "reach login_init (login_next b geo) (login_ok env b) s"
  shows "length (li_pending s) \<le> 1 \<and> (offers (LoginPage env b s) LoginSubmit \<longrightarrow> li_pending s = [])"
  using login.reach_inv [OF assms] by (auto simp: login_inv_def login_offers_submit split: if_splits)

end
