(* ===== verification/UserAvatar.thy ===== *)
theory UserAvatar
  imports Browser
begin

text \<open>
  The avatar of an account (\<open>components/user-avatar.tsx\<close>): the picture when there is a source that
  has not failed to load, else the initials of the name.
\<close>

definition split_ws :: "jstr \<Rightarrow> jstr list" where
  "split_ws s = foldr (\<lambda>u ws. if js_ws u then (case ws of [] \<Rightarrow> [[]] | [] # _ \<Rightarrow> ws | _ \<Rightarrow> [] # ws)
     else (case ws of [] \<Rightarrow> [[u]] | w # r \<Rightarrow> (u # w) # r)) s []"

text \<open>\<open>split(/\s+/).filter(Boolean)\<close>: the maximal runs without white space.\<close>

definition words :: "jstr \<Rightarrow> jstr list" where
  "words s = filter (\<lambda>w. w \<noteq> []) (split_ws s)"

definition getInitials :: "(jstr \<Rightarrow> jstr) \<Rightarrow> jstr \<Rightarrow> jstr" where
  "getInitials upper name = upper (take 2 (map hd (words (trim name))))"

definition currentSrc :: "jstr option \<Rightarrow> jstr" where
  "currentSrc src = (case src of Some v \<Rightarrow> trim v | None \<Rightarrow> [])"

definition showImage :: "jstr option \<Rightarrow> jstr \<Rightarrow> bool" where
  "showImage src failedSrc = (currentSrc src \<noteq> [] \<and> failedSrc \<noteq> currentSrc src)"

text \<open>The event \<open>onError\<close> of the picture records the failed source.\<close>

definition image_failed :: "jstr option \<Rightarrow> jstr \<Rightarrow> jstr" where
  "image_failed src failedSrc = (if showImage src failedSrc then currentSrc src else failedSrc)"

definition UserAvatar ::
  "(jstr \<Rightarrow> jstr) \<Rightarrow> jstr \<Rightarrow> jstr option \<Rightarrow> jstr \<Rightarrow> 'e node list \<Rightarrow> 'e node" where
  "UserAvatar upper name src failedSrc children =
     El ''Avatar'' [Attr ''data-avatar-status'' (if showImage src failedSrc then js ''image'' else js ''fallback'')]
      ((if showImage src failedSrc
        then [El ''img'' [Attr ''src'' (currentSrc src), Attr ''alt'' (js ''Foto profil '' @ name),
                Attr ''loading'' (js ''eager''), Attr ''decoding'' (js ''sync''),
                Attr ''fetchPriority'' (js ''high''), Flag ''draggable'' False] []]
        else [El ''AvatarFallback'' [] [Txt (getInitials upper name)]])
       @ children)"

section \<open>Lemmas\<close>

lemma UserAvatar_acts [simp]:
  "acts (UserAvatar up n s f ns) = concat (map acts ns)"
  "submits (UserAvatar up n s f ns) = list_ex submits ns"
  by (simp_all add: UserAvatar_def)

text \<open>A picture that failed to load is not shown again for the same source.\<close>

lemma failed_not_shown: "\<not> showImage src (image_failed src failedSrc)"
  by (simp add: showImage_def image_failed_def)

end
