(* ===== verification/Authorize.thy ===== *)
theory Authorize
  imports Login UserAvatar
begin

text \<open>
  The consent page (\<open>src/frontend/src/app/oauth/authorize/page.tsx\<close>): the request read from the
  query, the load of the client's context (an effect of the component, with its cleanup), the
  authorization request, the refusal and the change of account, and the three screens.
\<close>

section \<open>State\<close>

record client_info =
  ci_client_id :: jstr
  ci_name :: jstr
  ci_description :: jstr
  ci_allowed_scopes :: "jstr list"
  ci_consent_required :: bool
  ci_select_account :: bool

record oauth_request =
  rq_client_id :: jstr
  rq_redirect_uri :: jstr
  rq_response_type :: jstr
  rq_scope :: jstr
  rq_state :: jstr
  rq_code_challenge :: jstr
  rq_code_challenge_method :: jstr
  rq_nonce :: jstr
  rq_prompt :: jstr

definition oauth_request_of :: "query \<Rightarrow> oauth_request" where
  "oauth_request_of q =
     \<lparr>rq_client_id = param q ''client_id'', rq_redirect_uri = param q ''redirect_uri'',
      rq_response_type = param q ''response_type'', rq_scope = param q ''scope'',
      rq_state = param q ''state'', rq_code_challenge = param q ''code_challenge'',
      rq_code_challenge_method = param q ''code_challenge_method'',
      rq_nonce = param q ''nonce'', rq_prompt = param q ''prompt''\<rparr>"

definition request_entries :: "oauth_request \<Rightarrow> (string \<times> jstr) list" where
  "request_entries r =
     [(''client_id'', rq_client_id r), (''redirect_uri'', rq_redirect_uri r),
      (''response_type'', rq_response_type r), (''scope'', rq_scope r), (''state'', rq_state r),
      (''code_challenge'', rq_code_challenge r),
      (''code_challenge_method'', rq_code_challenge_method r), (''nonce'', rq_nonce r),
      (''prompt'', rq_prompt r)]"

definition complete :: "oauth_request \<Rightarrow> bool" where
  "complete r =
     (list_all (\<lambda>(key, value). key = ''nonce'' \<or> key = ''prompt'' \<or> value \<noteq> []) (request_entries r)
      \<and> rq_response_type r = js ''code''
      \<and> rq_code_challenge_method r = js ''S256''
      \<and> (js ''openid'' \<notin> set (split_on 32 (rq_scope r)) \<or> rq_nonce r \<noteq> []))"

text \<open>
  What is under way: the load of the context with the \<open>active\<close> flag of its effect, the microtask
  that reports an incomplete request, the authorization and the logout.
\<close>

datatype az_pending = AwaitContext bool | AwaitIncomplete | AwaitAuthorize | AwaitLogout

record authorize_state =
  az_user :: "user option"
  az_authLoading :: bool
  az_client :: "client_info option"
  az_loading :: bool
  az_approving :: bool
  az_error :: jstr
  az_pending :: "az_pending list"

datatype authorize_event =
    AuthChange "user option" bool
  | ContextAnswer nat "js_error + client_info"
  | IncompleteTask nat
  | Approve
  | Cancel
  | UseAnotherAccount
  | AuthorizeAnswer nat "js_error + jstr"
  | LogoutAnswer nat "js_error + unit"

section \<open>Handlers\<close>

definition authorize_body :: "oauth_request \<Rightarrow> bool \<Rightarrow> json" where
  "authorize_body r consentApproved =
     JObj (map (\<lambda>(k, v). (k, JStr v)) (request_entries r) @ [(''consent_approved'', JBool consentApproved)])"

definition submitAuthorization ::
  "browser \<Rightarrow> bool \<Rightarrow> authorize_state \<Rightarrow> authorize_state \<times> effect list" where
  "submitAuthorization b consentApproved s =
     (s\<lparr>az_approving := True, az_error := [], az_pending := az_pending s @ [AwaitAuthorize]\<rparr>,
      [api b (js ''/oauth/authorize'')
         (post (authorize_body (oauth_request_of (b_params b)) consentApproved))])"

definition redirect_in_payload :: "js_error \<Rightarrow> jstr option" where
  "redirect_in_payload e =
     (case e of APIError _ _ _ p \<Rightarrow>
        (case json_prop p ''redirect_url'' of Some (JStr u) \<Rightarrow> Some u | _ \<Rightarrow> None)
      | _ \<Rightarrow> None)"

definition authorization_settled ::
  "js_error + jstr \<Rightarrow> authorize_state \<Rightarrow> authorize_state \<times> effect list" where
  "authorization_settled r s =
     (case r of
        Inr redirect_url \<Rightarrow> (s, [LocationAssign redirect_url])
      | Inl e \<Rightarrow>
          (case redirect_in_payload e of
             Some u \<Rightarrow> (s, [LocationAssign u])
           | None \<Rightarrow>
               (let c = (case e of APIError _ _ code _ \<Rightarrow>
                           if code = Some (JStr (js ''consent_required''))
                           then map_option (ci_consent_required_update (\<lambda>_. True)) (az_client s)
                           else az_client s
                         | _ \<Rightarrow> az_client s)
                in (s\<lparr>az_client := c, az_error := getErrorMessage e, az_approving := False\<rparr>, []))))"

definition approve :: "browser \<Rightarrow> authorize_state \<Rightarrow> authorize_state \<times> effect list" where
  "approve b s =
     submitAuthorization b (case az_client s of Some c \<Rightarrow> ci_consent_required c | None \<Rightarrow> False) s"

text \<open>The URL object after \<open>searchParams.set\<close>, whose \<open>search\<close> is the serialised list.\<close>

definition set_param :: "string \<Rightarrow> jstr \<Rightarrow> url \<Rightarrow> url" where
  "set_param n v u =
     (let q = query_set n v (url_params u)
      in u\<lparr>url_params := q, url_search := js ''?'' @ query_string q\<rparr>)"

definition cancel :: "browser \<Rightarrow> authorize_state \<Rightarrow> authorize_state \<times> effect list" where
  "cancel b s =
     (case az_client s of
        None \<Rightarrow> (s, [])
      | Some _ \<Rightarrow>
          (case b_parse_url b (rq_redirect_uri (oauth_request_of (b_params b))) None of
             None \<Rightarrow> (s, [])
           | Some target \<Rightarrow>
               (s, [LocationAssign (b_url_string b
                      (set_param ''state'' (rq_state (oauth_request_of (b_params b)))
                        (set_param ''error'' (js ''access_denied'') target)))])))"

text \<open>The login address that leads back to this page; \<open>None\<close> where \<open>encodeURIComponent\<close> throws.\<close>

definition login_callback :: "jstr \<Rightarrow> jstr option" where
  "login_callback callback =
     map_option (\<lambda>e. js ''/login?callbackUrl='' @ e) (encodeURIComponent callback)"

definition uri_error :: js_error where
  "uri_error = JsError ''URIError'' None (js ''URI malformed'')"

definition useAnotherAccount :: "browser \<Rightarrow> authorize_state \<Rightarrow> authorize_state \<times> effect list" where
  "useAnotherAccount b s =
     (s\<lparr>az_approving := True, az_error := [], az_pending := az_pending s @ [AwaitLogout]\<rparr>,
      [api b (js ''/api/auth/logout'') post_empty])"

definition logout_settled ::
  "browser \<Rightarrow> js_error + unit \<Rightarrow> authorize_state \<Rightarrow> authorize_state \<times> effect list" where
  "logout_settled b r s =
     (let failed = (\<lambda>e. (s\<lparr>az_error := getErrorMessage e, az_approving := False\<rparr>, []))
      in case r of
           Inl e \<Rightarrow> failed e
         | Inr _ \<Rightarrow> (case login_callback (b_pathname b @ b_search b) of
             None \<Rightarrow> failed uri_error
           | Some target \<Rightarrow> (s, [RouterReplace target])))"

definition context_query :: "oauth_request \<Rightarrow> query" where
  "context_query r = [(js ''client_id'', rq_client_id r), (js ''redirect_uri'', rq_redirect_uri r),
     (js ''scope'', rq_scope r), (js ''prompt'', rq_prompt r)]"

text \<open>The effect of the component, and its cleanup before it runs again.\<close>

definition load_effect :: "browser \<Rightarrow> authorize_state \<Rightarrow> authorize_state \<times> effect list" where
  "load_effect b s =
     (if az_authLoading s then (s, [])
      else case az_user s of
        None \<Rightarrow> (s, case login_callback (b_pathname b @ b_search b) of
                      Some target \<Rightarrow> [RouterReplace target] | None \<Rightarrow> [])
      | Some _ \<Rightarrow>
          (let r = oauth_request_of (b_params b)
           in if \<not> complete r then (s\<lparr>az_pending := az_pending s @ [AwaitIncomplete]\<rparr>, [])
              else (s\<lparr>az_pending := az_pending s @ [AwaitContext True]\<rparr>,
                    [api b (js ''/api/oauth/authorization-context?'' @ query_string (context_query r)) get])))"

definition load_cleanup :: "authorize_state \<Rightarrow> authorize_state" where
  "load_cleanup s = s\<lparr>az_pending := map (\<lambda>p. case p of AwaitContext _ \<Rightarrow> AwaitContext False | _ \<Rightarrow> p) (az_pending s)\<rparr>"

definition authorize_mount :: "browser \<Rightarrow> user option \<Rightarrow> bool \<Rightarrow> authorize_state \<times> effect list" where
  "authorize_mount b u authLoading =
     load_effect b \<lparr>az_user = u, az_authLoading = authLoading, az_client = None, az_loading = True,
       az_approving = False, az_error = [], az_pending = []\<rparr>"

definition incomplete_message :: jstr where
  "incomplete_message = js ''Permintaan OAuth tidak lengkap. response_type=code, state, dan PKCE S256 wajib digunakan.''"

fun authorize_step ::
  "browser \<Rightarrow> authorize_state \<Rightarrow> authorize_event \<Rightarrow> authorize_state \<times> effect list" where
  "authorize_step b s (AuthChange u l) =
     (if u = az_user s \<and> l = az_authLoading s then (s, [])
      else load_effect b (load_cleanup (s\<lparr>az_user := u, az_authLoading := l\<rparr>)))"
| "authorize_step b s (ContextAnswer k r) =
     (let s' = s\<lparr>az_pending := drop_nth k (az_pending s)\<rparr>
      in if az_pending s ! k = AwaitContext True then
           (case r of Inr data \<Rightarrow> (s'\<lparr>az_client := Some data, az_loading := False\<rparr>, [])
            | Inl e \<Rightarrow> (s'\<lparr>az_error := getErrorMessage e, az_loading := False\<rparr>, []))
         else (s', []))"
| "authorize_step b s (IncompleteTask k) =
     (s\<lparr>az_pending := drop_nth k (az_pending s), az_error := incomplete_message, az_loading := False\<rparr>, [])"
| "authorize_step b s Approve = approve b s"
| "authorize_step b s Cancel = cancel b s"
| "authorize_step b s UseAnotherAccount = useAnotherAccount b s"
| "authorize_step b s (AuthorizeAnswer k r) =
     authorization_settled r (s\<lparr>az_pending := drop_nth k (az_pending s)\<rparr>)"
| "authorize_step b s (LogoutAnswer k r) =
     logout_settled b r (s\<lparr>az_pending := drop_nth k (az_pending s)\<rparr>)"

section \<open>The three screens\<close>

definition loading_screen :: "authorize_event node" where
  "loading_screen =
     El ''main'' [] [El ''Card'' []
       [El ''CardHeader'' [] [El ''Skeleton'' [] [], El ''Skeleton'' [] []],
        El ''CardContent'' [] [El ''Skeleton'' [] []]]]"

definition account_screen ::
  "public_env \<Rightarrow> browser \<Rightarrow> authorize_state \<Rightarrow> user \<Rightarrow> client_info \<Rightarrow> authorize_event node" where
  "account_screen env b s u c =
     El ''main'' [] [El ''Card'' []
       [El ''CardHeader'' []
         [Brand env False,
          El ''div'' []
           [El ''CardTitle'' [] [lit ''Pilih akun''],
            El ''CardDescription'' [] [lit ''Pilih akun untuk melanjutkan ke '',
              El ''span'' [] [Txt (ci_name c)], lit ''.'']]],
        El ''CardContent'' []
         (error_alert (az_error s)
          @ [El ''div'' []
              [El ''button'' [Attr ''type'' (js ''button''), OnClick Approve, Flag ''disabled'' (az_approving s)]
                [UserAvatar (b_upper b) (u_name u) (Some (u_avatar u)) []
                   [El ''AvatarBadge'' [] [El ''Check'' [] []]],
                 El ''span'' [] [El ''span'' [] [Txt (u_name u)], El ''span'' [] [Txt (u_email u)]],
                 El ''ChevronRight'' [] []],
               El ''Separator'' [] [],
               El ''button'' [Attr ''type'' (js ''button''), OnClick UseAnotherAccount,
                   Flag ''disabled'' (az_approving s)]
                [El ''span'' [] [El ''CircleUserRoundIcon'' [] []],
                 El ''span'' [] [El ''span'' [] [lit ''Gunakan akun lain''],
                   El ''span'' [] [lit ''Masuk dengan akun PelajarNU Magetan ID yang berbeda'']],
                 El ''ChevronRight'' [] []]],
             El ''Button'' [Attr ''variant'' (js ''ghost''), OnClick Cancel, Flag ''disabled'' (az_approving s)]
              [El ''X'' [] [], lit ''Batal'']])]]"

definition scope_label :: "jstr \<Rightarrow> jstr" where
  "scope_label scope =
     (if scope = js ''email'' then js ''Alamat email''
      else if scope = js ''profile'' then js ''Profil dasar''
      else if scope = js ''openid'' then js ''Identitas OpenID''
      else scope)"

definition requested_scopes :: "oauth_request \<Rightarrow> jstr list" where
  "requested_scopes r = filter (\<lambda>w. w \<noteq> []) (split_on 32 (rq_scope r))"

definition scope_rows :: "oauth_request \<Rightarrow> authorize_event node list" where
  "scope_rows r = map (\<lambda>scope. El ''div'' [Attr ''key'' scope]
       [El ''Check'' [] [], El ''span'' [] [Txt (scope_label scope)],
        El ''Badge'' [Attr ''variant'' (js ''secondary'')] [Txt scope]]) (requested_scopes r)"

definition client_rows :: "oauth_request \<Rightarrow> client_info \<Rightarrow> authorize_event node list" where
  "client_rows r c =
     El ''div'' []
      [El ''span'' [] [El ''AppWindow'' [] []],
       El ''div'' []
        [El ''p'' [] [Txt (ci_name c)],
         El ''p'' [] [Txt (if ci_description c = [] then js ''Aplikasi terdaftar PelajarNU Magetan ID''
                            else ci_description c)]]]
     # show_if (ci_consent_required c)
        [El ''div'' [] [El ''p'' [] [lit ''Aplikasi meminta:''], El ''div'' [] (scope_rows r)]]"

definition consent_screen ::
  "public_env \<Rightarrow> browser \<Rightarrow> authorize_state \<Rightarrow> user \<Rightarrow> authorize_event node" where
  "consent_screen env b s u =
     (let r = oauth_request_of (b_params b);
          cl = az_client s;
          known = (\<exists>c. cl = Some c \<and> \<not> ci_consent_required c)
      in El ''main'' [] [El ''Card'' []
       [El ''CardHeader'' []
         [Brand env False,
          El ''div'' []
           [El ''CardTitle'' [] [lit (case cl of
                Some c \<Rightarrow> if \<not> ci_consent_required c then ''Pilih akun'' else ''Izinkan akses aplikasi''
              | None \<Rightarrow> ''Izinkan akses aplikasi'')],
            El ''CardDescription'' [] [Txt (case cl of
                Some c \<Rightarrow> if \<not> ci_consent_required c
                  then js ''Pilih akun untuk melanjutkan ke '' @ ci_name c @ js ''.''
                  else js ''Tinjau identitas aplikasi dan scope sebelum melanjutkan.''
              | None \<Rightarrow> js ''Tinjau identitas aplikasi dan scope sebelum melanjutkan.'')]]],
        El ''CardContent'' []
         (error_alert (az_error s)
          @ (case cl of Some c \<Rightarrow> client_rows r c | None \<Rightarrow> [])
          @ [El ''Separator'' [] [],
             El ''div'' []
              [UserAvatar (b_upper b) (u_name u) (Some (u_avatar u)) [] [],
               El ''div'' [] [El ''p'' [] [Txt (js ''Masuk sebagai '' @ u_name u)], El ''p'' [] [Txt (u_email u)]],
               El ''ShieldCheck'' [] [],
               El ''Button'' [Attr ''variant'' (js ''ghost''), Attr ''size'' (js ''sm''), OnClick UseAnotherAccount,
                   Flag ''disabled'' (az_approving s)]
                [El ''CircleUserRoundIcon'' [] [], lit ''Ganti akun'']]]),
        El ''CardFooter'' []
         [El ''Button'' [Attr ''variant'' (js ''outline''), OnClick Cancel,
              Flag ''disabled'' (cl = None \<or> az_approving s)]
           [El ''X'' [] [], lit (case cl of Some c \<Rightarrow> if ci_consent_required c then ''Tolak'' else ''Batal''
                                  | None \<Rightarrow> ''Batal'')],
          El ''Button'' [OnClick Approve, Flag ''disabled'' (cl = None \<or> az_approving s)]
           [El (if az_approving s then ''Spinner'' else ''Check'') [] [],
            lit (if az_approving s then ''Memproses...''
                 else if known then ''Lanjut'' else ''Izinkan'')]]]])"

definition AuthorizeContent :: "public_env \<Rightarrow> browser \<Rightarrow> authorize_state \<Rightarrow> authorize_event node" where
  "AuthorizeContent env b s =
     (case az_user s of
        None \<Rightarrow> loading_screen
      | Some u \<Rightarrow>
          if az_authLoading s \<or> az_loading s then loading_screen
          else case az_client s of
            Some c \<Rightarrow> if \<not> ci_consent_required c then account_screen env b s u c
                       else consent_screen env b s u
          | None \<Rightarrow> consent_screen env b s u)"

text \<open>The page itself: while the query is not known (\<open>useSearchParams\<close> suspends) the fallback is shown.\<close>

definition AuthorizePage :: "bool \<Rightarrow> public_env \<Rightarrow> browser \<Rightarrow> authorize_state \<Rightarrow> authorize_event node" where
  "AuthorizePage suspended env b s =
     El ''Suspense'' []
      (if suspended then [El ''div'' [] [El ''Spinner'' [] []]] else [AuthorizeContent env b s])"

fun authorize_ok :: "public_env \<Rightarrow> browser \<Rightarrow> authorize_state \<Rightarrow> authorize_event \<Rightarrow> bool" where
  "authorize_ok env b s (AuthChange u l) = True"
| "authorize_ok env b s (ContextAnswer k r) =
     (k < length (az_pending s) \<and> (\<exists>a. az_pending s ! k = AwaitContext a))"
| "authorize_ok env b s (IncompleteTask k) = (k < length (az_pending s) \<and> az_pending s ! k = AwaitIncomplete)"
| "authorize_ok env b s (AuthorizeAnswer k r) = (k < length (az_pending s) \<and> az_pending s ! k = AwaitAuthorize)"
| "authorize_ok env b s (LogoutAnswer k r) = (k < length (az_pending s) \<and> az_pending s ! k = AwaitLogout)"
| "authorize_ok env b s e = offers (AuthorizeContent env b s) e"

definition authorize_next :: "browser \<Rightarrow> authorize_state \<Rightarrow> authorize_event \<Rightarrow> authorize_state" where
  "authorize_next b s e = fst (authorize_step b s e)"

section \<open>Lemmas\<close>

lemma complete_iff:
  "complete (oauth_request_of q) \<longleftrightarrow> hasRequiredOAuthParameters q"
  by (auto simp: complete_def request_entries_def oauth_request_of_def hasRequiredOAuthParameters_def
      param_def truthy_def Let_def split: option.splits)

lemma loading_screen_acts [simp]: "acts loading_screen = []"
  by (simp add: loading_screen_def)

lemma scope_rows_acts [simp]: "concat (map acts (scope_rows r)) = []" "list_ex submits (scope_rows r) = False"
  by (auto simp: scope_rows_def list_ex_iff)

lemma client_rows_acts [simp]: "concat (map acts (client_rows r c)) = []"
  by (simp add: client_rows_def show_if_def)

lemma account_offers:
  "offers (account_screen env b s u c) e \<longleftrightarrow> \<not> az_approving s \<and> e \<in> {Approve, UseAnotherAccount, Cancel}"
  by (auto simp: offers_def account_screen_def)

lemma consent_offers:
  "offers (consent_screen env b s u) e \<longleftrightarrow> \<not> az_approving s \<and>
     (e = UseAnotherAccount \<or> az_client s \<noteq> None \<and> e \<in> {Approve, Cancel})"
  by (auto simp: offers_def consent_screen_def Let_def split: option.split)

lemma authorize_offers:
  "offers (AuthorizeContent env b s) e \<longleftrightarrow>
     \<not> az_approving s \<and> az_user s \<noteq> None \<and> \<not> az_authLoading s \<and> \<not> az_loading s \<and>
     (e = UseAnotherAccount \<or> az_client s \<noteq> None \<and> e \<in> {Approve, Cancel})"
  by (auto simp: AuthorizeContent_def account_offers consent_offers offers_def [of loading_screen]
      split: option.splits)

lemma authorize_page_offers:
  "offers (AuthorizePage suspended env b s) e \<longleftrightarrow> \<not> suspended \<and> offers (AuthorizeContent env b s) e"
  by (simp add: AuthorizePage_def offers_def)

text \<open>The actions under way: an authorization or a logout.\<close>

definition is_action :: "az_pending \<Rightarrow> bool" where
  "is_action p = (p = AwaitAuthorize \<or> p = AwaitLogout)"

definition authorize_inv :: "authorize_state \<Rightarrow> bool" where
  "authorize_inv s = (length (filter is_action (az_pending s)) \<le> (if az_approving s then 1 else 0))"

lemma load_effect_fields:
  "az_approving (fst (load_effect b s)) = az_approving s"
  "filter is_action (az_pending (fst (load_effect b s))) = filter is_action (az_pending s)"
  by (auto simp: load_effect_def Let_def is_action_def split: option.split)

lemma filter_action_cleanup:
  "filter is_action (map (\<lambda>p. case p of AwaitContext _ \<Rightarrow> AwaitContext False | _ \<Rightarrow> p) xs) = filter is_action xs"
  by (induction xs) (auto simp: is_action_def split: az_pending.split)

lemma load_cleanup_fields:
  "az_approving (load_cleanup s) = az_approving s"
  "filter is_action (az_pending (load_cleanup s)) = filter is_action (az_pending s)"
  by (simp_all add: load_cleanup_def filter_action_cleanup)

lemma authorize_inv_step:
  assumes inv: "authorize_inv s" and ok: "authorize_ok env b s e"
  shows "authorize_inv (authorize_next b s e)"
proof -
  have rest: "length (filter is_action (drop_nth k (az_pending s))) \<le> (if az_approving s then 1 else 0)"
    if "k < length (az_pending s)" for k
    using inv that by (simp add: authorize_inv_def length_filter_drop_nth split: if_splits)
  have none: "length (filter is_action (drop_nth k (az_pending s))) = 0"
    if "k < length (az_pending s)" "is_action (az_pending s ! k)" for k
    using inv that length_filter_nth_pos [of k "az_pending s" is_action]
    by (simp add: authorize_inv_def length_filter_drop_nth split: if_splits)
  show ?thesis
  proof (cases e)
    case (AuthChange u l)
    with inv show ?thesis
      by (auto simp: authorize_next_def authorize_inv_def load_effect_fields load_cleanup_fields)
  next
    case (ContextAnswer k r)
    with ok rest [of k] show ?thesis
      by (auto simp: authorize_next_def authorize_inv_def Let_def split: sum.split)
  next
    case (IncompleteTask k)
    with ok rest [of k] show ?thesis by (simp add: authorize_next_def authorize_inv_def)
  next
    case (AuthorizeAnswer k r)
    with ok none [of k] show ?thesis
      by (auto simp: authorize_next_def authorize_inv_def authorization_settled_def is_action_def Let_def
          split: sum.split option.split)
  next
    case (LogoutAnswer k r)
    with ok none [of k] show ?thesis
      by (auto simp: authorize_next_def authorize_inv_def logout_settled_def is_action_def Let_def
          split: sum.split option.split)
  next
    case Cancel
    with inv show ?thesis
      by (auto simp: authorize_next_def authorize_inv_def cancel_def split: option.split)
  qed (use inv ok in \<open>auto simp: authorize_offers authorize_next_def authorize_inv_def approve_def
      submitAuthorization_def useAnotherAccount_def is_action_def\<close>)
qed

interpretation authorize: machine_invariant "fst (authorize_mount b u l)" "authorize_next b"
  "authorize_ok env b" authorize_inv
  for b :: browser and u :: "user option" and l :: bool and env :: public_env
proof unfold_locales
  show "authorize_inv (fst (authorize_mount b u l))"
    by (simp add: authorize_inv_def authorize_mount_def load_effect_fields)
qed (rule authorize_inv_step)

text \<open>The only event that sends an authorization is the approval.\<close>

definition authorization_sent :: "browser \<Rightarrow> effect list \<Rightarrow> bool \<Rightarrow> bool" where
  "authorization_sent b effs c =
     (api b (js ''/oauth/authorize'') (post (authorize_body (oauth_request_of (b_params b)) c)) \<in> set effs)"

lemma api_eq_iff [simp]:
  "api b p i = api b q j \<longleftrightarrow> apiFetch_request (b_api_url b) p i = apiFetch_request (b_api_url b) q j"
  by (simp add: api_def)

lemma post_bodies:
  "ri_body (post j) = Some (JsonText j)" "ri_body get = None" "ri_body post_empty = None"
  by (simp_all add: post_def get_def post_empty_def fetch_init_def)

lemma request_eqD:
  assumes "apiFetch_request u p i = apiFetch_request u q j"
  shows "p = q \<and> ri_body i = ri_body j"
  using request_credentials(3,4) [of u p i] request_credentials(3,4) [of u q j] assms by simp

lemma load_effect_sends: "\<not> authorization_sent b (snd (load_effect b s)) c"
  by (auto simp: authorization_sent_def load_effect_def Let_def post_bodies api_def
      dest!: request_eqD split: option.splits)

lemma authorization_sent_only_by_approve:
  assumes "authorization_sent b (snd (authorize_step b s e)) c"
  shows "e = Approve \<and> c = (case az_client s of Some i \<Rightarrow> ci_consent_required i | None \<Rightarrow> False)"
proof (cases e)
  case Approve
  with assms show ?thesis
    by (auto simp: authorization_sent_def approve_def submitAuthorization_def authorize_body_def
        dest!: arg_cong [where f = fr_body] simp: post_bodies)
next
  case (AuthChange u l)
  with assms show ?thesis using load_effect_sends by (auto simp: authorization_sent_def split: if_splits)
next
  case (AuthorizeAnswer k r)
  with assms show ?thesis
    by (auto simp: authorization_sent_def authorization_settled_def api_def Let_def split: sum.splits option.splits)
next
  case (LogoutAnswer k r)
  with assms show ?thesis
    by (auto simp: authorization_sent_def logout_settled_def api_def Let_def split: sum.splits option.splits)
next
  case UseAnotherAccount
  with assms show ?thesis
    by (auto simp: authorization_sent_def useAnotherAccount_def post_bodies dest!: request_eqD)
qed (use assms in \<open>auto simp: authorization_sent_def api_def cancel_def Let_def split: option.splits sum.splits if_splits\<close>)

lemma consent_screen_scopes:
  assumes "az_client s = Some c" "ci_consent_required c"
    "w \<in> set (requested_scopes (oauth_request_of (b_params b)))"
  shows "w \<in> set (texts (consent_screen env b s u))"
  using assms by (auto simp: consent_screen_def client_rows_def scope_rows_def Let_def)

lemma consent_screen_name:
  "az_client s = Some c \<Longrightarrow> ci_name c \<in> set (texts (consent_screen env b s u))"
  by (auto simp: consent_screen_def client_rows_def Let_def)

lemma requested_scopes_set: "w \<in> set (requested_scopes r) \<longleftrightarrow> w \<noteq> [] \<and> w \<in> set (split_on 32 (rq_scope r))"
  by (auto simp: requested_scopes_def)

section \<open>Changes of account\<close>

text \<open>
  The answers a run listens to: those of loads that are live when the answer comes. Only a change of
  account starts a load.
\<close>

fun listened :: "browser \<Rightarrow> authorize_state \<Rightarrow> authorize_event list \<Rightarrow> nat" where
  "listened b s [] = 0"
| "listened b s (e # es) =
     (case e of ContextAnswer k r \<Rightarrow> if az_pending s ! k = AwaitContext True then 1 else 0 | _ \<Rightarrow> 0)
     + listened b (authorize_next b s e) es"

fun is_auth_change :: "authorize_event \<Rightarrow> bool" where
  "is_auth_change (AuthChange u l) = True"
| "is_auth_change e = False"

definition live_loads :: "authorize_state \<Rightarrow> nat" where
  "live_loads s = length (filter (\<lambda>p. p = AwaitContext True) (az_pending s))"

text \<open>The same application, up to the mark that consent is required.\<close>

definition same_application :: "client_info option \<Rightarrow> client_info option \<Rightarrow> bool" where
  "same_application x y =
     (map_option (ci_consent_required_update (\<lambda>_. True)) x = map_option (ci_consent_required_update (\<lambda>_. True)) y)"

lemma same_application_trans: "same_application x y \<Longrightarrow> same_application y z \<Longrightarrow> same_application x z"
  by (simp add: same_application_def)

lemma live_loads_step:
  assumes "authorize_ok env b s e" "\<not> is_auth_change e"
  shows "live_loads (authorize_next b s e) + listened b s [e] \<le> live_loads s"
proof -
  have drop: "k < length (az_pending s) \<Longrightarrow> length (filter P (drop_nth k (az_pending s)))
      = length (filter P (az_pending s)) - (if P (az_pending s ! k) then 1 else 0)" for k P
    by (rule length_filter_drop_nth)
  have pos: "k < length (az_pending s) \<Longrightarrow> az_pending s ! k = AwaitContext True \<Longrightarrow> 0 < live_loads s" for k
    unfolding live_loads_def by (rule length_filter_nth_pos)
  show ?thesis using assms drop pos
    by (cases e) (auto simp: authorize_next_def live_loads_def authorization_settled_def logout_settled_def approve_def
        submitAuthorization_def useAnotherAccount_def cancel_def Let_def Suc_le_eq split: sum.split option.split)
qed

lemma unheard_step:
  assumes "\<not> is_auth_change e" "listened b s [e] = 0"
  shows "same_application (az_client (authorize_next b s e)) (az_client s)"
  using assms by (cases e) (auto simp: same_application_def authorize_next_def authorization_settled_def logout_settled_def
      approve_def submitAuthorization_def useAnotherAccount_def cancel_def Let_def option.map_comp o_def
      split: sum.split option.split js_error.split if_splits)

lemma listened_run:
  assumes "possible (authorize_next b) (authorize_ok env b) s es" "\<not> list_ex is_auth_change es"
  shows "listened b s es \<le> live_loads s"
    and "listened b s es = 0 \<Longrightarrow> same_application (az_client (run (authorize_next b) s es)) (az_client s)"
  using assms
proof (induction es arbitrary: s)
  case (Cons e es)
  { case 1
    with Cons.IH(1) [of "authorize_next b s e"] live_loads_step [of env b s e] show ?case by simp
  next
    case 2
    with Cons.IH(2) [of "authorize_next b s e"] unheard_step [of e b s] show ?case
      by (auto intro: same_application_trans)
  }
qed (simp_all add: same_application_def)

lemma change_kills_loads:
  assumes "u \<noteq> az_user s \<or> l \<noteq> az_authLoading s" "k < length (az_pending s)"
  shows "az_pending (authorize_next b s (AuthChange u l)) ! k \<noteq> AwaitContext True"
  using assms by (auto simp: authorize_next_def load_effect_def load_cleanup_def Let_def nth_append
      split: option.split az_pending.split)

lemma change_starts_load:
  assumes "u \<noteq> az_user s \<or> l \<noteq> az_authLoading s"
  shows "live_loads (authorize_next b s (AuthChange u l)) = length (sent (snd (authorize_step b s (AuthChange u l))))"
    and "length (sent (snd (authorize_step b s (AuthChange u l)))) \<le> (if u = None \<or> l then 0 else 1)"
    and "az_client (authorize_next b s (AuthChange u l)) = az_client s"
proof -
  have none: "filter (\<lambda>p. p = AwaitContext True) (map (\<lambda>p. case p of AwaitContext _ \<Rightarrow> AwaitContext False | _ \<Rightarrow> p) ps) = []" for ps
    by (induction ps) (auto split: az_pending.split)
  show "live_loads (authorize_next b s (AuthChange u l)) = length (sent (snd (authorize_step b s (AuthChange u l))))"
    "length (sent (snd (authorize_step b s (AuthChange u l)))) \<le> (if u = None \<or> l then 0 else 1)"
    "az_client (authorize_next b s (AuthChange u l)) = az_client s"
    using assms by (auto simp: live_loads_def authorize_next_def load_effect_def load_cleanup_def none Let_def split: option.split)
qed

text \<open>A change of account leaves the application and its buttons on the screen until the new load answers.\<close>

lemma former_application_offered:
  fixes b :: browser and v :: user
  assumes "az_client s = Some c" "\<not> az_loading s" "\<not> az_approving s"
  defines "t \<equiv> authorize_next b s (AuthChange (Some v) False)"
  shows "az_user t = Some v" and "az_client t = Some c" and "offers (AuthorizeContent env b t) Approve"
  using assms(1-3) by (auto simp: t_def authorize_offers authorize_next_def load_effect_def load_cleanup_def Let_def dest: sym)

end
