(* ===== verification/Register.thy ===== *)
theory Register
  imports AuthShell EmailOtp
begin

text \<open>
  The registration page (\<open>src/frontend/src/app/register/page.tsx\<close>): the checks before the request,
  the resend cooldown it starts or clears, the address of the verification page and the form. The
  browser store is part of the state, since the page shares it with the verification page.
\<close>

section \<open>State\<close>

record register_response =
  rr_message :: "jstr option"
  rr_queued :: bool
  rr_sent :: bool

record register_state =
  rg_name :: jstr
  rg_email :: jstr
  rg_phone :: jstr
  rg_gender :: jstr
  rg_password :: jstr
  rg_error :: jstr
  rg_submitting :: bool
  rg_turnstileToken :: jstr
  rg_turnstileResetKey :: nat
  rg_pending :: "jstr list"
  rg_store :: local_storage

text \<open>
  \<open>rg_pending\<close> holds the normalised address captured by each registration under way; an answer
  comes with the time at which its continuation runs.
\<close>

datatype register_event =
    RegName jstr
  | RegEmail jstr
  | RegPhone jstr
  | RegGender jstr
  | RegPassword jstr
  | RegToken jstr
  | RegSubmit
  | RegAnswer nat int "js_error + register_response"

definition register_init :: "local_storage \<Rightarrow> register_state" where
  "register_init st = \<lparr>rg_name = [], rg_email = [], rg_phone = [], rg_gender = [], rg_password = [],
     rg_error = [], rg_submitting = False, rg_turnstileToken = [], rg_turnstileResetKey = 0,
     rg_pending = [], rg_store = st\<rparr>"

section \<open>Handlers\<close>

definition normalizedPhone :: "jstr \<Rightarrow> jstr" where
  "normalizedPhone phone = filter (\<lambda>u. unat u \<notin> {32, 40, 41, 45}) (trim phone)"

text \<open>The pattern \<open>^\+?[0-9]{8,15}$\<close>.\<close>

definition phone_pattern :: "jstr \<Rightarrow> bool" where
  "phone_pattern p =
     (let ds = (if p \<noteq> [] \<and> hd p = 43 then tl p else p)
      in list_all digit16 ds \<and> 8 \<le> length ds \<and> length ds \<le> 15)"

definition genders :: "jstr list" where
  "genders = [js ''male'', js ''female'', js ''other'']"

definition register_body :: "jstr \<Rightarrow> register_state \<Rightarrow> json" where
  "register_body normalizedEmail s =
     JObj [(''name'', JStr (rg_name s)), (''email'', JStr normalizedEmail),
       (''phone'', JStr (normalizedPhone (rg_phone s))), (''gender'', JStr (rg_gender s)),
       (''password'', JStr (rg_password s)), (''turnstile_token'', JStr (rg_turnstileToken s))]"

definition register_submit :: "browser \<Rightarrow> register_state \<Rightarrow> register_state \<times> effect list" where
  "register_submit b s =
     (if \<not> phone_pattern (normalizedPhone (rg_phone s))
      then (s\<lparr>rg_error := js ''Nomor HP harus berisi 8'' @ [0x2013] @ js ''15 digit, boleh diawali + untuk kode negara.''\<rparr>, [])
      else if rg_gender s \<notin> set genders
      then (s\<lparr>rg_error := js ''Pilih jenis kelamin terlebih dahulu.''\<rparr>, [])
      else if rg_turnstileToken s = []
      then (s\<lparr>rg_error := js ''Selesaikan verifikasi keamanan sebelum membuat akun.''\<rparr>, [])
      else
        (let normalizedEmail = normalize_email (b_lower b) (rg_email s)
         in (s\<lparr>rg_submitting := True, rg_error := [], rg_pending := rg_pending s @ [normalizedEmail]\<rparr>,
             [api b (js ''/api/auth/register'') (post (register_body normalizedEmail s))])))"

definition verify_query :: "jstr \<Rightarrow> register_response \<Rightarrow> query" where
  "verify_query email r =
     (let q = [(js ''email'', email)]
      in if rr_queued r then query_set ''delivery'' (js ''queued'') q
         else if \<not> rr_sent r then query_set ''delivery'' (js ''failed'') q
         else q)"

definition register_toast :: "register_response \<Rightarrow> effect" where
  "register_toast r =
     (let message = (\<lambda>d. case rr_message r of Some m \<Rightarrow> m | None \<Rightarrow> js d)
      in if rr_queued r
         then Toast Success (message ''Akun berhasil dibuat. Kode verifikasi sedang dikirim ke email Anda.'')
         else if rr_sent r
         then Toast Success (message ''Akun berhasil dibuat dan OTP telah dikirim ke email Anda.'')
         else Toast Warning (message ''Akun berhasil dibuat, tetapi email OTP belum terkirim. Silakan kirim ulang kode.''))"

definition register_settled ::
  "browser \<Rightarrow> jstr \<Rightarrow> int \<Rightarrow> js_error + register_response \<Rightarrow> register_state \<Rightarrow> register_state \<times> effect list" where
  "register_settled b email now r s =
     (case r of
        Inr res \<Rightarrow>
          (s\<lparr>rg_submitting := False,
             rg_store := (if rr_queued res \<or> rr_sent res
                          then snd (startOTPResendCooldown (b_lower b) email now (rg_store s))
                          else clearOTPResendCooldown (b_lower b) email (rg_store s))\<rparr>,
           [register_toast res,
            RouterReplace (js ''/verify-email?'' @ query_string (verify_query email res))])
      | Inl e \<Rightarrow>
          (s\<lparr>rg_error := getErrorMessage e, rg_turnstileToken := [],
             rg_turnstileResetKey := Suc (rg_turnstileResetKey s), rg_submitting := False\<rparr>, []))"

fun register_step :: "browser \<Rightarrow> register_state \<Rightarrow> register_event \<Rightarrow> register_state \<times> effect list" where
  "register_step b s (RegName v) = (s\<lparr>rg_name := v\<rparr>, [])"
| "register_step b s (RegEmail v) = (s\<lparr>rg_email := v\<rparr>, [])"
| "register_step b s (RegPhone v) = (s\<lparr>rg_phone := v\<rparr>, [])"
| "register_step b s (RegGender v) = (s\<lparr>rg_gender := v\<rparr>, [])"
| "register_step b s (RegPassword v) = (s\<lparr>rg_password := v\<rparr>, [])"
| "register_step b s (RegToken v) = (s\<lparr>rg_turnstileToken := v\<rparr>, [])"
| "register_step b s RegSubmit = register_submit b s"
| "register_step b s (RegAnswer k now r) =
     register_settled b (rg_pending s ! k) now r (s\<lparr>rg_pending := drop_nth k (rg_pending s)\<rparr>)"

section \<open>The form\<close>

definition field :: "'e node list \<Rightarrow> 'e node" where
  "field ns = El ''div'' [] ns"

definition option_node :: "string \<Rightarrow> string \<Rightarrow> bool \<Rightarrow> 'e node" where
  "option_node v t off = El ''option'' [Attr ''value'' (js v), Flag ''disabled'' off] [lit t]"

definition too_short_hint :: "jstr \<Rightarrow> 'e node list" where
  "too_short_hint password = show_if (0 < length password \<and> \<not> 8 \<le> length password)
     [El ''div'' [Attr ''role'' (js ''status''), Attr ''aria-live'' (js ''polite'')]
        [El ''Circle'' [] [], El ''p'' [] [lit ''Gunakan minimal 8 karakter'']]]"

definition RegisterForm :: "register_state \<Rightarrow> register_event node" where
  "RegisterForm s =
     El ''form'' [OnSubmit RegSubmit]
      (error_alert (rg_error s)
       @ [field [label ''name'' ''Nama lengkap'',
            El ''Input'' [Attr ''id'' (js ''name''), Attr ''autoComplete'' (js ''name''), Attr ''value'' (rg_name s),
              OnInput RegName, Num ''minLength'' 2, Num ''maxLength'' 120, Flag ''required'' True] []],
          field [label ''email'' ''Email'',
            El ''Input'' [Attr ''id'' (js ''email''), Attr ''type'' (js ''email''), Attr ''autoComplete'' (js ''email''),
              Attr ''value'' (rg_email s), OnInput RegEmail, Flag ''required'' True] []],
          field
           [field [label ''phone'' ''Nomor HP'',
              El ''Input'' [Attr ''id'' (js ''phone''), Attr ''name'' (js ''phone''), Attr ''type'' (js ''tel''),
                Attr ''inputMode'' (js ''tel''), Attr ''autoComplete'' (js ''tel''), Attr ''placeholder'' (js ''0812 3456 7890''),
                Attr ''value'' (rg_phone s), OnInput RegPhone, Num ''maxLength'' 30,
                Attr ''aria-describedby'' (js ''phone-hint''), Flag ''required'' True] [],
              El ''p'' [Attr ''id'' (js ''phone-hint'')] [lit ''Bisa diawali 08 atau +62.'']],
            field [label ''gender'' ''Jenis kelamin'',
              field [El ''select'' [Attr ''id'' (js ''gender''), Attr ''name'' (js ''gender''), Attr ''value'' (rg_gender s),
                  OnInput RegGender, Flag ''required'' True]
                 [option_node '''' ''Pilih jenis kelamin'' True, option_node ''male'' ''Laki-laki'' False,
                  option_node ''female'' ''Perempuan'' False, option_node ''other'' ''Lainnya'' False],
                El ''ChevronDown'' [] []]]],
          field ([label ''password'' ''Kata sandi'',
             password_field [Attr ''id'' (js ''password''), Attr ''autoComplete'' (js ''new-password''),
               Attr ''value'' (rg_password s), OnInput RegPassword, Num ''minLength'' 8, Num ''maxLength'' 72,
               Flag ''required'' True]]
             @ too_short_hint (rg_password s)),
          El ''Turnstile'' [OnInput RegToken, Num ''resetKey'' (int (rg_turnstileResetKey s))] [],
          El ''Button'' [Flag ''disabled'' (rg_submitting s \<or> rg_turnstileToken s = [])]
           [El (if rg_submitting s then ''Spinner'' else ''UserPlus'') [] [],
            lit (if rg_submitting s then ''Membuat akun...'' else ''Buat akun'')],
          El ''p'' [] [lit ''Sudah punya akun?'', lit '' '', link (js ''/login'') [lit ''Masuk'']]])"

definition RegisterPage :: "public_env \<Rightarrow> register_state \<Rightarrow> register_event node" where
  "RegisterPage env s =
     AuthShell env (js ''Buat akun SSO'')
       (js ''Buat identitas PelajarNU Magetan ID untuk masuk ke layanan yang terhubung, kemudian verifikasi email Anda.'')
       (Some (js ''Satu akun, banyak layanan'')) (Some (js ''Mulai satu identitas untuk seluruh layanan.''))
       (Some (js ''Buat akun, verifikasi email, lalu gunakan identitas yang sama di setiap layanan digital organisasi.''))
       [RegisterForm s]"

fun register_ok :: "public_env \<Rightarrow> register_state \<Rightarrow> register_event \<Rightarrow> bool" where
  "register_ok env s (RegAnswer k now r) = (k < length (rg_pending s))"
| "register_ok env s e = offers (RegisterPage env s) e"

definition register_next :: "browser \<Rightarrow> register_state \<Rightarrow> register_event \<Rightarrow> register_state" where
  "register_next b s e = fst (register_step b s e)"

section \<open>Lemmas\<close>

lemma field_acts [simp]:
  "acts (field ns) = concat (map acts ns)" "submits (field ns) = list_ex submits ns"
  by (simp_all add: field_def)

lemma option_node_acts [simp]: "acts (option_node v t d) = []" "submits (option_node v t d) = False"
  by (simp_all add: option_node_def)

lemma too_short_hint_acts [simp]:
  "concat (map acts (too_short_hint p)) = []" "list_ex submits (too_short_hint p) = False"
  by (simp_all add: too_short_hint_def show_if_def)

lemma register_offers_submit:
  "offers (RegisterPage env s) RegSubmit \<longleftrightarrow> \<not> rg_submitting s \<and> rg_turnstileToken s \<noteq> []"
  by (auto simp: offers_def RegisterPage_def RegisterForm_def)

definition register_inv :: "register_state \<Rightarrow> bool" where
  "register_inv s = (length (rg_pending s) = (if rg_submitting s then 1 else 0))"

interpretation register: machine_invariant "register_init st" "register_next b" "register_ok env" register_inv
  for st :: local_storage and b :: browser and env :: public_env
proof unfold_locales
  show "register_inv (register_init st)" by (simp add: register_inv_def register_init_def)
next
  fix s e
  assume inv: "register_inv s" and ok: "register_ok env s e"
  show "register_inv (register_next b s e)"
  proof (cases e)
    case RegSubmit
    with ok have "\<not> rg_submitting s" using register_offers_submit by simp
    with inv RegSubmit show ?thesis
      by (auto simp: register_inv_def register_next_def register_submit_def Let_def)
  next
    case (RegAnswer k now r)
    with inv ok show ?thesis
      by (auto simp: register_inv_def register_next_def register_settled_def length_drop_nth
          split: sum.splits if_splits)
  qed (use inv in \<open>auto simp: register_inv_def register_next_def\<close>)
qed

lemma phone_pattern_chars:
  assumes "phone_pattern p" "u \<in> set p"
  shows "digit16 u \<or> u = 43"
  using assms by (cases p) (auto simp: phone_pattern_def list_all_iff Let_def split: if_splits)

lemma register_sends_iff:
  "sent (snd (register_submit b s)) \<noteq> [] \<longleftrightarrow>
     phone_pattern (normalizedPhone (rg_phone s)) \<and> rg_gender s \<in> set genders \<and> rg_turnstileToken s \<noteq> []"
  by (simp add: register_submit_def Let_def)

lemma phone_pattern_iff:
  "phone_pattern p = (\<exists>plus ds. p = plus @ ds \<and> plus \<in> {[], js ''+''} \<and> list_all digit16 ds
     \<and> 8 \<le> length ds \<and> length ds \<le> 15)"
proof
  have plus: "js ''+'' = [43]" by (simp add: js_def)
  assume p: "phone_pattern p"
  show "\<exists>plus ds. p = plus @ ds \<and> plus \<in> {[], js ''+''} \<and> list_all digit16 ds \<and> 8 \<le> length ds \<and> length ds \<le> 15"
  proof (cases "p \<noteq> [] \<and> hd p = 43")
    case True
    then have "p = [43] @ tl p" by (cases p) auto
    moreover from True p have "list_all digit16 (tl p)" "8 \<le> length (tl p)" "length (tl p) \<le> 15"
      by (simp_all add: phone_pattern_def Let_def)
    ultimately show ?thesis unfolding plus by blast
  next
    case False
    with p have "list_all digit16 p" "8 \<le> length p" "length p \<le> 15"
      by (auto simp: phone_pattern_def Let_def)
    then show ?thesis by (intro exI [of _ "[]"] exI [of _ p]) simp
  qed
next
  have plus: "js ''+'' = [43]" by (simp add: js_def)
  have "\<not> digit16 43" by (simp add: digit16_def)
  then have hd: "list_all digit16 ds \<Longrightarrow> ds \<noteq> [] \<Longrightarrow> hd ds \<noteq> 43" for ds
    by (cases ds) auto
  assume "\<exists>plus ds. p = plus @ ds \<and> plus \<in> {[], js ''+''} \<and> list_all digit16 ds
     \<and> 8 \<le> length ds \<and> length ds \<le> 15"
  then obtain pl ds where "p = pl @ ds" "pl = [] \<or> pl = [43]" "list_all digit16 ds" "8 \<le> length ds" "length ds \<le> 15"
    unfolding plus by blast
  with hd [of ds] show "phone_pattern p"
    by (auto simp: phone_pattern_def Let_def)
qed

section \<open>Further facts\<close>

text \<open>In every reachable state of the registration page at most one registration is under way, and none
  while its button is enabled.\<close>

lemma registration_once:
  assumes "reach (register_init st) (register_next b) (register_ok env) s"
  shows "length (rg_pending s) \<le> 1 \<and> (offers (RegisterPage env s) RegSubmit \<longrightarrow> rg_pending s = [])"
  using register.reach_inv [OF assms] by (auto simp: register_inv_def register_offers_submit split: if_splits)

end
