(* ===== verification/VerifyEmail.thy ===== *)
theory VerifyEmail
  imports Register
begin

text \<open>
  The verification page (\<open>src/frontend/src/app/verify-email/page.tsx\<close>): the code field, the check
  of the code, the resend with its countdown. The countdown is driven by two browser callbacks:
  the animation frame armed when the normalised address changes, which reads the stored deadline,
  and the interval that runs while the deadline lies ahead.
\<close>

section \<open>State\<close>

datatype verify_pending = AwaitVerify jstr | AwaitResend jstr

record verify_state =
  ve_email :: jstr
  ve_otp :: jstr
  ve_error :: jstr
  ve_submitting :: bool
  ve_resending :: bool
  ve_resendDeadline :: rat
  ve_now :: int
  ve_frame :: "jstr option"
  ve_interval :: bool
  ve_pending :: "verify_pending list"
  ve_store :: local_storage

datatype verify_event =
    VerEmail jstr
  | VerOtp jstr
  | VerSubmit
  | VerResend
  | VerFrame int
  | VerTick int
  | VerAnswer nat "js_error + unit"
  | ResendAnswer nat int "js_error + jstr option"

definition ve_normalized :: "browser \<Rightarrow> verify_state \<Rightarrow> jstr" where
  "ve_normalized b s = normalize_email (b_lower b) (ve_email s)"

definition resendIn :: "verify_state \<Rightarrow> int" where
  "resendIn s =
     (if ve_now s > 0 then max 0 \<lceil>(ve_resendDeadline s - of_int (ve_now s)) / 1000\<rceil> else 0)"

text \<open>The mount arms the frame for the address of the query.\<close>

definition verify_init :: "browser \<Rightarrow> local_storage \<Rightarrow> verify_state" where
  "verify_init b st =
     (let email = param (b_params b) ''email''
      in \<lparr>ve_email = email, ve_otp = [], ve_error = [], ve_submitting = False, ve_resending = False,
          ve_resendDeadline = 0, ve_now = 0, ve_frame = Some (normalize_email (b_lower b) email),
          ve_interval = False, ve_pending = [], ve_store = st\<rparr>)"

section \<open>Handlers\<close>

definition otp_filter :: "jstr \<Rightarrow> jstr" where
  "otp_filter v = take 6 (filter digit16 v)"

text \<open>
  Setting the deadline runs the interval effect: the old interval is cleared, a new one starts
  only when the deadline lies ahead of the clock. An unchanged deadline leaves the interval alone.
\<close>

definition set_deadline :: "int \<Rightarrow> rat \<Rightarrow> verify_state \<Rightarrow> verify_state" where
  "set_deadline t d s =
     (if d = ve_resendDeadline s then s
      else s\<lparr>ve_resendDeadline := d, ve_interval := (of_int t < d)\<rparr>)"

definition verify_submit :: "browser \<Rightarrow> verify_state \<Rightarrow> verify_state \<times> effect list" where
  "verify_submit b s =
     (s\<lparr>ve_submitting := True, ve_error := [], ve_pending := ve_pending s @ [AwaitVerify (ve_normalized b s)]\<rparr>,
      [api b (js ''/api/auth/verify-email'')
         (post (JObj [(''email'', JStr (trim (ve_email s))), (''otp'', JStr (ve_otp s))]))])"

definition verify_settled ::
  "browser \<Rightarrow> jstr \<Rightarrow> js_error + unit \<Rightarrow> verify_state \<Rightarrow> verify_state \<times> effect list" where
  "verify_settled b email r s =
     (case r of
        Inr _ \<Rightarrow> (s\<lparr>ve_submitting := False, ve_store := clearOTPResendCooldown (b_lower b) email (ve_store s)\<rparr>,
          [Toast Success (js ''Email berhasil diverifikasi. Silakan masuk.''), RouterReplace (js ''/login'')])
      | Inl e \<Rightarrow> (s\<lparr>ve_error := getErrorMessage e, ve_submitting := False\<rparr>,
          [Toast Failure (getErrorMessage e)]))"

definition resend :: "browser \<Rightarrow> verify_state \<Rightarrow> verify_state \<times> effect list" where
  "resend b s =
     (if ve_normalized b s = [] \<or> 0 < resendIn s then (s, [])
      else (s\<lparr>ve_resending := True, ve_error := [], ve_pending := ve_pending s @ [AwaitResend (ve_normalized b s)]\<rparr>,
            [api b (js ''/api/auth/resend-verification'')
               (post (JObj [(''email'', JStr (ve_normalized b s))]))]))"

definition resend_settled ::
  "browser \<Rightarrow> jstr \<Rightarrow> int \<Rightarrow> js_error + jstr option \<Rightarrow> verify_state \<Rightarrow> verify_state \<times> effect list" where
  "resend_settled b email t r s =
     (case r of
        Inr message \<Rightarrow>
          (let res = startOTPResendCooldown (b_lower b) email t (ve_store s)
           in (set_deadline t (of_int (fst res))
                 (s\<lparr>ve_store := snd res, ve_now := t, ve_resending := False\<rparr>),
               [Toast Message (case message of Some m \<Rightarrow> m
                  | None \<Rightarrow> js ''Permintaan kirim ulang OTP telah diproses.'')]))
      | Inl e \<Rightarrow> (s\<lparr>ve_error := getErrorMessage e, ve_resending := False\<rparr>,
          [Toast Failure (getErrorMessage e)]))"

fun pending_email :: "verify_pending \<Rightarrow> jstr" where
  "pending_email (AwaitVerify e) = e"
| "pending_email (AwaitResend e) = e"

fun verify_step :: "browser \<Rightarrow> verify_state \<Rightarrow> verify_event \<Rightarrow> verify_state \<times> effect list" where
  "verify_step b s (VerEmail v) =
     (let s' = s\<lparr>ve_email := v\<rparr>
      in if ve_normalized b s' = ve_normalized b s then (s', [])
         else (s'\<lparr>ve_frame := Some (ve_normalized b s')\<rparr>, []))"
| "verify_step b s (VerOtp v) = (s\<lparr>ve_otp := otp_filter v\<rparr>, [])"
| "verify_step b s VerSubmit = verify_submit b s"
| "verify_step b s VerResend = resend b s"
| "verify_step b s (VerFrame t) =
     (case ve_frame s of None \<Rightarrow> (s, [])
      | Some email \<Rightarrow>
          (let res = readOTPResendDeadline (b_lower b) email t (ve_store s)
           in (set_deadline t (fst res) (s\<lparr>ve_store := snd res, ve_now := t, ve_frame := None\<rparr>), [])))"
| "verify_step b s (VerTick t) = (s\<lparr>ve_now := t\<rparr>, [])"
| "verify_step b s (VerAnswer k r) =
     verify_settled b (pending_email (ve_pending s ! k)) r (s\<lparr>ve_pending := drop_nth k (ve_pending s)\<rparr>)"
| "verify_step b s (ResendAnswer k t r) =
     resend_settled b (pending_email (ve_pending s ! k)) t r (s\<lparr>ve_pending := drop_nth k (ve_pending s)\<rparr>)"

section \<open>The form\<close>

definition VerifyEmailForm :: "browser \<Rightarrow> verify_state \<Rightarrow> verify_event node" where
  "VerifyEmailForm b s =
     (let deliveryFailed = (query_get (b_params b) ''delivery'' = Some (js ''failed''));
          deliveryQueued = (query_get (b_params b) ''delivery'' = Some (js ''queued''))
      in El ''form'' [OnSubmit VerSubmit]
      ([El ''div'' []
         [El ''span'' [] [El ''MailCheck'' [] []],
          El ''div'' []
           [El ''p'' [] [lit (if deliveryQueued then ''Kode verifikasi sedang diproses'' else ''Periksa kotak masuk email'')],
            El ''p'' [] [lit (if deliveryQueued
               then ''Pengiriman berjalan di latar belakang dan biasanya tiba dalam beberapa detik. Periksa juga folder spam.''
               else ''Masukkan kode OTP dari PelajarNU Magetan ID. Kode hanya dapat digunakan satu kali dan memiliki batas waktu.'')]]]]
       @ show_if (deliveryFailed \<and> ve_error s = [])
          [El ''Alert'' [] [El ''MailWarning'' [] [],
             El ''AlertDescription'' [] [lit ''Akun Anda sudah dibuat, tetapi pengiriman email pertama gagal. Periksa alamat email lalu pilih Kirim ulang kode.'']]]
       @ error_alert (ve_error s)
       @ [field [label ''verification-email'' ''Email'',
            El ''Input'' [Attr ''id'' (js ''verification-email''), Attr ''type'' (js ''email''), Attr ''autoComplete'' (js ''email''),
              Attr ''value'' (ve_email s), OnInput VerEmail, Attr ''placeholder'' (js ''nama@organisasi.id''), Flag ''required'' True] []],
          field [label ''otp'' ''Kode OTP'',
            El ''Input'' [Attr ''id'' (js ''otp''), Attr ''inputMode'' (js ''numeric''), Attr ''autoComplete'' (js ''one-time-code''),
              Attr ''value'' (ve_otp s), OnInput VerOtp, Attr ''placeholder'' (js ''000000''),
              Num ''minLength'' 6, Num ''maxLength'' 6, Flag ''required'' True] []],
          El ''Button'' [Flag ''disabled'' (ve_submitting s \<or> length (ve_otp s) \<noteq> 6)]
           [El (if ve_submitting s then ''Spinner'' else ''MailCheck'') [] [],
            lit (if ve_submitting s then ''Memverifikasi...'' else ''Verifikasi email'')],
          El ''div'' []
           [El ''Button'' [Attr ''type'' (js ''button''), Attr ''variant'' (js ''ghost''),
               Flag ''disabled'' (ve_normalized b s = [] \<or> ve_resending s \<or> 0 < resendIn s), OnClick VerResend]
             [El (if ve_resending s then ''Spinner'' else ''RotateCw'') [] [],
              Txt (if 0 < resendIn s then js ''Kirim ulang dalam '' @ int_str (resendIn s) @ js '' detik''
                   else js ''Kirim ulang kode'')],
            El ''p'' [] [lit ''Sudah terverifikasi?'', lit '' '', link (js ''/login'') [lit ''Kembali ke login'']]]]))"

definition VerifyEmailPage :: "public_env \<Rightarrow> browser \<Rightarrow> verify_state \<Rightarrow> verify_event node" where
  "VerifyEmailPage env b s =
     AuthShell env (js ''Verifikasi email'')
       (js ''Selesaikan aktivasi email sebelum masuk ke layanan PelajarNU Magetan ID.'')
       (Some (js ''Aktivasi akun'')) (Some (js ''Satu langkah lagi untuk mulai terhubung.''))
       (Some (js ''Masukkan kode OTP yang dikirim secara aman ke email Anda untuk mengaktifkan identitas PelajarNU Magetan ID.''))
       [VerifyEmailForm b s]"

fun verify_ok :: "public_env \<Rightarrow> browser \<Rightarrow> verify_state \<Rightarrow> verify_event \<Rightarrow> bool" where
  "verify_ok env b s (VerFrame t) = (ve_frame s \<noteq> None \<and> 0 < t \<and> ve_now s \<le> t)"
| "verify_ok env b s (VerTick t) = (ve_interval s \<and> 0 < t \<and> ve_now s \<le> t)"
| "verify_ok env b s (VerAnswer k r) = (k < length (ve_pending s) \<and> (\<exists>e. ve_pending s ! k = AwaitVerify e))"
| "verify_ok env b s (ResendAnswer k t r) =
     (k < length (ve_pending s) \<and> (\<exists>e. ve_pending s ! k = AwaitResend e) \<and> 0 < t \<and> ve_now s \<le> t)"
| "verify_ok env b s e = offers (VerifyEmailPage env b s) e"

definition verify_next :: "browser \<Rightarrow> verify_state \<Rightarrow> verify_event \<Rightarrow> verify_state" where
  "verify_next b s e = fst (verify_step b s e)"

section \<open>Lemmas\<close>

lemma verify_offers:
  "offers (VerifyEmailPage env b s) VerSubmit \<longleftrightarrow> \<not> ve_submitting s \<and> length (ve_otp s) = 6"
  "offers (VerifyEmailPage env b s) VerResend \<longleftrightarrow>
     ve_normalized b s \<noteq> [] \<and> \<not> ve_resending s \<and> resendIn s \<le> 0"
  by (auto simp: offers_def VerifyEmailPage_def VerifyEmailForm_def Let_def show_if_def not_less)

fun is_verify :: "verify_pending \<Rightarrow> bool" where
  "is_verify (AwaitVerify e) = True"
| "is_verify (AwaitResend e) = False"

definition verify_inv :: "verify_state \<Rightarrow> bool" where
  "verify_inv s =
     (length (filter is_verify (ve_pending s)) = (if ve_submitting s then 1 else 0)
      \<and> length (filter (Not \<circ> is_verify) (ve_pending s)) = (if ve_resending s then 1 else 0)
      \<and> list_all digit16 (ve_otp s) \<and> length (ve_otp s) \<le> 6)"

lemma set_deadline_fields [simp]:
  "ve_pending (set_deadline t d s) = ve_pending s" "ve_submitting (set_deadline t d s) = ve_submitting s"
  "ve_resending (set_deadline t d s) = ve_resending s" "ve_otp (set_deadline t d s) = ve_otp s"
  "ve_now (set_deadline t d s) = ve_now s" "ve_resendDeadline (set_deadline t d s) = d"
  "ve_store (set_deadline t d s) = ve_store s" "ve_email (set_deadline t d s) = ve_email s"
  by (simp_all add: set_deadline_def)

lemma otp_filter_digits: "list_all digit16 (otp_filter v) \<and> length (otp_filter v) \<le> 6"
  by (auto simp: otp_filter_def list_all_iff dest: in_set_takeD)

lemma verify_inv_step:
  assumes inv: "verify_inv s" and ok: "verify_ok env b s e"
  shows "verify_inv (verify_next b s e)"
proof (cases e)
  case (VerOtp v)
  with inv otp_filter_digits [of v] show ?thesis by (simp add: verify_inv_def verify_next_def)
next
  case VerSubmit
  with inv ok show ?thesis by (simp add: verify_inv_def verify_next_def verify_submit_def verify_offers)
next
  case VerResend
  with inv ok show ?thesis
    by (simp add: verify_inv_def verify_next_def resend_def verify_offers)
next
  case (VerFrame t)
  with inv show ?thesis
    by (auto simp: verify_inv_def verify_next_def Let_def split: option.split)
next
  case (VerAnswer k r)
  with inv ok length_filter_nth_pos [of k "ve_pending s" is_verify] show ?thesis
    by (auto simp: verify_inv_def verify_next_def verify_settled_def length_filter_drop_nth
        filter_drop_nth_Nil_iff split: sum.split if_splits)
next
  case (ResendAnswer k t r)
  with inv ok length_filter_nth_pos [of k "ve_pending s" "Not \<circ> is_verify"] show ?thesis
    by (auto simp: verify_inv_def verify_next_def resend_settled_def Let_def length_filter_drop_nth
        filter_drop_nth_Nil_iff split: sum.split if_splits)
qed (use inv in \<open>auto simp: verify_inv_def verify_next_def Let_def\<close>)

interpretation verify: machine_invariant "verify_init b st" "verify_next b" "verify_ok env b" verify_inv
  for b :: browser and st :: local_storage and env :: public_env
proof unfold_locales
  show "verify_inv (verify_init b st)" by (simp add: verify_inv_def verify_init_def Let_def)
qed (rule verify_inv_step)

lemma resendIn_pos_iff: "0 < resendIn s \<longleftrightarrow> 0 < ve_now s \<and> of_int (ve_now s) < ve_resendDeadline s"
  by (auto simp: resendIn_def less_max_iff_disj zero_less_divide_iff)

lemma resendIn_bound:
  assumes "ve_resendDeadline s - of_int (ve_now s) \<le> 60000"
  shows "resendIn s \<le> 60"
  using assms by (simp add: resendIn_def ceiling_le_iff)

lemma frame_reads:
  fixes b :: browser
  defines "email \<equiv> normalize_email (b_lower b) (param (b_params b) ''email'')"
  shows "ve_resendDeadline (verify_next b (verify_init b st) (VerFrame u)) =
      fst (readOTPResendDeadline (b_lower b) email u st)"
    and "ve_now (verify_next b (verify_init b st) (VerFrame u)) = u"
  by (simp_all add: verify_next_def verify_init_def Let_def email_def)

lemma resendIn_after_read:
  assumes "ve_resendDeadline v = (if ve_now v < t + 60000 then of_int (t + 60000) else 0)" "0 < ve_now v" "t \<le> ve_now v"
  shows "(0 < resendIn v) = (ve_now v < t + 60000)" "resendIn v \<le> 60"
proof -
  have pos: "\<not> (of_int (ve_now v) :: rat) < 0"
    using assms(2) by (simp add: not_less)
  show "(0 < resendIn v) = (ve_now v < t + 60000)"
    unfolding resendIn_pos_iff assms(1) using assms(2) pos by (simp only: of_int_less_iff split: if_split) simp
  have "(of_int (t + 60000) :: rat) \<le> of_int (ve_now v + 60000)"
    by (simp only: of_int_le_iff) (use assms(3) in simp)
  then have d: "(of_int (t + 60000) :: rat) - of_int (ve_now v) \<le> 60000"
    by (simp only: of_int_add of_int_numeral)
  show "resendIn v \<le> 60"
    by (rule resendIn_bound) (use d pos assms(1) in \<open>simp split: if_split\<close>)
qed

section \<open>The interval\<close>

text \<open>While the interval runs, the clock of the page follows its ticks and nothing else changes.\<close>

lemma ticks_run: "run (verify_next b) s (map VerTick ws) = s\<lparr>ve_now := last (ve_now s # ws)\<rparr>"
  by (induction ws arbitrary: s) (simp_all add: verify_next_def)

lemma ticks_possible:
  "ve_interval s \<Longrightarrow> 0 < ve_now s \<Longrightarrow> sorted (ve_now s # ws) \<Longrightarrow> possible (verify_next b) (verify_ok env b) s (map VerTick ws)"
  by (induction ws arbitrary: s) (auto simp: verify_next_def)

lemma frame_starts_interval:
  fixes b :: browser
  defines "email \<equiv> normalize_email (b_lower b) (param (b_params b) ''email'')"
  assumes "of_int u < fst (readOTPResendDeadline (b_lower b) email u st)" "0 < u"
  shows "ve_interval (verify_next b (verify_init b st) (VerFrame u))"
  using assms by (simp add: verify_next_def verify_init_def set_deadline_def Let_def)

lemma frame_keeps:
  "ve_email (verify_next b (verify_init b st) (VerFrame u)) = param (b_params b) ''email''"
  "\<not> ve_resending (verify_next b (verify_init b st) (VerFrame u))"
  by (simp_all add: verify_next_def verify_init_def Let_def)

lemma countdown_value:
  assumes "ve_resendDeadline v = (if u < t + 60000 then of_int (t + 60000) else 0)" "0 < u" "u \<le> ve_now v"
  shows "resendIn v = max 0 \<lceil>of_int (t + 60000 - ve_now v) / (1000 :: rat)\<rceil>"
proof (cases "u < t + 60000")
  case True
  with assms show ?thesis by (simp add: resendIn_def)
next
  case False
  with assms(3) have "(of_int (t + 60000 - ve_now v) :: rat) \<le> 0" by (simp only: of_int_le_0_iff)
  then have "\<lceil>of_int (t + 60000 - ve_now v) / (1000 :: rat)\<rceil> \<le> 0"
    by (simp only: ceiling_le_iff of_int_0) (simp add: divide_le_0_iff)
  moreover have "\<lceil>- (of_int (ve_now v) :: rat) / 1000\<rceil> \<le> 0"
    using assms(2,3) by (simp add: ceiling_le_iff)
  ultimately show ?thesis using False assms by (simp add: resendIn_def del: of_int_diff of_int_add)
qed

lemma countdown_over: "max 0 \<lceil>of_int n / (1000 :: rat)\<rceil> \<le> 0 \<longleftrightarrow> n \<le> 0"
  by (simp add: ceiling_le_iff divide_le_0_iff)

section \<open>Further facts\<close>

text \<open>After a successful resend at time \<open>t\<close> the page shows, at any later tick \<open>u\<close>, the seconds that are left of
  the 60, rounded up, down to zero; and the resend button is then offered exactly when none are left.\<close>

lemma resend_countdown:
  assumes "verify_ok env b s (ResendAnswer k t (Inr m))" and "t \<le> u"
  shows "let v = verify_next b (verify_next b s (ResendAnswer k t (Inr m))) (VerTick u)
    in resendIn v = max 0 \<lceil>(of_int t + 60000 - of_int u) / (1000 :: rat)\<rceil>
       \<and> offers (VerifyEmailPage env b v) VerResend = (ve_normalized b s \<noteq> [] \<and> t + 60000 \<le> u)"
proof -
  let ?v = "verify_next b (verify_next b s (ResendAnswer k t (Inr m))) (VerTick u)"
  have f: "ve_resendDeadline ?v = of_int (t + 60000)" "ve_now ?v = u" "ve_resending ?v = False" "ve_email ?v = ve_email s"
    by (simp_all add: verify_next_def resend_settled_def start_result Let_def)
  have "0 < u" using assms by auto
  moreover have "((of_int t :: rat) + 60000 \<le> of_int u) = (t + 60000 \<le> u)"
    by (metis of_int_add of_int_le_iff of_int_numeral)
  ultimately show ?thesis using f
    by (simp add: verify_offers ve_normalized_def resendIn_def ceiling_le_iff Let_def flip: of_int_diff)
qed

end
