(* ===== verification/ResetPassword.thy ===== *)
theory ResetPassword
  imports Register
begin

text \<open>
  The password reset page (\<open>src/frontend/src/app/reset-password/page.tsx\<close>): the request of a link,
  and, with a token in the address, the new password. The token is taken from the query once and
  removed from the address bar. The three lengths of a password the code uses differ: code units
  (the registration page), code points and UTF-8 bytes (this page).
\<close>

section \<open>State\<close>

definition MINIMUM_PASSWORD_LENGTH :: nat where
  "MINIMUM_PASSWORD_LENGTH = 8"

datatype reset_pending = AwaitRequest | AwaitConfirm

record reset_state =
  rp_token :: jstr
  rp_email :: jstr
  rp_newPassword :: jstr
  rp_confirmPassword :: jstr
  rp_requestSent :: bool
  rp_error :: jstr
  rp_submitting :: bool
  rp_pending :: "reset_pending list"

datatype reset_event =
    ResEmail jstr
  | ResNew jstr
  | ResConfirmText jstr
  | ResRequest
  | ResConfirm
  | ResRequestAnswer nat "js_error + unit"
  | ResConfirmAnswer nat "js_error + unit"

definition reset_init :: "browser \<Rightarrow> reset_state" where
  "reset_init b = \<lparr>rp_token = trim (param (b_params b) ''token''), rp_email = [], rp_newPassword = [],
     rp_confirmPassword = [], rp_requestSent = False, rp_error = [], rp_submitting = False, rp_pending = []\<rparr>"

definition isResetFlow :: "reset_state \<Rightarrow> bool" where
  "isResetFlow s = (0 < length (rp_token s))"

definition passwordLength :: "jstr \<Rightarrow> nat" where
  "passwordLength p = length (code_points p)"

definition passwordTooLong :: "jstr \<Rightarrow> bool" where
  "passwordTooLong p = (length (text_encode p) > 72)"

definition passwordTooShort :: "jstr \<Rightarrow> bool" where
  "passwordTooShort p = (0 < passwordLength p \<and> passwordLength p < MINIMUM_PASSWORD_LENGTH)"

definition confirmationMismatch :: "reset_state \<Rightarrow> bool" where
  "confirmationMismatch s = (rp_confirmPassword s \<noteq> [] \<and> rp_newPassword s \<noteq> rp_confirmPassword s)"

section \<open>Handlers\<close>

text \<open>\<open>searchParams.delete(name)\<close> on a URL object; its \<open>search\<close> is serialised again.\<close>

definition delete_param :: "string \<Rightarrow> url \<Rightarrow> url" where
  "delete_param n u =
     (let q = filter (\<lambda>p. fst p \<noteq> js n) (url_params u)
      in u\<lparr>url_params := q, url_search := (if q = [] then [] else js ''?'' @ query_string q)\<rparr>)"

text \<open>The effect that cleans the address; \<open>location\<close> is the parsed address of the page.\<close>

definition clean_effect :: "url \<Rightarrow> reset_state \<Rightarrow> effect list" where
  "clean_effect location s =
     (if rp_token s = [] then []
      else (let cleanURL = delete_param ''token'' location
            in [HistoryReplace (url_pathname cleanURL @ url_search cleanURL @ url_hash cleanURL)]))"

definition requestReset :: "browser \<Rightarrow> reset_state \<Rightarrow> reset_state \<times> effect list" where
  "requestReset b s =
     (s\<lparr>rp_submitting := True, rp_error := [], rp_pending := rp_pending s @ [AwaitRequest]\<rparr>,
      [api b (js ''/api/auth/reset-password/request'') (post (JObj [(''email'', JStr (trim (rp_email s)))]))])"

definition confirmReset :: "browser \<Rightarrow> reset_state \<Rightarrow> reset_state \<times> effect list" where
  "confirmReset b s =
     (if passwordLength (rp_newPassword s) < MINIMUM_PASSWORD_LENGTH
      then (s\<lparr>rp_error := js ''Kata sandi baru minimal 8 karakter.''\<rparr>, [])
      else if passwordTooLong (rp_newPassword s)
      then (s\<lparr>rp_error := js ''Kata sandi maksimal 72 byte. Kurangi jumlah karakter atau simbol.''\<rparr>, [])
      else if rp_newPassword s \<noteq> rp_confirmPassword s
      then (s\<lparr>rp_error := js ''Konfirmasi kata sandi belum sama.''\<rparr>, [])
      else (s\<lparr>rp_submitting := True, rp_error := [], rp_pending := rp_pending s @ [AwaitConfirm]\<rparr>,
            [api b (js ''/api/auth/reset-password/confirm'')
               (post (JObj [(''token'', JStr (rp_token s)), (''new_password'', JStr (rp_newPassword s))]))]))"

definition reset_failed :: "js_error \<Rightarrow> reset_state \<Rightarrow> reset_state \<times> effect list" where
  "reset_failed e s = (s\<lparr>rp_error := getErrorMessage e, rp_submitting := False\<rparr>, [Toast Failure (getErrorMessage e)])"

fun reset_step :: "browser \<Rightarrow> reset_state \<Rightarrow> reset_event \<Rightarrow> reset_state \<times> effect list" where
  "reset_step b s (ResEmail v) = (s\<lparr>rp_email := v\<rparr>, [])"
| "reset_step b s (ResNew v) = (s\<lparr>rp_newPassword := v\<rparr>, [])"
| "reset_step b s (ResConfirmText v) = (s\<lparr>rp_confirmPassword := v\<rparr>, [])"
| "reset_step b s ResRequest = requestReset b s"
| "reset_step b s ResConfirm = confirmReset b s"
| "reset_step b s (ResRequestAnswer k r) =
     (let s' = s\<lparr>rp_pending := drop_nth k (rp_pending s)\<rparr>
      in case r of Inr _ \<Rightarrow> (s'\<lparr>rp_requestSent := True, rp_submitting := False\<rparr>, [])
         | Inl e \<Rightarrow> reset_failed e s')"
| "reset_step b s (ResConfirmAnswer k r) =
     (let s' = s\<lparr>rp_pending := drop_nth k (rp_pending s)\<rparr>
      in case r of
           Inr _ \<Rightarrow> (s'\<lparr>rp_submitting := False\<rparr>,
             [Toast Success (js ''Kata sandi berhasil diperbarui.''),
              RouterReplace (js ''/login?reset=success''), RouterRefresh])
         | Inl e \<Rightarrow> reset_failed e s')"

section \<open>The rendered page\<close>

definition sent_screen :: "public_env \<Rightarrow> reset_event node" where
  "sent_screen env =
     AuthShell env (js ''Periksa email Anda'') (js ''Permintaan pengaturan ulang telah diproses dengan aman.'')
       (Some (js ''Pemulihan akun'')) (Some (js ''Kembali ke akun Anda dengan aman.''))
       (Some (js ''Tautan reset berlaku selama 15 menit dan hanya dapat digunakan sekali. Jangan bagikan tautan ini kepada siapa pun.''))
       [El ''div'' [Attr ''aria-live'' (js ''polite'')]
         [El ''div'' []
           [El ''span'' [] [El ''MailCheck'' [] []],
            El ''div'' []
             [El ''p'' [] [lit ''Permintaan telah diterima''],
              El ''p'' [] [lit ''Jika akun terdaftar, aktif, dan emailnya sudah terverifikasi, tautan pengaturan ulang akan dikirim. Periksa juga folder spam.'']]],
          link (js ''/login'') [El ''ArrowLeft'' [] [], lit '' Kembali ke halaman masuk'']]]"

definition new_password_fields :: "reset_state \<Rightarrow> reset_event node list" where
  "new_password_fields s =
     [El ''div'' []
       [El ''span'' [] [El ''ShieldCheck'' [] []],
        El ''p'' [] [lit ''Setelah berhasil, seluruh sesi dan akses aplikasi lama akan dicabut. Anda perlu masuk kembali menggunakan kata sandi baru.'']],
      field ([label ''new-password'' ''Kata sandi baru'',
          password_field [Attr ''id'' (js ''new-password''), Attr ''autoComplete'' (js ''new-password''),
            Attr ''value'' (rp_newPassword s), OnInput ResNew, Flag ''required'' True,
            Num ''minLength'' (int MINIMUM_PASSWORD_LENGTH), Num ''maxLength'' 72]]
        @ show_if (passwordTooShort (rp_newPassword s))
            [El ''p'' [] [El ''AlertCircle'' [] [], lit '' Gunakan minimal 8 karakter'']]
        @ show_if (passwordTooLong (rp_newPassword s))
            [El ''p'' [] [lit ''Kata sandi maksimal 72 byte. Kurangi jumlah karakter atau simbol.'']]),
      field ([label ''confirm-password'' ''Konfirmasi kata sandi baru'',
          password_field [Attr ''id'' (js ''confirm-password''), Attr ''autoComplete'' (js ''new-password''),
            Attr ''value'' (rp_confirmPassword s), OnInput ResConfirmText, Flag ''required'' True,
            Num ''minLength'' (int MINIMUM_PASSWORD_LENGTH), Num ''maxLength'' 72]]
        @ show_if (confirmationMismatch s)
            [El ''p'' [] [El ''AlertCircle'' [] [], lit '' Kata sandi belum sama'']]),
      El ''Button'' [Flag ''disabled'' (rp_submitting s
           \<or> passwordLength (rp_newPassword s) < MINIMUM_PASSWORD_LENGTH
           \<or> passwordTooLong (rp_newPassword s) \<or> rp_newPassword s \<noteq> rp_confirmPassword s)]
       [El (if rp_submitting s then ''Spinner'' else ''KeyRound'') [] [],
        lit (if rp_submitting s then ''Menyimpan...'' else ''Simpan kata sandi baru'')]]"

definition request_fields :: "reset_state \<Rightarrow> reset_event node list" where
  "request_fields s =
     [field [label ''reset-email'' ''Email'',
        El ''Input'' [Attr ''id'' (js ''reset-email''), Attr ''type'' (js ''email''), Attr ''autoComplete'' (js ''email''),
          Attr ''value'' (rp_email s), OnInput ResEmail, Attr ''placeholder'' (js ''nama@organisasi.id''),
          Flag ''required'' True, Num ''maxLength'' 254] []],
      El ''Button'' [Flag ''disabled'' (rp_submitting s)]
       [El (if rp_submitting s then ''Spinner'' else ''Mail'') [] [],
        lit (if rp_submitting s then ''Memproses...'' else ''Kirim tautan reset'')]]"

definition PasswordResetForm :: "public_env \<Rightarrow> reset_state \<Rightarrow> reset_event node" where
  "PasswordResetForm env s =
     (if \<not> isResetFlow s \<and> rp_requestSent s then sent_screen env
      else AuthShell env
        (if isResetFlow s then js ''Buat kata sandi baru'' else js ''Atur ulang kata sandi'')
        (if isResetFlow s
         then js ''Gunakan kata sandi baru untuk mengamankan kembali akun PelajarNU Magetan ID Anda.''
         else js ''Masukkan email akun PelajarNU Magetan ID untuk menerima tautan pengaturan ulang.'')
        (Some (js ''Pemulihan akun'')) (Some (js ''Kembali ke akun Anda dengan aman.''))
        (Some (js ''Tautan reset dibatasi waktu, hanya dapat digunakan sekali, dan seluruh sesi lama dicabut setelah kata sandi diperbarui.''))
        [El ''form'' [OnSubmit (if isResetFlow s then ResConfirm else ResRequest)]
          (show_if (rp_error s \<noteq> [])
             [alert [El ''AlertCircle'' [] [],
               El ''AlertDescription'' []
                (Txt (rp_error s) # show_if (isResetFlow s)
                   [El ''a'' [Attr ''href'' (js ''/reset-password'')] [lit ''Minta tautan reset baru'']])]]
           @ (if isResetFlow s then new_password_fields s else request_fields s)
           @ [El ''p'' [] [lit ''Ingat kata sandi Anda?'', lit '' '', link (js ''/login'') [lit ''Masuk'']]])])"

text \<open>The page itself, with the fallback of its \<open>Suspense\<close>.\<close>

definition ResetPasswordPage :: "bool \<Rightarrow> public_env \<Rightarrow> reset_state \<Rightarrow> reset_event node" where
  "ResetPasswordPage suspended env s =
     El ''Suspense'' []
      (if suspended then [El ''div'' [] [El ''Spinner'' [] []]] else [PasswordResetForm env s])"

fun reset_ok :: "public_env \<Rightarrow> reset_state \<Rightarrow> reset_event \<Rightarrow> bool" where
  "reset_ok env s (ResRequestAnswer k r) = (k < length (rp_pending s) \<and> rp_pending s ! k = AwaitRequest)"
| "reset_ok env s (ResConfirmAnswer k r) = (k < length (rp_pending s) \<and> rp_pending s ! k = AwaitConfirm)"
| "reset_ok env s e = offers (PasswordResetForm env s) e"

definition reset_next :: "browser \<Rightarrow> reset_state \<Rightarrow> reset_event \<Rightarrow> reset_state" where
  "reset_next b s e = fst (reset_step b s e)"

section \<open>Lemmas\<close>

definition acceptable :: "jstr \<Rightarrow> jstr \<Rightarrow> bool" where
  "acceptable p c = (8 \<le> length (code_points p) \<and> length (text_encode p) \<le> 72 \<and> p = c)"

lemma sent_screen_acts [simp]: "acts (sent_screen env) = []"
  by (simp add: sent_screen_def)

lemma reset_page_offers:
  "offers (ResetPasswordPage suspended env s) e \<longleftrightarrow> \<not> suspended \<and> offers (PasswordResetForm env s) e"
  by (simp add: ResetPasswordPage_def offers_def)

lemma reset_offers:
  "offers (PasswordResetForm env s) ResConfirm \<longleftrightarrow>
     isResetFlow s \<and> \<not> rp_submitting s \<and> acceptable (rp_newPassword s) (rp_confirmPassword s)"
  "offers (PasswordResetForm env s) ResRequest \<longleftrightarrow>
     \<not> isResetFlow s \<and> \<not> rp_requestSent s \<and> \<not> rp_submitting s"
  by (auto simp: offers_def PasswordResetForm_def new_password_fields_def request_fields_def show_if_def alert_def
      acceptable_def passwordLength_def passwordTooLong_def MINIMUM_PASSWORD_LENGTH_def)

lemma confirm_sends_iff:
  "sent (snd (confirmReset b s)) \<noteq> [] \<longleftrightarrow> acceptable (rp_newPassword s) (rp_confirmPassword s)"
  by (auto simp: confirmReset_def acceptable_def passwordLength_def passwordTooLong_def MINIMUM_PASSWORD_LENGTH_def)

definition reset_inv :: "reset_state \<Rightarrow> bool" where
  "reset_inv s = (length (rp_pending s) = (if rp_submitting s then 1 else 0))"

lemma reset_inv_step:
  assumes inv: "reset_inv s" and ok: "reset_ok env s e"
  shows "reset_inv (reset_next b s e)"
proof (cases e)
  case ResConfirm
  with inv ok show ?thesis by (auto simp: reset_inv_def reset_next_def confirmReset_def reset_offers)
next
  case ResRequest
  with inv ok show ?thesis by (auto simp: reset_inv_def reset_next_def requestReset_def reset_offers)
next
  case (ResRequestAnswer k r)
  with inv ok show ?thesis
    by (auto simp: reset_inv_def reset_next_def reset_failed_def Let_def length_drop_nth split: sum.splits if_splits)
next
  case (ResConfirmAnswer k r)
  with inv ok show ?thesis
    by (auto simp: reset_inv_def reset_next_def reset_failed_def Let_def length_drop_nth split: sum.splits if_splits)
qed (use inv in \<open>auto simp: reset_inv_def reset_next_def\<close>)

interpretation reset: machine_invariant "reset_init b" "reset_next b" "reset_ok env" reset_inv
  for b :: browser and env :: public_env
proof unfold_locales
  show "reset_inv (reset_init b)" by (simp add: reset_inv_def reset_init_def)
qed (rule reset_inv_step)

lemma delete_param_gone: "query_get (url_params (delete_param n u)) n = None"
  by (auto simp: delete_param_def query_get_def map_of_eq_None_iff Let_def)

lemma utf8_usv_pos: "1 \<le> length (utf8 (usv c))"
  by (simp add: utf8_length)

lemma text_encode_ge: "length (code_points p) \<le> length (text_encode p)"
proof -
  have "length cs \<le> length (concat (map (\<lambda>c. utf8 (usv c)) cs))" for cs
  proof (induction cs)
    case (Cons c cs)
    then show ?case using utf8_usv_pos [of c] by simp
  qed simp
  then show ?thesis by (simp add: text_encode_def)
qed

lemma delete_param_other:
  "m \<noteq> n \<Longrightarrow> query_get (url_params (delete_param n u)) m = query_get (url_params u) m"
proof -
  assume "m \<noteq> n"
  then have "map_of (filter (\<lambda>p. fst p \<noteq> js n) qs) (js m) = map_of qs (js m)" for qs :: query
    by (induction qs) auto
  then show ?thesis by (simp add: delete_param_def query_get_def Let_def)
qed

section \<open>Further facts\<close>

text \<open>A password of four characters outside the basic plane (eight UTF-16 units) raises no hint on the
  registration page, while the reset page refuses it as too short: the two pages measure different lengths.\<close>

lemma password_lengths_differ:
  "\<exists>p. too_short_hint p = [] \<and> 8 \<le> length p \<and> sent (snd (confirmReset b (s\<lparr>rp_newPassword := p, rp_confirmPassword := p\<rparr>))) = []"
proof (intro exI conjI)
  let ?p = "[0xD83D, 0xDE00, 0xD83D, 0xDE00, 0xD83D, 0xDE00, 0xD83D, 0xDE00] :: jstr"
  show "too_short_hint ?p = []" "8 \<le> length ?p" by (simp_all add: too_short_hint_def)
  have "length (code_points ?p) = 4" by (simp add: is_high_def is_low_def)
  then show "sent (snd (confirmReset b (s\<lparr>rp_newPassword := ?p, rp_confirmPassword := ?p\<rparr>))) = []"
    by (simp add: confirmReset_def passwordLength_def MINIMUM_PASSWORD_LENGTH_def)
qed

end
