(* ===== verification/Widgets.thy ===== *)
theory Widgets
  imports AuthShell
begin

text \<open>
  What the dashboard pages share: the page header (\<open>components/page-header.tsx\<close>), the confirmation
  dialog and the empty state they build from the UI kit, the page navigation of the lists
  (\<open>components/data-pagination.tsx\<close>) and the dates (\<open>lib/date-time.ts\<close>). \<open>fill\<close> writes out what
  an ellipsis stands for.
\<close>

section \<open>Header, confirmation, empty state\<close>

definition failed_toast :: "js_error \<Rightarrow> effect list" where
  "failed_toast e = [Toast Failure (getErrorMessage e)]"

definition page_header :: "string \<Rightarrow> string \<Rightarrow> 'e node list \<Rightarrow> 'e node" where
  "page_header title description action =
     El ''div'' [] (El ''div'' [] [El ''h1'' [] [lit title], El ''p'' [] [lit description]]
       # show_if (action \<noteq> []) [El ''div'' [] action])"

definition confirm_dialog :: "'e attr list \<Rightarrow> 'e node list \<Rightarrow> string \<Rightarrow> jstr \<Rightarrow> 'e attr list \<Rightarrow> 'e node list \<Rightarrow> 'e node" where
  "confirm_dialog trigger_props trigger title description action_props action =
     El ''AlertDialog'' []
      [El ''AlertDialogTrigger'' [] [El ''Button'' (Attr ''type'' (js ''button'') # trigger_props) trigger],
       El ''AlertDialogContent'' []
        [El ''AlertDialogHeader'' [] [El ''AlertDialogTitle'' [] [lit title],
           El ''AlertDialogDescription'' [] [Txt description]],
         El ''AlertDialogFooter'' [] [El ''AlertDialogCancel'' [] [lit ''Batal''],
           El ''AlertDialogAction'' (Attr ''variant'' (js ''destructive'') # action_props) action]]]"

definition empty_box :: "string \<Rightarrow> string \<Rightarrow> string \<Rightarrow> 'e node" where
  "empty_box icon title description =
     El ''Empty'' [] [El ''EmptyHeader'' [] [El ''EmptyMedia'' [Attr ''variant'' (js ''icon'')] [El icon [] []],
       El ''EmptyTitle'' [] [lit title], El ''EmptyDescription'' [] [lit description]]]"

section \<open>Page numbers\<close>

datatype page_item = Page int | EllipsisStart | EllipsisEnd

definition pageItems :: "int \<Rightarrow> int \<Rightarrow> page_item list" where
  "pageItems page totalPages =
     (if totalPages \<le> 7 then map Page [1..totalPages]
      else if page \<le> 4 then [Page 1, Page 2, Page 3, Page 4, Page 5, EllipsisEnd, Page totalPages]
      else if page \<ge> totalPages - 3
      then [Page 1, EllipsisStart, Page (totalPages - 4), Page (totalPages - 3), Page (totalPages - 2),
            Page (totalPages - 1), Page totalPages]
      else [Page 1, EllipsisStart, Page (page - 1), Page page, Page (page + 1), EllipsisEnd, Page totalPages])"

definition page_button :: "int \<Rightarrow> (int \<Rightarrow> 'e) \<Rightarrow> page_item \<Rightarrow> 'e node" where
  "page_button page onPageChange item =
     (case item of
        Page n \<Rightarrow> El ''Button'' ([Num ''key'' n, Attr ''variant'' (js (if n = page then ''default'' else ''outline'')),
            Attr ''size'' (js ''icon-sm''), OnClick (onPageChange n), Attr ''aria-label'' (js ''Halaman '' @ int_str n)]
            @ show_if (n = page) [Attr ''aria-current'' (js ''page'')]) [Txt (int_str n)]
      | EllipsisStart \<Rightarrow> El ''span'' [Attr ''key'' (js ''ellipsis-start''), Flag ''aria-hidden'' True] [El ''MoreHorizontal'' [] []]
      | EllipsisEnd \<Rightarrow> El ''span'' [Attr ''key'' (js ''ellipsis-end''), Flag ''aria-hidden'' True] [El ''MoreHorizontal'' [] []])"

definition DataPagination :: "int \<Rightarrow> int \<Rightarrow> int \<Rightarrow> string \<Rightarrow> (int \<Rightarrow> 'e) \<Rightarrow> 'e node" where
  "DataPagination page totalPages totalItems itemLabel onPageChange =
     (let safeTotalPages = max 1 totalPages
      in El ''div'' []
      [El ''p'' [] [Txt (js ''Halaman '' @ int_str page @ js '' dari '' @ int_str safeTotalPages @ js '' '' @ [0xB7]
         @ js '' '' @ int_str totalItems @ js '' '' @ js itemLabel)],
       El ''nav'' [Attr ''aria-label'' (js ''Navigasi halaman'')]
        [El ''Button'' [Attr ''variant'' (js ''outline''), Attr ''size'' (js ''icon-sm''), Flag ''disabled'' (page \<le> 1),
            OnClick (onPageChange (page - 1)), Attr ''aria-label'' (js ''Halaman sebelumnya'')] [El ''ChevronLeft'' [] []],
         El ''div'' [] (map (page_button page onPageChange) (pageItems page safeTotalPages)),
         El ''Button'' [Attr ''variant'' (js ''outline''), Attr ''size'' (js ''icon-sm''), Flag ''disabled'' (page \<ge> safeTotalPages),
            OnClick (onPageChange (page + 1)), Attr ''aria-label'' (js ''Halaman berikutnya'')] [El ''ChevronRight'' [] []]]])"

section \<open>Dates\<close>

text \<open>
  \<open>new Date(value)\<close> and the two \<open>Intl\<close> formatters (Jakarta time, locale \<open>id-ID\<close>) are arguments; a
  value that does not parse has no time.
\<close>

record date_formats =
  df_parse :: "jstr \<Rightarrow> int option"
  df_date :: "int \<Rightarrow> jstr"
  df_date_time :: "int \<Rightarrow> jstr"

definition dash :: jstr where
  "dash = [0x2014]"

definition format_date :: "(jstr \<Rightarrow> int option) \<Rightarrow> jstr option \<Rightarrow> (int \<Rightarrow> jstr) \<Rightarrow> jstr \<Rightarrow> jstr" where
  "format_date parse value formatter blank =
     (case value of
        None \<Rightarrow> blank
      | Some v \<Rightarrow> if v = [] then blank
          else (case parse v of None \<Rightarrow> dash | Some t \<Rightarrow> formatter t))"

definition formatJakartaDate :: "date_formats \<Rightarrow> jstr option \<Rightarrow> jstr" where
  "formatJakartaDate d value = format_date (df_parse d) value (df_date d) dash"

definition formatJakartaDateTime :: "date_formats \<Rightarrow> jstr option \<Rightarrow> jstr \<Rightarrow> jstr" where
  "formatJakartaDateTime d value blank = format_date (df_parse d) value (df_date_time d) blank"

section \<open>Lemmas\<close>

text \<open>
  The pages a list of items stands for, after page \<open>a\<close>: an ellipsis stands for the pages up to the
  next number, and for two at least.
\<close>

fun fill :: "int \<Rightarrow> page_item list \<Rightarrow> int list" where
  "fill a [] = []"
| "fill a (Page n # xs) = n # fill n xs"
| "fill a (_ # Page n # xs) = [a + 1..n - 1] @ n # fill n xs"
| "fill a (_ # xs) = fill a xs"

fun gaps_wide :: "int \<Rightarrow> page_item list \<Rightarrow> bool" where
  "gaps_wide a [] = True"
| "gaps_wide a (Page n # xs) = gaps_wide n xs"
| "gaps_wide a (_ # Page n # xs) = (a + 2 < n \<and> gaps_wide n xs)"
| "gaps_wide a (_ # xs) = False"

lemma fill_pages: "fill a (map Page xs) = xs" "gaps_wide a (map Page xs)"
  by (induction xs arbitrary: a) auto

lemma upto_split: "a \<le> b + 1 \<Longrightarrow> b \<le> c \<Longrightarrow> [a..c] = [a..b] @ [b + 1..c]"
proof (induction "nat (b + 1 - a)" arbitrary: a)
  case 0
  then have "a = b + 1" by simp
  then show ?case by simp
next
  case (Suc n)
  then have "[a..c] = a # [a + 1..c]" "[a..b] = a # [a + 1..b]" by (simp_all add: upto_rec1)
  with Suc show ?case by simp
qed

lemma fill_pageItems: "1 \<le> p \<Longrightarrow> p \<le> t \<Longrightarrow> fill 0 (pageItems p t) = [1..t]"
proof -
  assume p: "1 \<le> p" "p \<le> t"
  have five: "[1..5] = [1, 2, 3, 4, 5::int]" by (simp add: upto.simps)
  have tail: "[t - 4..t] = [t - 4, t - 3, t - 2, t - 1, t]" by (simp add: upto.simps)
  have last: "a \<le> t \<Longrightarrow> [a..t - 1] @ [t] = [a..t]" for a
    using upto_split [of a "t - 1" t] by simp
  consider "t \<le> 7" | "7 < t" "p \<le> 4" | "7 < t" "4 < p" "t - 3 \<le> p" | "7 < t" "4 < p" "p < t - 3" by linarith
  then show ?thesis
  proof cases
    case 2
    then have "[1..t] = [1..5] @ [6..t]" using upto_split [of 1 5 t] by simp
    with 2 last [of 6] show ?thesis unfolding pageItems_def five by simp
  next
    case 3
    then have "[1..t] = [1..1] @ [2..t - 5] @ [t - 4..t]"
      using upto_split [of 1 1 t] upto_split [of 2 "t - 5" t] by simp
    with 3 show ?thesis unfolding pageItems_def tail by simp
  next
    case 4
    then have "[1..t] = [1..1] @ [2..p - 2] @ [p - 1..p + 1] @ [p + 2..t]"
      using upto_split [of 1 1 t] upto_split [of 2 "p - 2" t] upto_split [of "p - 1" "p + 1" t]
      by (simp add: algebra_simps)
    moreover have "[p - 1..p + 1] = [p - 1, p, p + 1]" by (simp add: upto.simps)
    ultimately show ?thesis using 4 last [of "p + 2"] unfolding pageItems_def by (simp add: add.commute)
  qed (simp add: pageItems_def fill_pages)
qed

lemma gaps_pageItems: "1 \<le> p \<Longrightarrow> p \<le> t \<Longrightarrow> gaps_wide 0 (pageItems p t)"
  by (auto simp: pageItems_def fill_pages)

lemma length_pageItems: "length (pageItems p t) \<le> 7"
  by (auto simp: pageItems_def)

lemma acts_page_button:
  "acts (page_button p f item) = (case item of Page n \<Rightarrow> [Fire (f n)] | _ \<Rightarrow> [])"
  by (simp add: page_button_def show_if_def split: page_item.split)

lemma pagination_acts:
  "Fire e \<in> set (acts (DataPagination p t n l f)) \<longleftrightarrow>
     1 < p \<and> e = f (p - 1) \<or> p < max 1 t \<and> e = f (p + 1) \<or> (\<exists>k. Page k \<in> set (pageItems p (max 1 t)) \<and> e = f k)"
  by (auto simp: DataPagination_def acts_page_button Let_def not_le split: page_item.splits)

lemma in_fill: "Page k \<in> set xs \<Longrightarrow> k \<in> set (fill a xs)"
  by (induction a xs rule: fill.induct) auto

lemma current_in_items: "1 \<le> p \<Longrightarrow> p \<le> t \<Longrightarrow> Page p \<in> set (pageItems p t)"
  by (auto simp: pageItems_def)

lemma pagination_types: "Type g \<notin> set (acts (DataPagination p t n l f))"
  by (auto simp: DataPagination_def acts_page_button Let_def split: page_item.splits)

lemma pagination_offers_range:
  assumes "1 \<le> p" "p \<le> max 1 t" "offers (DataPagination p t n l f) e"
  shows "\<exists>k. e = f k \<and> 1 \<le> k \<and> k \<le> max 1 t"
proof -
  from assms(3) have "Fire e \<in> set (acts (DataPagination p t n l f))"
    by (simp add: offers_iff pagination_types)
  moreover have "1 \<le> k \<and> k \<le> max 1 t" if "Page k \<in> set (pageItems p (max 1 t))" for k
    using in_fill [OF that, of 0] fill_pageItems [of p "max 1 t"] assms(1,2) by simp
  ultimately show ?thesis using assms(1,2) unfolding pagination_acts by force
qed

lemma pagination_offers_current:
  assumes "1 \<le> p" "p \<le> max 1 t"
  shows "offers (DataPagination p t n l f) (f p)"
proof -
  have "Fire (f p) \<in> set (acts (DataPagination p t n l f))"
    unfolding pagination_acts using current_in_items [of p "max 1 t"] assms by blast
  then show ?thesis by (simp add: offers_iff)
qed

end
