(* ===== verification/Skeletons.thy ===== *)
theory Skeletons
  imports Widgets
begin

text \<open>
  What the dashboard shows while the user is loading (\<open>components/dashboard-loading-skeleton.tsx\<close>,
  \<open>components/backup-loading-skeleton.tsx\<close>): for each path the grey boxes of its page. \<open>skel\<close> is one box; its
  size is styling.
\<close>

definition skel :: "'e node" where
  "skel = El ''Skeleton'' [] []"

definition box :: "'e node list \<Rightarrow> 'e node" where
  "box ns = El ''div'' [] ns"

definition PageHeadingSkeleton :: "bool \<Rightarrow> 'e node" where
  "PageHeadingSkeleton action = box (box [skel, skel] # show_if action [skel])"

definition FieldSkeleton :: "'e node" where
  "FieldSkeleton = box [skel, skel]"

definition TableRowsSkeleton :: "nat \<Rightarrow> 'e node" where
  "TableRowsSkeleton count =
     box (map (\<lambda>i. El ''div'' [Num ''key'' (int i)] [skel, box [skel, skel], skel, skel, skel]) [0..<count])"

definition ProfileSkeleton :: "'e node" where
  "ProfileSkeleton =
     box [PageHeadingSkeleton False,
       box [box [box [skel, skel, skel, box [skel, skel], skel]],
         box [skel, skel,
           box [FieldSkeleton, FieldSkeleton, FieldSkeleton, FieldSkeleton, box [skel, skel], skel]]]]"

definition SecuritySkeleton :: "'e node" where
  "SecuritySkeleton =
     box [PageHeadingSkeleton False,
       box [box [skel, skel, skel, box [FieldSkeleton, FieldSkeleton, FieldSkeleton, skel]],
         box [box [skel, skel], skel, skel, skel, skel]]]"

definition SessionsSkeleton :: "'e node" where
  "SessionsSkeleton =
     box [PageHeadingSkeleton False, box [box [skel, box [skel, skel]], TableRowsSkeleton 3], skel]"

definition OAuthClientCardSkeleton :: "'e node" where
  "OAuthClientCardSkeleton =
     box [box [box [skel, skel], skel],
       box [box [skel, box [skel, skel]],
         box [skel, box [skel, skel, skel], skel],
         box [skel, skel, skel]]]"

definition ApplicationsSkeleton :: "'e node" where
  "ApplicationsSkeleton =
     box [PageHeadingSkeleton True, box (map (\<lambda>item. OAuthClientCardSkeleton) [0::nat, 1])]"

definition ApplicationDetailSkeleton :: "'e node" where
  "ApplicationDetailSkeleton =
     box [box [skel, box [skel, skel]],
       box [box [skel, skel, box [FieldSkeleton, FieldSkeleton, FieldSkeleton, box [skel, skel]]],
         box [skel, skel, skel, skel]],
       box [box [box [skel, skel], skel], TableRowsSkeleton 3]]"

definition UsersSkeleton :: "'e node" where
  "UsersSkeleton =
     box [PageHeadingSkeleton False,
       box (map (\<lambda>item. El ''div'' [Num ''key'' item] [skel, box [skel, skel]]) [0, 1, 2]),
       box [box [box [skel, skel], skel], TableRowsSkeleton 4]]"

definition AuditLogSkeleton :: "'e node" where
  "AuditLogSkeleton =
     box [PageHeadingSkeleton False, box [box [box [skel, skel], box [skel, skel]], TableRowsSkeleton 5]]"

definition dots :: jstr where
  "dots = [0x2026]"

definition BackupContentSkeleton :: "'e node" where
  "BackupContentSkeleton =
     El ''div'' [Attr ''role'' (js ''status''), Attr ''aria-label'' (js ''Memuat jadwal dan riwayat backup''), Flag ''aria-busy'' True]
      [El ''span'' [] [Txt (js ''Memuat data backup'' @ dots)],
       El ''div'' [Flag ''aria-hidden'' True]
        [El ''section'' []
          [El ''div'' [] [El ''p'' [] [El ''CalendarClock'' [] [], lit ''Minggu, 02.00 WIB''], El ''Skeleton'' [] []],
           El ''div'' [] [El ''p'' [] [lit ''Maksimal 10 backup''], El ''Skeleton'' [] []],
           El ''div'' [] [El ''p'' [] [lit ''Backup terakhir berhasil''], El ''Skeleton'' [] []]],
         El ''Card'' []
          [El ''CardHeader'' []
            [El ''div'' [] [El ''CardTitle'' [] [lit ''Riwayat backup''],
               El ''CardDescription'' [] [lit ''File lama dihapus hanya setelah backup baru berhasil diverifikasi.'']],
             El ''Button'' [Attr ''variant'' (js ''outline''), Attr ''size'' (js ''icon''), Flag ''disabled'' True, Num ''tabIndex'' (- 1),
               Attr ''aria-label'' (js ''Perbarui riwayat backup'')] [El ''RefreshCw'' [] []]],
           El ''CardContent'' []
            [El ''Table'' []
              [El ''TableHeader'' [] [El ''TableRow'' [] (map (\<lambda>t. El ''TableHead'' [] [lit t])
                 [''Waktu & sumber'', ''Status'', ''Ukuran arsip R2'', ''File''])],
               El ''TableBody'' [] (map (\<lambda>row. El ''TableRow'' [Num ''key'' row]
                 [El ''TableCell'' [] [El ''Skeleton'' [] [], El ''Skeleton'' [] []], El ''TableCell'' [] [El ''Skeleton'' [] []],
                  El ''TableCell'' [] [El ''Skeleton'' [] []], El ''TableCell'' [] [El ''Skeleton'' [] [], El ''Skeleton'' [] []]])
                 [0, 1, 2, 3])]]]]]"

definition BackupPageSkeleton :: "'e node" where
  "BackupPageSkeleton =
     El ''div'' []
      [page_header ''Backup database'' ''Backup manual dan otomatis dengan unduhan SQL yang siap diimpor ke PostgreSQL.''
         [El ''Button'' [Flag ''disabled'' True, Num ''tabIndex'' (- 1)] [El ''Plus'' [] [], lit ''Buat backup'']],
       BackupContentSkeleton]"

text \<open>The regular expression \<open>/^\/dashboard\/aplikasi\/[^/]+/\<close>.\<close>

definition detail_path :: "jstr \<Rightarrow> bool" where
  "detail_path p = (starts_with (js ''/dashboard/aplikasi/'') p
     \<and> (let rest = drop (length ''/dashboard/aplikasi/'') p in rest \<noteq> [] \<and> hd rest \<noteq> 47))"

definition RouteSkeleton :: "jstr \<Rightarrow> 'e node" where
  "RouteSkeleton p =
     (if starts_with (js ''/dashboard/keamanan'') p then SecuritySkeleton
      else if starts_with (js ''/dashboard/sesi'') p then SessionsSkeleton
      else if detail_path p then ApplicationDetailSkeleton
      else if starts_with (js ''/dashboard/aplikasi'') p then ApplicationsSkeleton
      else if starts_with (js ''/dashboard/pengguna'') p then UsersSkeleton
      else if starts_with (js ''/dashboard/audit-log'') p then AuditLogSkeleton
      else if starts_with (js ''/dashboard/backup-database'') p then BackupPageSkeleton
      else ProfileSkeleton)"

definition DashboardLoadingSkeleton :: "jstr \<Rightarrow> 'e node" where
  "DashboardLoadingSkeleton pathname =
     El ''div'' [Attr ''role'' (js ''status''), Attr ''aria-live'' (js ''polite''), Attr ''aria-label'' (js ''Memuat konten dashboard'')]
      [El ''span'' [] [lit ''Memuat dashboard...''], El ''div'' [Flag ''aria-hidden'' True] [RouteSkeleton pathname]]"

section \<open>Lemmas\<close>

text \<open>A tree with nothing to do in it: no handler and no link. A skeleton is one.\<close>

definition inert :: "'e node \<Rightarrow> bool" where
  "inert n = (acts n = [] \<and> hrefs n = [])"

lemma inert_parts [simp]:
  "inert skel" "inert (box ns) = list_all inert ns" "inert (PageHeadingSkeleton a)" "inert FieldSkeleton"
  "inert (TableRowsSkeleton k)"
  by (auto simp: inert_def skel_def box_def PageHeadingSkeleton_def FieldSkeleton_def TableRowsSkeleton_def
      show_if_def list_all_iff)

lemma inert_page_skeletons [simp]:
  "inert ProfileSkeleton" "inert SecuritySkeleton" "inert SessionsSkeleton" "inert OAuthClientCardSkeleton"
  "inert ApplicationDetailSkeleton" "inert AuditLogSkeleton"
  by (simp_all add: ProfileSkeleton_def SecuritySkeleton_def SessionsSkeleton_def OAuthClientCardSkeleton_def
      ApplicationDetailSkeleton_def AuditLogSkeleton_def)

lemma inert_keyed [simp]: "inert (El t [Num k i] ns) = list_all inert ns"
  by (auto simp: inert_def list_all_iff)

lemma inert_list_skeletons [simp]: "inert ApplicationsSkeleton" "inert UsersSkeleton"
  by (simp_all add: ApplicationsSkeleton_def UsersSkeleton_def)

lemma inert_backup_skeletons [simp]: "inert BackupContentSkeleton" "inert BackupPageSkeleton"
  by (simp_all add: inert_def BackupContentSkeleton_def BackupPageSkeleton_def page_header_def show_if_def lit_def o_def)

lemma inert_loading [simp]: "inert (RouteSkeleton p)" "inert (DashboardLoadingSkeleton p)"
proof -
  show *: "inert (RouteSkeleton p)" by (simp add: RouteSkeleton_def)
  show "inert (DashboardLoadingSkeleton p)" using * by (simp add: DashboardLoadingSkeleton_def inert_def lit_def)
qed

lemma skeleton_acts [simp]:
  "acts (BackupContentSkeleton :: 'e node) = []" "acts (OAuthClientCardSkeleton :: 'e node) = []"
  "acts (DashboardLoadingSkeleton p :: 'e node) = []" "hrefs (DashboardLoadingSkeleton p :: 'e node) = []"
  using inert_backup_skeletons(1) inert_page_skeletons(4) inert_loading(2) unfolding inert_def by blast+

end
