(* ===== verification/Applications.thy ===== *)
theory Applications
  imports Authorize Register Skeletons
begin

text \<open>
  The application page (\<open>src/frontend/src/app/dashboard/aplikasi/page.tsx\<close>): the list of OAuth
  clients with its dialogs, the client secrets kept in the page's memory, and the assignment of
  users with its delayed lookup. Answers resume the continuation of the handler that waits for
  them, with the values it captured; they arrive in any order.
\<close>

section \<open>Checks of the client form\<close>

record client_form =
  f_name :: jstr
  f_description :: jstr
  f_redirectUris :: "jstr list"
  f_accessPolicy :: access_policy

definition EMPTY_FORM :: client_form where
  "EMPTY_FORM = \<lparr>f_name = [], f_description = [], f_redirectUris = [[]], f_accessPolicy = AssignedOnly\<rparr>"

definition canRetainClientSecret :: "bool \<Rightarrow> bool \<Rightarrow> bool" where
  "canRetainClientSecret visible focused = (visible \<and> focused)"

fun index_of :: "'a \<Rightarrow> 'a list \<Rightarrow> nat" where
  "index_of x [] = 0"
| "index_of x (y # ys) = (if x = y then 0 else Suc (index_of x ys))"

definition redirect_error :: "(jstr \<Rightarrow> jstr option \<Rightarrow> url option) \<Rightarrow> jstr list \<Rightarrow> nat \<Rightarrow> jstr option" where
  "redirect_error parse values index =
     (let value = values ! index
      in if value = [] then Some (js ''Redirect URI wajib diisi.'')
         else case parse value None of
           None \<Rightarrow> Some (js ''Masukkan URL valid, misalnya https://app.example.com/callback.'')
         | Some u \<Rightarrow>
             (let isLocalhost = (url_hostname u = js ''localhost'' \<or> url_hostname u = js ''127.0.0.1'')
              in if url_protocol u \<noteq> js ''https:'' \<and> \<not> (isLocalhost \<and> url_protocol u = js ''http:'')
                 then Some (js ''Gunakan HTTPS. HTTP hanya diizinkan untuk localhost.'')
                 else if url_hash u \<noteq> []
                 then Some (js ''Redirect URI tidak boleh memiliki fragmen (#).'')
                 else if index_of value values \<noteq> index
                 then Some (js ''Redirect URI ini sudah ditambahkan.'')
                 else None))"

text \<open>The object of errors, by increasing index.\<close>

definition validateRedirectURIs ::
  "(jstr \<Rightarrow> jstr option \<Rightarrow> url option) \<Rightarrow> jstr list \<Rightarrow> (nat \<times> jstr) list" where
  "validateRedirectURIs parse values =
     (let normalizedValues = map trim values
      in concat (map (\<lambda>i. case redirect_error parse normalizedValues i of
            Some m \<Rightarrow> [(i, m)] | None \<Rightarrow> []) [0..<length values]))"

definition hex16 :: "unit16 \<Rightarrow> bool" where
  "hex16 u = (hex_val u \<noteq> None)"

definition uuid_pattern :: "jstr \<Rightarrow> bool" where
  "uuid_pattern s =
     (case split_on 45 s of
        [a, b, c, d, e] \<Rightarrow>
          length a = 8 \<and> length b = 4 \<and> length c = 4 \<and> length d = 4 \<and> length e = 12
          \<and> list_all hex16 (a @ b @ c @ d @ e)
          \<and> unat (c ! 0) \<in> {49, 50, 51, 52, 53} \<and> unat (d ! 0) \<in> {56, 57, 97, 98, 65, 66}
      | _ \<Rightarrow> False)"

definition email_pattern :: "jstr \<Rightarrow> bool" where
  "email_pattern s =
     (case split_on 64 s of
        [l, d] \<Rightarrow> l \<noteq> [] \<and> list_all (\<lambda>u. \<not> js_ws u) (l @ d)
          \<and> list_ex (\<lambda>i. d ! i = 46 \<and> 1 \<le> i \<and> i + 2 < length d) [0..<length d]
      | _ \<Rightarrow> False)"

definition isCompleteAssignmentIdentifier :: "jstr \<Rightarrow> bool" where
  "isCompleteAssignmentIdentifier value =
     (let identifier = trim value
      in length identifier \<le> 254 \<and> (uuid_pattern identifier \<or> email_pattern identifier))"

section \<open>State\<close>

datatype ap_pending =
    AwaitClients
  | AwaitSubmit "oauth_client option" nat
  | AwaitDelete jstr
  | AwaitSecret jstr nat
  | AwaitRegenerate jstr nat
  | AwaitAccess jstr
  | AwaitSave jstr
  | AwaitRemove jstr
  | AwaitLookup bool
  | AwaitCopy

record ap_state =
  ap_clients :: "oauth_client list"
  ap_loading :: bool
  ap_dialogOpen :: bool
  ap_editingClient :: "oauth_client option"
  ap_submitting :: bool
  ap_clientSecrets :: "jstr \<rightharpoonup> jstr"
  ap_visibleSecrets :: "jstr \<rightharpoonup> bool"
  ap_loadingSecretID :: "jstr option"
  ap_regeneratingSecretID :: "jstr option"
  ap_form :: client_form
  ap_redirectURIErrors :: "(nat \<times> jstr) list"
  ap_accessClient :: "oauth_client option"
  ap_assignmentIdentifier :: jstr
  ap_assignmentCandidate :: "assignable_user option"
  ap_candidateAssigned :: bool
  ap_assignmentLookupLoading :: bool
  ap_assignmentLookupMessage :: "jstr option"
  ap_assignmentSubmitting :: bool
  ap_secretMemoryGeneration :: nat
  ap_lookupTimer :: "(jstr \<times> jstr) option"
  ap_docVisible :: bool
  ap_docFocused :: bool
  ap_pending :: "ap_pending list"

datatype ap_event =
    OpenCreate
  | OpenEdit oauth_client
  | DialogOpenChange bool
  | FormName jstr
  | FormDescription jstr
  | FormPolicy access_policy
  | UpdateURI nat jstr
  | AddURI
  | RemoveURI nat
  | SubmitClient
  | DeleteClient oauth_client
  | CopyText jstr
  | ToggleSecret oauth_client
  | RegenerateSecret oauth_client
  | OpenAccess oauth_client
  | CloseAccess
  | UpdateIdentifier jstr
  | ClearIdentifier
  | SaveAssignment
  | RemoveAssignment
  | VisibilityChange bool
  | WindowBlur
  | WindowFocus
  | LookupTimer
  | ClientsAnswer nat "js_error + oauth_client list"
  | SubmitAnswer nat "js_error + oauth_client"
  | DeleteAnswer nat "js_error + unit"
  | SecretAnswer nat "js_error + jstr"
  | RegenerateAnswer nat "js_error + jstr \<times> int \<times> jstr option"
  | AccessAnswer nat "js_error + oauth_client"
  | SaveAnswer nat "js_error + unit"
  | RemoveAnswer nat "js_error + unit"
  | LookupAnswer nat "js_error + assignable_user \<times> bool"
  | CopyAnswer nat bool

text \<open>The mount requests the list; \<open>visible\<close> and \<open>focused\<close> describe the document at that time.\<close>

definition ap_init :: "bool \<Rightarrow> bool \<Rightarrow> ap_state" where
  "ap_init visible focused =
     \<lparr>ap_clients = [], ap_loading = True, ap_dialogOpen = False, ap_editingClient = None,
      ap_submitting = False, ap_clientSecrets = Map.empty, ap_visibleSecrets = Map.empty,
      ap_loadingSecretID = None, ap_regeneratingSecretID = None, ap_form = EMPTY_FORM,
      ap_redirectURIErrors = [], ap_accessClient = None, ap_assignmentIdentifier = [],
      ap_assignmentCandidate = None, ap_candidateAssigned = False, ap_assignmentLookupLoading = False,
      ap_assignmentLookupMessage = None, ap_assignmentSubmitting = False, ap_secretMemoryGeneration = 0,
      ap_lookupTimer = None, ap_docVisible = visible, ap_docFocused = focused,
      ap_pending = [AwaitClients]\<rparr>"

definition ap_mount_effects :: "browser \<Rightarrow> effect list" where
  "ap_mount_effects b = [api b (js ''/api/clients'') get]"

type_synonym ap_result = "ap_state \<times> effect list"

definition client_path :: "jstr \<Rightarrow> jstr option" where
  "client_path client_id = map_option (\<lambda>e. js ''/api/clients/'' @ e) (encodeURIComponent client_id)"

section \<open>The secrets in memory\<close>

definition clearSecrets :: "ap_state \<Rightarrow> ap_state" where
  "clearSecrets s = s\<lparr>ap_secretMemoryGeneration := Suc (ap_secretMemoryGeneration s),
     ap_clientSecrets := Map.empty, ap_visibleSecrets := Map.empty\<rparr>"

definition handleVisibilityChange :: "bool \<Rightarrow> ap_state \<Rightarrow> ap_state" where
  "handleVisibilityChange visible s =
     (let s' = s\<lparr>ap_docVisible := visible\<rparr> in if visible then s' else clearSecrets s')"

definition handleBlur :: "ap_state \<Rightarrow> ap_state" where
  "handleBlur s = clearSecrets (s\<lparr>ap_docFocused := False\<rparr>)"

definition forget_secret :: "jstr \<Rightarrow> ap_state \<Rightarrow> ap_state" where
  "forget_secret cid s = s\<lparr>ap_clientSecrets := (ap_clientSecrets s)(cid := None),
     ap_visibleSecrets := (ap_visibleSecrets s)(cid := None)\<rparr>"

definition retain_secret :: "nat \<Rightarrow> jstr \<Rightarrow> jstr \<Rightarrow> ap_state \<Rightarrow> ap_state" where
  "retain_secret memoryGeneration cid secret s =
     (if memoryGeneration = ap_secretMemoryGeneration s
         \<and> canRetainClientSecret (ap_docVisible s) (ap_docFocused s)
      then s\<lparr>ap_clientSecrets := (ap_clientSecrets s)(cid \<mapsto> secret),
             ap_visibleSecrets := (ap_visibleSecrets s)(cid \<mapsto> True)\<rparr>
      else s)"

definition secret_settled :: "jstr \<Rightarrow> nat \<Rightarrow> js_error + jstr \<Rightarrow> ap_state \<Rightarrow> ap_result" where
  "secret_settled cid memoryGeneration r s =
     (case r of
        Inr secret \<Rightarrow> ((retain_secret memoryGeneration cid secret s)\<lparr>ap_loadingSecretID := None\<rparr>, [])
      | Inl e \<Rightarrow> (s\<lparr>ap_loadingSecretID := None\<rparr>, failed_toast e))"

definition toggleClientSecret :: "browser \<Rightarrow> oauth_client \<Rightarrow> ap_state \<Rightarrow> ap_result" where
  "toggleClientSecret b client s =
     (let clientID = c_client_id client
      in if ap_visibleSecrets s clientID = Some True then (forget_secret clientID s, [])
         else if \<not> c_secret_available client
         then (s, [Toast Failure (js ''Secret lama tidak dapat dipulihkan. Regenerate client secret untuk membuat yang baru.'')])
         else
           (let s' = s\<lparr>ap_loadingSecretID := Some clientID\<rparr>
            in case client_path clientID of
                 None \<Rightarrow> secret_settled clientID (ap_secretMemoryGeneration s) (Inl uri_error) s'
               | Some p \<Rightarrow>
                   (s'\<lparr>ap_pending := ap_pending s' @ [AwaitSecret clientID (ap_secretMemoryGeneration s)]\<rparr>,
                    [api b (p @ js ''/secret'') get])))"

definition regenerate_settled ::
  "jstr \<Rightarrow> nat \<Rightarrow> js_error + jstr \<times> int \<times> jstr option \<Rightarrow> ap_state \<Rightarrow> ap_result" where
  "regenerate_settled cid memoryGeneration r s =
     (case r of
        Inr (secret, version, message) \<Rightarrow>
          ((retain_secret memoryGeneration cid secret
              (s\<lparr>ap_clients := update_where c_client_id cid
                   (\<lambda>c. c\<lparr>c_secret_available := True, c_secret_version := version\<rparr>) (ap_clients s)\<rparr>))
             \<lparr>ap_regeneratingSecretID := None\<rparr>,
           [Toast Success (case message of
              Some m \<Rightarrow> if m = [] then js ''Client secret berhasil di-regenerate.'' else m
            | None \<Rightarrow> js ''Client secret berhasil di-regenerate.'')])
      | Inl e \<Rightarrow> (s\<lparr>ap_regeneratingSecretID := None\<rparr>, failed_toast e))"

definition regenerateClientSecret :: "browser \<Rightarrow> oauth_client \<Rightarrow> ap_state \<Rightarrow> ap_result" where
  "regenerateClientSecret b client s =
     (let clientID = c_client_id client;
          s' = (forget_secret clientID s)\<lparr>ap_regeneratingSecretID := Some clientID\<rparr>;
          g = ap_secretMemoryGeneration s
      in case client_path clientID of
           None \<Rightarrow> regenerate_settled clientID g (Inl uri_error) s'
         | Some p \<Rightarrow>
             (s'\<lparr>ap_pending := ap_pending s' @ [AwaitRegenerate clientID g]\<rparr>,
              [api b (p @ js ''/secret/regenerate'')
                 (post (JObj [(''expected_version'', JNum (of_int (c_secret_version client)))]))]))"

section \<open>The client dialog\<close>

definition openCreateDialog :: "ap_state \<Rightarrow> ap_state" where
  "openCreateDialog s = s\<lparr>ap_editingClient := None, ap_form := EMPTY_FORM, ap_redirectURIErrors := [],
     ap_dialogOpen := True\<rparr>"

definition openEditDialog :: "oauth_client \<Rightarrow> ap_state \<Rightarrow> ap_state" where
  "openEditDialog client s = s\<lparr>ap_editingClient := Some client,
     ap_form := \<lparr>f_name = c_name client, f_description = c_description client,
       f_redirectUris = (if c_redirect_uris client \<noteq> [] then c_redirect_uris client else [[]]),
       f_accessPolicy = c_access_policy client\<rparr>,
     ap_redirectURIErrors := [], ap_dialogOpen := True\<rparr>"

definition closeAndResetDialog :: "ap_state \<Rightarrow> ap_state" where
  "closeAndResetDialog s = s\<lparr>ap_dialogOpen := False, ap_editingClient := None, ap_form := EMPTY_FORM,
     ap_redirectURIErrors := []\<rparr>"

definition handleDialogOpenChange :: "bool \<Rightarrow> ap_state \<Rightarrow> ap_state" where
  "handleDialogOpenChange opened s =
     (if \<not> opened \<and> ap_submitting s then s
      else if opened then s\<lparr>ap_dialogOpen := opened\<rparr>
      else s\<lparr>ap_dialogOpen := opened, ap_editingClient := None, ap_form := EMPTY_FORM, ap_redirectURIErrors := []\<rparr>)"

definition policy_text :: "access_policy \<Rightarrow> jstr" where
  "policy_text p = (case p of AssignedOnly \<Rightarrow> js ''assigned_only'' | AllActiveUsers \<Rightarrow> js ''all_active_users'')"

definition client_payload :: "client_form \<Rightarrow> json" where
  "client_payload f = JObj [(''name'', JStr (trim (f_name f))), (''description'', JStr (trim (f_description f))),
     (''redirect_uris'', JArr (map (\<lambda>u. JStr (trim u)) (f_redirectUris f))),
     (''access_policy'', JStr (policy_text (f_accessPolicy f)))]"

definition submit_settled ::
  "oauth_client option \<Rightarrow> nat \<Rightarrow> js_error + oauth_client \<Rightarrow> ap_state \<Rightarrow> ap_result" where
  "submit_settled editing memoryGeneration r s =
     (case r of
        Inl e \<Rightarrow> (s\<lparr>ap_submitting := False\<rparr>, failed_toast e)
      | Inr data \<Rightarrow>
          (case editing of
             Some _ \<Rightarrow>
               ((closeAndResetDialog (s\<lparr>ap_clients :=
                    update_where c_client_id (c_client_id data) (\<lambda>_. data) (ap_clients s)\<rparr>))
                  \<lparr>ap_submitting := False\<rparr>,
                [Toast Success (js ''Data aplikasi berhasil diperbarui.'')])
           | None \<Rightarrow>
               (let clientSecret = c_client_secret data;
                    client = data\<lparr>c_client_secret := None,
                      c_secret_available := (truthy clientSecret \<or> c_secret_available data)\<rparr>;
                    s1 = s\<lparr>ap_clients := client # ap_clients s\<rparr>;
                    s2 = (case clientSecret of
                            Some secret \<Rightarrow> if secret \<noteq> []
                              then retain_secret memoryGeneration (c_client_id client) secret s1 else s1
                          | None \<Rightarrow> s1)
                in ((closeAndResetDialog s2)\<lparr>ap_submitting := False\<rparr>,
                    [Toast Success (js ''Aplikasi OAuth berhasil didaftarkan.'')]))))"

definition submitClient :: "browser \<Rightarrow> ap_state \<Rightarrow> ap_result" where
  "submitClient b s =
     (let errors = validateRedirectURIs (b_parse_url b) (f_redirectUris (ap_form s))
      in if errors \<noteq> [] then
           (s\<lparr>ap_redirectURIErrors := errors\<rparr>, [Toast Failure (js ''Periksa kembali Redirect URI aplikasi.'')])
         else
           (let s' = s\<lparr>ap_submitting := True\<rparr>;
                g = ap_secretMemoryGeneration s;
                ed = ap_editingClient s;
                send = (\<lambda>p i. (s'\<lparr>ap_pending := ap_pending s' @ [AwaitSubmit ed g]\<rparr>, [api b p i]))
            in case ed of
                 None \<Rightarrow> send (js ''/api/clients'') (post (client_payload (ap_form s)))
               | Some c \<Rightarrow>
                   (case client_path (c_client_id c) of
                      None \<Rightarrow> submit_settled ed g (Inl uri_error) s'
                    | Some p \<Rightarrow> send p (patch (client_payload (ap_form s))))))"

definition updateRedirectURI :: "browser \<Rightarrow> nat \<Rightarrow> jstr \<Rightarrow> ap_state \<Rightarrow> ap_state" where
  "updateRedirectURI b index value s =
     (let next_uris = (f_redirectUris (ap_form s))[index := value]
      in s\<lparr>ap_form := (ap_form s)\<lparr>f_redirectUris := next_uris\<rparr>,
           ap_redirectURIErrors := (if ap_redirectURIErrors s \<noteq> []
             then validateRedirectURIs (b_parse_url b) next_uris else ap_redirectURIErrors s)\<rparr>)"

definition addRedirectURI :: "ap_state \<Rightarrow> ap_state" where
  "addRedirectURI s = s\<lparr>ap_form := (ap_form s)\<lparr>f_redirectUris := f_redirectUris (ap_form s) @ [[]]\<rparr>\<rparr>"

definition removeRedirectURI :: "browser \<Rightarrow> nat \<Rightarrow> ap_state \<Rightarrow> ap_state" where
  "removeRedirectURI b index s =
     (if length (f_redirectUris (ap_form s)) = 1 then s
      else (let next_uris = drop_nth index (f_redirectUris (ap_form s))
            in s\<lparr>ap_form := (ap_form s)\<lparr>f_redirectUris := next_uris\<rparr>,
                 ap_redirectURIErrors := (if ap_redirectURIErrors s \<noteq> []
                   then validateRedirectURIs (b_parse_url b) next_uris else [])\<rparr>))"

definition delete_settled :: "jstr \<Rightarrow> js_error + unit \<Rightarrow> ap_state \<Rightarrow> ap_result" where
  "delete_settled cid r s =
     (case r of
        Inr _ \<Rightarrow> (forget_secret cid (s\<lparr>ap_clients := remove_where c_client_id cid (ap_clients s)\<rparr>),
          [Toast Success (js ''Aplikasi dan seluruh akses terkait berhasil dihapus.'')])
      | Inl e \<Rightarrow> (s, failed_toast e))"

definition deleteClient :: "browser \<Rightarrow> oauth_client \<Rightarrow> ap_state \<Rightarrow> ap_result" where
  "deleteClient b client s =
     (case client_path (c_client_id client) of
        None \<Rightarrow> delete_settled (c_client_id client) (Inl uri_error) s
      | Some p \<Rightarrow> (s\<lparr>ap_pending := ap_pending s @ [AwaitDelete (c_client_id client)]\<rparr>, [api b p delete_init]))"

definition copy_text :: "jstr \<Rightarrow> ap_state \<Rightarrow> ap_result" where
  "copy_text value s = (s\<lparr>ap_pending := ap_pending s @ [AwaitCopy]\<rparr>, [Clipboard value])"

definition copy_settled :: "bool \<Rightarrow> effect list" where
  "copy_settled ok = (if ok then [Toast Success (js ''Disalin ke clipboard.'')]
     else [Toast Failure (js ''Tidak dapat menyalin ke clipboard.'')])"

section \<open>Assignments\<close>

text \<open>
  The lookup effect: its dependencies are the selected client (by identity, so every
  \<open>setAccessClient\<close> with a new object runs it again) and the typed identifier. The cleanup clears
  the timer and aborts the lookup under way; the timer of 700 ms then sends the request.
\<close>

definition lookup_cleanup :: "ap_state \<Rightarrow> ap_state" where
  "lookup_cleanup s = s\<lparr>ap_lookupTimer := None,
     ap_pending := map (\<lambda>p. case p of AwaitLookup _ \<Rightarrow> AwaitLookup True | _ \<Rightarrow> p) (ap_pending s)\<rparr>"

definition lookup_effect :: "ap_state \<Rightarrow> ap_state" where
  "lookup_effect s =
     (let s' = lookup_cleanup s; identifier = trim (ap_assignmentIdentifier s)
      in case ap_accessClient s of
           None \<Rightarrow> s'
         | Some c \<Rightarrow>
             if c_access_policy c \<noteq> AssignedOnly \<or> \<not> isCompleteAssignmentIdentifier identifier then s'
             else s'\<lparr>ap_lookupTimer := Some (c_client_id c, identifier)\<rparr>)"

text \<open>Setting the identifier runs the effect only when the text changes.\<close>

definition set_identifier :: "jstr \<Rightarrow> ap_state \<Rightarrow> ap_state" where
  "set_identifier v s = (if v = ap_assignmentIdentifier s then s
     else lookup_effect (s\<lparr>ap_assignmentIdentifier := v\<rparr>))"

definition reset_candidate :: "ap_state \<Rightarrow> ap_state" where
  "reset_candidate s = s\<lparr>ap_assignmentCandidate := None, ap_candidateAssigned := False,
     ap_assignmentLookupMessage := None\<rparr>"

text \<open>The spread \<open>{ ...item, ...data.client }\<close>: only the optional field of \<open>item\<close> can survive.\<close>

definition merge_client :: "oauth_client \<Rightarrow> oauth_client \<Rightarrow> oauth_client" where
  "merge_client data item = data\<lparr>c_client_secret :=
     (case c_client_secret data of Some x \<Rightarrow> Some x | None \<Rightarrow> c_client_secret item)\<rparr>"

definition access_settled :: "jstr \<Rightarrow> js_error + oauth_client \<Rightarrow> ap_state \<Rightarrow> ap_result" where
  "access_settled cid r s =
     (case r of
        Inr data \<Rightarrow>
          (lookup_effect (s\<lparr>ap_clients := update_where c_client_id cid (merge_client data) (ap_clients s),
             ap_accessClient := Some data\<rparr>), [])
      | Inl e \<Rightarrow> (lookup_effect (s\<lparr>ap_accessClient := None\<rparr>), failed_toast e))"

definition openAccessDialog :: "browser \<Rightarrow> oauth_client \<Rightarrow> ap_state \<Rightarrow> ap_result" where
  "openAccessDialog b client s =
     (let s' = lookup_effect (reset_candidate (s\<lparr>ap_accessClient := Some client, ap_assignmentIdentifier := []\<rparr>))
      in case client_path (c_client_id client) of
           None \<Rightarrow> access_settled (c_client_id client) (Inl uri_error) s'
         | Some p \<Rightarrow> (s'\<lparr>ap_pending := ap_pending s' @ [AwaitAccess (c_client_id client)]\<rparr>, [api b p get]))"

text \<open>The \<open>onOpenChange\<close> of the access dialog and its button \<open>Bersihkan\<close>.\<close>

definition closeAccess :: "ap_state \<Rightarrow> ap_state" where
  "closeAccess s =
     (if ap_assignmentSubmitting s then s
      else lookup_effect (reset_candidate (s\<lparr>ap_accessClient := None, ap_assignmentIdentifier := []\<rparr>)))"

definition clearIdentifier :: "ap_state \<Rightarrow> ap_state" where
  "clearIdentifier s = reset_candidate (set_identifier [] s)"

definition updateAssignmentIdentifier :: "jstr \<Rightarrow> ap_state \<Rightarrow> ap_state" where
  "updateAssignmentIdentifier value s =
     (reset_candidate (set_identifier value s))\<lparr>ap_assignmentLookupLoading := False\<rparr>"

definition change_count :: "(int \<Rightarrow> int) \<Rightarrow> jstr \<Rightarrow> ap_state \<Rightarrow> ap_state" where
  "change_count f cid s =
     (let count = c_assignment_count_update f;
          s1 = s\<lparr>ap_clients := update_where c_client_id cid count (ap_clients s)\<rparr>
      in case ap_accessClient s1 of
           None \<Rightarrow> s1
         | Some c \<Rightarrow> lookup_effect (s1\<lparr>ap_accessClient := Some (count c)\<rparr>))"

definition save_settled :: "jstr \<Rightarrow> js_error + unit \<Rightarrow> ap_state \<Rightarrow> ap_result" where
  "save_settled cid r s =
     (case r of
        Inr _ \<Rightarrow> ((change_count (\<lambda>n. n + 1) cid s)\<lparr>ap_candidateAssigned := True, ap_assignmentSubmitting := False\<rparr>,
          [Toast Success (js ''Akses pengguna berhasil disimpan.'')])
      | Inl e \<Rightarrow> (s\<lparr>ap_assignmentSubmitting := False\<rparr>, failed_toast e))"

definition saveAssignment :: "browser \<Rightarrow> ap_state \<Rightarrow> ap_result" where
  "saveAssignment b s =
     (case (ap_accessClient s, ap_assignmentCandidate s) of
        (Some c, Some u) \<Rightarrow>
          if ap_candidateAssigned s then (s, [])
          else
            (let s' = s\<lparr>ap_assignmentSubmitting := True\<rparr>
             in case client_path (c_client_id c) of
                  None \<Rightarrow> save_settled (c_client_id c) (Inl uri_error) s'
                | Some p \<Rightarrow> (s'\<lparr>ap_pending := ap_pending s' @ [AwaitSave (c_client_id c)]\<rparr>,
                    [api b (p @ js ''/assignments'') (post (JObj [(''identifier'', JStr (au_user_id u))]))]))
      | _ \<Rightarrow> (s, []))"

definition remove_settled :: "jstr \<Rightarrow> js_error + unit \<Rightarrow> ap_state \<Rightarrow> ap_result" where
  "remove_settled cid r s =
     (case r of
        Inr _ \<Rightarrow> ((change_count (\<lambda>n. max 0 (n - 1)) cid s)\<lparr>ap_candidateAssigned := False\<rparr>,
          [Toast Success (js ''Akses pengguna berhasil dicabut.'')])
      | Inl e \<Rightarrow> (s, failed_toast e))"

definition removeCandidateAssignment :: "browser \<Rightarrow> ap_state \<Rightarrow> ap_result" where
  "removeCandidateAssignment b s =
     (case (ap_accessClient s, ap_assignmentCandidate s) of
        (Some c, Some u) \<Rightarrow>
          if \<not> ap_candidateAssigned s then (s, [])
          else (case (client_path (c_client_id c), encodeURIComponent (au_user_id u)) of
                  (Some p, Some q) \<Rightarrow> (s\<lparr>ap_pending := ap_pending s @ [AwaitRemove (c_client_id c)]\<rparr>,
                    [api b (p @ js ''/assignments/'' @ q) delete_init])
                | _ \<Rightarrow> remove_settled (c_client_id c) (Inl uri_error) s)
      | _ \<Rightarrow> (s, []))"

text \<open>The continuation of a lookup; after an abort \<open>fetch\<close> rejects and nothing is set.\<close>

definition lookup_settled :: "bool \<Rightarrow> js_error + assignable_user \<times> bool \<Rightarrow> ap_state \<Rightarrow> ap_result" where
  "lookup_settled aborted r s =
     (case r of
        Inr (user, assigned) \<Rightarrow>
          (s\<lparr>ap_assignmentCandidate := Some user, ap_candidateAssigned := assigned,
             ap_assignmentLookupLoading := (if aborted then ap_assignmentLookupLoading s else False)\<rparr>, [])
      | Inl e \<Rightarrow>
          if aborted then (s, [])
          else
            (let s' = s\<lparr>ap_assignmentLookupLoading := False\<rparr>
             in case e of
                  APIError _ status _ _ \<Rightarrow>
                    if status = 404 \<or> status = 409
                    then (s'\<lparr>ap_assignmentLookupMessage :=
                            Some (if status = 404 then js ''Akun tidak ditemukan.'' else getErrorMessage e)\<rparr>, [])
                    else (s', failed_toast e)
                | _ \<Rightarrow> (s', failed_toast e)))"

definition lookup_timer :: "browser \<Rightarrow> ap_state \<Rightarrow> ap_result" where
  "lookup_timer b s =
     (case ap_lookupTimer s of
        None \<Rightarrow> (s, [])
      | Some (cid, identifier) \<Rightarrow>
          (let s' = s\<lparr>ap_lookupTimer := None, ap_assignmentLookupLoading := True\<rparr>
           in case client_path cid of
                None \<Rightarrow> lookup_settled False (Inl uri_error) s'
              | Some p \<Rightarrow> (s'\<lparr>ap_pending := ap_pending s' @ [AwaitLookup False]\<rparr>,
                  [api b (p @ js ''/assignment-lookup'')
                     (with_signal (post (JObj [(''identifier'', JStr identifier)])))])))"

section \<open>The step\<close>

fun ap_step :: "browser \<Rightarrow> ap_state \<Rightarrow> ap_event \<Rightarrow> ap_result" where
  "ap_step b s OpenCreate = (openCreateDialog s, [])"
| "ap_step b s (OpenEdit c) = (openEditDialog c s, [])"
| "ap_step b s (DialogOpenChange v) = (handleDialogOpenChange v s, [])"
| "ap_step b s (FormName v) = (s\<lparr>ap_form := (ap_form s)\<lparr>f_name := v\<rparr>\<rparr>, [])"
| "ap_step b s (FormDescription v) = (s\<lparr>ap_form := (ap_form s)\<lparr>f_description := v\<rparr>\<rparr>, [])"
| "ap_step b s (FormPolicy v) = (s\<lparr>ap_form := (ap_form s)\<lparr>f_accessPolicy := v\<rparr>\<rparr>, [])"
| "ap_step b s (UpdateURI i v) = (updateRedirectURI b i v s, [])"
| "ap_step b s AddURI = (addRedirectURI s, [])"
| "ap_step b s (RemoveURI i) = (removeRedirectURI b i s, [])"
| "ap_step b s SubmitClient = submitClient b s"
| "ap_step b s (DeleteClient c) = deleteClient b c s"
| "ap_step b s (CopyText v) = copy_text v s"
| "ap_step b s (ToggleSecret c) = toggleClientSecret b c s"
| "ap_step b s (RegenerateSecret c) = regenerateClientSecret b c s"
| "ap_step b s (OpenAccess c) = openAccessDialog b c s"
| "ap_step b s CloseAccess = (closeAccess s, [])"
| "ap_step b s (UpdateIdentifier v) = (updateAssignmentIdentifier v s, [])"
| "ap_step b s ClearIdentifier = (clearIdentifier s, [])"
| "ap_step b s SaveAssignment = saveAssignment b s"
| "ap_step b s RemoveAssignment = removeCandidateAssignment b s"
| "ap_step b s (VisibilityChange v) = (handleVisibilityChange v s, [])"
| "ap_step b s WindowBlur = (handleBlur s, [])"
| "ap_step b s WindowFocus = (s\<lparr>ap_docFocused := True\<rparr>, [])"
| "ap_step b s LookupTimer = lookup_timer b s"
| "ap_step b s (ClientsAnswer k r) =
     (let s' = s\<lparr>ap_pending := drop_nth k (ap_pending s), ap_loading := False\<rparr>
      in case r of Inr cs \<Rightarrow> (s'\<lparr>ap_clients := cs\<rparr>, []) | Inl e \<Rightarrow> (s', failed_toast e))"
| "ap_step b s (SubmitAnswer k r) =
     (case ap_pending s ! k of
        AwaitSubmit ed g \<Rightarrow> submit_settled ed g r (s\<lparr>ap_pending := drop_nth k (ap_pending s)\<rparr>) | _ \<Rightarrow> (s, []))"
| "ap_step b s (DeleteAnswer k r) =
     (case ap_pending s ! k of
        AwaitDelete cid \<Rightarrow> delete_settled cid r (s\<lparr>ap_pending := drop_nth k (ap_pending s)\<rparr>) | _ \<Rightarrow> (s, []))"
| "ap_step b s (SecretAnswer k r) =
     (case ap_pending s ! k of
        AwaitSecret cid g \<Rightarrow> secret_settled cid g r (s\<lparr>ap_pending := drop_nth k (ap_pending s)\<rparr>) | _ \<Rightarrow> (s, []))"
| "ap_step b s (RegenerateAnswer k r) =
     (case ap_pending s ! k of
        AwaitRegenerate cid g \<Rightarrow> regenerate_settled cid g r (s\<lparr>ap_pending := drop_nth k (ap_pending s)\<rparr>) | _ \<Rightarrow> (s, []))"
| "ap_step b s (AccessAnswer k r) =
     (case ap_pending s ! k of
        AwaitAccess cid \<Rightarrow> access_settled cid r (s\<lparr>ap_pending := drop_nth k (ap_pending s)\<rparr>) | _ \<Rightarrow> (s, []))"
| "ap_step b s (SaveAnswer k r) =
     (case ap_pending s ! k of
        AwaitSave cid \<Rightarrow> save_settled cid r (s\<lparr>ap_pending := drop_nth k (ap_pending s)\<rparr>) | _ \<Rightarrow> (s, []))"
| "ap_step b s (RemoveAnswer k r) =
     (case ap_pending s ! k of
        AwaitRemove cid \<Rightarrow> remove_settled cid r (s\<lparr>ap_pending := drop_nth k (ap_pending s)\<rparr>) | _ \<Rightarrow> (s, []))"
| "ap_step b s (LookupAnswer k r) =
     (case ap_pending s ! k of
        AwaitLookup aborted \<Rightarrow> lookup_settled aborted r (s\<lparr>ap_pending := drop_nth k (ap_pending s)\<rparr>) | _ \<Rightarrow> (s, []))"
| "ap_step b s (CopyAnswer k ok) = (s\<lparr>ap_pending := drop_nth k (ap_pending s)\<rparr>, copy_settled ok)"

section \<open>The rendered page\<close>

definition uri_row :: "ap_state \<Rightarrow> nat \<Rightarrow> jstr \<Rightarrow> ap_event node" where
  "uri_row s index uri =
     El ''div'' [Num ''key'' (int index)]
      (El ''div'' []
        (El ''Input'' ([Attr ''id'' (js ''redirect-uri-'' @ nat_str index), Attr ''type'' (js ''url''),
             Attr ''inputMode'' (js ''url''), Attr ''autoCapitalize'' (js ''none''), Attr ''autoCorrect'' (js ''off''),
             Flag ''spellCheck'' False, Attr ''value'' uri, OnInput (UpdateURI index),
             Attr ''placeholder'' (js ''URL callback lengkap aplikasi Anda''),
             Attr ''aria-label'' (js ''Redirect URI '' @ nat_str (Suc index)),
             Flag ''aria-invalid'' (map_of (ap_redirectURIErrors s) index \<noteq> None)]
           @ show_if (map_of (ap_redirectURIErrors s) index \<noteq> None)
               [Attr ''aria-describedby'' (js ''redirect-uri-error-'' @ nat_str index)]
           @ [Flag ''required'' True]) []
         # show_if (1 < length (f_redirectUris (ap_form s)))
            [El ''Button'' [Attr ''type'' (js ''button''), Attr ''variant'' (js ''ghost''), Attr ''size'' (js ''icon''),
               OnClick (RemoveURI index), Attr ''aria-label'' (js ''Hapus Redirect URI '' @ nat_str (Suc index))]
              [El ''Trash2'' [] []]])
       # (case map_of (ap_redirectURIErrors s) index of None \<Rightarrow> []
          | Some m \<Rightarrow> [El ''p'' [Attr ''id'' (js ''redirect-uri-error-'' @ nat_str index)] [Txt m]]))"

definition client_dialog :: "ap_state \<Rightarrow> ap_event node" where
  "client_dialog s =
     (let editing = ap_editingClient s \<noteq> None; form = ap_form s
      in El ''Dialog'' [Flag ''open'' (ap_dialogOpen s), OnClick (DialogOpenChange False)]
      [El ''DialogContent'' []
        [El ''form'' [OnSubmit SubmitClient]
          [El ''DialogHeader'' []
            [El ''DialogTitle'' [] [lit (if editing then ''Edit aplikasi'' else ''Tambah aplikasi'')],
             El ''DialogDescription'' [] [lit (if editing
                then ''Perbarui nama, deskripsi, atau alamat callback aplikasi.''
                else ''Isi identitas aplikasi dan alamat callback yang akan menerima kode login.'')]],
           El ''div'' []
            [field [label ''client-name'' ''Nama aplikasi'',
               El ''Input'' [Attr ''id'' (js ''client-name''), Attr ''value'' (f_name form), OnInput FormName,
                 Num ''minLength'' 2, Num ''maxLength'' 120, Attr ''placeholder'' (js ''Contoh: Portal Komisariat''),
                 Flag ''required'' True, Flag ''autoFocus'' True] []],
             field [El ''Label'' [Attr ''htmlFor'' (js ''client-description'')] [lit ''Deskripsi '', El ''span'' [] [lit ''(opsional)'']],
               El ''Textarea'' [Attr ''id'' (js ''client-description''), Attr ''value'' (f_description form),
                 OnInput FormDescription, Num ''maxLength'' 500, Num ''rows'' 3,
                 Attr ''placeholder'' (js ''Kegunaan singkat aplikasi'')] []],
             field [label ''access-policy'' ''Siapa yang dapat masuk'',
               El ''Select'' [Attr ''value'' (policy_text (f_accessPolicy form))]
                [El ''SelectTrigger'' [Attr ''id'' (js ''access-policy'')] [El ''SelectValue'' [] []],
                 El ''SelectContent'' []
                  [El ''SelectItem'' [Attr ''value'' (js ''assigned_only''), OnClick (FormPolicy AssignedOnly)]
                     [lit ''Hanya pengguna yang ditugaskan''],
                   El ''SelectItem'' [Attr ''value'' (js ''all_active_users''), OnClick (FormPolicy AllActiveUsers)]
                     [lit ''Semua akun aktif'']]],
               El ''p'' [] [lit ''Pilih assignment untuk aplikasi internal atau sensitif. Pemilik aplikasi otomatis mendapat akses.'']],
             El ''fieldset'' []
              [El ''div'' []
                [El ''Label'' [] [El ''legend'' [] [lit ''Redirect URI'']],
                 El ''Button'' [Attr ''type'' (js ''button''), Attr ''variant'' (js ''outline''), Attr ''size'' (js ''sm''),
                   OnClick AddURI] [El ''Plus'' [] [], lit ''Tambah URI'']],
               El ''div'' [] (map (\<lambda>i. uri_row s i (f_redirectUris form ! i)) [0..<length (f_redirectUris form)]),
               El ''p'' [] [lit ''Gunakan HTTPS di produksi. HTTP hanya dapat digunakan untuk localhost.'']]],
           El ''DialogFooter'' []
            [El ''Button'' [Attr ''type'' (js ''button''), Attr ''variant'' (js ''outline''), OnClick (DialogOpenChange False)]
               [lit ''Batal''],
             El ''Button'' [Flag ''disabled'' (ap_submitting s)]
               (show_if (ap_submitting s) [El ''Spinner'' [] []]
                @ [lit (if ap_submitting s then ''Menyimpan...''
                        else if editing then ''Simpan perubahan'' else ''Tambah aplikasi'')])]]]])"

definition candidate_rows :: "ap_state \<Rightarrow> oauth_client \<Rightarrow> assignable_user \<Rightarrow> ap_event node" where
  "candidate_rows s c u =
     El ''div'' []
      [El ''div'' [] [El ''p'' [] [Txt (au_name u)], El ''p'' [] [Txt (au_email u)], El ''p'' [] [Txt (au_user_id u)]],
       El ''div'' []
        (El ''Badge'' [Attr ''variant'' (js (if ap_candidateAssigned s then ''secondary'' else ''outline''))]
           [lit (if ap_candidateAssigned s then ''Sudah memiliki akses'' else ''Akun ditemukan'')]
         # show_if (ap_candidateAssigned s \<and> au_user_id u \<noteq> c_owner_id c)
             [confirm_dialog [Attr ''size'' (js ''sm''), Attr ''variant'' (js ''outline'')] [El ''Trash2'' [] [], lit ''Cabut'']
                ''Cabut akses pengguna?''
                (au_name u @ js '' tidak dapat login lagi ke aplikasi ini. Token dan authorization code aktifnya juga dicabut.'')
                [OnClick RemoveAssignment] [lit ''Cabut akses'']])]"

definition access_dialog :: "ap_state \<Rightarrow> ap_event node" where
  "access_dialog s =
     (let ac = ap_accessClient s; all = (\<exists>c. ac = Some c \<and> c_access_policy c = AllActiveUsers)
      in El ''Dialog'' [Flag ''open'' (ac \<noteq> None), OnClick CloseAccess]
      [El ''DialogContent'' []
        [El ''DialogHeader'' []
          [El ''DialogTitle'' [] [lit ''Akses aplikasi '', Txt (case ac of Some c \<Rightarrow> c_name c | None \<Rightarrow> [])],
           El ''DialogDescription'' [] [lit ''Atur siapa yang boleh menyelesaikan login SSO ke aplikasi ini.'']],
         El ''div'' []
          (El ''div'' []
            [El ''div'' [] [El ''ShieldCheck'' [] [], lit (if all then ''Semua akun aktif dapat masuk''
               else ''Default deny: hanya assignment aktif dapat masuk'')],
             El ''p'' [] [lit ''SSO hanya menentukan siapa yang boleh masuk. Role dan permission bisnis dikelola sendiri oleh aplikasi tujuan.'']]
           # (case ac of
                None \<Rightarrow> []
              | Some c \<Rightarrow> show_if (c_access_policy c = AssignedOnly)
                 [El ''form'' [OnSubmit SaveAssignment]
                   ([El ''div'' [] [El ''UserPlus'' [] [], lit ''Tambahkan akses pengguna''],
                     El ''div'' []
                      ([label ''assignment-identifier'' ''ID pengguna atau email'',
                        El ''div'' []
                         (El ''Input'' [Attr ''id'' (js ''assignment-identifier''), Attr ''value'' (ap_assignmentIdentifier s),
                            OnInput UpdateIdentifier, Attr ''placeholder'' (js ''UUID lengkap atau anggota@example.com''),
                            Attr ''autoComplete'' (js ''off''), Flag ''required'' True] []
                          # show_if (ap_assignmentLookupLoading s) [El ''Spinner'' [] []]),
                        El ''p'' [] [lit ''Pencarian otomatis hanya berjalan untuk UUID lengkap atau format email lengkap. Nilai harus cocok persis.'']]
                       @ (case ap_assignmentLookupMessage s of Some m \<Rightarrow> show_if (m \<noteq> []) [El ''p'' [] [Txt m]] | None \<Rightarrow> []))]
                    @ (case ap_assignmentCandidate s of Some u \<Rightarrow> [candidate_rows s c u] | None \<Rightarrow> [])
                    @ [El ''div'' []
                        (El ''Button'' [Attr ''type'' (js ''button''), Attr ''variant'' (js ''outline''), OnClick ClearIdentifier]
                           [lit ''Bersihkan'']
                         # show_if (\<not> ap_candidateAssigned s)
                            [El ''Button'' [Flag ''disabled'' (ap_assignmentCandidate s = None \<or> ap_assignmentSubmitting s)]
                              (show_if (ap_assignmentSubmitting s) [El ''Spinner'' [] []] @ [lit ''Tambahkan akses''])])]),
                  El ''div'' []
                   [El ''div'' [] [El ''p'' [] [lit ''Total pengguna ditugaskan''],
                      El ''p'' [] [lit ''Cari UUID atau email lengkap di atas untuk menambah atau mencabut akses.'']],
                    El ''Badge'' [Attr ''variant'' (js ''secondary'')] [Txt (int_str (c_assignment_count c))]]]))]])"

definition hidden_secret :: jstr where
  "hidden_secret = replicate 32 0x2022"

definition shown_secret :: "ap_state \<Rightarrow> jstr \<Rightarrow> jstr" where
  "shown_secret s cid =
     (if ap_visibleSecrets s cid = Some True \<and> truthy (ap_clientSecrets s cid)
      then (case ap_clientSecrets s cid of Some v \<Rightarrow> v | None \<Rightarrow> []) else hidden_secret)"

definition secret_rows :: "ap_state \<Rightarrow> oauth_client \<Rightarrow> ap_event node" where
  "secret_rows s c =
     (let cid = c_client_id c; vis = (ap_visibleSecrets s cid = Some True);
          loadingThis = (ap_loadingSecretID s = Some cid); regenThis = (ap_regeneratingSecretID s = Some cid)
      in El ''div'' []
      ([El ''p'' [] [lit ''CLIENT SECRET''],
        El ''div'' []
         [El ''code'' [Attr ''aria-label'' (js (if vis then ''Client secret terlihat'' else ''Client secret disembunyikan''))]
            [Txt (shown_secret s cid)],
          El ''Button'' [Attr ''size'' (js ''icon''), Attr ''variant'' (js ''outline''), OnClick (ToggleSecret c),
              Flag ''disabled'' (loadingThis \<or> regenThis \<or> \<not> c_secret_available c),
              Attr ''aria-label'' (js (if vis then ''Sembunyikan client secret'' else ''Lihat client secret''))]
            [El (if loadingThis then ''Spinner'' else if vis then ''EyeOff'' else ''Eye'') [] []],
          El ''Button'' [Attr ''size'' (js ''icon''), Attr ''variant'' (js ''outline''),
              OnClick (CopyText (case ap_clientSecrets s cid of Some v \<Rightarrow> v | None \<Rightarrow> [])),
              Flag ''disabled'' (\<not> truthy (ap_clientSecrets s cid)), Attr ''aria-label'' (js ''Salin client secret'')]
            [El ''Copy'' [] []]]]
       @ show_if (\<not> c_secret_available c)
           [El ''p'' [] [lit ''Secret lama tidak dapat dipulihkan. Regenerate untuk membuat secret baru.'']]
       @ [confirm_dialog [Attr ''variant'' (js ''outline''), Attr ''size'' (js ''sm''), Flag ''disabled'' (loadingThis \<or> regenThis)]
            [El ''RefreshCw'' [] [], lit ''Regenerate secret''] ''Regenerate client secret?''
            (js ''Secret lama langsung tidak berlaku. Semua token dan authorization code aplikasi ini akan dicabut sehingga aplikasi harus dihubungkan ulang.'')
            [Flag ''disabled'' regenThis, OnClick (RegenerateSecret c)]
            (show_if regenThis [El ''Spinner'' [] []] @ [lit ''Regenerate dan cabut akses lama''])]))"

definition client_card :: "ap_state \<Rightarrow> oauth_client \<Rightarrow> ap_event node" where
  "client_card s c =
     El ''Card'' [Attr ''key'' (c_client_id c)]
      [El ''CardHeader'' []
        [El ''div'' []
          [El ''div'' [] [El ''CardTitle'' [] [Txt (c_name c)],
             El ''CardDescription'' [] [Txt (if c_description c = [] then js ''Tanpa deskripsi'' else c_description c)],
             El ''div'' []
              [El ''Badge'' [Attr ''variant'' (js (if c_access_policy c = AssignedOnly then ''default'' else ''secondary''))]
                 [lit (if c_access_policy c = AssignedOnly then ''Assignment wajib'' else ''Semua akun aktif'')],
               El ''Badge'' [Attr ''variant'' (js ''outline'')] [Txt (int_str (c_assignment_count c) @ js '' pengguna'')]]],
           El ''div'' []
            [El ''Button'' [Attr ''variant'' (js ''ghost''), Attr ''size'' (js ''icon''), OnClick (OpenEdit c),
               Attr ''aria-label'' (js ''Edit '' @ c_name c)] [El ''Pencil'' [] []],
             confirm_dialog [Attr ''variant'' (js ''ghost''), Attr ''size'' (js ''icon''), Attr ''aria-label'' (js ''Hapus '' @ c_name c)]
               [El ''Trash2'' [] []] ''Hapus aplikasi?''
               (js ''Aplikasi, authorization code, access token, dan refresh token terkait akan dihapus. Tindakan ini tidak dapat dibatalkan.'')
               [OnClick (DeleteClient c)] [lit ''Hapus aplikasi'']]]],
       El ''CardContent'' []
        [El ''div'' []
          [uri_link (js ''/dashboard/aplikasi/'') (c_client_id c) [El ''FileText'' [] [], lit ''Lihat detail''],
           El ''Button'' [Attr ''variant'' (js ''outline''), OnClick (OpenAccess c)] [El ''Users'' [] [], lit ''Kelola akses'']],
         El ''div'' [] [El ''p'' [] [lit ''CLIENT ID''],
           El ''div'' [] [El ''code'' [] [Txt (c_client_id c)],
             El ''Button'' [Attr ''size'' (js ''icon''), Attr ''variant'' (js ''outline''), OnClick (CopyText (c_client_id c)),
               Attr ''aria-label'' (js ''Salin client ID'')] [El ''Copy'' [] []]]],
         secret_rows s c,
         El ''div'' [] [El ''p'' [] [lit ''REDIRECT URI''],
           El ''div'' [] (map (\<lambda>u. El ''p'' [Attr ''key'' u] [Txt u]) (c_redirect_uris c))]]]"

definition AplikasiPage :: "ap_state \<Rightarrow> ap_event node" where
  "AplikasiPage s =
     El ''div'' []
      [page_header ''Aplikasi OAuth'' ''Buat dan kelola kredensial aplikasi milik Anda.''
         [El ''Button'' [OnClick OpenCreate] [El ''Plus'' [] [], lit ''Tambah aplikasi'']],
       client_dialog s, access_dialog s,
       El ''div'' []
        (show_if (ap_loading s) (map (\<lambda>item. OAuthClientCardSkeleton) [1::nat, 2])
         @ show_if (\<not> ap_loading s \<and> ap_clients s = [])
             [El ''Card'' [] [El ''CardContent'' [] [empty_box ''AppWindow'' ''Belum ada aplikasi''
                ''Tambahkan aplikasi pertama untuk memulai integrasi SSO.'']]]
         @ map (client_card s) (ap_clients s))]"

fun ap_pending_kind :: "ap_event \<Rightarrow> (nat \<times> (ap_pending \<Rightarrow> bool)) option" where
  "ap_pending_kind (ClientsAnswer k r) = Some (k, \<lambda>p. p = AwaitClients)"
| "ap_pending_kind (SubmitAnswer k r) = Some (k, \<lambda>p. case p of AwaitSubmit _ _ \<Rightarrow> True | _ \<Rightarrow> False)"
| "ap_pending_kind (DeleteAnswer k r) = Some (k, \<lambda>p. case p of AwaitDelete _ \<Rightarrow> True | _ \<Rightarrow> False)"
| "ap_pending_kind (SecretAnswer k r) = Some (k, \<lambda>p. case p of AwaitSecret _ _ \<Rightarrow> True | _ \<Rightarrow> False)"
| "ap_pending_kind (RegenerateAnswer k r) = Some (k, \<lambda>p. case p of AwaitRegenerate _ _ \<Rightarrow> True | _ \<Rightarrow> False)"
| "ap_pending_kind (AccessAnswer k r) = Some (k, \<lambda>p. case p of AwaitAccess _ \<Rightarrow> True | _ \<Rightarrow> False)"
| "ap_pending_kind (SaveAnswer k r) = Some (k, \<lambda>p. case p of AwaitSave _ \<Rightarrow> True | _ \<Rightarrow> False)"
| "ap_pending_kind (RemoveAnswer k r) = Some (k, \<lambda>p. case p of AwaitRemove _ \<Rightarrow> True | _ \<Rightarrow> False)"
| "ap_pending_kind (LookupAnswer k r) =
     Some (k, \<lambda>p. case p of AwaitLookup aborted \<Rightarrow> aborted \<longrightarrow> (\<exists>e. r = Inl e) | _ \<Rightarrow> False)"
| "ap_pending_kind (CopyAnswer k ok) = Some (k, \<lambda>p. p = AwaitCopy)"
| "ap_pending_kind e = None"

definition ap_ok :: "ap_state \<Rightarrow> ap_event \<Rightarrow> bool" where
  "ap_ok s e =
     (case ap_pending_kind e of
        Some (k, kind) \<Rightarrow> k < length (ap_pending s) \<and> kind (ap_pending s ! k)
      | None \<Rightarrow>
          (case e of VisibilityChange _ \<Rightarrow> True | WindowBlur \<Rightarrow> True | WindowFocus \<Rightarrow> True
           | LookupTimer \<Rightarrow> ap_lookupTimer s \<noteq> None
           | _ \<Rightarrow> offers (AplikasiPage s) e))"

definition ap_next :: "browser \<Rightarrow> ap_state \<Rightarrow> ap_event \<Rightarrow> ap_state" where
  "ap_next b s e = fst (ap_step b s e)"

section \<open>The secrets are in memory only while the page is in front\<close>

definition secrets_inv :: "ap_state \<Rightarrow> bool" where
  "secrets_inv s =
     ((ap_clientSecrets s = Map.empty \<or> canRetainClientSecret (ap_docVisible s) (ap_docFocused s))
      \<and> ap_visibleSecrets s = (\<lambda>c. if ap_clientSecrets s c = None then None else Some True))"

definition uris_inv :: "ap_state \<Rightarrow> bool" where
  "uris_inv s = (f_redirectUris (ap_form s) \<noteq> [])"

text \<open>The fields the two invariants speak of; most of the page's steps keep them.\<close>

definition core :: "ap_state \<Rightarrow> (jstr \<rightharpoonup> jstr) \<times> (jstr \<rightharpoonup> bool) \<times> bool \<times> bool \<times> nat" where
  "core s = (ap_clientSecrets s, ap_visibleSecrets s, ap_docVisible s, ap_docFocused s, ap_secretMemoryGeneration s)"

lemma secrets_inv_core: "core s = core s' \<Longrightarrow> secrets_inv s = secrets_inv s'"
  by (auto simp: core_def secrets_inv_def)

lemma core_lookup [simp]: "core (lookup_effect s) = core s" "ap_form (lookup_effect s) = ap_form s"
  by (auto simp: core_def lookup_effect_def lookup_cleanup_def Let_def split: option.split)

lemma core_identifier [simp]:
  "core (set_identifier v s) = core s" "ap_form (set_identifier v s) = ap_form s"
  "core (reset_candidate s) = core s" "ap_form (reset_candidate s) = ap_form s"
  by (auto simp: set_identifier_def reset_candidate_def) (auto simp: core_def)

lemma core_change_count [simp]: "core (change_count f cid s) = core s" "ap_form (change_count f cid s) = ap_form s"
  by (auto simp: change_count_def Let_def split: option.split) (auto simp: core_def)

lemma core_updates [simp]:
  "core (s\<lparr>ap_clients := a\<rparr>) = core s" "core (s\<lparr>ap_loading := b\<rparr>) = core s"
  "core (s\<lparr>ap_dialogOpen := b\<rparr>) = core s" "core (s\<lparr>ap_editingClient := c\<rparr>) = core s"
  "core (s\<lparr>ap_submitting := b\<rparr>) = core s" "core (s\<lparr>ap_loadingSecretID := d\<rparr>) = core s"
  "core (s\<lparr>ap_regeneratingSecretID := d\<rparr>) = core s" "core (s\<lparr>ap_form := f\<rparr>) = core s"
  "core (s\<lparr>ap_redirectURIErrors := g\<rparr>) = core s" "core (s\<lparr>ap_accessClient := c\<rparr>) = core s"
  "core (s\<lparr>ap_assignmentIdentifier := h\<rparr>) = core s" "core (s\<lparr>ap_assignmentCandidate := k\<rparr>) = core s"
  "core (s\<lparr>ap_candidateAssigned := b\<rparr>) = core s" "core (s\<lparr>ap_assignmentLookupLoading := b\<rparr>) = core s"
  "core (s\<lparr>ap_assignmentLookupMessage := l\<rparr>) = core s" "core (s\<lparr>ap_assignmentSubmitting := b\<rparr>) = core s"
  "core (s\<lparr>ap_lookupTimer := m\<rparr>) = core s" "core (s\<lparr>ap_pending := n\<rparr>) = core s"
  by (simp_all add: core_def)

lemma secrets_inv_retain: "secrets_inv s \<Longrightarrow> secrets_inv (retain_secret g cid v s)"
  by (auto simp: retain_secret_def secrets_inv_def)

lemma secrets_inv_forget: "secrets_inv s \<Longrightarrow> secrets_inv (forget_secret cid s)"
  by (auto simp: forget_secret_def secrets_inv_def fun_eq_iff)

lemma secrets_inv_clear: "secrets_inv (clearSecrets s)"
  by (simp add: clearSecrets_def secrets_inv_def)

lemma secrets_inv_updates [simp]:
  "secrets_inv (s\<lparr>ap_clients := a\<rparr>) = secrets_inv s" "secrets_inv (s\<lparr>ap_loading := b\<rparr>) = secrets_inv s"
  "secrets_inv (s\<lparr>ap_dialogOpen := b\<rparr>) = secrets_inv s" "secrets_inv (s\<lparr>ap_editingClient := c\<rparr>) = secrets_inv s"
  "secrets_inv (s\<lparr>ap_submitting := b\<rparr>) = secrets_inv s" "secrets_inv (s\<lparr>ap_loadingSecretID := d\<rparr>) = secrets_inv s"
  "secrets_inv (s\<lparr>ap_regeneratingSecretID := d\<rparr>) = secrets_inv s" "secrets_inv (s\<lparr>ap_form := f\<rparr>) = secrets_inv s"
  "secrets_inv (s\<lparr>ap_redirectURIErrors := g\<rparr>) = secrets_inv s" "secrets_inv (s\<lparr>ap_accessClient := c\<rparr>) = secrets_inv s"
  "secrets_inv (s\<lparr>ap_assignmentIdentifier := h\<rparr>) = secrets_inv s" "secrets_inv (s\<lparr>ap_assignmentCandidate := k\<rparr>) = secrets_inv s"
  "secrets_inv (s\<lparr>ap_candidateAssigned := b\<rparr>) = secrets_inv s" "secrets_inv (s\<lparr>ap_assignmentLookupLoading := b\<rparr>) = secrets_inv s"
  "secrets_inv (s\<lparr>ap_assignmentLookupMessage := l\<rparr>) = secrets_inv s" "secrets_inv (s\<lparr>ap_assignmentSubmitting := b\<rparr>) = secrets_inv s"
  "secrets_inv (s\<lparr>ap_lookupTimer := m\<rparr>) = secrets_inv s" "secrets_inv (s\<lparr>ap_pending := n\<rparr>) = secrets_inv s"
  by (rule secrets_inv_core, simp)+

lemma secrets_inv_helpers [simp]:
  "secrets_inv (lookup_effect s) = secrets_inv s" "secrets_inv (set_identifier v s) = secrets_inv s"
  "secrets_inv (reset_candidate s) = secrets_inv s" "secrets_inv (change_count h cid s) = secrets_inv s"
  "secrets_inv (closeAndResetDialog s) = secrets_inv s"
  by (rule secrets_inv_core, simp add: closeAndResetDialog_def)+

lemma secrets_inv_settled:
  "secrets_inv s \<Longrightarrow> secrets_inv (fst (secret_settled cid g r s))"
  "secrets_inv s \<Longrightarrow> secrets_inv (fst (regenerate_settled cid g q s))"
  "secrets_inv s \<Longrightarrow> secrets_inv (fst (submit_settled ed g t s))"
  "secrets_inv s \<Longrightarrow> secrets_inv (fst (delete_settled cid u s))"
  "secrets_inv s \<Longrightarrow> secrets_inv (fst (access_settled cid t s))"
  "secrets_inv s \<Longrightarrow> secrets_inv (fst (save_settled cid u s))"
  "secrets_inv s \<Longrightarrow> secrets_inv (fst (remove_settled cid u s))"
  "secrets_inv s \<Longrightarrow> secrets_inv (fst (lookup_settled ab v s))"
  by (auto simp: secret_settled_def regenerate_settled_def submit_settled_def delete_settled_def access_settled_def
      save_settled_def remove_settled_def lookup_settled_def Let_def
      intro!: secrets_inv_retain secrets_inv_forget split: sum.split option.split js_error.split)

lemmas ap_handler_defs = toggleClientSecret_def regenerateClientSecret_def openCreateDialog_def openEditDialog_def
  handleDialogOpenChange_def submitClient_def updateRedirectURI_def addRedirectURI_def removeRedirectURI_def
  deleteClient_def copy_text_def openAccessDialog_def closeAccess_def clearIdentifier_def
  updateAssignmentIdentifier_def saveAssignment_def removeCandidateAssignment_def lookup_timer_def

lemma secrets_inv_step: 
  assumes "secrets_inv s"
  shows "secrets_inv (ap_next b s e)"
proof (cases e)
  case (VisibilityChange v)
  then show ?thesis using assms
    by (auto simp: ap_next_def handleVisibilityChange_def Let_def secrets_inv_clear)
      (auto simp: secrets_inv_def canRetainClientSecret_def)
next
  case WindowFocus
  then show ?thesis using assms by (auto simp: ap_next_def secrets_inv_def canRetainClientSecret_def)
qed (use assms in \<open>auto simp: ap_next_def ap_handler_defs Let_def handleBlur_def
      intro!: secrets_inv_settled secrets_inv_forget secrets_inv_clear
      split: ap_pending.split sum.split option.split\<close>)


lemma uris_inv_updates [simp]:
  "uris_inv (lookup_effect s) = uris_inv s" "uris_inv (set_identifier v s) = uris_inv s"
  "uris_inv (reset_candidate s) = uris_inv s" "uris_inv (change_count h cid s) = uris_inv s"
  "uris_inv (retain_secret g cid w s) = uris_inv s" "uris_inv (forget_secret cid s) = uris_inv s"
  "uris_inv (clearSecrets s) = uris_inv s"
  by (simp_all add: uris_inv_def retain_secret_def forget_secret_def clearSecrets_def)

lemma uris_inv_settled:
  "uris_inv s \<Longrightarrow> uris_inv (fst (secret_settled cid g r s))"
  "uris_inv s \<Longrightarrow> uris_inv (fst (regenerate_settled cid g q s))"
  "uris_inv s \<Longrightarrow> uris_inv (fst (submit_settled ed g t s))"
  "uris_inv s \<Longrightarrow> uris_inv (fst (delete_settled cid u s))"
  "uris_inv s \<Longrightarrow> uris_inv (fst (access_settled cid t s))"
  "uris_inv s \<Longrightarrow> uris_inv (fst (save_settled cid u s))"
  "uris_inv s \<Longrightarrow> uris_inv (fst (remove_settled cid u s))"
  "uris_inv s \<Longrightarrow> uris_inv (fst (lookup_settled ab v s))"
  by (auto simp: uris_inv_def secret_settled_def regenerate_settled_def submit_settled_def delete_settled_def
      access_settled_def save_settled_def remove_settled_def lookup_settled_def Let_def closeAndResetDialog_def
      EMPTY_FORM_def retain_secret_def forget_secret_def split: sum.split option.split js_error.split)

lemma drop_nth_not_Nil: "xs \<noteq> [] \<Longrightarrow> length xs \<noteq> 1 \<Longrightarrow> drop_nth k xs \<noteq> []"
  by (cases xs; cases k; cases "tl xs") (auto simp: drop_nth_def)

lemma uris_inv_step:
  assumes "uris_inv s"
  shows "uris_inv (ap_next b s e)"
proof (cases e)
  case (RemoveURI i)
  with assms show ?thesis
    by (auto simp: ap_next_def removeRedirectURI_def uris_inv_def Let_def drop_nth_not_Nil)
qed (use assms in \<open>auto simp: ap_next_def ap_handler_defs Let_def handleBlur_def handleVisibilityChange_def
      uris_inv_def EMPTY_FORM_def clearSecrets_def forget_secret_def
      intro!: uris_inv_settled [unfolded uris_inv_def]
      split: ap_pending.split sum.split option.split\<close>)

section \<open>Secret requests and the memory generation\<close>

fun pending_generation :: "ap_pending \<Rightarrow> nat option" where
  "pending_generation (AwaitSubmit ed g) = Some g"
| "pending_generation (AwaitSecret cid g) = Some g"
| "pending_generation (AwaitRegenerate cid g) = Some g"
| "pending_generation p = None"

definition generations :: "ap_state \<Rightarrow> nat set" where
  "generations s = {g. \<exists>p\<in>set (ap_pending s). pending_generation p = Some g}"

lemma generations_lookup [simp]: "generations (lookup_effect s) = generations s"
proof -
  have "pending_generation (case p of AwaitLookup _ \<Rightarrow> AwaitLookup True | _ \<Rightarrow> p) = pending_generation p" for p
    by (cases p) auto
  then show ?thesis
    by (auto simp: generations_def lookup_effect_def lookup_cleanup_def Let_def split: option.split)
qed

lemma generations_updates [simp]:
  "generations (s\<lparr>ap_clients := a\<rparr>) = generations s" "generations (s\<lparr>ap_loading := b\<rparr>) = generations s"
  "generations (s\<lparr>ap_submitting := b\<rparr>) = generations s" "generations (s\<lparr>ap_loadingSecretID := d\<rparr>) = generations s"
  "generations (s\<lparr>ap_regeneratingSecretID := d\<rparr>) = generations s" "generations (s\<lparr>ap_form := f\<rparr>) = generations s"
  "generations (s\<lparr>ap_accessClient := c\<rparr>) = generations s" "generations (s\<lparr>ap_assignmentIdentifier := j\<rparr>) = generations s"
  "generations (s\<lparr>ap_assignmentCandidate := k\<rparr>) = generations s" "generations (s\<lparr>ap_candidateAssigned := b\<rparr>) = generations s"
  "generations (s\<lparr>ap_assignmentLookupLoading := b\<rparr>) = generations s" "generations (s\<lparr>ap_assignmentSubmitting := b\<rparr>) = generations s"
  "generations (s\<lparr>ap_assignmentLookupMessage := d\<rparr>) = generations s" "generations (s\<lparr>ap_lookupTimer := m\<rparr>) = generations s"
  "generations (s\<lparr>ap_docVisible := b\<rparr>) = generations s" "generations (s\<lparr>ap_docFocused := b\<rparr>) = generations s"
  "generations (s\<lparr>ap_dialogOpen := b\<rparr>) = generations s" "generations (s\<lparr>ap_editingClient := c\<rparr>) = generations s"
  "generations (s\<lparr>ap_redirectURIErrors := g\<rparr>) = generations s"
  by (simp_all add: generations_def)

lemma generations_helpers [simp]:
  "generations (set_identifier v s) = generations s" "generations (reset_candidate s) = generations s"
  "generations (change_count h cid s) = generations s" "generations (forget_secret cid s) = generations s"
  "generations (retain_secret g cid w s) = generations s" "generations (clearSecrets s) = generations s"
  "generations (closeAndResetDialog s) = generations s"
  by (simp_all add: set_identifier_def reset_candidate_def change_count_def closeAndResetDialog_def Let_def
      split: option.split)
    (simp_all add: forget_secret_def retain_secret_def clearSecrets_def generations_def)

lemma generations_settled [simp]:
  "generations (fst (secret_settled cid g r s)) = generations s"
  "generations (fst (regenerate_settled cid g q s)) = generations s"
  "generations (fst (submit_settled ed g t s)) = generations s"
  "generations (fst (delete_settled cid u s)) = generations s"
  "generations (fst (access_settled cid t s)) = generations s"
  "generations (fst (save_settled cid u s)) = generations s"
  "generations (fst (remove_settled cid u s)) = generations s"
  "generations (fst (lookup_settled ab v s)) = generations s"
  by (simp_all add: secret_settled_def regenerate_settled_def submit_settled_def delete_settled_def access_settled_def
      save_settled_def remove_settled_def lookup_settled_def Let_def split: sum.split option.split js_error.split)

lemma generations_drop: "g \<in> generations (s\<lparr>ap_pending := drop_nth k (ap_pending s)\<rparr>) \<Longrightarrow> g \<in> generations s"
  by (auto simp: generations_def)

lemma generations_add:
  "generations (s\<lparr>ap_pending := ap_pending t @ [p]\<rparr>) = generations t \<union> set_option (pending_generation p)"
  by (auto simp: generations_def)

lemma core_D:
  "core s = core t \<Longrightarrow> ap_secretMemoryGeneration s = ap_secretMemoryGeneration t"
  "core s = core t \<Longrightarrow> ap_clientSecrets s = ap_clientSecrets t"
  by (simp_all add: core_def)

text \<open>A request carries the generation of the moment it was sent, so never a later one.\<close>

definition stamped :: "ap_state \<Rightarrow> bool" where
  "stamped s = (\<forall>g\<in>generations s. g \<le> ap_secretMemoryGeneration s)"

text \<open>Nothing in memory, and every request under way is older than the last wipe.\<close>

definition wiped :: "ap_state \<Rightarrow> bool" where
  "wiped s = (ap_clientSecrets s = Map.empty \<and> (\<forall>g\<in>generations s. g < ap_secretMemoryGeneration s))"

fun asks_for_secret :: "ap_event \<Rightarrow> bool" where
  "asks_for_secret SubmitClient = True"
| "asks_for_secret (ToggleSecret c) = True"
| "asks_for_secret (RegenerateSecret c) = True"
| "asks_for_secret e = False"

lemma generation_helpers [simp]:
  "ap_secretMemoryGeneration (lookup_effect s) = ap_secretMemoryGeneration s"
  "ap_secretMemoryGeneration (set_identifier v s) = ap_secretMemoryGeneration s"
  "ap_secretMemoryGeneration (reset_candidate s) = ap_secretMemoryGeneration s"
  "ap_secretMemoryGeneration (change_count h cid s) = ap_secretMemoryGeneration s"
  "ap_secretMemoryGeneration (closeAndResetDialog s) = ap_secretMemoryGeneration s"
  "ap_secretMemoryGeneration (forget_secret cid s) = ap_secretMemoryGeneration s"
  "ap_secretMemoryGeneration (retain_secret g cid w s) = ap_secretMemoryGeneration s"
  by (rule core_D, simp add: closeAndResetDialog_def)+ (simp_all add: forget_secret_def retain_secret_def)

lemma secrets_helpers [simp]:
  "ap_clientSecrets (lookup_effect s) = ap_clientSecrets s"
  "ap_clientSecrets (set_identifier v s) = ap_clientSecrets s"
  "ap_clientSecrets (reset_candidate s) = ap_clientSecrets s"
  "ap_clientSecrets (change_count h cid s) = ap_clientSecrets s"
  "ap_clientSecrets (closeAndResetDialog s) = ap_clientSecrets s"
  by (rule core_D, simp add: closeAndResetDialog_def)+

lemma generation_settled [simp]:
  "ap_secretMemoryGeneration (fst (secret_settled cid g r s)) = ap_secretMemoryGeneration s"
  "ap_secretMemoryGeneration (fst (regenerate_settled cid g q s)) = ap_secretMemoryGeneration s"
  "ap_secretMemoryGeneration (fst (submit_settled ed g t s)) = ap_secretMemoryGeneration s"
  "ap_secretMemoryGeneration (fst (delete_settled cid u s)) = ap_secretMemoryGeneration s"
  "ap_secretMemoryGeneration (fst (access_settled cid t s)) = ap_secretMemoryGeneration s"
  "ap_secretMemoryGeneration (fst (save_settled cid u s)) = ap_secretMemoryGeneration s"
  "ap_secretMemoryGeneration (fst (remove_settled cid u s)) = ap_secretMemoryGeneration s"
  "ap_secretMemoryGeneration (fst (lookup_settled ab v s)) = ap_secretMemoryGeneration s"
  by (simp_all add: secret_settled_def regenerate_settled_def submit_settled_def delete_settled_def access_settled_def
      save_settled_def remove_settled_def lookup_settled_def Let_def split: sum.split option.split js_error.split)

text \<open>An answer asked for in an older generation adds nothing.\<close>

lemma stale_answers:
  assumes "g \<noteq> ap_secretMemoryGeneration s"
  shows "ap_clientSecrets (fst (secret_settled cid g r s)) = ap_clientSecrets s"
    and "ap_clientSecrets (fst (regenerate_settled cid g q s)) = ap_clientSecrets s"
    and "ap_clientSecrets (fst (submit_settled ed g t s)) = ap_clientSecrets s"
  using assms by (simp_all add: secret_settled_def regenerate_settled_def submit_settled_def retain_secret_def Let_def
      split: sum.split option.split)

lemma plain_answers:
  "ap_clientSecrets s = Map.empty \<Longrightarrow> ap_clientSecrets (fst (delete_settled cid u s)) = Map.empty"
  "ap_clientSecrets (fst (access_settled cid t s)) = ap_clientSecrets s"
  "ap_clientSecrets (fst (save_settled cid u s)) = ap_clientSecrets s"
  "ap_clientSecrets (fst (remove_settled cid u s)) = ap_clientSecrets s"
  "ap_clientSecrets (fst (lookup_settled ab v s)) = ap_clientSecrets s"
  by (simp_all add: delete_settled_def access_settled_def save_settled_def remove_settled_def lookup_settled_def
      forget_secret_def Let_def split: sum.split option.split js_error.split)

lemma clear_simps:
  "ap_secretMemoryGeneration (clearSecrets s) = Suc (ap_secretMemoryGeneration s)"
  "ap_clientSecrets (clearSecrets s) = Map.empty"
  by (simp_all add: clearSecrets_def)

lemma stamped_step: "stamped s \<Longrightarrow> stamped (ap_next b s e)"
  by (cases e) (auto simp: stamped_def ap_next_def ap_handler_defs Let_def handleBlur_def handleVisibilityChange_def
      generations_add clear_simps dest!: generations_drop
      split: ap_pending.split sum.split option.split)

lemma in_generations: "p \<in> set (ap_pending s) \<Longrightarrow> pending_generation p = Some g \<Longrightarrow> g \<in> generations s"
  by (auto simp: generations_def)

lemma wiped_step:
  assumes w: "wiped s" and ok: "ap_ok s e" and "\<not> asks_for_secret e"
  shows "wiped (ap_next b s e)"
proof -
  have old: "g \<noteq> ap_secretMemoryGeneration s" if "k < length (ap_pending s)" "pending_generation (ap_pending s ! k) = Some g" for k g
    using w in_generations [OF nth_mem [OF that(1)] that(2)] by (auto simp: wiped_def)
  show ?thesis using assms 
    by (cases e) (auto simp: wiped_def ap_next_def ap_ok_def ap_handler_defs Let_def handleBlur_def handleVisibilityChange_def
      generations_add clear_simps stale_answers old plain_answers dest!: generations_drop
      split: ap_pending.splits sum.split option.split)
qed


lemma wiped_run:
  "wiped s \<Longrightarrow> possible (ap_next b) ap_ok s es \<Longrightarrow> \<not> list_ex asks_for_secret es \<Longrightarrow> wiped (run (ap_next b) s es)"
  by (induction es arbitrary: s) (auto intro: wiped_step)

section \<open>The lookup of an assignment\<close>

definition live_lookups :: "ap_state \<Rightarrow> ap_pending list" where
  "live_lookups s = filter (\<lambda>p. p = AwaitLookup False) (ap_pending s)"

text \<open>
  What the delayed lookup will ask is what the dialog shows, and a lookup is either still
  delayed or under way, never both and never twice.
\<close>

definition timer_inv :: "(jstr \<times> jstr) option \<Rightarrow> jstr \<Rightarrow> oauth_client option \<Rightarrow> bool" where
  "timer_inv timer typed client =
     (case timer of
        None \<Rightarrow> True
      | Some (cid, identifier) \<Rightarrow>
          identifier = trim typed \<and> isCompleteAssignmentIdentifier identifier
          \<and> (case client of None \<Rightarrow> False
             | Some c \<Rightarrow> c_client_id c = cid \<and> c_access_policy c = AssignedOnly))"

definition lookup_inv :: "ap_state \<Rightarrow> bool" where
  "lookup_inv s = (timer_inv (ap_lookupTimer s) (ap_assignmentIdentifier s) (ap_accessClient s)
     \<and> length (live_lookups s) \<le> (if ap_lookupTimer s = None then 1 else 0))"

lemma live_cleanup: "filter (\<lambda>p. p = AwaitLookup False) 
     (map (\<lambda>p. case p of AwaitLookup _ \<Rightarrow> AwaitLookup True | _ \<Rightarrow> p) ps) = []"
  by (induction ps) (auto split: ap_pending.split)

lemma lookup_inv_effect [simp]: "lookup_inv (lookup_effect s)"
  by (auto simp: lookup_inv_def timer_inv_def live_lookups_def lookup_effect_def lookup_cleanup_def Let_def live_cleanup
      split: option.split)

lemma lookup_inv_cong:
  assumes "ap_lookupTimer s = ap_lookupTimer t" "ap_assignmentIdentifier s = ap_assignmentIdentifier t"
    "ap_accessClient s = ap_accessClient t" "live_lookups s = live_lookups t"
  shows "lookup_inv s = lookup_inv t"
  using assms by (simp add: lookup_inv_def)

lemma timer_inv_None [simp]: "timer_inv None t c"
  by (simp add: timer_inv_def)

lemma lookup_inv_updates [simp]:
  "lookup_inv (s\<lparr>ap_clients := a\<rparr>) = lookup_inv s" "lookup_inv (s\<lparr>ap_loading := b\<rparr>) = lookup_inv s"
  "lookup_inv (s\<lparr>ap_submitting := b\<rparr>) = lookup_inv s" "lookup_inv (s\<lparr>ap_loadingSecretID := d\<rparr>) = lookup_inv s"
  "lookup_inv (s\<lparr>ap_regeneratingSecretID := d\<rparr>) = lookup_inv s" "lookup_inv (s\<lparr>ap_form := f\<rparr>) = lookup_inv s"
  "lookup_inv (s\<lparr>ap_assignmentCandidate := k\<rparr>) = lookup_inv s" "lookup_inv (s\<lparr>ap_candidateAssigned := b\<rparr>) = lookup_inv s"
  "lookup_inv (s\<lparr>ap_assignmentLookupLoading := b\<rparr>) = lookup_inv s" "lookup_inv (s\<lparr>ap_assignmentSubmitting := b\<rparr>) = lookup_inv s"
  "lookup_inv (s\<lparr>ap_assignmentLookupMessage := d\<rparr>) = lookup_inv s" "lookup_inv (s\<lparr>ap_docVisible := b\<rparr>) = lookup_inv s"
  "lookup_inv (s\<lparr>ap_docFocused := b\<rparr>) = lookup_inv s" "lookup_inv (s\<lparr>ap_dialogOpen := b\<rparr>) = lookup_inv s"
  "lookup_inv (s\<lparr>ap_editingClient := c\<rparr>) = lookup_inv s" "lookup_inv (s\<lparr>ap_redirectURIErrors := g\<rparr>) = lookup_inv s"
  "lookup_inv (clearSecrets s) = lookup_inv s" "lookup_inv (forget_secret cid s) = lookup_inv s"
  "lookup_inv (reset_candidate s) = lookup_inv s"
  "lookup_inv (closeAndResetDialog s) = lookup_inv s"
  by (simp_all add: clearSecrets_def forget_secret_def retain_secret_def reset_candidate_def closeAndResetDialog_def
      lookup_inv_def live_lookups_def)

lemma lookup_inv_retain [simp]: "lookup_inv (retain_secret n cid w s) = lookup_inv s"
  by (rule lookup_inv_cong) (simp_all add: retain_secret_def live_lookups_def)

lemma lookup_inv_identifier: "lookup_inv s \<Longrightarrow> lookup_inv (set_identifier v s)"
  by (simp add: set_identifier_def)

lemma lookup_inv_count: "lookup_inv s \<Longrightarrow> lookup_inv (change_count h cid s)"
  by (simp add: change_count_def Let_def split: option.split)

lemma lookup_inv_settled:
  "lookup_inv s \<Longrightarrow> lookup_inv (fst (secret_settled cid g r s))"
  "lookup_inv s \<Longrightarrow> lookup_inv (fst (regenerate_settled cid g q s))"
  "lookup_inv s \<Longrightarrow> lookup_inv (fst (submit_settled ed g t s))"
  "lookup_inv s \<Longrightarrow> lookup_inv (fst (delete_settled cid u s))"
  "lookup_inv (fst (access_settled cid t s))"
  "lookup_inv s \<Longrightarrow> lookup_inv (fst (save_settled cid u s))"
  "lookup_inv s \<Longrightarrow> lookup_inv (fst (remove_settled cid u s))"
  "lookup_inv s \<Longrightarrow> lookup_inv (fst (lookup_settled ab v s))"
  by (auto simp: secret_settled_def regenerate_settled_def submit_settled_def delete_settled_def access_settled_def
      save_settled_def remove_settled_def lookup_settled_def Let_def lookup_inv_count
      split: sum.split option.split js_error.split)

lemma lookup_inv_drop:
  assumes "lookup_inv s" shows "lookup_inv (s\<lparr>ap_pending := drop_nth k (ap_pending s)\<rparr>)"
proof -
  have "length (filter P (drop_nth k xs)) \<le> length (filter P xs)" for P and xs :: "ap_pending list"
  proof (cases "k < length xs")
    case True
    then show ?thesis by (simp add: length_filter_drop_nth)
  qed (simp add: drop_nth_def)
  from this [of "\<lambda>p. p = AwaitLookup False" "ap_pending s"] assms show ?thesis
    unfolding lookup_inv_def live_lookups_def by simp
qed

lemma lookup_inv_add:
  "lookup_inv t \<Longrightarrow> p \<noteq> AwaitLookup False \<Longrightarrow> lookup_inv (t\<lparr>ap_pending := ap_pending t @ [p]\<rparr>)"
  by (simp add: lookup_inv_def live_lookups_def)

lemma lookup_inv_add':
  "lookup_inv t \<Longrightarrow> p \<noteq> AwaitLookup False \<Longrightarrow> ap_pending t = ps \<Longrightarrow> lookup_inv (t\<lparr>ap_pending := ps @ [p]\<rparr>)"
  using lookup_inv_add by blast

lemma lookup_inv_timer:
  assumes "lookup_inv s" shows "lookup_inv (fst (lookup_timer b s))"
proof (cases "ap_lookupTimer s")
  case None
  with assms show ?thesis by (simp add: lookup_timer_def)
next
  case (Some a)
  obtain cid i where "a = (cid, i)" by (cases a)
  with Some assms show ?thesis
    by (cases "client_path cid")
      (simp_all add: lookup_timer_def Let_def lookup_settled_def uri_error_def lookup_inv_def live_lookups_def)
qed

lemma lookup_inv_step: "lookup_inv s \<Longrightarrow> lookup_inv (ap_next b s e)"
  by (cases e) (auto simp: ap_next_def toggleClientSecret_def regenerateClientSecret_def openCreateDialog_def openEditDialog_def
      handleDialogOpenChange_def submitClient_def updateRedirectURI_def addRedirectURI_def removeRedirectURI_def
      deleteClient_def copy_text_def openAccessDialog_def closeAccess_def clearIdentifier_def
      updateAssignmentIdentifier_def saveAssignment_def removeCandidateAssignment_def 
      Let_def handleBlur_def handleVisibilityChange_def lookup_inv_timer
      intro!: lookup_inv_settled lookup_inv_add' lookup_inv_drop lookup_inv_identifier
      split: ap_pending.split sum.split option.split)

definition ap_inv :: "ap_state \<Rightarrow> bool" where
  "ap_inv s = (secrets_inv s \<and> uris_inv s \<and> stamped s \<and> lookup_inv s)"

interpretation ap: machine_invariant "ap_init visible focused" "ap_next b" ap_ok ap_inv
  for visible focused :: bool and b :: browser
proof unfold_locales
  show "ap_inv (ap_init visible focused)"
    by (simp add: ap_inv_def ap_init_def secrets_inv_def uris_inv_def stamped_def lookup_inv_def timer_inv_def
        generations_def live_lookups_def EMPTY_FORM_def fun_eq_iff)
qed (simp add: ap_inv_def secrets_inv_step uris_inv_step stamped_step lookup_inv_step)

section \<open>The check of the redirect URIs\<close>

text \<open>What the check accepts, one address at a time.\<close>

definition valid_redirect :: "(jstr \<Rightarrow> jstr option \<Rightarrow> url option) \<Rightarrow> jstr \<Rightarrow> bool" where
  "valid_redirect parse v =
     (v \<noteq> [] \<and>
      (case parse v None of
         None \<Rightarrow> False
       | Some u \<Rightarrow>
           (url_protocol u = js ''https:''
            \<or> url_protocol u = js ''http:'' \<and> url_hostname u \<in> {js ''localhost'', js ''127.0.0.1''})
           \<and> url_hash u = []))"

lemma index_of_le: "x \<in> set xs \<Longrightarrow> index_of x xs < length xs \<and> xs ! index_of x xs = x"
  by (induction xs) auto

lemma index_of_first: "k < length xs \<Longrightarrow> xs ! k = x \<Longrightarrow> index_of x xs \<le> k"
  by (induction xs arbitrary: k) (auto simp: nth_Cons split: nat.splits)

lemma distinct_iff_index: "distinct xs \<longleftrightarrow> (\<forall>i<length xs. index_of (xs ! i) xs = i)"
proof
  assume "distinct xs"
  then show "\<forall>i<length xs. index_of (xs ! i) xs = i"
    using index_of_le [OF nth_mem] by (metis nth_eq_iff_index_eq)
next
  assume *: "\<forall>i<length xs. index_of (xs ! i) xs = i"
  then show "distinct xs" unfolding distinct_conv_nth by metis
qed

lemma redirect_error_None:
  "redirect_error parse vs i = None \<longleftrightarrow> valid_redirect parse (vs ! i) \<and> index_of (vs ! i) vs = i"
  by (auto simp: redirect_error_def valid_redirect_def Let_def split: option.split)

lemma validate_Nil_iff:
  "validateRedirectURIs parse values = [] \<longleftrightarrow>
   (\<forall>v\<in>set values. valid_redirect parse (trim v)) \<and> distinct (map trim values)"
  by (auto simp: validateRedirectURIs_def Let_def concat_eq_Nil_conv distinct_iff_index all_set_conv_all_nth
      redirect_error_None split: option.splits)

lemma validate_keys:
  "map_of (validateRedirectURIs parse values) i =
   (if i < length values then redirect_error parse (map trim values) i else None)"
proof -
  have "map_of (concat (map (\<lambda>i. case f i of Some m \<Rightarrow> [(i, m)] | None \<Rightarrow> []) ns)) i
        = (if i \<in> set ns then f i else None)" for f :: "nat \<Rightarrow> jstr option" and ns
    by (induction ns) (auto split: option.split)
  then show ?thesis by (simp add: validateRedirectURIs_def Let_def)
qed

lemma submitClient_sends:
  assumes "sent (snd (submitClient b s)) \<noteq> []"
  shows "validateRedirectURIs (b_parse_url b) (f_redirectUris (ap_form s)) = []"
  using assms by (auto simp: submitClient_def Let_def split: if_splits)

section \<open>Clearing a lookup under way\<close>

lemma not_complete_Nil: "\<not> isCompleteAssignmentIdentifier []"
  by (simp add: isCompleteAssignmentIdentifier_def uuid_pattern_def email_pattern_def split_on.simps)

lemma cleared_pending:
  "ap_assignmentIdentifier s \<noteq> [] \<Longrightarrow>
   ap_pending (clearIdentifier s) = map (\<lambda>p. case p of AwaitLookup _ \<Rightarrow> AwaitLookup True | _ \<Rightarrow> p) (ap_pending s)"
  by (auto simp: clearIdentifier_def set_identifier_def reset_candidate_def lookup_effect_def lookup_cleanup_def
      not_complete_Nil Let_def split: option.split)

lemma cleared_lookup:
  assumes "ap_assignmentIdentifier s \<noteq> []"
  shows "ap_assignmentLookupLoading (clearIdentifier s) = ap_assignmentLookupLoading s"
    and "live_lookups (clearIdentifier s) = []" and "ap_lookupTimer (clearIdentifier s) = None"
    and "AwaitLookup False \<notin> set (ap_pending (clearIdentifier s))"
proof -
  show "live_lookups (clearIdentifier s) = []"
    by (simp add: live_lookups_def cleared_pending [OF assms] live_cleanup)
  then show "AwaitLookup False \<notin> set (ap_pending (clearIdentifier s))"
    by (auto simp: live_lookups_def filter_empty_conv)
qed (use assms in \<open>auto simp: clearIdentifier_def set_identifier_def reset_candidate_def lookup_effect_def
      lookup_cleanup_def not_complete_Nil Let_def split: option.split\<close>)

section \<open>The eye is offered\<close>

lemma toggle_offered:
  assumes "c \<in> set (ap_clients s)" "c_secret_available c" "ap_loadingSecretID s = None" "ap_regeneratingSecretID s = None"
  shows "offers (AplikasiPage s) (ToggleSecret c)"
proof -
  have "Fire (ToggleSecret c) \<in> set (acts (secret_rows s c))"
    using assms by (simp add: secret_rows_def Let_def)
  then have "Fire (ToggleSecret c) \<in> set (acts (client_card s c))"
    by (simp add: client_card_def)
  with assms(1) have "Fire (ToggleSecret c) \<in> set (acts (AplikasiPage s))"
    by (auto simp: AplikasiPage_def)
  then show ?thesis by (force simp: offers_def list_ex_iff)
qed

section \<open>What a lookup asks\<close>

lemma lookup_request:
  assumes "lookup_inv s" "sent (snd (ap_step b s LookupTimer)) \<noteq> []"
  shows "\<exists>c p. ap_accessClient s = Some c \<and> c_access_policy c = AssignedOnly \<and> client_path (c_client_id c) = Some p
    \<and> isCompleteAssignmentIdentifier (trim (ap_assignmentIdentifier s))
    \<and> sent (snd (ap_step b s LookupTimer)) =
        [apiFetch_request (b_api_url b) (p @ js ''/assignment-lookup'')
          (with_signal (post (JObj [(''identifier'', JStr (trim (ap_assignmentIdentifier s)))])))]"
  using assms by (auto simp: lookup_inv_def timer_inv_def lookup_timer_def lookup_settled_def uri_error_def failed_toast_def Let_def
      split: option.splits)

lemma armed_lookup_sends:
  assumes "ap_lookupTimer s = Some (cid, identifier)" "client_path cid = Some p"
  shows "sent (snd (ap_step b s LookupTimer)) \<noteq> []"
  using assms by (simp add: lookup_timer_def Let_def)

lemma access_offered:
  assumes "c \<in> set (ap_clients s)"
  shows "offers (AplikasiPage s) (OpenAccess c)"
proof -
  have "Fire (OpenAccess c) \<in> set (acts (client_card s c))"
    by (simp add: client_card_def)
  with assms have "Fire (OpenAccess c) \<in> set (acts (AplikasiPage s))"
    by (auto simp: AplikasiPage_def)
  then show ?thesis by (force simp: offers_def list_ex_iff)
qed

section \<open>Secrets stay out of the list\<close>

text \<open>
  The list itself holds no secret, as long as the server sends one only where the page expects it: in the
  answer to a registration, whose secret goes to \<open>ap_clientSecrets\<close> and is taken off the listed client.
\<close>

definition no_secret :: "oauth_client \<Rightarrow> bool" where
  "no_secret c = (c_client_secret c = None)"

fun secret_where_expected :: "ap_state \<Rightarrow> ap_event \<Rightarrow> bool" where
  "secret_where_expected s (ClientsAnswer k (Inr cs)) = list_all no_secret cs"
| "secret_where_expected s (AccessAnswer k (Inr c)) = no_secret c"
| "secret_where_expected s (SubmitAnswer k (Inr c)) =
     (case ap_pending s ! k of AwaitSubmit (Some _) _ \<Rightarrow> no_secret c | _ \<Rightarrow> True)"
| "secret_where_expected s e = True"

definition list_inv :: "ap_state \<Rightarrow> bool" where
  "list_inv s = list_all no_secret (ap_clients s)"

lemma no_secret_update_where:
  "list_all no_secret xs \<Longrightarrow> (\<And>x. no_secret x \<Longrightarrow> no_secret (f x)) \<Longrightarrow> list_all no_secret (update_where key k f xs)"
  by (auto simp: list_all_iff update_where_def)

lemma no_secret_fields [simp]:
  "no_secret (c\<lparr>c_client_secret := None\<rparr>)" "no_secret (c\<lparr>c_secret_available := a\<rparr>) = no_secret c"
  "no_secret (c\<lparr>c_secret_version := n\<rparr>) = no_secret c" "no_secret (c_assignment_count_update h c) = no_secret c"
  "no_secret d \<Longrightarrow> no_secret c \<Longrightarrow> no_secret (merge_client d c)"
  by (simp_all add: no_secret_def merge_client_def)

lemma list_inv_same: "ap_clients t = ap_clients s \<Longrightarrow> list_inv t = list_inv s"
  by (simp add: list_inv_def)

lemma clients_kept [simp]:
  "ap_clients (lookup_effect s) = ap_clients s" "ap_clients (set_identifier v s) = ap_clients s"
  "ap_clients (reset_candidate s) = ap_clients s" "ap_clients (retain_secret g cid w s) = ap_clients s"
  "ap_clients (forget_secret cid s) = ap_clients s" "ap_clients (clearSecrets s) = ap_clients s"
  "ap_clients (closeAndResetDialog s) = ap_clients s" "ap_clients (fst (lookup_timer b s)) = ap_clients s"
  "ap_clients (fst (lookup_settled ab r s)) = ap_clients s" "ap_clients (fst (secret_settled cid g q s)) = ap_clients s"
  by (auto simp: lookup_effect_def lookup_cleanup_def set_identifier_def reset_candidate_def retain_secret_def
      forget_secret_def clearSecrets_def closeAndResetDialog_def lookup_timer_def lookup_settled_def uri_error_def
      secret_settled_def Let_def split: option.split sum.split js_error.split)

lemma list_inv_count: "list_inv s \<Longrightarrow> list_inv (change_count h cid s)"
  by (auto simp: list_inv_def change_count_def Let_def intro!: no_secret_update_where split: option.split)

lemma list_inv_settled:
  assumes "list_inv s"
  shows "list_inv (fst (regenerate_settled cid g q s))" "list_inv (fst (delete_settled cid u s))"
    "list_inv (fst (save_settled cid u s))" "list_inv (fst (remove_settled cid u s))"
    "(\<And>c. t = Inr c \<Longrightarrow> no_secret c) \<Longrightarrow> list_inv (fst (access_settled cid t s))"
    "(\<And>c d. ed = Some d \<Longrightarrow> t = Inr c \<Longrightarrow> no_secret c) \<Longrightarrow> list_inv (fst (submit_settled ed g t s))"
  using assms list_inv_count [OF assms]
  by (auto simp: regenerate_settled_def delete_settled_def save_settled_def remove_settled_def access_settled_def
      submit_settled_def list_inv_def Let_def remove_where_def list_all_iff [of _ "filter _ _"] in_set_conv_nth [symmetric]
      intro!: no_secret_update_where split: sum.split option.split)
   (auto simp: list_all_iff)

lemma list_inv_failed:
  "list_inv s \<Longrightarrow> list_inv (fst (access_settled cid (Inl x) s))"
  "list_inv s \<Longrightarrow> list_inv (fst (submit_settled ed g (Inl x) s))"
  by (rule list_inv_settled; simp)+

lemma list_inv_step:
  assumes "list_inv s" "secret_where_expected s e"
  shows "list_inv (ap_next b s e)"
proof -
  have pend: "list_inv (s\<lparr>ap_pending := ps\<rparr>)" for ps using assms(1) by (simp add: list_inv_def)
  show ?thesis
  proof (cases e)
    case (ClientsAnswer k r)
    with assms show ?thesis by (cases r) (auto simp: ap_next_def list_inv_def)
  next
    case (SubmitAnswer k r)
    show ?thesis
    proof (cases "ap_pending s ! k")
      case (AwaitSubmit ed g)
      with SubmitAnswer assms(2) have "no_secret c" if "ed = Some d" "r = Inr c" for c d using that by simp
      then have "list_inv (fst (submit_settled ed g r (s\<lparr>ap_pending := drop_nth k (ap_pending s)\<rparr>)))"
        by (rule list_inv_settled(6) [OF pend])
      with SubmitAnswer AwaitSubmit show ?thesis by (simp add: ap_next_def)
    qed (use SubmitAnswer assms(1) in \<open>simp_all add: ap_next_def\<close>)
  next
    case (AccessAnswer k r)
    with assms(2) have "no_secret c" if "r = Inr c" for c using that by simp
    then have "list_inv (fst (access_settled cid r (s\<lparr>ap_pending := ps\<rparr>)))" for cid ps
      by (rule list_inv_settled(5) [OF pend])
    with AccessAnswer assms(1) show ?thesis by (simp add: ap_next_def split: ap_pending.split)
  qed (use assms(1) in \<open>auto simp: ap_next_def ap_handler_defs list_inv_settled(1-4) [unfolded list_inv_def] list_inv_failed [unfolded list_inv_def] Let_def handleBlur_def
      handleVisibilityChange_def list_inv_def split: ap_pending.split sum.split option.split\<close>)
qed

interpretation listing: machine_invariant "ap_init visible focused" "ap_next b"
  "\<lambda>s e. ap_ok s e \<and> secret_where_expected s e" list_inv
  for visible focused :: bool and b :: browser
  by unfold_locales (simp_all add: list_inv_step, simp add: list_inv_def ap_init_def)

section \<open>Further facts\<close>

text \<open>Pressing the clear button while a lookup is under way leaves its spinner on although no lookup is
  delayed or live any more, and the rejection of the aborted request does not switch it off either.\<close>

lemma cleared_lookup_keeps_spinner:
  assumes "ap_assignmentLookupLoading s" and "ap_assignmentIdentifier s \<noteq> []"
  shows "let t = ap_next b s ClearIdentifier
    in ap_assignmentLookupLoading t \<and> live_lookups t = [] \<and> ap_lookupTimer t = None
       \<and> (ap_ok t (LookupAnswer k r) \<longrightarrow> ap_assignmentLookupLoading (ap_next b t (LookupAnswer k r)))"
proof -
  have "k < length (ap_pending (clearIdentifier s)) \<Longrightarrow> ap_pending (clearIdentifier s) ! k \<noteq> AwaitLookup False"
    using cleared_lookup(4) [OF assms(2)] by (metis nth_mem)
  with assms cleared_lookup(1-3) [of s] show ?thesis
    by (auto simp: ap_next_def ap_ok_def lookup_settled_def Let_def split: ap_pending.splits sum.splits)
qed

end
