(* ===== verification/Session.thy ===== *)
theory Session
  imports Widgets Skeletons UserAvatar Authorize
begin

text \<open>
  Who is signed in: the request for the session while the server renders
  (\<open>app/layout.tsx\<close>, \<open>getInitialUser\<close>), the provider of the signed-in user
  (\<open>components/auth-provider.tsx\<close>) and the frame of the dashboard with its redirect, its logout and
  its navigation (\<open>components/dashboard-shell.tsx\<close>).
\<close>

section \<open>The user of the first render\<close>

record initial_request =
  iq_url :: jstr
  iq_cookie :: jstr
  iq_cache :: string
  iq_timeout_ms :: nat

text \<open>\<open>None\<close> where nothing is sent: no cookie, or \<open>encodeURIComponent\<close> throws inside the \<open>try\<close>.\<close>

definition initial_request_of :: "jstr \<Rightarrow> jstr \<Rightarrow> jstr option \<Rightarrow> initial_request option" where
  "initial_request_of backend cookie_name cookie =
     (if \<not> truthy cookie then None
      else map_option (\<lambda>e. \<lparr>iq_url = backend @ js ''/api/auth/session'', iq_cookie = cookie_name @ js ''='' @ e,
             iq_cache = ''no-store'', iq_timeout_ms = 5000\<rparr>) (encodeURIComponent (the cookie)))"

text \<open>The outcome of the \<open>fetch\<close>: a rejection (network, timeout), or \<open>ok\<close> and the parsed \<open>user\<close>.\<close>

type_synonym session_outcome = "js_error + bool \<times> (js_error + user option)"

definition getInitialUser :: "jstr \<Rightarrow> jstr \<Rightarrow> jstr option \<Rightarrow> session_outcome \<Rightarrow> user option" where
  "getInitialUser backend cookie_name cookie outcome =
     (case initial_request_of backend cookie_name cookie of
        None \<Rightarrow> None
      | Some _ \<Rightarrow>
          (case outcome of
             Inl _ \<Rightarrow> None
           | Inr (ok, body) \<Rightarrow> if \<not> ok then None else (case body of Inl _ \<Rightarrow> None | Inr u \<Rightarrow> u)))"

section \<open>The provider\<close>

record auth_state =
  au_user :: "user option"
  au_loading :: bool
  au_pending :: nat

datatype auth_event = SetAuthUser "user option" | Refresh | RefreshAnswer "js_error + user option"

definition auth_init :: "user option \<Rightarrow> auth_state" where
  "auth_init u = \<lparr>au_user = u, au_loading = False, au_pending = 0\<rparr>"

text \<open>What the promise of \<open>refresh\<close> settles to is the second component.\<close>

definition refresh_settled ::
  "js_error + user option \<Rightarrow> auth_state \<Rightarrow> auth_state \<times> (js_error + user option)" where
  "refresh_settled r s =
     (case r of
        Inr u \<Rightarrow> (s\<lparr>au_user := u, au_loading := False\<rparr>, Inr u)
      | Inl e \<Rightarrow>
          (case e of
             APIError _ status _ _ \<Rightarrow>
               if status = 401 then (s\<lparr>au_user := None, au_loading := False\<rparr>, Inr None)
               else (s\<lparr>au_loading := False\<rparr>, Inl e)
           | _ \<Rightarrow> (s\<lparr>au_loading := False\<rparr>, Inl e)))"

fun auth_step :: "browser \<Rightarrow> auth_state \<Rightarrow> auth_event \<Rightarrow> auth_state \<times> effect list" where
  "auth_step b s (SetAuthUser u) = (s\<lparr>au_user := u\<rparr>, [])"
| "auth_step b s Refresh =
     (s\<lparr>au_loading := True, au_pending := Suc (au_pending s)\<rparr>, [api b (js ''/api/auth/session'') get])"
| "auth_step b s (RefreshAnswer r) = (fst (refresh_settled r (s\<lparr>au_pending := au_pending s - 1\<rparr>)), [])"

section \<open>The dashboard frame\<close>

text \<open>\<open>sh_logout\<close> counts the logout requests under way; \<open>sh_user\<close> and \<open>sh_loading\<close> are the provider's.\<close>

record shell_state =
  sh_user :: "user option"
  sh_loading :: bool
  sh_logoutStarted :: bool
  sh_loggingOut :: bool
  sh_logout :: nat

datatype shell_event = ShellAuth "user option" bool | Logout | LogoutDone "js_error + unit"

definition shell_effect :: "jstr \<Rightarrow> shell_state \<Rightarrow> effect list" where
  "shell_effect pathname s =
     (if \<not> sh_loading s \<and> sh_user s = None \<and> \<not> sh_logoutStarted s
      then (case login_callback pathname of Some target \<Rightarrow> [RouterReplace target] | None \<Rightarrow> [])
      else [])"

definition shell_mount :: "jstr \<Rightarrow> user option \<Rightarrow> bool \<Rightarrow> shell_state \<times> effect list" where
  "shell_mount pathname u authLoading =
     (let s = \<lparr>sh_user = u, sh_loading = authLoading, sh_logoutStarted = False, sh_loggingOut = False, sh_logout = 0\<rparr>
      in (s, shell_effect pathname s))"

definition logout :: "browser \<Rightarrow> shell_state \<Rightarrow> shell_state \<times> effect list" where
  "logout b s =
     (if sh_logoutStarted s then (s, [])
      else (s\<lparr>sh_logoutStarted := True, sh_loggingOut := True, sh_logout := Suc (sh_logout s)\<rparr>,
            [api b (js ''/api/auth/logout'') post_empty]))"

definition logout_done :: "jstr \<Rightarrow> js_error + unit \<Rightarrow> shell_state \<Rightarrow> shell_state \<times> effect list" where
  "logout_done pathname r s =
     (let s' = s\<lparr>sh_logout := sh_logout s - 1, sh_user := None, sh_loggingOut := False\<rparr>
      in (s', (case r of Inr _ \<Rightarrow> [Toast Success (js ''Anda berhasil keluar.'')] | Inl e \<Rightarrow> failed_toast e)
              @ [SetUser None, RouterReplace (js ''/login'')] @ shell_effect pathname s'))"

fun shell_step :: "browser \<Rightarrow> jstr \<Rightarrow> shell_state \<Rightarrow> shell_event \<Rightarrow> shell_state \<times> effect list" where
  "shell_step b pathname s (ShellAuth u l) =
     (if u = sh_user s \<and> l = sh_loading s then (s, [])
      else (let s' = s\<lparr>sh_user := u, sh_loading := l\<rparr> in (s', shell_effect pathname s')))"
| "shell_step b pathname s Logout = logout b s"
| "shell_step b pathname s (LogoutDone r) = logout_done pathname r s"

section \<open>The rendered frame\<close>

definition memberNavigation :: "(string \<times> string) list" where
  "memberNavigation = [(''Profil'', ''/dashboard/profil''), (''Keamanan'', ''/dashboard/keamanan''),
     (''Sesi aplikasi'', ''/dashboard/sesi''), (''Aplikasi OAuth'', ''/dashboard/aplikasi'')]"

definition adminNavigation :: "(string \<times> string) list" where
  "adminNavigation = [(''Pengguna'', ''/dashboard/pengguna''), (''Audit log'', ''/dashboard/audit-log''),
     (''Backup database'', ''/dashboard/backup-database'')]"

definition navigation :: "user option \<Rightarrow> (string \<times> string) list" where
  "navigation u =
     (if (\<exists>x. u = Some x \<and> u_role x = SuperAdmin) then memberNavigation @ adminNavigation else memberNavigation)"

definition role_label :: "user \<Rightarrow> string" where
  "role_label u = (if u_role u = SuperAdmin then ''Super admin'' else ''Anggota'')"

definition nav_item :: "jstr \<Rightarrow> string \<times> string \<Rightarrow> 'e node" where
  "nav_item pathname item =
     El ''SidebarMenuItem'' [Attr ''key'' (js (snd item))]
      [El ''SidebarMenuButton'' [Flag ''isActive'' (starts_with (js (snd item)) pathname), Attr ''tooltip'' (js (fst item))]
        [link (js (snd item)) [El ''Icon'' [] [], El ''span'' [] [lit (fst item)]]]]"

definition account_menu :: "(jstr \<Rightarrow> jstr) \<Rightarrow> bool \<Rightarrow> user \<Rightarrow> shell_event node" where
  "account_menu upper loggingOut u =
     El ''DropdownMenu'' []
      [El ''DropdownMenuTrigger'' []
        [El ''Button'' [Attr ''variant'' (js ''ghost''), Attr ''aria-label'' (js ''Buka menu akun dan logout'')]
          [UserAvatar upper (u_name u) (Some (u_avatar u)) [] [],
           El ''span'' [] [El ''span'' [] [Txt (u_name u)], El ''span'' [] [lit (role_label u)]],
           El ''ChevronDown'' [Flag ''aria-hidden'' True] []]],
       El ''DropdownMenuContent'' [Attr ''align'' (js ''end'')]
        [El ''DropdownMenuLabel'' []
          [El ''span'' [] [Txt (u_email u)],
           El ''span'' [] (El ''Badge'' [Attr ''variant'' (js ''secondary'')] [lit (role_label u)]
             # show_if (u_email_verified u)
                [El ''Badge'' [Attr ''variant'' (js ''outline'')] [El ''BadgeCheck'' [] [], lit ''Terverifikasi'']])],
         El ''DropdownMenuSeparator'' [] [],
         El ''DropdownMenuItem'' [Attr ''variant'' (js ''destructive''), Flag ''disabled'' loggingOut, OnClick Logout]
          [El ''LogOut'' [] [], lit (if loggingOut then ''Sedang keluar...'' else ''Keluar'')]]]"

text \<open>Nothing is rendered for a visitor who is not signed in.\<close>

definition DashboardShell ::
  "public_env \<Rightarrow> (jstr \<Rightarrow> jstr) \<Rightarrow> jstr \<Rightarrow> shell_state \<Rightarrow> shell_event node list \<Rightarrow> shell_event node list" where
  "DashboardShell env upper pathname s children =
     (if \<not> sh_loading s \<and> sh_user s = None then []
      else [El ''SidebarProvider'' []
       [El ''Sidebar'' []
         [El ''SidebarHeader'' [] [Brand env False],
          El ''SidebarContent'' []
           [El ''SidebarGroup'' []
             [El ''SidebarGroupLabel'' [] [lit ''Portal identitas''],
              El ''SidebarGroupContent'' [] [El ''SidebarMenu'' [] (map (nav_item pathname) (navigation (sh_user s)))]]],
          El ''SidebarFooter'' []
           [El ''SidebarMenu'' [] [El ''SidebarMenuItem'' []
             [El ''SidebarMenuButton'' [Attr ''tooltip'' (js ''Kembali ke beranda'')]
               [link (js ''/'') [El ''LayoutDashboard'' [] [], El ''span'' [] [lit ''Beranda'']]]]]],
          El ''SidebarRail'' [] []],
        El ''SidebarInset'' []
         [El ''header'' []
           [El ''div'' [] [El ''SidebarTrigger'' [] [], El ''div'' [] [], El ''p'' [] [lit ''Pusat kendali PelajarNU Magetan ID'']],
            (case sh_user s of
               Some u \<Rightarrow> account_menu upper (sh_loggingOut s) u
             | None \<Rightarrow> El ''span'' [Attr ''aria-live'' (js ''polite'')] [lit ''Memuat akun...''])],
          El ''main'' [Flag ''aria-busy'' (sh_loading s \<or> sh_user s = None)]
           [El ''div'' []
             (if sh_loading s \<or> sh_user s = None
              then [DashboardLoadingSkeleton pathname]
              else children)]]]])"

definition shell_ok :: "public_env \<Rightarrow> (jstr \<Rightarrow> jstr) \<Rightarrow> jstr \<Rightarrow> shell_state \<Rightarrow> shell_event \<Rightarrow> bool" where
  "shell_ok env upper pathname s e =
     (case e of
        ShellAuth u l \<Rightarrow> True
      | LogoutDone r \<Rightarrow> 0 < sh_logout s
      | Logout \<Rightarrow> list_ex (\<lambda>n. offers n Logout) (DashboardShell env upper pathname s []))"

definition shell_next :: "browser \<Rightarrow> jstr \<Rightarrow> shell_state \<Rightarrow> shell_event \<Rightarrow> shell_state" where
  "shell_next b pathname s e = fst (shell_step b pathname s e)"

section \<open>Lemmas\<close>

lemma initial_user_iff:
  "getInitialUser backend cookie_name cookie outcome = Some u \<longleftrightarrow>
   (\<exists>v e. cookie = Some v \<and> v \<noteq> [] \<and> encodeURIComponent v = Some e \<and> outcome = Inr (True, Inr (Some u)))"
  by (auto simp: getInitialUser_def initial_request_of_def truthy_def split: option.splits sum.splits if_splits)

text \<open>The number of logout requests ever sent is at most one.\<close>

definition shell_inv :: "shell_state \<Rightarrow> bool" where
  "shell_inv s = (sh_logout s \<le> 1 \<and> (0 < sh_logout s \<longrightarrow> sh_logoutStarted s) \<and> (sh_loggingOut s = (0 < sh_logout s)))"

interpretation shell: machine_invariant "fst (shell_mount pathname u l)" "shell_next b pathname"
  "shell_ok env upper pathname" shell_inv
  for b :: browser and pathname :: jstr and u :: "user option" and l :: bool and env :: public_env
    and upper :: "jstr \<Rightarrow> jstr"
proof unfold_locales
  show "shell_inv (fst (shell_mount pathname u l))" by (simp add: shell_inv_def shell_mount_def Let_def)
next
  fix s e
  assume "shell_inv s" "shell_ok env upper pathname s e"
  then show "shell_inv (shell_next b pathname s e)"
    by (cases e) (auto simp: shell_inv_def shell_next_def shell_ok_def logout_def logout_done_def Let_def)
qed

lemma logout_sends: "sent (snd (shell_step b pathname s e)) \<noteq> [] \<longleftrightarrow> e = Logout \<and> \<not> sh_logoutStarted s"
proof -
  have n: "sent (shell_effect pathname t) = []" "sent (failed_toast x) = []" for t x
    by (simp_all add: shell_effect_def failed_toast_def split: option.split)
  show ?thesis by (cases e) (auto simp: logout_def logout_done_def Let_def n split: sum.split)
qed

lemma hrefs_nav_item: "hrefs (nav_item p item) = [js (snd item)]"
  by (simp add: nav_item_def link_def lit_def)

lemma hrefs_menu: "hrefs (account_menu upper l u) = []"
  by (simp add: account_menu_def lit_def UserAvatar_def show_if_def)

lemma shell_hrefs:
  assumes "sh_loading s \<or> sh_user s \<noteq> None" "concat (map hrefs children) = []"
  shows "set (concat (map hrefs (DashboardShell env upper pathname s children)))
    = insert (js ''/'') (js ` snd ` set (navigation (sh_user s)))"
  using assms by (auto simp: DashboardShell_def hrefs_nav_item hrefs_menu link_def lit_def split: option.split)

section \<open>Further facts\<close>

text \<open>While a user is known or loading, the dashboard's frame links to home and the member pages, and to the
  three administration pages exactly when the user is a super admin; without a user nothing is rendered.\<close>

lemma admin_links_for_super_admins:
  fixes env :: public_env and upper :: "jstr \<Rightarrow> jstr" and pathname :: jstr and s :: shell_state
  defines "links \<equiv> set (concat (map hrefs (DashboardShell env upper pathname s [])))"
  shows "(case sh_user s of
      None \<Rightarrow> if sh_loading s then links = js ` {''/'', ''/dashboard/profil'', ''/dashboard/keamanan'', ''/dashboard/sesi'', ''/dashboard/aplikasi''}
        else DashboardShell env upper pathname s [] = []
    | Some u \<Rightarrow> links = js ` ({''/'', ''/dashboard/profil'', ''/dashboard/keamanan'', ''/dashboard/sesi'', ''/dashboard/aplikasi''}
        \<union> (if u_role u = SuperAdmin then {''/dashboard/pengguna'', ''/dashboard/audit-log'', ''/dashboard/backup-database''} else {})))"
proof (cases "sh_loading s \<or> sh_user s \<noteq> None")
  case True
  have "links = js ` insert ''/'' (snd ` set (navigation (sh_user s)))"
    unfolding links_def using shell_hrefs [OF True, of "[]"] by simp
  then show ?thesis using True
    by (auto simp: navigation_def memberNavigation_def adminNavigation_def split: option.split)
qed (simp add: DashboardShell_def)

text \<open>The user of the first render is present exactly when there is a non-empty session cookie that can be
  encoded and the backend answers with a 2xx response holding that user; the request carries the cookie
  percent-encoded, under its own name, and nothing is sent without one.\<close>

lemma initial_user_exactly:
  "(getInitialUser backend cookie_name cookie outcome = Some u) =
     (outcome = Inr (True, Inr (Some u)) \<and> initial_request_of backend cookie_name cookie \<noteq> None)
   \<and> (initial_request_of backend cookie_name cookie = Some q) =
     (\<exists>v e. cookie = Some v \<and> v \<noteq> [] \<and> encodeURIComponent v = Some e
        \<and> q = \<lparr>iq_url = backend @ js ''/api/auth/session'', iq_cookie = cookie_name @ js ''='' @ e,
               iq_cache = ''no-store'', iq_timeout_ms = 5000\<rparr>)"
  by (auto simp: getInitialUser_def initial_request_of_def truthy_def split: option.splits sum.splits if_splits)

end
