(* ===== verification/Turnstile.thy ===== *)
theory Turnstile
  imports Register Login
begin

text \<open>
  The security check of the registration page (\<open>components/turnstile.tsx\<close>). The widget itself is the
  script of the provider: its callbacks are events, its \<open>render\<close>, \<open>reset\<close> and \<open>remove\<close> are effects,
  and \<open>render\<close>'s outcome (an identifier, or an exception) comes with the event.
\<close>

section \<open>State\<close>

record turnstile_state =
  ts_container :: bool
  ts_api :: bool
  ts_widgetID :: "jstr option"
  ts_previousResetKey :: nat
  ts_widgetRendered :: bool
  ts_loadError :: jstr

datatype turnstile_event =
    ScriptReady bool "jstr option"
  | ScriptFailed
  | TokenCallback jstr
  | BeforeInteractive
  | ErrorCallback
  | ExpiredCallback
  | TimeoutCallback
  | UnsupportedCallback
  | ResetKeyChange nat
  | Unmount

record render_options =
  ro_sitekey :: jstr
  ro_action :: string
  ro_language :: string
  ro_size :: string
  ro_theme :: string
  ro_retry :: string

datatype turnstile_effect =
    TokenChange jstr
  | WidgetRender render_options
  | WidgetReset jstr
  | WidgetRemove jstr

definition turnstile_init :: "nat \<Rightarrow> turnstile_state" where
  "turnstile_init resetKey = \<lparr>ts_container = True, ts_api = False, ts_widgetID = None,
     ts_previousResetKey = resetKey, ts_widgetRendered = False, ts_loadError = []\<rparr>"

section \<open>Handlers\<close>

definition load_failed :: jstr where
  "load_failed = js ''Verifikasi keamanan gagal dimuat. Muat ulang halaman.''"

definition renderWidget ::
  "public_env \<Rightarrow> jstr option \<Rightarrow> turnstile_state \<Rightarrow> turnstile_state \<times> turnstile_effect list" where
  "renderWidget env outcome s =
     (if \<not> ts_container s \<or> \<not> ts_api s \<or> truthy (ts_widgetID s) then (s, [])
      else ((case outcome of
               Some widget \<Rightarrow> s\<lparr>ts_loadError := [], ts_widgetID := Some widget\<rparr>
             | None \<Rightarrow> s\<lparr>ts_widgetRendered := False, ts_loadError := load_failed\<rparr>),
            [WidgetRender \<lparr>ro_sitekey = PUBLIC_TURNSTILE_SITE_KEY env, ro_action = ''register'', ro_language = ''id'',
               ro_size = ''normal'', ro_theme = ''light'', ro_retry = ''auto''\<rparr>]))"

text \<open>\<open>if (widgetIDRef.current) window.turnstile?.reset(widgetIDRef.current)\<close>\<close>

definition reset_widget :: "turnstile_state \<Rightarrow> turnstile_effect list" where
  "reset_widget s =
     (case ts_widgetID s of
        Some w \<Rightarrow> if w \<noteq> [] \<and> ts_api s then [WidgetReset w] else []
      | None \<Rightarrow> [])"

definition token_lost :: "turnstile_state \<Rightarrow> turnstile_state \<times> turnstile_effect list" where
  "token_lost s = (s\<lparr>ts_widgetRendered := False\<rparr>, TokenChange [] # reset_widget s)"

definition reset_effect :: "nat \<Rightarrow> turnstile_state \<Rightarrow> turnstile_state \<times> turnstile_effect list" where
  "reset_effect resetKey s =
     (if ts_previousResetKey s = resetKey then (s, [])
      else (s\<lparr>ts_previousResetKey := resetKey, ts_loadError := [], ts_widgetRendered := False\<rparr>, reset_widget s))"

fun turnstile_step ::
  "public_env \<Rightarrow> turnstile_state \<Rightarrow> turnstile_event \<Rightarrow> turnstile_state \<times> turnstile_effect list" where
  "turnstile_step env s (ScriptReady present outcome) = renderWidget env outcome (s\<lparr>ts_api := present\<rparr>)"
| "turnstile_step env s ScriptFailed = (s\<lparr>ts_widgetRendered := False, ts_loadError := load_failed\<rparr>, [])"
| "turnstile_step env s (TokenCallback token) =
     (s\<lparr>ts_widgetRendered := True, ts_loadError := []\<rparr>, [TokenChange token])"
| "turnstile_step env s BeforeInteractive = (s\<lparr>ts_widgetRendered := True\<rparr>, [])"
| "turnstile_step env s ErrorCallback =
     (s\<lparr>ts_loadError := js ''Verifikasi keamanan gagal dimuat. Periksa koneksi Anda.''\<rparr>, [TokenChange []])"
| "turnstile_step env s ExpiredCallback = token_lost s"
| "turnstile_step env s TimeoutCallback = token_lost s"
| "turnstile_step env s UnsupportedCallback =
     (s\<lparr>ts_loadError := js ''Browser ini belum mendukung verifikasi keamanan.''\<rparr>, [TokenChange []])"
| "turnstile_step env s (ResetKeyChange k) = reset_effect k s"
| "turnstile_step env s Unmount =
     (s\<lparr>ts_container := False, ts_widgetID := None\<rparr>,
      (case ts_widgetID s of Some w \<Rightarrow> if w \<noteq> [] \<and> ts_api s then [WidgetRemove w] else [] | None \<Rightarrow> []))"

section \<open>The rendered check\<close>

definition TurnstileSkeleton :: "'e node" where
  "TurnstileSkeleton =
     El ''div'' [Attr ''role'' (js ''status''), Attr ''aria-label'' (js ''Memuat verifikasi keamanan'')]
      [El ''div'' [] [El ''Skeleton'' [] [], El ''span'' [] [El ''Skeleton'' [] [], El ''Skeleton'' [] []]],
       El ''div'' [] [El ''Skeleton'' [] [], El ''Skeleton'' [] []],
       El ''span'' [] [lit ''Turnstile sedang dimuat'']]"

definition Turnstile :: "turnstile_state \<Rightarrow> 'e node" where
  "Turnstile s =
     El ''div'' []
      ([El ''div'' [Flag ''aria-busy'' (\<not> ts_widgetRendered s)]
         (show_if (\<not> ts_widgetRendered s \<and> ts_loadError s = []) [TurnstileSkeleton]
          @ [El ''div'' [Flag ''invisible'' (\<not> ts_widgetRendered s)] []])]
       @ show_if (ts_loadError s \<noteq> [])
          [El ''p'' [Attr ''role'' (js ''alert'')] [El ''AlertCircle'' [Flag ''aria-hidden'' True] [], Txt (ts_loadError s)]]
       @ [El ''Script'' [Attr ''id'' (js ''cloudflare-turnstile''),
           Attr ''src'' (js ''https://challenges.cloudflare.com/turnstile/v0/api.js?render=explicit''),
           Attr ''strategy'' (js ''afterInteractive'')] []])"

section \<open>With the registration page\<close>

text \<open>\<open>onTokenChange\<close> is the page's \<open>setTurnstileToken\<close>; the page's reset key is the widget's prop.\<close>

fun feed :: "browser \<Rightarrow> register_state \<Rightarrow> turnstile_effect list \<Rightarrow> register_state" where
  "feed b r [] = r"
| "feed b r (TokenChange t # es) = feed b (register_next b r (RegToken t)) es"
| "feed b r (_ # es) = feed b r es"

fun loses_token :: "turnstile_event \<Rightarrow> bool" where
  "loses_token ErrorCallback = True"
| "loses_token ExpiredCallback = True"
| "loses_token TimeoutCallback = True"
| "loses_token UnsupportedCallback = True"
| "loses_token e = False"

text \<open>The events of a mounted check: callbacks come from a widget that exists.\<close>

fun turnstile_ok :: "turnstile_state \<Rightarrow> turnstile_event \<Rightarrow> bool" where
  "turnstile_ok s (ScriptReady present outcome) = (outcome \<noteq> Some [])"
| "turnstile_ok s (TokenCallback t) = (ts_widgetID s \<noteq> None \<and> t \<noteq> [])"
| "turnstile_ok s BeforeInteractive = (ts_widgetID s \<noteq> None)"
| "turnstile_ok s ErrorCallback = (ts_widgetID s \<noteq> None)"
| "turnstile_ok s ExpiredCallback = (ts_widgetID s \<noteq> None)"
| "turnstile_ok s TimeoutCallback = (ts_widgetID s \<noteq> None)"
| "turnstile_ok s UnsupportedCallback = (ts_widgetID s \<noteq> None)"
| "turnstile_ok s e = ts_container s"

definition turnstile_next :: "public_env \<Rightarrow> turnstile_state \<Rightarrow> turnstile_event \<Rightarrow> turnstile_state" where
  "turnstile_next env s e = fst (turnstile_step env s e)"

section \<open>Lemmas\<close>

lemma feed_reset [simp]: "feed b r (reset_widget s) = r"
  by (simp add: reset_widget_def split: option.split)

lemma token_lost_feed: "loses_token e \<Longrightarrow> rg_turnstileToken (feed b r (snd (turnstile_step env s e))) = []"
  by (cases e) (simp_all add: token_lost_def register_next_def)

text \<open>A widget that exists has an identifier, and only a mounted check has one.\<close>

definition turnstile_inv :: "turnstile_state \<Rightarrow> bool" where
  "turnstile_inv s = (ts_widgetID s \<noteq> Some [] \<and> (ts_widgetID s \<noteq> None \<longrightarrow> ts_container s))"

interpretation turnstile: machine_invariant "turnstile_init k" "turnstile_next env" turnstile_ok turnstile_inv
  for k :: nat and env :: public_env
proof unfold_locales
  show "turnstile_inv (turnstile_init k)" by (simp add: turnstile_inv_def turnstile_init_def)
next
  fix s e
  assume "turnstile_inv s" "turnstile_ok s e"
  then show "turnstile_inv (turnstile_next env s e)"
    by (cases e) (auto simp: turnstile_inv_def turnstile_next_def renderWidget_def token_lost_def reset_effect_def
        split: option.split)
qed

lemma render_only_without_widget:
  assumes "turnstile_inv s" "WidgetRender ro \<in> set (snd (turnstile_step env s e))"
  shows "ts_widgetID s = None \<and> ts_container s"
  using assms by (cases e) (auto simp: renderWidget_def token_lost_def reset_effect_def reset_widget_def
      turnstile_inv_def truthy_def split: option.splits if_splits)

section \<open>Further facts\<close>

text \<open>In every reachable state a widget is rendered only while the component is mounted and no widget exists,
  so a mounted check never holds two.\<close>

lemma one_widget_at_a_time:
  assumes "reach (turnstile_init k) (turnstile_next env) turnstile_ok s"
    and "WidgetRender ro \<in> set (snd (turnstile_step env s e))"
  shows "ts_widgetID s = None \<and> ts_container s"
  by (rule render_only_without_widget [OF turnstile.reach_inv [OF assms(1)] assms(2)])

end
