(* ===== verification/Users.thy ===== *)
theory Users
  imports Session
begin

text \<open>
  The user administration (\<open>app/dashboard/pengguna/page.tsx\<close>): the list with its delayed search,
  its numbered requests and its move to a valid page; the change of a role and of a status; the
  deletion. A request that answers late finds its number no longer the latest.
\<close>

section \<open>State\<close>

record users_response =
  ur_users :: "user list option"
  ur_total :: "int option"
  ur_total_pages :: "int option"

datatype us_pending =
    AwaitUsers nat int bool
  | AwaitRole user role
  | AwaitStatus user
  | AwaitUserDelete user

record us_state =
  us_currentUser :: "user option"
  us_authLoading :: bool
  us_users :: "user list"
  us_loading :: bool
  us_errorMessage :: jstr
  us_search :: jstr
  us_debouncedSearch :: jstr
  us_page :: int
  us_total :: int
  us_totalPages :: int
  us_reloadKey :: nat
  us_pendingStatusUser :: "user option"
  us_pendingDeleteUser :: "user option"
  us_deletingUser :: bool
  us_latestRequest :: nat
  us_latestDebouncedSearch :: jstr
  us_timer :: "jstr option"
  us_pending :: "us_pending list"

datatype us_event =
    UsAuth "user option" bool
  | UsSearch jstr
  | UsTimer
  | UsPageChange int
  | UsRetry
  | UpdateRole user role
  | OpenStatus user
  | StatusOpenChange bool
  | UpdateStatus
  | OpenDelete user
  | DeleteOpenChange bool
  | DeleteUser
  | UsersAnswer nat "js_error + users_response"
  | RoleAnswer nat "js_error + unit"
  | StatusAnswer nat "js_error + unit"
  | UserDeleteAnswer nat "js_error + unit"

type_synonym us_result = "us_state \<times> effect list"

definition is_super :: "user option \<Rightarrow> bool" where
  "is_super u = (\<exists>x. u = Some x \<and> u_role x = SuperAdmin)"

section \<open>The list\<close>

definition users_query :: "int \<Rightarrow> jstr \<Rightarrow> query" where
  "users_query page debouncedSearch =
     (let query = [(js ''page'', int_str page), (js ''page_size'', int_str 20)]
      in if debouncedSearch \<noteq> [] then query_set ''search'' debouncedSearch query else query)"

text \<open>
  The effect of the list: its cleanup aborts the request under way; for a super admin it takes the
  next number and requests the page.
\<close>

definition us_load :: "browser \<Rightarrow> us_state \<Rightarrow> us_result" where
  "us_load b s =
     (let s' = s\<lparr>us_pending := map (\<lambda>p. case p of AwaitUsers n q _ \<Rightarrow> AwaitUsers n q True | _ \<Rightarrow> p) (us_pending s)\<rparr>
      in if \<not> is_super (us_currentUser s') then (s', [])
         else (let requestID = Suc (us_latestRequest s')
               in (s'\<lparr>us_latestRequest := requestID,
                      us_pending := us_pending s' @ [AwaitUsers requestID (us_page s') False]\<rparr>,
                   [api b (js ''/api/admin/users?'' @ query_string (users_query (us_page s') (us_debouncedSearch s')))
                      (with_signal get)])))"

text \<open>\<open>setPage\<close> runs the effect when the page changes.\<close>

definition us_set_page :: "browser \<Rightarrow> int \<Rightarrow> us_state \<Rightarrow> us_result" where
  "us_set_page b p s = (if p = us_page s then (s, []) else us_load b (s\<lparr>us_page := p\<rparr>))"

definition us_init :: "browser \<Rightarrow> user option \<Rightarrow> bool \<Rightarrow> us_result" where
  "us_init b u authLoading =
     us_load b \<lparr>us_currentUser = u, us_authLoading = authLoading, us_users = [], us_loading = True, us_errorMessage = [],
       us_search = [], us_debouncedSearch = [], us_page = 1, us_total = 0, us_totalPages = 1, us_reloadKey = 0,
       us_pendingStatusUser = None, us_pendingDeleteUser = None, us_deletingUser = False, us_latestRequest = 0,
       us_latestDebouncedSearch = [], us_timer = Some [], us_pending = []\<rparr>"

text \<open>The search timer: its effect runs when the text changes and captures it.\<close>

definition us_set_search :: "jstr \<Rightarrow> us_state \<Rightarrow> us_state" where
  "us_set_search v s = (if v = us_search s then s else s\<lparr>us_search := v, us_timer := Some v\<rparr>)"

definition us_timer_fires :: "browser \<Rightarrow> us_state \<Rightarrow> us_result" where
  "us_timer_fires b s =
     (case us_timer s of
        None \<Rightarrow> (s, [])
      | Some captured \<Rightarrow>
          (let s' = s\<lparr>us_timer := None\<rparr>; normalizedSearch = trim captured
           in if normalizedSearch = us_latestDebouncedSearch s' then (s', [])
              else (let t = s'\<lparr>us_latestDebouncedSearch := normalizedSearch, us_loading := True, us_errorMessage := []\<rparr>
                    in if normalizedSearch = us_debouncedSearch t \<and> us_page t = 1 then (t, [])
                       else us_load b (t\<lparr>us_debouncedSearch := normalizedSearch, us_page := 1\<rparr>))))"

definition users_settled ::
  "browser \<Rightarrow> nat \<Rightarrow> int \<Rightarrow> bool \<Rightarrow> js_error + users_response \<Rightarrow> us_state \<Rightarrow> us_result" where
  "users_settled b requestID page aborted r s =
     (case r of
        Inr data \<Rightarrow>
          if requestID \<noteq> us_latestRequest s then (s, [])
          else
            (let nextUsers = (case ur_users data of Some us \<Rightarrow> us | None \<Rightarrow> []);
                 nextTotal = (case ur_total data of Some n \<Rightarrow> n | None \<Rightarrow> int (length nextUsers));
                 nextTotalPages = max 1 (case ur_total_pages data of Some n \<Rightarrow> n | None \<Rightarrow> 1)
             in if page > nextTotalPages then us_set_page b nextTotalPages s
                else (s\<lparr>us_users := nextUsers, us_total := nextTotal, us_totalPages := nextTotalPages,
                        us_loading := (if aborted then us_loading s else False)\<rparr>, []))
      | Inl e \<Rightarrow>
          if aborted \<or> requestID \<noteq> us_latestRequest s then (s, [])
          else (s\<lparr>us_errorMessage := getErrorMessage e, us_loading := False\<rparr>, failed_toast e))"

section \<open>Roles, status, deletion\<close>

definition user_path :: "user \<Rightarrow> jstr" where
  "user_path u = js ''/api/admin/users/'' @ u_id u"

definition role_text :: "role \<Rightarrow> jstr" where
  "role_text r = (case r of SuperAdmin \<Rightarrow> js ''super_admin'' | Anggota \<Rightarrow> js ''anggota'')"

definition updateRole :: "browser \<Rightarrow> user \<Rightarrow> role \<Rightarrow> us_state \<Rightarrow> us_result" where
  "updateRole b u role s =
     (s\<lparr>us_pending := us_pending s @ [AwaitRole u role]\<rparr>,
      [api b (user_path u @ js ''/role'') (patch (JObj [(''role'', JStr (role_text role))]))])"

definition role_settled :: "user \<Rightarrow> role \<Rightarrow> js_error + unit \<Rightarrow> us_state \<Rightarrow> us_result" where
  "role_settled u role r s =
     (case r of
        Inr _ \<Rightarrow> (s\<lparr>us_users := update_where u_id (u_id u) (\<lambda>x. x\<lparr>u_role := role\<rparr>) (us_users s)\<rparr>,
          [Toast Success (js ''Role '' @ u_name u @ js '' diperbarui menjadi ''
             @ js (if role = SuperAdmin then ''super admin'' else ''anggota'') @ js ''.'')])
      | Inl e \<Rightarrow> (s, failed_toast e))"

definition updateStatus :: "browser \<Rightarrow> us_state \<Rightarrow> us_result" where
  "updateStatus b s =
     (case us_pendingStatusUser s of
        None \<Rightarrow> (s, [])
      | Some u \<Rightarrow> (s\<lparr>us_pending := us_pending s @ [AwaitStatus u]\<rparr>,
          [api b (user_path u @ js ''/status'') (patch (JObj [(''is_active'', JBool (\<not> u_is_active u))]))]))"

definition status_settled :: "user \<Rightarrow> js_error + unit \<Rightarrow> us_state \<Rightarrow> us_result" where
  "status_settled u r s =
     (let nextStatus = (\<not> u_is_active u); s' = s\<lparr>us_pendingStatusUser := None\<rparr>
      in case r of
           Inr _ \<Rightarrow> (s'\<lparr>us_users := update_where u_id (u_id u) (\<lambda>x. x\<lparr>u_is_active := nextStatus\<rparr>) (us_users s')\<rparr>,
             [Toast Success (if nextStatus then js ''Akun '' @ u_name u @ js '' diaktifkan.''
                else js ''Akun '' @ u_name u @ js '' dinonaktifkan dan aksesnya dicabut.'')])
         | Inl e \<Rightarrow> (s', failed_toast e))"

definition deleteUser :: "browser \<Rightarrow> us_state \<Rightarrow> us_result" where
  "deleteUser b s =
     (case us_pendingDeleteUser s of
        None \<Rightarrow> (s, [])
      | Some u \<Rightarrow> (s\<lparr>us_deletingUser := True, us_pending := us_pending s @ [AwaitUserDelete u]\<rparr>,
          [api b (user_path u) delete_init]))"

definition reload :: "browser \<Rightarrow> us_state \<Rightarrow> us_result" where
  "reload b s = us_load b (s\<lparr>us_reloadKey := Suc (us_reloadKey s)\<rparr>)"

definition user_delete_settled :: "browser \<Rightarrow> user \<Rightarrow> js_error + unit \<Rightarrow> us_state \<Rightarrow> us_result" where
  "user_delete_settled b u r s =
     (case r of
        Inr _ \<Rightarrow>
          (let (t, effs) = reload b (s\<lparr>us_pendingDeleteUser := None, us_loading := True, us_deletingUser := False\<rparr>)
           in (t, Toast Success (js ''Data '' @ u_name u @ js '' berhasil dihapus permanen.'') # effs))
      | Inl e \<Rightarrow> (s\<lparr>us_deletingUser := False\<rparr>, failed_toast e))"

section \<open>The step\<close>

definition us_drop :: "nat \<Rightarrow> us_state \<Rightarrow> us_state" where
  "us_drop k s = s\<lparr>us_pending := drop_nth k (us_pending s)\<rparr>"

fun us_step :: "browser \<Rightarrow> us_state \<Rightarrow> us_event \<Rightarrow> us_result" where
  "us_step b s (UsAuth u l) =
     (let s' = s\<lparr>us_currentUser := u, us_authLoading := l\<rparr>
      in if map_option u_role u = map_option u_role (us_currentUser s) then (s', []) else us_load b s')"
| "us_step b s (UsSearch v) = (us_set_search v s, [])"
| "us_step b s UsTimer = us_timer_fires b s"
| "us_step b s (UsPageChange p) = us_set_page b p (s\<lparr>us_loading := True, us_errorMessage := []\<rparr>)"
| "us_step b s UsRetry = reload b (s\<lparr>us_loading := True, us_errorMessage := []\<rparr>)"
| "us_step b s (UpdateRole u role) = updateRole b u role s"
| "us_step b s (OpenStatus u) = (s\<lparr>us_pendingStatusUser := Some u\<rparr>, [])"
| "us_step b s (StatusOpenChange v) = (if v then s else s\<lparr>us_pendingStatusUser := None\<rparr>, [])"
| "us_step b s UpdateStatus = updateStatus b s"
| "us_step b s (OpenDelete u) = (s\<lparr>us_pendingDeleteUser := Some u\<rparr>, [])"
| "us_step b s (DeleteOpenChange v) =
     (if v \<or> us_deletingUser s then s else s\<lparr>us_pendingDeleteUser := None\<rparr>, [])"
| "us_step b s DeleteUser = deleteUser b s"
| "us_step b s (UsersAnswer k r) =
     (case us_pending s ! k of
        AwaitUsers n p ab \<Rightarrow> users_settled b n p ab r (us_drop k s) | _ \<Rightarrow> (s, []))"
| "us_step b s (RoleAnswer k r) =
     (case us_pending s ! k of AwaitRole u role \<Rightarrow> role_settled u role r (us_drop k s) | _ \<Rightarrow> (s, []))"
| "us_step b s (StatusAnswer k r) =
     (case us_pending s ! k of AwaitStatus u \<Rightarrow> status_settled u r (us_drop k s) | _ \<Rightarrow> (s, []))"
| "us_step b s (UserDeleteAnswer k r) =
     (case us_pending s ! k of AwaitUserDelete u \<Rightarrow> user_delete_settled b u r (us_drop k s) | _ \<Rightarrow> (s, []))"

section \<open>The rendered page\<close>

definition MetricValue :: "bool \<Rightarrow> int \<Rightarrow> 'e node" where
  "MetricValue loading value =
     (if loading then El ''Skeleton'' [Flag ''aria-hidden'' True] [] else El ''p'' [] [Txt (int_str value)])"

definition metric :: "bool \<Rightarrow> string \<Rightarrow> string \<Rightarrow> int \<Rightarrow> 'e node" where
  "metric loading icon title value =
     El ''Card'' [Attr ''size'' (js ''sm'')] [El ''CardContent'' [] [El ''span'' [] [El icon [] []],
       El ''div'' [] [El ''p'' [] [lit title], MetricValue loading value]]]"

text \<open>\<open>name.split(" ").map((part) => part[0]).join("").slice(0, 2).toUpperCase()\<close>\<close>

definition plain_initials :: "(jstr \<Rightarrow> jstr) \<Rightarrow> jstr \<Rightarrow> jstr" where
  "plain_initials upper name = upper (take 2 (map hd (filter (\<lambda>w. w \<noteq> []) (split_on 32 name))))"

definition UserIdentity :: "(jstr \<Rightarrow> jstr) \<Rightarrow> user \<Rightarrow> 'e node" where
  "UserIdentity upper u =
     El ''div'' []
      [El ''Avatar'' [] [El ''AvatarImage'' [Attr ''src'' (u_avatar u), Attr ''alt'' (u_name u)] [],
         El ''AvatarFallback'' [] (if plain_initials upper (u_name u) \<noteq> [] then [Txt (plain_initials upper (u_name u))]
           else [El ''CircleUserRound'' [] []])],
       El ''div'' [] [El ''p'' [] [Txt (u_name u)], El ''p'' [] [Txt (u_email u)]]]"

definition active_badge :: "user \<Rightarrow> 'e node" where
  "active_badge u = El ''Badge'' [Attr ''variant'' (js (if u_is_active u then ''outline'' else ''destructive''))]
     [El (if u_is_active u then ''UserCheck'' else ''Ban'') [] [], lit (if u_is_active u then ''Aktif'' else ''Nonaktif'')]"

definition verified_badge :: "user \<Rightarrow> 'e node" where
  "verified_badge u = El ''Badge'' [Attr ''variant'' (js (if u_email_verified u then ''outline'' else ''secondary''))]
     [El (if u_email_verified u then ''BadgeCheck'' else ''ShieldAlert'') [] [],
      lit (if u_email_verified u then ''Terverifikasi'' else ''Belum verifikasi'')]"

definition role_badge :: "user \<Rightarrow> 'e node" where
  "role_badge u = El ''Badge'' [Attr ''variant'' (js (if u_role u = SuperAdmin then ''default'' else ''secondary''))]
     [lit (role_label u)]"

definition UserActions :: "user \<Rightarrow> bool \<Rightarrow> us_event node" where
  "UserActions u isCurrent =
     El ''DropdownMenu'' []
      [El ''DropdownMenuTrigger'' [] [El ''Button'' [Attr ''variant'' (js ''ghost''), Attr ''size'' (js ''icon''),
         Attr ''aria-label'' (js ''Aksi untuk '' @ u_name u)] [El ''MoreHorizontal'' [] []]],
       El ''DropdownMenuContent'' [Attr ''align'' (js ''end'')]
        [El ''DropdownMenuLabel'' [] [lit ''Kelola akun''],
         El ''DropdownMenuSeparator'' [] [],
         El ''DropdownMenuItem'' [Flag ''disabled'' (isCurrent \<or> u_role u = Anggota), OnClick (UpdateRole u Anggota)]
           [El ''CircleUserRound'' [] [], lit ''Jadikan anggota''],
         El ''DropdownMenuItem'' [Flag ''disabled'' (isCurrent \<or> u_role u = SuperAdmin), OnClick (UpdateRole u SuperAdmin)]
           [El ''ShieldCheck'' [] [], lit ''Jadikan super admin''],
         El ''DropdownMenuSeparator'' [] [],
         El ''DropdownMenuItem'' [Attr ''variant'' (js (if u_is_active u then ''destructive'' else ''default'')),
             Flag ''disabled'' isCurrent, OnClick (OpenStatus u)]
           [El (if u_is_active u then ''Ban'' else ''UserCheck'') [] [],
            lit (if u_is_active u then ''Nonaktifkan akun'' else ''Aktifkan akun'')],
         El ''DropdownMenuItem'' [Attr ''variant'' (js ''destructive''), Flag ''disabled'' isCurrent, OnClick (OpenDelete u)]
           [El ''Trash2'' [] [], lit ''Hapus permanen'']]]"

definition UserTableRow :: "date_formats \<Rightarrow> (jstr \<Rightarrow> jstr) \<Rightarrow> user \<Rightarrow> bool \<Rightarrow> us_event node" where
  "UserTableRow d upper u isCurrent =
     El ''TableRow'' [Attr ''key'' (u_id u)]
      [El ''TableCell'' [] [UserIdentity upper u], El ''TableCell'' [] [active_badge u],
       El ''TableCell'' [] [verified_badge u], El ''TableCell'' [] [role_badge u],
       El ''TableCell'' [] [Txt (formatJakartaDate d (Some (u_created_at u)))],
       El ''TableCell'' [] [UserActions u isCurrent]]"

definition UserMobileCard :: "(jstr \<Rightarrow> jstr) \<Rightarrow> user \<Rightarrow> bool \<Rightarrow> us_event node" where
  "UserMobileCard upper u isCurrent =
     El ''div'' [Attr ''key'' (u_id u)]
      [El ''div'' [] [UserIdentity upper u, UserActions u isCurrent],
       El ''div'' [] [active_badge u, verified_badge u, role_badge u]]"

definition status_dialog :: "us_state \<Rightarrow> us_event node" where
  "status_dialog s =
     (let p = us_pendingStatusUser s; act = (\<exists>u. p = Some u \<and> u_is_active u)
      in El ''AlertDialog'' [Flag ''open'' (p \<noteq> None), OnClick (StatusOpenChange False)]
      [El ''AlertDialogContent'' []
        [El ''AlertDialogHeader'' []
          [El ''AlertDialogMedia'' [] [El (if act then ''Ban'' else ''UserCheck'') [] []],
           El ''AlertDialogTitle'' [] [lit (if act then ''Nonaktifkan akun?'' else ''Aktifkan akun?'')],
           El ''AlertDialogDescription'' [] [Txt (case p of
               Some u \<Rightarrow> if u_is_active u
                 then js ''Akun '' @ u_name u @ js '' tidak dapat login dan seluruh sesi serta token aplikasinya akan dicabut.''
                 else js ''Akun '' @ u_name u @ js '' dapat kembali login setelah diaktifkan.''
             | None \<Rightarrow> js ''Akun undefined dapat kembali login setelah diaktifkan.'')]],
         El ''AlertDialogFooter'' []
          [El ''AlertDialogCancel'' [] [lit ''Batal''],
           El ''AlertDialogAction'' [Attr ''variant'' (js (if act then ''destructive'' else ''default'')), OnClick UpdateStatus]
             [lit (if act then ''Nonaktifkan'' else ''Aktifkan'')]]]])"

definition delete_dialog :: "us_state \<Rightarrow> us_event node" where
  "delete_dialog s =
     El ''AlertDialog'' [Flag ''open'' (us_pendingDeleteUser s \<noteq> None), OnClick (DeleteOpenChange False)]
      [El ''AlertDialogContent'' []
        [El ''AlertDialogHeader'' []
          [El ''AlertDialogMedia'' [] [El ''Trash2'' [] []],
           El ''AlertDialogTitle'' [] [lit ''Hapus pengguna secara permanen?''],
           El ''AlertDialogDescription'' []
            [lit ''Akun '', Txt (case us_pendingDeleteUser s of Some u \<Rightarrow> u_name u | None \<Rightarrow> []),
             lit '', sesi, aplikasi OAuth miliknya, authorization code, dan seluruh token terkait akan dihapus. Tindakan ini tidak dapat dibatalkan.'']],
         El ''AlertDialogFooter'' []
          [El ''AlertDialogCancel'' [Flag ''disabled'' (us_deletingUser s)] [lit ''Batal''],
           El ''AlertDialogAction'' [Attr ''variant'' (js ''destructive''), Flag ''disabled'' (us_deletingUser s), OnClick DeleteUser]
             [lit (if us_deletingUser s then ''Menghapus...'' else ''Hapus permanen'')]]]]"

definition users_list :: "date_formats \<Rightarrow> (jstr \<Rightarrow> jstr) \<Rightarrow> user \<Rightarrow> us_state \<Rightarrow> us_event node list" where
  "users_list d upper me s =
     (if us_loading s \<and> us_users s = []
      then [El ''div'' [] (map (\<lambda>i. El ''Skeleton'' [Num ''key'' i] []) [1, 2, 3, 4])]
      else if us_users s = [] then [empty_box ''UsersRound'' ''Pengguna tidak ditemukan''
        ''Coba gunakan kata kunci lain atau periksa kembali pencarian Anda.'']
      else [El ''div'' [Flag ''pointer-events-none'' (us_loading s)]
        [El ''div'' []
          [El ''Table'' []
            [El ''TableHeader'' [] [El ''TableRow'' [] (map (\<lambda>t. El ''TableHead'' [] [lit t])
               [''Pengguna'', ''Status akun'', ''Verifikasi email'', ''Role'', ''Terdaftar'', ''Aksi''])],
             El ''TableBody'' [] (map (\<lambda>u. UserTableRow d upper u (u_id u = u_id me)) (us_users s))]],
         El ''div'' [] (map (\<lambda>u. UserMobileCard upper u (u_id u = u_id me)) (us_users s))]])"

definition PenggunaPage :: "date_formats \<Rightarrow> (jstr \<Rightarrow> jstr) \<Rightarrow> us_state \<Rightarrow> us_event node" where
  "PenggunaPage d upper s =
     (if us_authLoading s then El ''div'' [] [El ''Skeleton'' [] [], El ''Skeleton'' [] []]
      else case us_currentUser s of
        None \<Rightarrow> alert [El ''ShieldAlert'' [] [], El ''AlertTitle'' [] [lit ''Akses ditolak''],
          El ''AlertDescription'' [] [lit ''Manajemen pengguna hanya tersedia untuk super admin.'']]
      | Some me \<Rightarrow>
        if u_role me \<noteq> SuperAdmin then alert [El ''ShieldAlert'' [] [], El ''AlertTitle'' [] [lit ''Akses ditolak''],
          El ''AlertDescription'' [] [lit ''Manajemen pengguna hanya tersedia untuk super admin.'']]
        else El ''div'' []
         [page_header ''Manajemen pengguna''
            ''Lihat seluruh akun, periksa status verifikasi, atur role, dan kendalikan akses login anggota.'' [],
          El ''div'' [Flag ''aria-busy'' (us_loading s)]
           [metric (us_loading s) ''UsersRound'' ''Total pengguna'' (us_total s),
            metric (us_loading s) ''UserCheck'' ''Aktif di halaman ini'' (int (length (filter u_is_active (us_users s)))),
            metric (us_loading s) ''BadgeCheck'' ''Email terverifikasi'' (int (length (filter u_email_verified (us_users s))))],
          El ''Card'' []
           ([El ''CardHeader'' []
              [El ''div'' [] [El ''CardTitle'' [] [lit ''Direktori akun''],
                 El ''CardDescription'' [] [lit ''Data dimuat langsung dari server dan dapat dicari berdasarkan nama atau email.'']],
               El ''div'' [] [El ''Search'' [] [], El ''Input'' [Attr ''value'' (us_search s), OnInput UsSearch,
                 Attr ''placeholder'' (js ''Cari nama atau email...''), Attr ''aria-label'' (js ''Cari pengguna'')] []]],
             El ''CardContent'' [Flag ''aria-busy'' (us_loading s)]
              (show_if (us_errorMessage s \<noteq> [])
                 [alert [El ''ShieldAlert'' [] [], El ''AlertTitle'' [] [lit ''Data pengguna gagal dimuat''],
                   El ''AlertDescription'' [] [El ''span'' [] [Txt (us_errorMessage s)],
                     El ''Button'' [Attr ''size'' (js ''sm''), Attr ''variant'' (js ''outline''), OnClick UsRetry] [lit ''Coba lagi'']]]]
               @ users_list d upper me s)]
            @ show_if (\<not> us_loading s \<and> us_users s \<noteq> [])
                [DataPagination (us_page s) (us_totalPages s) (us_total s) ''akun'' UsPageChange]),
          status_dialog s, delete_dialog s])"

definition us_ok :: "date_formats \<Rightarrow> (jstr \<Rightarrow> jstr) \<Rightarrow> us_state \<Rightarrow> us_event \<Rightarrow> bool" where
  "us_ok d upper s e =
     (case e of
        UsAuth u l \<Rightarrow> True
      | UsTimer \<Rightarrow> us_timer s \<noteq> None
      | UsersAnswer k r \<Rightarrow> k < length (us_pending s) \<and> (case us_pending s ! k of AwaitUsers n p ab \<Rightarrow> True | _ \<Rightarrow> False)
      | RoleAnswer k r \<Rightarrow> k < length (us_pending s) \<and> (case us_pending s ! k of AwaitRole u q \<Rightarrow> True | _ \<Rightarrow> False)
      | StatusAnswer k r \<Rightarrow> k < length (us_pending s) \<and> (case us_pending s ! k of AwaitStatus u \<Rightarrow> True | _ \<Rightarrow> False)
      | UserDeleteAnswer k r \<Rightarrow> k < length (us_pending s) \<and> (case us_pending s ! k of AwaitUserDelete u \<Rightarrow> True | _ \<Rightarrow> False)
      | _ \<Rightarrow> offers (PenggunaPage d upper s) e)"

definition us_next :: "browser \<Rightarrow> us_state \<Rightarrow> us_event \<Rightarrow> us_state" where
  "us_next b s e = fst (us_step b s e)"

section \<open>What the page offers\<close>

lemma lit_hrefs [simp]: "acts (empty_box i t x) = []" "acts (page_header a c []) = []"
  by (simp_all add: empty_box_def page_header_def lit_def show_if_def)

lemma badge_acts [simp]: "acts (active_badge u) = []" "acts (verified_badge u) = []" "acts (role_badge u) = []"
  "acts (UserIdentity up u) = []" "acts (metric l i t n) = []"
  by (simp_all add: active_badge_def verified_badge_def role_badge_def UserIdentity_def metric_def MetricValue_def)

lemma user_actions_acts:
  "a \<in> set (acts (UserActions u c)) \<longleftrightarrow> \<not> c \<and>
     (u_role u \<noteq> Anggota \<and> a = Fire (UpdateRole u Anggota) \<or> u_role u \<noteq> SuperAdmin \<and> a = Fire (UpdateRole u SuperAdmin)
      \<or> a = Fire (OpenStatus u) \<or> a = Fire (OpenDelete u))"
  by (auto simp: UserActions_def)

lemma users_list_acts:
  "a \<in> set (concat (map acts (users_list d up me s))) \<longleftrightarrow>
     (\<exists>u\<in>set (us_users s). a \<in> set (acts (UserActions u (u_id u = u_id me))))"
  by (auto simp: users_list_def UserTableRow_def UserMobileCard_def)

lemma dialog_acts:
  "a \<in> set (acts (status_dialog s)) \<longleftrightarrow> us_pendingStatusUser s \<noteq> None \<and> (a = Fire (StatusOpenChange False) \<or> a = Fire UpdateStatus)"
  "a \<in> set (acts (delete_dialog s)) \<longleftrightarrow> us_pendingDeleteUser s \<noteq> None
     \<and> (a = Fire (DeleteOpenChange False) \<or> \<not> us_deletingUser s \<and> a = Fire DeleteUser)"
  by (auto simp: status_dialog_def delete_dialog_def Let_def)

definition super_user :: "us_state \<Rightarrow> user option" where
  "super_user s = (if us_authLoading s then None else case us_currentUser s of
     Some me \<Rightarrow> if u_role me = SuperAdmin then Some me else None | None \<Rightarrow> None)"

lemma pengguna_acts:
  "a \<in> set (acts (PenggunaPage d up s)) \<longleftrightarrow> (\<exists>me. super_user s = Some me \<and>
     (a = Type UsSearch \<or> us_errorMessage s \<noteq> [] \<and> a = Fire UsRetry
      \<or> (\<exists>u\<in>set (us_users s). a \<in> set (acts (UserActions u (u_id u = u_id me))))
      \<or> \<not> us_loading s \<and> us_users s \<noteq> []
          \<and> a \<in> set (acts (DataPagination (us_page s) (us_totalPages s) (us_total s) ''akun'' UsPageChange))
      \<or> a \<in> set (acts (status_dialog s)) \<or> a \<in> set (acts (delete_dialog s))))"
  using users_list_acts [of a d up _ s]
  by (auto simp: PenggunaPage_def super_user_def alert_def show_if_def split: option.splits if_splits)

text \<open>No action on oneself, none that changes nothing, and pages only within the range.\<close>

lemma user_events_offered:
  assumes "offers (PenggunaPage d up s) e" "super_user s = Some me"
  shows "(e = UpdateRole u r \<longrightarrow> u \<in> set (us_users s) \<and> u_id u \<noteq> u_id me \<and> u_role u \<noteq> r)
    \<and> (e = OpenStatus u \<or> e = OpenDelete u \<longrightarrow> u \<in> set (us_users s) \<and> u_id u \<noteq> u_id me)"
  using assms by (auto simp: offers_iff pengguna_acts user_actions_acts dialog_acts pagination_acts pagination_types)

lemma offered_needs_super: "offers (PenggunaPage d up s) e \<Longrightarrow> \<exists>me. super_user s = Some me"
  by (auto simp: offers_iff pengguna_acts)

lemma page_offered:
  assumes "offers (PenggunaPage d up s) (UsPageChange p)" "1 \<le> us_page s" "us_page s \<le> us_totalPages s"
  shows "1 \<le> p \<and> p \<le> us_totalPages s"
proof -
  from assms(1) have "offers (DataPagination (us_page s) (us_totalPages s) (us_total s) ''akun'' UsPageChange) (UsPageChange p)"
    by (auto simp: offers_iff pengguna_acts user_actions_acts dialog_acts pagination_types)
  from pagination_offers_range [OF assms(2) _ this] assms(2,3) show ?thesis by auto
qed

lemma current_page_offered:
  assumes "super_user s = Some me" "\<not> us_loading s" "us_users s \<noteq> []" "1 \<le> us_page s" "us_page s \<le> us_totalPages s"
  shows "offers (PenggunaPage d up s) (UsPageChange (us_page s))"
proof -
  have "offers (DataPagination (us_page s) (us_totalPages s) (us_total s) ''akun'' UsPageChange) (UsPageChange (us_page s))"
    by (rule pagination_offers_current) (use assms in simp_all)
  then show ?thesis using assms by (simp add: offers_iff pengguna_acts pagination_types)
qed

section \<open>Invariant\<close>

fun live_request :: "us_pending \<Rightarrow> bool" where
  "live_request (AwaitUsers n p ab) = (\<not> ab)"
| "live_request p = False"

fun request_number :: "us_pending \<Rightarrow> nat option" where
  "request_number (AwaitUsers n p ab) = Some n"
| "request_number p = None"

fun request_page :: "us_pending \<Rightarrow> int" where
  "request_page (AwaitUsers n p ab) = p"
| "request_page p = 1"

definition pages_inv :: "us_state \<Rightarrow> bool" where
  "pages_inv s = (1 \<le> us_page s \<and> us_page s \<le> us_totalPages s \<and> us_latestDebouncedSearch s = us_debouncedSearch s)"

text \<open>
  Numbers never exceed the counter, at most one pending request has the latest number, and its page
  lies between the page shown and the number of pages (an aborted request may have been overtaken by
  the return to page 1).
\<close>

definition numbers_inv :: "us_state \<Rightarrow> bool" where
  "numbers_inv s =
     ((\<forall>p\<in>set (us_pending s). \<forall>n. request_number p = Some n \<longrightarrow> n \<le> us_latestRequest s)
      \<and> length (filter (\<lambda>p. request_number p = Some (us_latestRequest s)) (us_pending s)) \<le> 1
      \<and> (\<forall>p\<in>set (us_pending s). request_number p = Some (us_latestRequest s) \<longrightarrow>
            us_page s \<le> request_page p \<and> request_page p \<le> us_totalPages s))"

definition live_inv :: "us_state \<Rightarrow> bool" where
  "live_inv s = (\<forall>p\<in>set (us_pending s). live_request p \<longrightarrow> p = AwaitUsers (us_latestRequest s) (us_page s) False)"

definition us_inv :: "us_state \<Rightarrow> bool" where
  "us_inv s = (pages_inv s \<and> numbers_inv s \<and> live_inv s)"

lemmas us_inv_defs = us_inv_def pages_inv_def numbers_inv_def live_inv_def

abbreviation aborted :: "us_pending \<Rightarrow> us_pending" where
  "aborted p \<equiv> (case p of AwaitUsers n q _ \<Rightarrow> AwaitUsers n q True | _ \<Rightarrow> p)"

lemma aborted_facts [simp]:
  "live_request (aborted p) = False" "request_number (aborted p) = request_number p" "request_page (aborted p) = request_page p"
  by (cases p; simp)+

lemma us_inv_load:
  assumes p: "pages_inv s" and n: "numbers_inv s"
  shows "us_inv (fst (us_load b s))"
proof -
  have none: "filter (\<lambda>p. request_number p = Some (Suc (us_latestRequest s))) (us_pending s) = []"
    using n by (auto simp: numbers_inv_def filter_empty_conv)
  have c: "filter (\<lambda>p. request_number p = Some k) (map aborted ps) = map aborted (filter (\<lambda>p. request_number p = Some k) ps)" for k ps
    by (simp add: filter_map o_def)
  show ?thesis
  proof (cases "is_super (us_currentUser s)")
    case True
    have "\<forall>q\<in>set (us_pending s). request_number q \<noteq> Some (Suc (us_latestRequest s))"
      using none by (simp add: filter_empty_conv)
    then show ?thesis using p n True none
      by (auto simp: us_inv_defs us_load_def Let_def c intro: le_SucI)
  next
    case False
    then show ?thesis using p n by (simp add: us_inv_defs us_load_def Let_def c)
  qed
qed

lemma us_inv_cong:
  assumes "us_pending s = us_pending t" "us_latestRequest s = us_latestRequest t" "us_page s = us_page t"
    "us_totalPages s = us_totalPages t" "us_debouncedSearch s = us_debouncedSearch t"
    "us_latestDebouncedSearch s = us_latestDebouncedSearch t"
  shows "pages_inv s = pages_inv t" "numbers_inv s = numbers_inv t" "us_inv s = us_inv t"
  using assms by (simp_all add: us_inv_defs)

lemma us_inv_updates [simp]:
  "us_inv (s\<lparr>us_users := a\<rparr>) = us_inv s" "us_inv (s\<lparr>us_loading := b\<rparr>) = us_inv s"
  "us_inv (s\<lparr>us_errorMessage := c\<rparr>) = us_inv s" "us_inv (s\<lparr>us_search := c\<rparr>) = us_inv s"
  "us_inv (s\<lparr>us_timer := h\<rparr>) = us_inv s" "us_inv (s\<lparr>us_pendingStatusUser := d\<rparr>) = us_inv s"
  "us_inv (s\<lparr>us_pendingDeleteUser := d\<rparr>) = us_inv s" "us_inv (s\<lparr>us_deletingUser := b\<rparr>) = us_inv s"
  "us_inv (s\<lparr>us_currentUser := d\<rparr>) = us_inv s" "us_inv (s\<lparr>us_authLoading := b\<rparr>) = us_inv s"
  "us_inv (s\<lparr>us_reloadKey := e\<rparr>) = us_inv s" "us_inv (s\<lparr>us_total := f\<rparr>) = us_inv s"
  by (rule us_inv_cong; simp)+

lemma us_inv_reload: "us_inv s \<Longrightarrow> us_inv (fst (us_load b s))"
  by (rule us_inv_load) (simp_all add: us_inv_def)

text \<open>The page changes while the user is a super admin, or once no request has the latest number.\<close>

definition latest_answered :: "us_state \<Rightarrow> bool" where
  "latest_answered s = (\<forall>p\<in>set (us_pending s). request_number p \<noteq> Some (us_latestRequest s))"

lemma us_inv_load_super:
  assumes "is_super (us_currentUser s)" "pages_inv s" "\<forall>p\<in>set (us_pending s). \<forall>n. request_number p = Some n \<longrightarrow> n \<le> us_latestRequest s"
  shows "us_inv (fst (us_load b s))"
proof -
  have none: "\<forall>q\<in>set (us_pending s). request_number q \<noteq> Some (Suc (us_latestRequest s))"
    using assms(3) by auto
  then have "filter (\<lambda>p. request_number p = Some (Suc (us_latestRequest s))) (map aborted (us_pending s)) = []"
    by (simp add: filter_empty_conv)
  with none assms show ?thesis by (auto simp: us_inv_defs us_load_def Let_def intro: le_SucI)
qed

lemma us_inv_set_page:
  assumes "us_inv s" "1 \<le> p" "p \<le> us_totalPages s" "is_super (us_currentUser s) \<or> latest_answered s"
  shows "us_inv (fst (us_set_page b p s))"
proof -
  have "us_inv (fst (us_load b (s\<lparr>us_page := p\<rparr>)))"
    using assms(4)
  proof
    assume "is_super (us_currentUser s)"
    then show ?thesis using assms by (intro us_inv_load_super) (simp_all add: us_inv_defs)
  next
    assume "latest_answered s"
    then show ?thesis using assms by (intro us_inv_load) (simp_all add: us_inv_defs latest_answered_def)
  qed
  then show ?thesis using assms(1) by (simp add: us_set_page_def)
qed

lemma us_inv_drop: "us_inv s \<Longrightarrow> us_inv (us_drop k s)"
proof -
  assume *: "us_inv s"
  have "length (filter P (drop_nth k (us_pending s))) \<le> length (filter P (us_pending s))" for P
    by (cases "k < length (us_pending s)") (simp_all add: length_filter_drop_nth, simp add: drop_nth_def)
  from this [of "\<lambda>p. request_number p = Some (us_latestRequest s)"] * show ?thesis
    by (auto simp: us_inv_defs us_drop_def)
qed

lemma drop_answers_latest:
  assumes "us_inv s" "k < length (us_pending s)" "request_number (us_pending s ! k) = Some (us_latestRequest s)"
  shows "latest_answered (us_drop k s)"
proof -
  have "length (filter (\<lambda>p. request_number p = Some (us_latestRequest s)) (us_pending s)) \<le> 1"
    using assms(1) by (simp add: us_inv_defs)
  then have "filter (\<lambda>p. request_number p = Some (us_latestRequest s)) (drop_nth k (us_pending s)) = []"
    using length_filter_drop_nth [OF assms(2), of "\<lambda>p. request_number p = Some (us_latestRequest s)"] assms(3) by auto
  then show ?thesis by (simp add: latest_answered_def us_drop_def filter_empty_conv)
qed

lemma us_inv_add: "us_inv s \<Longrightarrow> request_number p = None \<Longrightarrow> us_inv (s\<lparr>us_pending := us_pending s @ [p]\<rparr>)"
  by (cases p) (auto simp: us_inv_defs)

lemma us_inv_answered:
  assumes "us_inv s" "us_page s \<le> m" "latest_answered s"
  shows "us_inv (s\<lparr>us_users := a, us_total := c, us_totalPages := m, us_loading := l\<rparr>)"
  using assms by (simp add: us_inv_defs latest_answered_def)

lemma us_inv_users:
  assumes i: "us_inv s" and l: "requestID = us_latestRequest s \<Longrightarrow> latest_answered s \<and> us_page s \<le> page \<and> page \<le> us_totalPages s"
  shows "us_inv (fst (users_settled b requestID page ab r s))"
proof (cases r)
  case (Inr data)
  define m where "m = max 1 (case ur_total_pages data of Some n \<Rightarrow> n | None \<Rightarrow> 1)"
  have m: "1 \<le> m" by (simp add: m_def)
  show ?thesis
  proof (cases "requestID = us_latestRequest s")
    case True
    note l = l [OF True]
    show ?thesis
    proof (cases "m < page")
      case less: True
      have "us_inv (fst (us_set_page b m s))"
        by (rule us_inv_set_page) (use i l m less in auto)
      then show ?thesis using True less Inr by (simp add: users_settled_def Let_def m_def [symmetric])
    next
      case False
      then show ?thesis using True l Inr us_inv_answered [OF i, of m]
        by (simp add: users_settled_def Let_def m_def [symmetric])
    qed
  qed (simp add: users_settled_def Inr i)
qed (simp add: users_settled_def i)

lemma us_inv_answer:
  assumes "us_inv s" "k < length (us_pending s)" "us_pending s ! k = AwaitUsers n p ab"
  shows "us_inv (fst (users_settled b n p ab r (us_drop k s)))"
proof (rule us_inv_users)
  show "us_inv (us_drop k s)" by (rule us_inv_drop [OF assms(1)])
  assume "n = us_latestRequest (us_drop k s)"
  then have n: "request_number (us_pending s ! k) = Some (us_latestRequest s)" using assms(3) by (simp add: us_drop_def)
  from drop_answers_latest [OF assms(1,2) this] assms(1,3) nth_mem [OF assms(2)] n
  show "latest_answered (us_drop k s) \<and> us_page (us_drop k s) \<le> p \<and> p \<le> us_totalPages (us_drop k s)"
    by (auto simp: us_inv_defs us_drop_def)
qed

lemma us_inv_timer: "us_inv s \<Longrightarrow> us_inv (fst (us_timer_fires b s))"
proof -
  assume i: "us_inv s"
  have load: "us_inv (fst (us_load b (s\<lparr>us_timer := None, us_latestDebouncedSearch := v, us_loading := True,
      us_errorMessage := [], us_debouncedSearch := v, us_page := 1\<rparr>)))" for v
    using i by (intro us_inv_load) (auto simp: us_inv_defs)
  show ?thesis
  proof (cases "us_timer s")
    case (Some c)
    have "us_latestDebouncedSearch s = us_debouncedSearch s" using i by (simp add: us_inv_defs)
    then show ?thesis using i Some load [of "trim c"] by (simp add: us_timer_fires_def Let_def)
  qed (simp add: us_timer_fires_def i)
qed

lemma us_inv_settled:
  assumes "us_inv s"
  shows "us_inv (fst (role_settled u q x s))" "us_inv (fst (status_settled u x s))" "us_inv (fst (user_delete_settled b u x s))"
  using assms us_inv_reload [of "s\<lparr>us_pendingDeleteUser := None, us_loading := True, us_deletingUser := False,
      us_reloadKey := Suc (us_reloadKey s)\<rparr>" b]
  by (simp_all add: role_settled_def status_settled_def user_delete_settled_def reload_def Let_def case_prod_beta split: sum.splits)

lemma us_inv_sent:
  assumes "us_inv s"
  shows "us_inv (fst (updateRole b u q s))" "us_inv (fst (updateStatus b s))" "us_inv (fst (deleteUser b s))"
proof -
  note add = us_inv_add [OF assms]
  show "us_inv (fst (updateRole b u q s))" using add by (simp add: updateRole_def)
  show "us_inv (fst (updateStatus b s))" using add assms by (cases "us_pendingStatusUser s") (simp_all add: updateStatus_def)
  show "us_inv (fst (deleteUser b s))" using us_inv_add [of "s\<lparr>us_deletingUser := True\<rparr>"] assms
    by (cases "us_pendingDeleteUser s") (simp_all add: deleteUser_def)
qed

lemma super_user_is_super: "super_user s = Some me \<Longrightarrow> is_super (us_currentUser s)"
  by (auto simp: super_user_def is_super_def split: if_splits option.splits)

lemma us_inv_page_change:
  assumes "us_inv s" "offers (PenggunaPage d up s) (UsPageChange p)"
  shows "us_inv (us_next b s (UsPageChange p))"
proof -
  have "1 \<le> us_page s" "us_page s \<le> us_totalPages s" using assms(1) by (simp_all add: us_inv_defs)
  with page_offered [OF assms(2)] have "1 \<le> p \<and> p \<le> us_totalPages s" by simp
  moreover have "is_super (us_currentUser s)" using offered_needs_super [OF assms(2)] super_user_is_super by blast
  ultimately show ?thesis unfolding us_next_def us_step.simps
    by (intro us_inv_set_page) (use assms(1) in simp_all)
qed

lemma us_inv_step:
  assumes "us_inv s" "us_ok d up s e"
  shows "us_inv (us_next b s e)"
proof (cases e)
  case (UsersAnswer k r)
  with assms obtain n p ab where "k < length (us_pending s)" "us_pending s ! k = AwaitUsers n p ab"
    by (auto simp: us_ok_def split: us_pending.splits)
  with us_inv_answer [OF assms(1)] UsersAnswer show ?thesis by (simp add: us_next_def)
next
  case (UsPageChange p)
  with assms us_inv_page_change show ?thesis by (simp add: us_ok_def)
next
  case (UsAuth u l)
  have "us_inv (s\<lparr>us_currentUser := u, us_authLoading := l\<rparr>)" using assms(1) by simp
  then show ?thesis using us_inv_reload by (simp add: UsAuth us_next_def Let_def)
qed (use assms(1) us_inv_drop [OF assms(1)] us_inv_timer us_inv_settled us_inv_sent us_inv_reload in
      \<open>simp_all add: us_next_def us_set_search_def reload_def split: us_pending.splits\<close>)

lemma us_inv_init: "us_inv (fst (us_init b u l))"
  unfolding us_init_def by (rule us_inv_load) (simp_all add: us_inv_defs)

interpretation users_page: machine_invariant "fst (us_init b u l)" "us_next b" "us_ok d up" us_inv for b u l d up
  by unfold_locales (auto intro: us_inv_init us_inv_step)

interpretation users_answers: latest_wins us_latestRequest
  "\<lambda>s. (us_users s, us_total s, us_page s, us_totalPages s, us_errorMessage s, us_loading s)"
  "\<lambda>n r s. fst (users_settled b n (snd r) ab (fst r) s)" for b ab
  by unfold_locales (auto simp: users_settled_def split: sum.splits)

section \<open>The administrator's own account\<close>

text \<open>
  A visit of the page by one account: the provider's user may come and go and be renewed, but another
  account signs in on the login page only. The dialogs then never hold that account.
\<close>

definition account_is :: "jstr \<Rightarrow> user option \<Rightarrow> bool" where
  "account_is i u = (case u of None \<Rightarrow> True | Some x \<Rightarrow> u_id x = i)"

definition other_account :: "jstr \<Rightarrow> user option \<Rightarrow> bool" where
  "other_account i u = (case u of None \<Rightarrow> True | Some x \<Rightarrow> u_id x \<noteq> i)"

fun keeps_account :: "jstr \<Rightarrow> us_event \<Rightarrow> bool" where
  "keeps_account i (UsAuth u l) = account_is i u"
| "keeps_account i e = True"

definition spares :: "jstr \<Rightarrow> us_state \<Rightarrow> bool" where
  "spares i s = (account_is i (us_currentUser s) \<and> other_account i (us_pendingStatusUser s)
     \<and> other_account i (us_pendingDeleteUser s))"

lemma other_account_None [simp]: "other_account i None"
  by (simp add: other_account_def)

lemma spares_cong:
  assumes "us_currentUser s = us_currentUser t" "us_pendingStatusUser s = us_pendingStatusUser t"
    "us_pendingDeleteUser s = us_pendingDeleteUser t"
  shows "spares i s = spares i t"
  using assms by (simp add: spares_def)

lemma spares_load [simp]: "spares i (fst (us_load b s)) = spares i s"
  by (rule spares_cong) (simp_all add: us_load_def Let_def)

lemma spares_updates [simp]:
  "spares i (s\<lparr>us_users := a\<rparr>) = spares i s" "spares i (s\<lparr>us_loading := l\<rparr>) = spares i s"
  "spares i (s\<lparr>us_errorMessage := m\<rparr>) = spares i s" "spares i (s\<lparr>us_pending := p\<rparr>) = spares i s"
  "spares i (s\<lparr>us_page := n\<rparr>) = spares i s" "spares i (s\<lparr>us_search := m\<rparr>) = spares i s"
  "spares i (s\<lparr>us_timer := h\<rparr>) = spares i s" "spares i (s\<lparr>us_deletingUser := l\<rparr>) = spares i s"
  "spares i (s\<lparr>us_latestDebouncedSearch := m\<rparr>) = spares i s" "spares i (s\<lparr>us_debouncedSearch := m\<rparr>) = spares i s"
  "spares i (s\<lparr>us_reloadKey := k\<rparr>) = spares i s" "spares i (s\<lparr>us_total := n\<rparr>) = spares i s"
  "spares i (s\<lparr>us_totalPages := n\<rparr>) = spares i s"
  by (rule spares_cong; simp)+

lemma spares_closed [simp]:
  "spares i s \<Longrightarrow> spares i (s\<lparr>us_pendingStatusUser := None\<rparr>)"
  "spares i s \<Longrightarrow> spares i (s\<lparr>us_pendingDeleteUser := None\<rparr>)"
  by (simp_all add: spares_def)

lemma spares_step:
  assumes "spares i s" "us_ok d up s e" "keeps_account i e"
  shows "spares i (us_next b s e)"
proof -
  have open_dialog: "u_id u \<noteq> i" if "e = OpenStatus u \<or> e = OpenDelete u" for u
  proof -
    have o: "offers (PenggunaPage d up s) e" using assms(2) that by (auto simp: us_ok_def)
    from offered_needs_super [OF o] obtain me where me: "super_user s = Some me" by blast
    then have "u_id me = i" using assms(1) by (auto simp: spares_def account_is_def super_user_def split: if_splits option.splits)
    with user_events_offered [OF o me, of u] that show ?thesis by auto
  qed
  show ?thesis
  proof (cases e)
    case (UsAuth u l)
    have "spares i (s\<lparr>us_currentUser := u, us_authLoading := l\<rparr>)" using UsAuth assms by (simp add: spares_def)
    then show ?thesis using UsAuth by (simp add: us_next_def Let_def)
  next
    case (OpenStatus u)
    with assms(1) open_dialog show ?thesis by (simp add: us_next_def spares_def other_account_def)
  next
    case (OpenDelete u)
    with assms(1) open_dialog show ?thesis by (simp add: us_next_def spares_def other_account_def)
  qed (use assms(1) in \<open>auto simp: us_next_def us_set_search_def us_timer_fires_def us_set_page_def reload_def updateRole_def
      updateStatus_def deleteUser_def users_settled_def role_settled_def status_settled_def user_delete_settled_def us_drop_def
      Let_def case_prod_beta split: option.split us_pending.split sum.split\<close>)
qed

lemma spares_init: "account_is i u \<Longrightarrow> spares i (fst (us_init b u l))"
  unfolding us_init_def spares_load by (simp add: spares_def)

interpretation sparing: machine_invariant "fst (us_init b u l)" "us_next b" "\<lambda>s e. us_ok d up s e \<and> keeps_account i e"
  "\<lambda>s. account_is i u \<longrightarrow> spares i s" for b u l d up i
  by unfold_locales (auto intro: spares_init spares_step)

text \<open>What is sent besides the requests for the list.\<close>

lemma list_requests:
  "r \<in> set (sent (snd (us_load b s))) \<Longrightarrow> fr_method r = ''GET''"
  by (auto simp: us_load_def Let_def with_signal_def get_def fetch_init_def apiFetch_request_def split: if_splits)

lemma change_requests:
  assumes "spares i s" "us_ok d up s e" "r \<in> set (sent (snd (us_step b s e)))" "fr_method r \<noteq> ''GET''"
  shows "\<exists>x. u_id x \<noteq> i \<and>
    ((\<exists>q. e = UpdateRole x q \<and> x \<in> set (us_users s) \<and> u_role x \<noteq> q
        \<and> r = apiFetch_request (b_api_url b) (js ''/api/admin/users/'' @ u_id x @ js ''/role'') (patch (JObj [(''role'', JStr (role_text q))])))
     \<or> e = UpdateStatus \<and> us_pendingStatusUser s = Some x
        \<and> r = apiFetch_request (b_api_url b) (js ''/api/admin/users/'' @ u_id x @ js ''/status'') (patch (JObj [(''is_active'', JBool (\<not> u_is_active x))]))
     \<or> e = DeleteUser \<and> us_pendingDeleteUser s = Some x
        \<and> r = apiFetch_request (b_api_url b) (js ''/api/admin/users/'' @ u_id x) delete_init)"
proof -
  have no_get: "r \<notin> set (sent (snd (us_load b t)))" for t using list_requests assms(4) by blast
  have no_toast: "sent (failed_toast x) = []" for x by (simp add: failed_toast_def)
  show ?thesis
  proof (cases e)
    case (UpdateRole x q)
    have o: "offers (PenggunaPage d up s) e" using assms(2) UpdateRole by (auto simp: us_ok_def)
    from offered_needs_super [OF o] obtain me where me: "super_user s = Some me" by blast
    then have "u_id me = i" using assms(1) by (auto simp: spares_def account_is_def super_user_def split: if_splits option.splits)
    with user_events_offered [OF o me, of x q] UpdateRole assms(3) show ?thesis
      by (auto simp: updateRole_def user_path_def)
  next
    case UpdateStatus
    with assms(1,3) show ?thesis
      by (auto simp: updateStatus_def user_path_def spares_def other_account_def split: option.splits)
  next
    case DeleteUser
    with assms(1,3) show ?thesis
      by (auto simp: deleteUser_def user_path_def spares_def other_account_def split: option.splits)
  qed (use assms(3) no_get no_toast in \<open>auto simp: us_set_search_def us_timer_fires_def us_set_page_def reload_def users_settled_def
      role_settled_def status_settled_def user_delete_settled_def Let_def case_prod_beta
      split: option.splits us_pending.splits sum.splits if_splits\<close>)
qed

section \<open>Further facts\<close>

text \<open>Whatever answers come in for requests other than the latest, the users, the totals, the page, the
  error and the loading flag stay what they were.\<close>

lemma stale_user_lists_ignored:
  fixes answers :: "(nat \<times> (js_error + users_response) \<times> int) list"
  assumes "\<forall>a\<in>set answers. fst a \<noteq> us_latestRequest s"
  defines "shown \<equiv> \<lambda>s. (us_users s, us_total s, us_page s, us_totalPages s, us_errorMessage s, us_loading s)"
  shows "shown (fold (\<lambda>(n, r). \<lambda>s. fst (users_settled b n (snd r) ab (fst r) s)) answers s) = shown s"
  using users_answers.stale_answers_ignored [OF assms(1)] unfolding shown_def by blast

text \<open>The navigation offers the page already shown; choosing it sends nothing and only marks the list as
  loading, after which neither the navigation nor the button to try again is offered.\<close>

lemma current_page_click_sticks:
  assumes "reach (fst (us_init b u l)) (us_next b) (us_ok d upper) s"
    and "us_currentUser s = Some me" "u_role me = SuperAdmin" "\<not> us_authLoading s" "\<not> us_loading s" "us_users s \<noteq> []"
  defines "t \<equiv> us_next b s (UsPageChange (us_page s))"
  shows "offers (PenggunaPage d upper s) (UsPageChange (us_page s))
    \<and> us_step b s (UsPageChange (us_page s)) = (s\<lparr>us_loading := True, us_errorMessage := []\<rparr>, [])
    \<and> (\<forall>p. \<not> offers (PenggunaPage d upper t) (UsPageChange p)) \<and> \<not> offers (PenggunaPage d upper t) UsRetry"
proof -
  have r: "1 \<le> us_page s" "us_page s \<le> us_totalPages s"
    using users_page.reach_inv [OF assms(1)] by (simp_all add: us_inv_defs)
  have me: "super_user s = Some me" using assms(2-4) by (simp add: super_user_def)
  have step: "us_step b s (UsPageChange (us_page s)) = (s\<lparr>us_loading := True, us_errorMessage := []\<rparr>, [])"
    by (simp add: us_set_page_def)
  then have t: "us_loading t" "us_errorMessage t = []" by (simp_all add: t_def us_next_def)
  have "offers (PenggunaPage d upper s) (UsPageChange (us_page s))"
    by (rule current_page_offered [OF me assms(5,6) r])
  moreover have "\<not> offers (PenggunaPage d upper t) (UsPageChange p)" "\<not> offers (PenggunaPage d upper t) UsRetry" for p
    using t by (auto simp: offers_iff pengguna_acts user_actions_acts dialog_acts pagination_types)
  ultimately show ?thesis using step by blast
qed

end
