(* ===== verification/Backup.thy ===== *)
theory Backup
  imports Session
begin

text \<open>
  The database backups: the check of a downloaded file (\<open>lib/backup-download.ts\<close>) and the page
  (\<open>app/dashboard/backup-database/page.tsx\<close>) with its polling while the document is visible, the
  abort of a request that is overtaken, and the confirmation of an action with the password.
\<close>

section \<open>The downloaded file\<close>

text \<open>
  What \<open>readBackupSQL\<close> reads of a response: \<open>ok\<close>, the outcome of \<open>json()\<close>, three headers, and the
  outcome of \<open>blob()\<close> as bytes.
\<close>

record sql_response =
  sr_ok :: bool
  sr_json :: "js_error + json"
  sr_sql_size :: "jstr option"
  sr_content_length :: "jstr option"
  sr_content_type :: "jstr option"
  sr_blob :: "js_error + nat list"

definition plain_error :: "jstr \<Rightarrow> js_error" where
  "plain_error m = JsError ''Error'' None m"

text \<open>\<open>Number(a ?? b)\<close>, where \<open>Number(null)\<close> is 0.\<close>

definition expected_size :: "sql_response \<Rightarrow> rat option" where
  "expected_size r =
     (case sr_sql_size r of
        Some v \<Rightarrow> js_number v
      | None \<Rightarrow> (case sr_content_length r of Some v \<Rightarrow> js_number v | None \<Rightarrow> Some 0))"

definition isSafeInteger :: "rat option \<Rightarrow> bool" where
  "isSafeInteger v = (case v of Some q \<Rightarrow> of_int \<lfloor>q\<rfloor> = q \<and> \<bar>q\<bar> \<le> 2 ^ 53 - 1 | None \<Rightarrow> False)"

definition refusal_text :: "(json \<Rightarrow> jstr) \<Rightarrow> js_error + json \<Rightarrow> jstr" where
  "refusal_text coerce payload =
     (case nullish (json_prop (case payload of Inr j \<Rightarrow> Some j | Inl _ \<Rightarrow> None) ''message'')
             (Some (JStr (js ''Unduhan belum dapat diproses.''))) of
        Some (JStr s) \<Rightarrow> s
      | Some v \<Rightarrow> coerce v
      | None \<Rightarrow> [])"

definition readBackupSQL :: "(json \<Rightarrow> jstr) \<Rightarrow> sql_response \<Rightarrow> js_error + nat list" where
  "readBackupSQL coerce response =
     (if \<not> sr_ok response then Inl (plain_error (refusal_text coerce (sr_json response)))
      else if \<not> (case sr_content_type response of Some t \<Rightarrow> starts_with (js ''application/sql'') t | None \<Rightarrow> False)
        \<or> \<not> isSafeInteger (expected_size response) \<or> the (expected_size response) \<le> 0
      then Inl (plain_error (js ''Respons unduhan SQL tidak valid. Silakan coba lagi.''))
      else case sr_blob response of
        Inl e \<Rightarrow> Inl e
      | Inr blob \<Rightarrow>
          if of_nat (length blob) \<noteq> the (expected_size response)
          then Inl (plain_error (js ''Unduhan SQL terputus. Silakan coba lagi.''))
          else Inr blob)"

section \<open>State\<close>

record backup =
  bk_id :: jstr
  bk_kind :: jstr
  bk_status :: jstr
  bk_phase :: jstr
  bk_size_bytes :: int
  bk_created_at :: jstr
  bk_finished_at :: "jstr option"
  bk_next_attempt_at :: "jstr option"
  bk_last_error :: "jstr option"
  bk_sha256 :: "jstr option"

record backup_status =
  bs_ready :: bool
  bs_issue :: "jstr option"
  bs_retention :: int
  bs_next_run_at :: "jstr option"
  bs_download_ready :: bool
  bs_download_issue :: "jstr option"
  bs_last_successful :: "jstr option"
  bs_maintenance_error :: "jstr option"
  bs_backups :: "backup list"
  bs_total_successful :: int

datatype bd_action = CreateBackup | DownloadBackup backup

text \<open>Requests under way, with whether their controller has been aborted.\<close>

datatype bd_pending = AwaitBackups bool | AwaitCreate bool | AwaitDownload backup bool

record bd_state =
  bd_user :: "user option"
  bd_status :: "backup_status option"
  bd_error :: jstr
  bd_refreshing :: bool
  bd_action :: "bd_action option"
  bd_password :: jstr
  bd_actionError :: jstr
  bd_busy :: bool
  bd_visible :: bool
  bd_initial :: bool
  bd_interval :: "nat option"
  bd_pending :: "bd_pending list"
  bd_mounted :: bool

datatype bd_event =
    BdUser "user option"
  | BdInitial
  | BdInterval
  | BdVisibility bool
  | BdRefresh
  | OpenAction bd_action
  | CloseAction
  | BdPassword jstr
  | BdConfirm
  | BdLeave
  | BackupsAnswer nat "js_error + backup_status"
  | CreateAnswer nat "js_error + unit"
  | DownloadAnswer nat "js_error + sql_response"

type_synonym bd_result = "bd_state \<times> effect list"

definition or_else :: "jstr option \<Rightarrow> jstr \<Rightarrow> jstr" where
  "or_else v d = (case v of Some t \<Rightarrow> if t = [] then d else t | None \<Rightarrow> d)"

definition super_admin :: "user option \<Rightarrow> bool" where
  "super_admin u = (map_option u_role u = Some SuperAdmin)"

definition in_progress :: "backup \<Rightarrow> bool" where
  "in_progress k = (bk_status k \<in> {js ''queued'', js ''running''})"

definition running :: "bd_state \<Rightarrow> bool" where
  "running s = (case bd_status s of Some d \<Rightarrow> list_ex in_progress (bs_backups d) | None \<Rightarrow> False)"

definition createIssue :: "bd_state \<Rightarrow> jstr" where
  "createIssue s =
     (if bd_error s \<noteq> [] then js ''Status backup belum dapat diperbarui. Coba muat ulang status sebelum melanjutkan.''
      else case bd_status s of
        None \<Rightarrow> js ''Status backup sedang dimuat. Tunggu sebentar sebelum memulai backup.''
      | Some d \<Rightarrow>
          if \<not> bs_ready d then or_else (bs_issue d) (js ''Konfigurasi backup belum siap.'')
          else if running s then js ''Backup lain masih menunggu atau berjalan. Tunggu sampai selesai.''
          else or_else (bs_maintenance_error d) [])"

section \<open>Polling\<close>

definition abort_refresh :: "bd_pending list \<Rightarrow> bd_pending list" where
  "abort_refresh = map (\<lambda>p. case p of AwaitBackups _ \<Rightarrow> AwaitBackups True | _ \<Rightarrow> p)"

definition refresh :: "browser \<Rightarrow> bd_state \<Rightarrow> bd_result" where
  "refresh b s =
     (s\<lparr>bd_refreshing := True, bd_pending := abort_refresh (bd_pending s) @ [AwaitBackups False]\<rparr>,
      [api b (js ''/api/admin/backups'') (with_signal get)])"

text \<open>The effect that polls: its cleanup, then its body.\<close>

definition poll_effect :: "bd_state \<Rightarrow> bd_state" where
  "poll_effect s =
     (let s' = s\<lparr>bd_initial := False, bd_interval := None, bd_pending := abort_refresh (bd_pending s)\<rparr>
      in if super_admin (bd_user s')
         then s'\<lparr>bd_initial := True, bd_interval := Some (if running s' then 5000 else 30000)\<rparr> else s')"

definition tick :: "browser \<Rightarrow> bd_state \<Rightarrow> bd_result" where
  "tick b s = (if bd_visible s then refresh b s else (s, []))"

text \<open>The effect runs again when \<open>running\<close> or the role has changed.\<close>

definition poll_again :: "bd_state \<Rightarrow> bd_state \<Rightarrow> bd_state" where
  "poll_again old s =
     (if running s \<noteq> running old \<or> map_option u_role (bd_user s) \<noteq> map_option u_role (bd_user old)
      then poll_effect s else s)"

definition bd_init :: "user option \<Rightarrow> bool \<Rightarrow> bd_state" where
  "bd_init u visible = poll_effect
     \<lparr>bd_user = u, bd_status = None, bd_error = [], bd_refreshing = False, bd_action = None, bd_password = [],
      bd_actionError = [], bd_busy = False, bd_visible = visible, bd_initial = False, bd_interval = None,
      bd_pending = [], bd_mounted = True\<rparr>"

definition backups_settled :: "bool \<Rightarrow> js_error + backup_status \<Rightarrow> bd_state \<Rightarrow> bd_state" where
  "backups_settled aborted r s =
     (if aborted then s
      else poll_again s
        (case r of
           Inr data \<Rightarrow> s\<lparr>bd_status := Some data, bd_error := [], bd_refreshing := False\<rparr>
         | Inl e \<Rightarrow> s\<lparr>bd_error := getErrorMessage e, bd_refreshing := False\<rparr>))"

section \<open>Actions\<close>

definition openAction :: "bd_action option \<Rightarrow> bd_state \<Rightarrow> bd_state" where
  "openAction next s =
     (if bd_busy s then s else s\<lparr>bd_password := [], bd_actionError := [], bd_action := next\<rparr>)"

definition download_request :: "browser \<Rightarrow> backup \<Rightarrow> json \<Rightarrow> effect" where
  "download_request b k body =
     Send \<lparr>fr_url = b_api_url b @ js ''/api/admin/backups/'' @ bk_id k @ js ''/download'', fr_method = ''POST'',
       fr_headers = [(''content-type'', ''application/json'')], fr_body = Some (JsonText body), fr_signal = True,
       fr_credentials = ''include'', fr_cache = ''no-store''\<rparr>"

definition confirm_action :: "browser \<Rightarrow> bd_state \<Rightarrow> bd_result" where
  "confirm_action b s =
     (if bd_busy s then (s, [])
      else case bd_action s of
        None \<Rightarrow> (s, [])
      | Some a \<Rightarrow>
          if a = CreateBackup \<and> createIssue s \<noteq> [] then (s\<lparr>bd_actionError := createIssue s\<rparr>, [])
          else
            (let body = JObj [(''password'', JStr (bd_password s))];
                 s' = s\<lparr>bd_busy := True, bd_actionError := [], bd_password := []\<rparr>
             in case a of
                  CreateBackup \<Rightarrow> (s'\<lparr>bd_pending := bd_pending s @ [AwaitCreate False]\<rparr>,
                    [api b (js ''/api/admin/backups'') (with_signal (post body))])
                | DownloadBackup k \<Rightarrow> (s'\<lparr>bd_pending := bd_pending s @ [AwaitDownload k False]\<rparr>,
                    [download_request b k body])))"

text \<open>After the request: the continuation's success and failure, then its \<open>finally\<close>.\<close>

definition action_done :: "browser \<Rightarrow> bool \<Rightarrow> bd_state \<Rightarrow> bd_result" where
  "action_done b aborted s =
     (if aborted then (s, [])
      else (let (t, effs) = refresh b (s\<lparr>bd_action := None\<rparr>) in (t\<lparr>bd_busy := False\<rparr>, effs)))"

definition action_failed :: "bool \<Rightarrow> js_error \<Rightarrow> bd_state \<Rightarrow> bd_state" where
  "action_failed aborted e s = (if aborted then s else s\<lparr>bd_actionError := getErrorMessage e, bd_busy := False\<rparr>)"

definition create_settled :: "browser \<Rightarrow> bool \<Rightarrow> js_error + unit \<Rightarrow> bd_state \<Rightarrow> bd_result" where
  "create_settled b aborted r s =
     (case r of
        Inr _ \<Rightarrow> (let (t, effs) = action_done b aborted s
          in (t, Toast Success (js ''Backup masuk antrean. Anda boleh meninggalkan halaman ini.'') # effs))
      | Inl e \<Rightarrow> (action_failed aborted e s, []))"

definition download_settled ::
  "browser \<Rightarrow> (json \<Rightarrow> jstr) \<Rightarrow> backup \<Rightarrow> bool \<Rightarrow> js_error + sql_response \<Rightarrow> bd_state \<Rightarrow> bd_result" where
  "download_settled b coerce k aborted r s =
     (case (case r of Inl e \<Rightarrow> Inl e | Inr response \<Rightarrow> readBackupSQL coerce response) of
        Inr blob \<Rightarrow> (let (t, effs) = action_done b aborted s
          in (t, SaveFile (js ''backup-'' @ bk_id k @ js ''.sql'') blob
             # Toast Success (js ''File .sql siap diimpor ke PostgreSQL tanpa dekripsi manual. Simpan file secara privat.'')
             # effs))
      | Inl e \<Rightarrow> (action_failed aborted e s, []))"

text \<open>Leaving the page runs both cleanups.\<close>

definition abort_all :: "bd_pending list \<Rightarrow> bd_pending list" where
  "abort_all = map (\<lambda>p. case p of AwaitBackups _ \<Rightarrow> AwaitBackups True | AwaitCreate _ \<Rightarrow> AwaitCreate True
     | AwaitDownload k _ \<Rightarrow> AwaitDownload k True)"

definition leave_page :: "bd_state \<Rightarrow> bd_state" where
  "leave_page s = s\<lparr>bd_initial := False, bd_interval := None, bd_pending := abort_all (bd_pending s), bd_mounted := False\<rparr>"

section \<open>The step\<close>

definition bd_drop :: "nat \<Rightarrow> bd_state \<Rightarrow> bd_state" where
  "bd_drop k s = s\<lparr>bd_pending := drop_nth k (bd_pending s)\<rparr>"

fun bd_step :: "browser \<Rightarrow> (json \<Rightarrow> jstr) \<Rightarrow> bd_state \<Rightarrow> bd_event \<Rightarrow> bd_result" where
  "bd_step b co s (BdUser u) = (poll_again s (s\<lparr>bd_user := u\<rparr>), [])"
| "bd_step b co s BdInitial = tick b (s\<lparr>bd_initial := False\<rparr>)"
| "bd_step b co s BdInterval = tick b s"
| "bd_step b co s (BdVisibility v) =
     (let s' = s\<lparr>bd_visible := v\<rparr> in if super_admin (bd_user s) then tick b s' else (s', []))"
| "bd_step b co s BdRefresh = refresh b s"
| "bd_step b co s (OpenAction a) = (openAction (Some a) s, [])"
| "bd_step b co s CloseAction = (openAction None s, [])"
| "bd_step b co s (BdPassword v) = (s\<lparr>bd_password := v\<rparr>, [])"
| "bd_step b co s BdConfirm = confirm_action b s"
| "bd_step b co s BdLeave = (leave_page s, [])"
| "bd_step b co s (BackupsAnswer k r) =
     (case bd_pending s ! k of AwaitBackups ab \<Rightarrow> (backups_settled ab r (bd_drop k s), []) | _ \<Rightarrow> (s, []))"
| "bd_step b co s (CreateAnswer k r) =
     (case bd_pending s ! k of AwaitCreate ab \<Rightarrow> create_settled b ab r (bd_drop k s) | _ \<Rightarrow> (s, []))"
| "bd_step b co s (DownloadAnswer k r) =
     (case bd_pending s ! k of AwaitDownload d ab \<Rightarrow> download_settled b co d ab r (bd_drop k s) | _ \<Rightarrow> (s, []))"

section \<open>The rendered page\<close>

text \<open>
  \<open>Math.log\<close> is only approximated by the language, so the index before the cap is an argument, as is the
  number format of the locale; the quotient is exact.
\<close>

record size_formats =
  sf_index :: "int \<Rightarrow> int"
  sf_number :: "rat \<Rightarrow> jstr"

definition formatSize :: "size_formats \<Rightarrow> int \<Rightarrow> jstr" where
  "formatSize f bytes =
     (if bytes \<le> 0 then dash
      else (let index = min (sf_index f bytes) 3
            in sf_number f (of_int bytes / 1024 ^ nat index) @ js '' '' @ js ([''B'', ''KiB'', ''MiB'', ''GiB''] ! nat index)))"

definition backup_date :: "date_formats \<Rightarrow> jstr option \<Rightarrow> jstr" where
  "backup_date d value = (if truthy value then formatJakartaDateTime d value dash else dash)"

definition statusLabels :: "(jstr \<times> string) list" where
  "statusLabels = [(js ''queued'', ''Dalam antrean''), (js ''running'', ''Sedang berjalan''), (js ''succeeded'', ''Berhasil''),
     (js ''failed'', ''Menunggu ulang''), (js ''pruning'', ''Menghapus file lama'')]"

definition phaseLabels :: "(jstr \<times> string) list" where
  "phaseLabels = [(js ''exporting'', ''Mengekspor & mengenkripsi''), (js ''uploading'', ''Mengunggah ke R2''),
     (js ''verifying'', ''Memeriksa integritas'')]"

definition label_of :: "(jstr \<times> string) list \<Rightarrow> jstr \<Rightarrow> jstr \<Rightarrow> jstr" where
  "label_of labels key blank = (case map_of labels key of Some t \<Rightarrow> js t | None \<Rightarrow> blank)"

definition can_download :: "backup_status \<Rightarrow> bd_state \<Rightarrow> backup \<Rightarrow> bool" where
  "can_download d s k = (\<not> bd_busy s \<and> bk_status k = js ''succeeded'' \<and> bs_download_ready d \<and> bd_error s = [])"

definition status_cell :: "date_formats \<Rightarrow> backup \<Rightarrow> 'e node" where
  "status_cell d k =
     El ''TableCell'' []
      ([El ''Badge'' [Attr ''variant'' (js (if bk_status k = js ''failed'' then ''destructive''
            else if bk_status k = js ''succeeded'' then ''secondary'' else ''outline''))]
         (show_if (bk_status k = js ''running'') [El ''LoaderCircle'' [] []]
          @ [Txt (label_of statusLabels (bk_status k) (bk_status k))])]
       @ show_if (bk_status k = js ''running'')
          [El ''p'' [Attr ''role'' (js ''status'')] [Txt (label_of phaseLabels (bk_phase k) (js ''Memproses backup''))]]
       @ show_if (truthy (bk_last_error k)) [El ''p'' [] [Txt (or_else (bk_last_error k) [])]]
       @ show_if (bk_status k = js ''failed'' \<and> truthy (bk_next_attempt_at k))
          [El ''p'' [] [lit ''Coba otomatis: '', Txt (backup_date d (bk_next_attempt_at k))]])"

definition backup_row :: "date_formats \<Rightarrow> size_formats \<Rightarrow> backup_status \<Rightarrow> bd_state \<Rightarrow> backup \<Rightarrow> bd_event node" where
  "backup_row d f st s k =
     El ''TableRow'' [Attr ''key'' (bk_id k)]
      [El ''TableCell'' [] [El ''p'' [] [Txt (backup_date d (Some (bk_created_at k)))],
         El ''p'' [] [lit (if bk_kind k = js ''manual'' then ''Manual'' else ''Otomatis'')]],
       status_cell d k,
       El ''TableCell'' [] [Txt (if bk_status k = js ''succeeded'' then formatSize f (bk_size_bytes k) else dash)],
       El ''TableCell'' []
        (El ''Button'' [Attr ''variant'' (js ''outline''), Attr ''size'' (js ''sm''), Flag ''disabled'' (\<not> can_download st s k),
           Attr ''aria-label'' (js ''Unduh SQL backup '' @ backup_date d (Some (bk_created_at k))),
           OnClick (OpenAction (DownloadBackup k))] [El ''Download'' [] [], lit ''Unduh SQL'']
         # show_if (bk_status k = js ''succeeded'' \<and> truthy (bk_sha256 k))
            [El ''details'' [] [El ''summary'' [] [lit ''SHA-256 arsip R2''],
               El ''code'' [] [Txt (or_else (bk_sha256 k) [])],
               El ''p'' [] [lit ''Checksum arsip terenkripsi, bukan file SQL unduhan.'']]])]"

definition history_card :: "date_formats \<Rightarrow> size_formats \<Rightarrow> backup_status \<Rightarrow> bd_state \<Rightarrow> bd_event node" where
  "history_card d f st s =
     El ''Card'' []
      [El ''CardHeader'' []
        [El ''div'' [] [El ''CardTitle'' [] [lit ''Riwayat backup''],
           El ''CardDescription'' [] [lit ''File lama dihapus hanya setelah backup baru berhasil diverifikasi.'']],
         El ''Button'' [Attr ''variant'' (js ''outline''), Attr ''size'' (js ''icon''),
           Attr ''aria-label'' (js ''Perbarui riwayat backup''), Flag ''disabled'' (bd_refreshing s), OnClick BdRefresh]
           [El ''RefreshCw'' [] []]],
       El ''CardContent'' []
        [if bs_backups st = []
         then El ''div'' [] [El ''DatabaseBackup'' [] [], El ''h2'' [] [lit ''Belum ada cadangan database''],
           El ''p'' [] [lit (if bs_ready st then ''Buat backup pertama sekarang, atau tunggu jadwal otomatis hari Minggu.''
             else ''Siapkan konfigurasi backend untuk mulai membuat backup.'')]]
         else El ''Table'' []
          [El ''TableHeader'' [] [El ''TableRow'' [] (map (\<lambda>t. El ''TableHead'' [] [lit t])
             [''Waktu & sumber'', ''Status'', ''Ukuran arsip R2'', ''File''])],
           El ''TableBody'' [] (map (backup_row d f st s) (bs_backups st))]]]"

definition schedule_section :: "date_formats \<Rightarrow> backup_status \<Rightarrow> 'e node" where
  "schedule_section d st =
     El ''section'' [Attr ''aria-label'' (js ''Jadwal dan penyimpanan'')]
      [El ''div'' [] [El ''p'' [] [El ''CalendarClock'' [] [], lit ''Minggu, 02.00 WIB''],
         El ''p'' [] [Txt (if bs_ready st then js ''Berikutnya: '' @ backup_date d (bs_next_run_at st)
           else js ''Jadwal aktif setelah konfigurasi siap.'')]],
       El ''div'' [] [El ''p'' [] [lit ''Maksimal '', Txt (int_str (bs_retention st)), lit '' backup''],
         El ''p'' [] [Txt (int_str (bs_total_successful st)), Txt (js '' file berhasil disimpan '' @ [0xB7] @ js '' manual & otomatis'')]],
       El ''div'' [] [El ''p'' [] [lit ''Backup terakhir berhasil''],
         El ''p'' [] [Txt (if truthy (bs_last_successful st) then backup_date d (bs_last_successful st)
           else js ''Belum ada backup berhasil.'')]]]"

definition notices :: "bd_state \<Rightarrow> bd_event node list" where
  "notices s =
     show_if (bd_error s \<noteq> [])
      [alert [El ''ShieldAlert'' [] [], El ''AlertTitle'' [] [lit ''Status belum dapat diperbarui''],
         El ''AlertDescription'' [] [Txt (bd_error s), El ''Button'' [Attr ''size'' (js ''sm''), Attr ''variant'' (js ''outline''),
           Flag ''disabled'' (bd_refreshing s), OnClick BdRefresh] [lit ''Coba lagi'']]]]
     @ (case bd_status s of None \<Rightarrow> [] | Some d \<Rightarrow>
          show_if (\<not> bs_ready d)
           [El ''Alert'' [] [El ''LockKeyhole'' [] [], El ''AlertTitle'' [] [lit ''Konfigurasi backup belum siap''],
              El ''AlertDescription'' [] [Txt (or_else (bs_issue d) (js ''Periksa konfigurasi backup pada backend.'')),
                lit '' Kunci dikelola pada konfigurasi backend privat, bukan di halaman ini.'']]]
          @ show_if (bs_ready d \<and> \<not> bs_download_ready d)
           [El ''Alert'' [] [El ''LockKeyhole'' [] [], El ''AlertTitle'' [] [lit ''Unduhan SQL belum siap''],
              El ''AlertDescription'' [] [Txt (or_else (bs_download_issue d)
                  (js ''Pengelola server perlu melengkapi konfigurasi unduhan SQL di backend. Backup tetap dapat dibuat.'')),
                lit '' Konfigurasi ini dikelola di server, bukan dimasukkan saat impor file SQL.'']]]
          @ show_if (truthy (bs_maintenance_error d))
           [alert [El ''ShieldAlert'' [] [], El ''AlertTitle'' [] [lit ''Retensi perlu diperiksa''],
              El ''AlertDescription'' [] [Txt (or_else (bs_maintenance_error d) [])]]])"

definition action_dialog :: "bd_state \<Rightarrow> bd_event node" where
  "action_dialog s =
     (let dl = (\<exists>k. bd_action s = Some (DownloadBackup k)); cr = (bd_action s = Some CreateBackup)
      in El ''Dialog'' [Flag ''open'' (bd_action s \<noteq> None), OnClick CloseAction]
      [El ''DialogContent'' [Flag ''showCloseButton'' (\<not> bd_busy s)]
        [El ''DialogHeader'' []
          [El ''DialogTitle'' [] [lit (if dl then ''Unduh SQL database'' else ''Buat backup database'')],
           El ''DialogDescription'' [] [lit (if dl
             then ''Konfirmasi kata sandi akun SSO untuk mengunduh file .sql. File langsung diimpor ke PostgreSQL tanpa recovery key atau dekripsi manual. SQL tidak terenkripsi; simpan privat dan periksa tujuan impor karena tabel dalam backup akan diganti.''
             else ''Masukkan kata sandi akun SSO Anda. Backup berjalan di latar belakang; setelah berhasil, file dapat diunduh sebagai SQL.'')]],
         El ''form'' [OnSubmit BdConfirm]
          ([El ''div'' [] [label ''backup-password'' ''Kata sandi akun SSO'',
              PasswordInput False (bd_busy s)
               ([Attr ''id'' (js ''backup-password''), Attr ''autoComplete'' (js ''current-password''), Flag ''required'' True,
                 Attr ''value'' (bd_password s), OnInput BdPassword, Flag ''aria-invalid'' (bd_actionError s \<noteq> [])]
                @ show_if (bd_actionError s \<noteq> []) [Attr ''aria-describedby'' (js ''backup-action-error'')]) []]]
           @ show_if (cr \<and> createIssue s \<noteq> []) [El ''p'' [Attr ''role'' (js ''status'')] [Txt (createIssue s)]]
           @ show_if (bd_actionError s \<noteq> [])
              [El ''p'' [Attr ''id'' (js ''backup-action-error''), Attr ''role'' (js ''alert'')] [Txt (bd_actionError s)]]
           @ [El ''div'' []
               [El ''Button'' [Attr ''type'' (js ''button''), Attr ''variant'' (js ''outline''), Flag ''disabled'' (bd_busy s),
                  OnClick CloseAction] [lit ''Batal''],
                El ''Button'' [Attr ''type'' (js ''submit''),
                  Flag ''disabled'' (bd_busy s \<or> bd_password s = [] \<or> cr \<and> createIssue s \<noteq> [])]
                 (show_if (bd_busy s) [El ''LoaderCircle'' [] []]
                  @ [if bd_busy s then Txt (js (if dl then ''Menyiapkan SQL'' else ''Memproses'') @ dots)
                     else lit (if dl then ''Unduh SQL'' else ''Mulai backup'')])]])]])"

definition BackupDatabasePage :: "date_formats \<Rightarrow> size_formats \<Rightarrow> bd_state \<Rightarrow> bd_event node" where
  "BackupDatabasePage d f s =
     (if \<not> super_admin (bd_user s)
      then alert [El ''ShieldAlert'' [] [], El ''AlertTitle'' [] [lit ''Akses ditolak''],
        El ''AlertDescription'' [] [lit ''Backup database hanya tersedia untuk super admin.'']]
      else El ''div'' []
       ([page_header ''Backup database'' ''Backup manual dan otomatis dengan unduhan SQL yang siap diimpor ke PostgreSQL.''
           [El ''Button'' [OnClick (OpenAction CreateBackup)] [El ''Plus'' [] [], lit ''Buat backup'']]]
        @ notices s
        @ (case bd_status s of
             None \<Rightarrow> show_if (bd_error s = [] \<or> bd_refreshing s) [BackupContentSkeleton]
           | Some st \<Rightarrow> [schedule_section d st, history_card d f st s,
               El ''div'' [] [El ''LockKeyhole'' [] [], El ''p'' [] [lit ''Unduh file .sql dengan konfirmasi kata sandi akun SSO, lalu impor ke PostgreSQL menggunakan psql atau native restore yang mendukung SQL. Tidak perlu access key R2, recovery key, atau dekripsi manual saat impor. File SQL tidak terenkripsi; simpan privat dan pastikan database tujuan benar karena tabel dalam backup akan diganti. Arsip di R2 tetap terenkripsi; backend menyiapkan SQL secara otomatis.'']]])
        @ [action_dialog s]))"

fun awaits :: "bd_event \<Rightarrow> bd_pending \<Rightarrow> bool" where
  "awaits (BackupsAnswer k r) (AwaitBackups ab) = True"
| "awaits (CreateAnswer k r) (AwaitCreate ab) = True"
| "awaits (DownloadAnswer k r) (AwaitDownload d ab) = True"
| "awaits e p = False"

text \<open>After leaving only answers arrive.\<close>

fun bd_ok :: "date_formats \<Rightarrow> size_formats \<Rightarrow> bd_state \<Rightarrow> bd_event \<Rightarrow> bool" where
  "bd_ok d f s (BdUser u) = bd_mounted s"
| "bd_ok d f s BdInitial = bd_initial s"
| "bd_ok d f s BdInterval = (bd_interval s \<noteq> None)"
| "bd_ok d f s (BdVisibility v) = bd_mounted s"
| "bd_ok d f s BdLeave = bd_mounted s"
| "bd_ok d f s (BackupsAnswer k r) = (k < length (bd_pending s) \<and> awaits (BackupsAnswer k r) (bd_pending s ! k))"
| "bd_ok d f s (CreateAnswer k r) = (k < length (bd_pending s) \<and> awaits (CreateAnswer k r) (bd_pending s ! k))"
| "bd_ok d f s (DownloadAnswer k r) = (k < length (bd_pending s) \<and> awaits (DownloadAnswer k r) (bd_pending s ! k))"
| "bd_ok d f s e = (bd_mounted s \<and> offers (BackupDatabasePage d f s) e)"

definition bd_next :: "browser \<Rightarrow> (json \<Rightarrow> jstr) \<Rightarrow> bd_state \<Rightarrow> bd_event \<Rightarrow> bd_state" where
  "bd_next b co s e = fst (bd_step b co s e)"

section \<open>What the page offers\<close>

lemma backup_pieces_acts [simp]:
  "acts (schedule_section d st) = []" "acts (status_cell d k) = []"
  by (simp_all add: schedule_section_def status_cell_def show_if_def)

lemma row_acts:
  "acts (backup_row d f st s k) = (if can_download st s k then [Fire (OpenAction (DownloadBackup k))] else [])"
  by (simp add: backup_row_def show_if_def)

lemma history_acts:
  "a \<in> set (acts (history_card d f st s)) \<longleftrightarrow> \<not> bd_refreshing s \<and> a = Fire BdRefresh
     \<or> (\<exists>k\<in>set (bs_backups st). can_download st s k \<and> a = Fire (OpenAction (DownloadBackup k)))"
  by (auto simp: history_card_def row_acts)

lemma notices_acts:
  "(\<exists>n\<in>set (notices s). a \<in> set (acts n)) \<longleftrightarrow> bd_error s \<noteq> [] \<and> \<not> bd_refreshing s \<and> a = Fire BdRefresh"
  by (auto simp: notices_def alert_def split: option.splits)

lemma backup_dialog_acts:
  "a \<in> set (acts (action_dialog s)) \<longleftrightarrow> bd_action s \<noteq> None \<and>
     (a = Fire CloseAction \<or> \<not> bd_busy s \<and> a = Type BdPassword
      \<or> \<not> bd_busy s \<and> bd_password s \<noteq> [] \<and> (bd_action s = Some CreateBackup \<longrightarrow> createIssue s = []) \<and> a = Fire BdConfirm)"
  by (auto simp: action_dialog_def PasswordInput_def Let_def show_if_def)

lemma header_acts: "acts (page_header t d [El ''Button'' [OnClick e] ns]) = Fire e # concat (map acts ns)"
  by (simp add: page_header_def)

lemma backup_page_acts:
  "a \<in> set (acts (BackupDatabasePage d f s)) \<longleftrightarrow> super_admin (bd_user s) \<and>
     (a = Fire (OpenAction CreateBackup) \<or> (\<exists>n\<in>set (notices s). a \<in> set (acts n))
      \<or> (\<exists>st. bd_status s = Some st \<and> a \<in> set (acts (history_card d f st s)))
      \<or> a \<in> set (acts (action_dialog s)))"
  by (auto simp: BackupDatabasePage_def alert_def header_acts show_if_def split: option.splits)

lemma confirm_offered:
  "offers (BackupDatabasePage d f s) BdConfirm \<longleftrightarrow> super_admin (bd_user s) \<and> bd_action s \<noteq> None \<and> \<not> bd_busy s
     \<and> bd_password s \<noteq> [] \<and> (bd_action s = Some CreateBackup \<longrightarrow> createIssue s = [])"
  by (auto simp: offers_iff backup_page_acts notices_acts history_acts backup_dialog_acts)

lemma password_offered: "offers (BackupDatabasePage d f s) (BdPassword v) \<Longrightarrow> bd_action s \<noteq> None \<and> \<not> bd_busy s"
  by (auto simp: offers_iff backup_page_acts notices_acts history_acts backup_dialog_acts)

lemma action_sends_iff:
  "sent (snd (confirm_action b s)) \<noteq> [] \<longleftrightarrow> \<not> bd_busy s \<and> bd_action s \<noteq> None
     \<and> (bd_action s = Some CreateBackup \<longrightarrow> createIssue s = [])"
  by (auto simp: confirm_action_def download_request_def Let_def split: option.split bd_action.split)

section \<open>The downloaded file\<close>

lemma read_ok_iff:
  "readBackupSQL co r = Inr blob \<longleftrightarrow>
     sr_ok r \<and> (\<exists>t. sr_content_type r = Some t \<and> starts_with (js ''application/sql'') t)
     \<and> sr_blob r = Inr blob \<and> expected_size r = Some (of_nat (length blob))
     \<and> 0 < length blob \<and> length blob < 2 ^ 53"
proof -
  have small: "(of_nat n :: rat) \<le> 2 ^ 53 - 1 \<longleftrightarrow> n < 2 ^ 53" for n
  proof -
    have "(of_nat n :: rat) \<le> 2 ^ 53 - 1 \<longleftrightarrow> of_nat (n + 1) \<le> (of_nat (2 ^ 53) :: rat)" by simp
    also have "\<dots> \<longleftrightarrow> n < 2 ^ 53" by (simp only: of_nat_le_iff) linarith
    finally show ?thesis .
  qed
  have safe: "isSafeInteger (Some (of_nat n)) \<longleftrightarrow> n < 2 ^ 53" for n
    using small [of n] by (simp add: isSafeInteger_def)
  show ?thesis
  proof (cases "expected_size r = Some (of_nat (length blob))")
    case True
    then show ?thesis using safe [of "length blob"]
      by (cases "sr_blob r"; cases "sr_content_type r"; cases "blob = []") (auto simp: readBackupSQL_def)
  next
    case False
    have "readBackupSQL co r \<noteq> Inr blob"
    proof
      assume ok: "readBackupSQL co r = Inr blob"
      then have "isSafeInteger (expected_size r)" "sr_blob r = Inr blob" "of_nat (length blob) = the (expected_size r)"
        by (simp_all add: readBackupSQL_def split: if_splits sum.splits)
      then show False using False by (cases "expected_size r") (simp_all add: isSafeInteger_def)
    qed
    with False show ?thesis by blast
  qed
qed

section \<open>Invariant\<close>

fun live_refresh :: "bd_pending \<Rightarrow> bool" where
  "live_refresh (AwaitBackups ab) = (\<not> ab)"
| "live_refresh p = False"

fun live_action :: "bd_pending \<Rightarrow> bool" where
  "live_action (AwaitBackups ab) = False"
| "live_action (AwaitCreate ab) = (\<not> ab)"
| "live_action (AwaitDownload k ab) = (\<not> ab)"

abbreviation refreshes :: "bd_state \<Rightarrow> nat" where
  "refreshes s \<equiv> length (filter live_refresh (bd_pending s))"

abbreviation actions :: "bd_state \<Rightarrow> nat" where
  "actions s \<equiv> length (filter live_action (bd_pending s))"

definition polling :: "bd_state \<Rightarrow> nat option" where
  "polling s = (if super_admin (bd_user s) then Some (if running s then 5000 else 30000) else None)"

definition bd_inv :: "bd_state \<Rightarrow> bool" where
  "bd_inv s =
     (refreshes s \<le> 1 \<and> (refreshes s = 1 \<longrightarrow> bd_refreshing s \<and> bd_mounted s)
      \<and> (bd_mounted s \<longrightarrow> actions s = (if bd_busy s then 1 else 0)) \<and> (\<not> bd_mounted s \<longrightarrow> actions s = 0)
      \<and> (bd_busy s \<longrightarrow> bd_action s \<noteq> None)
      \<and> (bd_action s = None \<or> bd_busy s \<longrightarrow> bd_password s = [])
      \<and> bd_interval s = (if bd_mounted s then polling s else None)
      \<and> (bd_initial s \<longrightarrow> bd_mounted s))"

lemma abort_refresh_filters [simp]:
  "filter live_refresh (abort_refresh ps) = []"
  "filter live_action (abort_refresh ps) = filter live_action ps"
  "filter live_refresh (abort_all ps) = []" "filter live_action (abort_all ps) = []"
proof -
  show "filter live_refresh (abort_refresh ps) = []" "filter live_action (abort_refresh ps) = filter live_action ps"
    by (induction ps) (auto simp: abort_refresh_def split: bd_pending.split)
  show "filter live_refresh (abort_all ps) = []" "filter live_action (abort_all ps) = []"
    by (induction ps) (auto simp: abort_all_def split: bd_pending.split)
qed

lemma running_cong: "bd_status s = bd_status t \<Longrightarrow> running s = running t"
  by (simp add: running_def)

lemma polling_cong: "bd_status s = bd_status t \<Longrightarrow> bd_user s = bd_user t \<Longrightarrow> polling s = polling t"
  by (simp add: polling_def running_def)

lemma bd_inv_poll_effect:
  assumes "bd_mounted s" "actions s = (if bd_busy s then 1 else 0)" "bd_busy s \<Longrightarrow> bd_action s \<noteq> None"
    "bd_action s = None \<or> bd_busy s \<Longrightarrow> bd_password s = []"
  shows "bd_inv (poll_effect s)"
  using assms by (auto simp: bd_inv_def poll_effect_def Let_def polling_def running_def split: if_splits)

lemma bd_inv_poll_again:
  assumes "bd_interval s = polling old" "refreshes s \<le> 1" "refreshes s = 1 \<Longrightarrow> bd_refreshing s"
    "bd_mounted s" "actions s = (if bd_busy s then 1 else 0)" "bd_busy s \<Longrightarrow> bd_action s \<noteq> None"
    "bd_action s = None \<or> bd_busy s \<Longrightarrow> bd_password s = []"
  shows "bd_inv (poll_again old s)"
proof (cases "running s \<noteq> running old \<or> map_option u_role (bd_user s) \<noteq> map_option u_role (bd_user old)")
  case True
  then show ?thesis using bd_inv_poll_effect assms by (simp add: poll_again_def)
next
  case False
  then have "polling s = polling old" by (simp add: polling_def super_admin_def)
  with False assms show ?thesis by (simp add: poll_again_def bd_inv_def)
qed

lemma bd_inv_refresh: "bd_inv s \<Longrightarrow> bd_mounted s \<Longrightarrow> bd_inv (fst (refresh b s))"
  by (simp add: bd_inv_def refresh_def polling_def running_def)

lemma bd_inv_tick: "bd_inv s \<Longrightarrow> bd_mounted s \<Longrightarrow> bd_inv (fst (tick b s))"
  by (simp add: tick_def bd_inv_refresh)

lemma bd_inv_fields [simp]:
  "bd_inv (s\<lparr>bd_visible := v\<rparr>) = bd_inv s" "bd_inv (s\<lparr>bd_actionError := e\<rparr>) = bd_inv s"
  by (simp_all add: bd_inv_def polling_def running_def)

lemma bd_inv_initial: "bd_inv s \<Longrightarrow> bd_inv (s\<lparr>bd_initial := False\<rparr>)"
  by (simp add: bd_inv_def polling_def running_def)

lemma drop_counts:
  assumes "k < length (bd_pending s)"
  shows "refreshes (bd_drop k s) = refreshes s - (if live_refresh (bd_pending s ! k) then 1 else 0)"
    "actions (bd_drop k s) = actions s - (if live_action (bd_pending s ! k) then 1 else 0)"
    "live_refresh (bd_pending s ! k) \<Longrightarrow> 0 < refreshes s" "live_action (bd_pending s ! k) \<Longrightarrow> 0 < actions s"
  using length_filter_drop_nth [OF assms] length_filter_nth_pos [OF assms] by (simp_all add: bd_drop_def)

lemma drop_fields [simp]:
  "bd_user (bd_drop k s) = bd_user s" "bd_status (bd_drop k s) = bd_status s" "bd_busy (bd_drop k s) = bd_busy s"
  "bd_action (bd_drop k s) = bd_action s" "bd_password (bd_drop k s) = bd_password s"
  "bd_refreshing (bd_drop k s) = bd_refreshing s" "bd_mounted (bd_drop k s) = bd_mounted s"
  "bd_interval (bd_drop k s) = bd_interval s" "bd_initial (bd_drop k s) = bd_initial s" "bd_error (bd_drop k s) = bd_error s"
  "polling (bd_drop k s) = polling s" "running (bd_drop k s) = running s"
  by (simp_all add: bd_drop_def polling_def running_def)

lemma bd_inv_drop:
  assumes "bd_inv s" "k < length (bd_pending s)" "\<not> live_action (bd_pending s ! k)"
  shows "bd_inv (bd_drop k s)"
  using assms drop_counts [OF assms(2)] by (auto simp: bd_inv_def split: if_splits)

lemma bd_inv_refreshed:
  assumes i: "bd_inv s" and k: "k < length (bd_pending s)" "bd_pending s ! k = AwaitBackups ab"
  shows "bd_inv (backups_settled ab r (bd_drop k s))"
proof (cases ab)
  case True
  with bd_inv_drop [OF i k(1)] k(2) show ?thesis by (simp add: backups_settled_def)
next
  case False
  note d = drop_counts [OF k(1)]
  have live: "live_refresh (bd_pending s ! k)" "\<not> live_action (bd_pending s ! k)" using k(2) False by simp_all
  have le: "refreshes s \<le> 1" and m: "refreshes s = 1 \<longrightarrow> bd_mounted s" using i by (simp_all add: bd_inv_def)
  have one: "refreshes s = 1" using le d(3) [OF live(1)] by linarith
  have "bd_mounted s" "refreshes (bd_drop k s) = 0" "actions (bd_drop k s) = actions s"
    using one m d(1,2) live by simp_all
  note c = this
  have pre: "bd_interval (bd_drop k s) = polling (bd_drop k s)" "actions (bd_drop k s) = (if bd_busy s then 1 else 0)"
    "bd_busy s \<Longrightarrow> bd_action s \<noteq> None" "bd_action s = None \<or> bd_busy s \<Longrightarrow> bd_password s = []"
    using i c by (simp_all add: bd_inv_def)
  have "bd_inv (poll_again (bd_drop k s) ((bd_drop k s)\<lparr>bd_status := x, bd_error := e, bd_refreshing := False\<rparr>))" for x e
    by (rule bd_inv_poll_again) (use pre c in simp_all)
  note ok = this
  have "bd_inv (poll_again (bd_drop k s) ((bd_drop k s)\<lparr>bd_error := e, bd_refreshing := False\<rparr>))" for e
    by (rule bd_inv_poll_again) (use pre c in simp_all)
  with ok False show ?thesis by (simp add: backups_settled_def split: sum.split)
qed

lemma bd_inv_action_done:
  assumes i: "bd_inv s" and k: "k < length (bd_pending s)" "live_action (bd_pending s ! k) = (\<not> ab)"
    "\<not> live_refresh (bd_pending s ! k)"
  shows "bd_inv (fst (action_done b ab (bd_drop k s)))" "bd_inv (action_failed ab e (bd_drop k s))"
proof -
  note c = drop_counts [OF k(1)]
  have live: "bd_mounted s \<and> bd_busy s \<and> actions (bd_drop k s) = 0" if "\<not> ab"
    using i that k c by (auto simp: bd_inv_def split: if_splits)
  have same: "bd_inv (bd_drop k s)" if ab using bd_inv_drop [OF i k(1)] k that by simp
  show "bd_inv (fst (action_done b ab (bd_drop k s)))"
  proof (cases ab)
    case False
    with live i c k show ?thesis
      by (auto simp: action_done_def refresh_def Let_def bd_inv_def polling_def running_def)
  qed (use same in \<open>simp add: action_done_def\<close>)
  show "bd_inv (action_failed ab e (bd_drop k s))"
  proof (cases ab)
    case False
    with live i c k show ?thesis by (auto simp: action_failed_def bd_inv_def polling_def running_def)
  qed (use same in \<open>simp add: action_failed_def\<close>)
qed

lemma bd_inv_open: "bd_inv s \<Longrightarrow> bd_inv (openAction a s)"
  by (cases "bd_busy s") (simp_all add: openAction_def bd_inv_def polling_def running_def)

lemma bd_inv_confirm:
  assumes i: "bd_inv s" and m: "bd_mounted s"
  shows "bd_inv (fst (confirm_action b s))"
proof (cases "bd_busy s \<or> bd_action s = None \<or> bd_action s = Some CreateBackup \<and> createIssue s \<noteq> []")
  case True
  with i show ?thesis by (auto simp: confirm_action_def split: option.split)
next
  case False
  then obtain a where a: "bd_action s = Some a" "\<not> bd_busy s" "a = CreateBackup \<longrightarrow> createIssue s = []" by auto
  have no: "filter live_action (bd_pending s) = []" using i m a(2) by (simp add: bd_inv_def)
  show ?thesis
  proof (cases a)
    case CreateBackup
    with a i m no show ?thesis by (simp add: confirm_action_def Let_def bd_inv_def polling_def running_def)
  next
    case (DownloadBackup k)
    with a i m no show ?thesis by (simp add: confirm_action_def Let_def bd_inv_def polling_def running_def)
  qed
qed

lemma bd_inv_leave: "bd_inv s \<Longrightarrow> bd_inv (leave_page s)"
  by (simp add: bd_inv_def leave_page_def)

lemma bd_inv_user: "bd_inv s \<Longrightarrow> bd_mounted s \<Longrightarrow> bd_inv (poll_again s (s\<lparr>bd_user := u\<rparr>))"
  by (rule bd_inv_poll_again; simp add: bd_inv_def; elim disjE; simp)

lemma bd_inv_step:
  assumes i: "bd_inv s" and ok: "bd_ok d f s e"
  shows "bd_inv (bd_next b co s e)"
proof (cases e)
  case (BackupsAnswer k r)
  with ok obtain ab where k: "k < length (bd_pending s)" "bd_pending s ! k = AwaitBackups ab"
    by (auto elim: awaits.elims)
  from bd_inv_refreshed [OF i k] k BackupsAnswer show ?thesis by (simp add: bd_next_def)
next
  case (CreateAnswer k r)
  with ok obtain ab where k: "k < length (bd_pending s)" "bd_pending s ! k = AwaitCreate ab"
    by (auto elim: awaits.elims)
  from bd_inv_action_done [OF i k(1), where ab = ab] k CreateAnswer show ?thesis
    by (simp add: bd_next_def create_settled_def Let_def case_prod_beta split: sum.split)
next
  case (DownloadAnswer k r)
  with ok obtain kb ab where k: "k < length (bd_pending s)" "bd_pending s ! k = AwaitDownload kb ab"
    by (auto elim: awaits.elims)
  from bd_inv_action_done [OF i k(1), where ab = ab] k DownloadAnswer show ?thesis
    by (simp add: bd_next_def download_settled_def Let_def case_prod_beta split: sum.split)
next
  case (BdPassword v)
  with ok password_offered i show ?thesis
    by (fastforce simp: bd_next_def bd_inv_def polling_def running_def)
next
  case (BdVisibility v)
  with ok i bd_inv_tick [of "s\<lparr>bd_visible := v\<rparr>"] show ?thesis by (simp add: bd_next_def Let_def)
next
  case BdInitial
  have "bd_mounted s" using ok i by (simp add: BdInitial bd_inv_def)
  with i bd_inv_tick [OF bd_inv_initial [OF i]] show ?thesis by (simp add: BdInitial bd_next_def)
next
  case BdInterval
  with ok i have "bd_mounted s" by (auto simp: bd_inv_def split: if_splits)
  with i BdInterval bd_inv_tick show ?thesis by (simp add: bd_next_def)
qed (use i ok bd_inv_refresh bd_inv_open bd_inv_confirm bd_inv_leave bd_inv_user in \<open>simp_all add: bd_next_def\<close>)

lemma bd_inv_init: "bd_inv (bd_init u v)"
  unfolding bd_init_def by (rule bd_inv_poll_effect) simp_all

interpretation backups: machine_invariant "bd_init u v" "bd_next b co" "bd_ok d f" bd_inv for u v b co d f
  by unfold_locales (auto intro: bd_inv_init bd_inv_step)

text \<open>What sends a request.\<close>

lemma tick_sent: "sent (snd (tick b s)) \<noteq> [] \<longleftrightarrow> bd_visible s"
  by (simp add: tick_def refresh_def)

end
