(* ===== verification/JsonString.thy ===== *)
theory JsonString
  imports JsText
begin

text \<open>
  \<open>JSON.stringify\<close> of a list of strings, as the profile page uses it to compare accounts: escapes of
  quotes, backslashes, control characters and lone surrogates. The text determines the list.
\<close>

definition hex_low :: "nat \<Rightarrow> unit16" where
  "hex_low d = of_nat (if d < 10 then 48 + d else 87 + d)"

definition hex4 :: "nat \<Rightarrow> jstr" where
  "hex4 c = [hex_low (c div 4096 mod 16), hex_low (c div 256 mod 16), hex_low (c div 16 mod 16), hex_low (c mod 16)]"

text \<open>The short escapes, by code point and the letter after the backslash.\<close>

definition short_escapes :: "(nat \<times> nat) list" where
  "short_escapes = [(34, 34), (92, 92), (8, 98), (9, 116), (10, 110), (12, 102), (13, 114)]"

definition json_cp :: "nat \<Rightarrow> jstr" where
  "json_cp c =
     (case map_of short_escapes c of
        Some e \<Rightarrow> [92, of_nat e]
      | None \<Rightarrow> if c < 32 \<or> surrogate c then [92, 117] @ hex4 c else units_of c)"

definition json_string :: "jstr \<Rightarrow> jstr" where
  "json_string s = [34] @ concat (map json_cp (code_points s)) @ [34]"

definition json_strings :: "jstr list \<Rightarrow> jstr" where
  "json_strings ss = [91] @ join_with [44] (map json_string ss) @ [93]"

section \<open>The text determines the strings\<close>

lemma hex_low_inj: "a < 16 \<Longrightarrow> b < 16 \<Longrightarrow> hex_low a = hex_low b \<longleftrightarrow> a = b"
proof
  assume "a < 16" "b < 16" "hex_low a = hex_low b"
  moreover have "unat (hex_low d) = (if d < 10 then 48 + d else 87 + d)" if "d < 16" for d
    unfolding hex_low_def by (rule unat_of_nat_16) (use that in simp)
  ultimately have "(if a < 10 then 48 + a else 87 + a) = (if b < 10 then 48 + b else 87 + b)" by metis
  then show "a = b" using \<open>a < 16\<close> \<open>b < 16\<close> by (simp split: if_splits)
qed simp

lemma hex4_inj:
  assumes "x < 65536" "y < 65536" "hex4 x = hex4 y"
  shows "x = y"
proof -
  from assms(3) have "x div 4096 mod 16 = y div 4096 mod 16" "x div 256 mod 16 = y div 256 mod 16"
    "x div 16 mod 16 = y div 16 mod 16" "x mod 16 = y mod 16"
    by (simp_all add: hex4_def hex_low_inj)
  moreover have "n = 4096 * (n div 4096 mod 16) + 256 * (n div 256 mod 16) + 16 * (n div 16 mod 16) + n mod 16"
    if "n < 65536" for n :: nat
  proof -
    define a b c where "a = n div 16" and "b = a div 16" and "c = b div 16"
    have "n = 16 * a + n mod 16" "a = 16 * b + a mod 16" "b = 16 * c + b mod 16"
      by (simp_all add: a_def b_def c_def)
    moreover have "n div 256 = b" "n div 4096 = c" by (simp_all add: a_def b_def c_def flip: div_mult2_eq)
    moreover have "c < 16" using that by (simp add: a_def b_def c_def less_mult_imp_div_less flip: div_mult2_eq)
    ultimately show ?thesis by (simp only: a_def [symmetric] mod_less)
  qed
  ultimately show ?thesis using assms(1,2) by metis
qed

lemma units_of_decodable:
  assumes "x < 0x110000" "y < 0x110000" "\<not> surrogate x" "\<not> surrogate y" "units_of x @ r = units_of y @ s"
  shows "x = y"
proof -
  have low: "unat (of_nat c :: unit16) = c" if "c < 0x10000" for c using that by (intro unat_of_nat_16) simp
  have high: "unat (of_nat (0xD800 + (c - 0x10000) div 0x400) :: unit16) = 0xD800 + (c - 0x10000) div 0x400
      \<and> (c - 0x10000) div 0x400 < 0x400" if "c < 0x110000" for c
    using that by (intro conjI unat_of_nat_16) auto
  have tail: "unat (of_nat (0xDC00 + c mod 0x400) :: unit16) = 0xDC00 + c mod 0x400" for c
    using mod_less_divisor [of "0x400" c] by (intro unat_of_nat_16) simp
  consider "x < 0x10000" "y < 0x10000" | "x < 0x10000" "\<not> y < 0x10000" | "\<not> x < 0x10000" "y < 0x10000"
    | "\<not> x < 0x10000" "\<not> y < 0x10000" by blast
  then show ?thesis
  proof cases
    case 1
    with assms(5) have "(of_nat x :: unit16) = of_nat y" by (simp add: units_of_def)
    with low 1 show ?thesis by metis
  next
    case 2
    with assms(5) have "(of_nat x :: unit16) = of_nat (0xD800 + (y - 0x10000) div 0x400)" by (simp add: units_of_def)
    with low [OF 2(1)] high [OF assms(2)] have "x = 0xD800 + (y - 0x10000) div 0x400" by metis
    with high [OF assms(2)] assms(3) show ?thesis by (simp add: surrogate_def)
  next
    case 3
    with assms(5) have "(of_nat y :: unit16) = of_nat (0xD800 + (x - 0x10000) div 0x400)" by (simp add: units_of_def)
    with low [OF 3(2)] high [OF assms(1)] have "y = 0xD800 + (x - 0x10000) div 0x400" by metis
    with high [OF assms(1)] assms(4) show ?thesis by (simp add: surrogate_def)
  next
    case 4
    with assms(5) have e: "(of_nat (0xD800 + (x - 0x10000) div 0x400) :: unit16) = of_nat (0xD800 + (y - 0x10000) div 0x400)"
      "(of_nat (0xDC00 + (x - 0x10000) mod 0x400) :: unit16) = of_nat (0xDC00 + (y - 0x10000) mod 0x400)"
      by (simp_all add: units_of_def)
    from e(1) high assms(1,2) have "0xD800 + (x - 0x10000) div 0x400 = 0xD800 + (y - 0x10000) div 0x400" by metis
    moreover from e(2) tail have "0xDC00 + (x - 0x10000) mod 0x400 = 0xDC00 + (y - 0x10000) mod 0x400" by metis
    ultimately have "x - 0x10000 = y - 0x10000" by (metis add_left_cancel div_mult_mod_eq)
    with 4 show ?thesis by simp
  qed
qed

lemma units_head:
  assumes "c < 0x110000" "\<not> surrogate c" "c < 0x10000 \<Longrightarrow> c \<noteq> k" "k < 0xD800" "units_of c @ r = of_nat k # s"
  shows False
proof (cases "c < 0x10000")
  case True
  with assms(5) have "(of_nat c :: unit16) = of_nat k" by (simp add: units_of_def)
  moreover have "unat (of_nat c :: unit16) = c" "unat (of_nat k :: unit16) = k"
    using True assms(4) by (simp_all add: unat_of_nat_16)
  ultimately show False using assms(3) True by metis
next
  case False
  with assms(5) have "(of_nat (0xD800 + (c - 0x10000) div 0x400) :: unit16) = of_nat k" by (simp add: units_of_def)
  moreover have "unat (of_nat (0xD800 + (c - 0x10000) div 0x400) :: unit16) = 0xD800 + (c - 0x10000) div 0x400"
    using assms(1) by (intro unat_of_nat_16) auto
  moreover have "unat (of_nat k :: unit16) = k" using assms(4) by (intro unat_of_nat_16) simp
  ultimately have "0xD800 + (c - 0x10000) div 0x400 = k" by metis
  with assms(4) show False by simp
qed

text \<open>An escaped string as symbols: its code points and the closing quote.\<close>

definition json_sym :: "nat option \<Rightarrow> jstr" where
  "json_sym s = (case s of Some c \<Rightarrow> json_cp c | None \<Rightarrow> [34])"

definition json_ok :: "nat option \<Rightarrow> bool" where
  "json_ok s = (case s of Some c \<Rightarrow> c < 0x110000 | None \<Rightarrow> True)"

lemma short_escape_letters:
  "map_of short_escapes x = Some e \<Longrightarrow> map_of short_escapes y = Some f \<Longrightarrow> (of_nat e :: unit16) = of_nat f \<Longrightarrow> x = y"
  "map_of short_escapes x = Some e \<Longrightarrow> (of_nat e :: unit16) \<noteq> 117"
  "map_of short_escapes x = None \<Longrightarrow> x \<noteq> 34 \<and> x \<noteq> 92"
  by (auto simp: short_escapes_def split: if_splits)

lemma json_cp_head:
  assumes "c < 0x110000"
  shows "json_cp c @ r \<noteq> 34 # s"
proof (cases "map_of short_escapes c")
  case None
  with short_escape_letters(3) [OF None] units_head [OF assms, of 34 r s] show ?thesis
    by (auto simp: json_cp_def)
qed (simp add: json_cp_def)

lemma json_cp_decodable:
  assumes xy: "x < 0x110000" "y < 0x110000" and eq: "json_cp x @ r = json_cp y @ s"
  shows "x = y"
proof -
  define esc where "esc c = (map_of short_escapes c \<noteq> None \<or> c < 32 \<or> surrogate c)" for c
  have plain: "json_cp c = units_of c \<and> \<not> surrogate c \<and> c \<noteq> 92" if "\<not> esc c" for c
    using that short_escape_letters(3) [of c] by (simp add: esc_def json_cp_def)
  have escaped: "\<exists>t. json_cp c = 92 # t" if "esc c" for c
    using that by (auto simp: esc_def json_cp_def split: option.split)
  have no: False if "esc c" "\<not> esc d" "d < 0x110000" "json_cp c @ t = json_cp d @ u" for c d t u
  proof -
    from escaped [OF that(1)] obtain w where "json_cp c = 92 # w" by blast
    with that(4) plain [OF that(2)] have "units_of d @ u = of_nat 92 # (w @ t)" by simp
    with plain [OF that(2)] show False by (intro units_head [OF that(3), of 92 u "w @ t"]) simp_all
  qed
  consider "esc x" "esc y" | "\<not> esc x" "\<not> esc y" | "esc x" "\<not> esc y" | "\<not> esc x" "esc y" by blast
  then show ?thesis
  proof cases
    case 1
    have hex: "c < 65536" if "esc c" "map_of short_escapes c = None" for c
      using that by (auto simp: esc_def surrogate_def)
    show ?thesis
    proof (cases "map_of short_escapes x"; cases "map_of short_escapes y")
      fix e f
      assume "map_of short_escapes x = Some e" "map_of short_escapes y = Some f"
      with eq short_escape_letters(1) show ?thesis by (simp add: json_cp_def)
    next
      fix e
      assume "map_of short_escapes x = Some e" "map_of short_escapes y = None"
      with eq 1 short_escape_letters(2) show ?thesis by (auto simp: json_cp_def esc_def)
    next
      fix f
      assume "map_of short_escapes x = None" "map_of short_escapes y = Some f"
      with eq 1 short_escape_letters(2) show ?thesis by (auto simp: json_cp_def esc_def)
    next
      assume n: "map_of short_escapes x = None" "map_of short_escapes y = None"
      with eq 1 have "hex4 x = hex4 y" by (auto simp: json_cp_def esc_def hex4_def)
      with hex n 1 show ?thesis by (intro hex4_inj)
    qed
  next
    case 2
    with plain eq xy show ?thesis by (intro units_of_decodable [of x y r s]) simp_all
  next
    case 3
    with no [OF 3 xy(2) eq] show ?thesis by blast
  next
    case 4
    with no [OF 4(2,1) xy(1) eq [symmetric]] show ?thesis by blast
  qed
qed

interpretation json_code: prefix_code json_ok json_sym
proof unfold_locales
  show "json_sym x \<noteq> []" for x
    by (auto simp: json_sym_def json_cp_def units_of_def split: option.split)
next
  fix x y :: "nat option" and r s
  assume ok: "json_ok x" "json_ok y" and eq: "json_sym x @ r = json_sym y @ s"
  show "x = y"
  proof (cases x; cases y)
    fix c d
    assume "x = Some c" "y = Some d"
    with ok eq json_cp_decodable show ?thesis by (simp add: json_ok_def json_sym_def)
  next
    fix c
    assume "x = Some c" "y = None"
    with ok eq json_cp_head [of c r s] show ?thesis by (simp add: json_ok_def json_sym_def)
  next
    fix d
    assume "x = None" "y = Some d"
    with ok eq [symmetric] json_cp_head [of d s r] show ?thesis by (simp add: json_ok_def json_sym_def)
  qed simp
qed

lemma json_string_syms: "json_string s @ r = 34 # concat (map json_sym (map Some (code_points s) @ [None])) @ r"
  by (simp add: json_string_def json_sym_def o_def)

lemma json_string_decodable:
  assumes "json_string s @ q = json_string t @ r"
  shows "s = t \<and> q = r"
proof -
  let ?f = "\<lambda>s. map Some (code_points s) @ [None]"
  have ok: "list_all json_ok (?f x)" for x
    by (auto simp: list_all_iff json_ok_def code_points_bound)
  from assms have "concat (map json_sym (?f s)) @ q = concat (map json_sym (?f t)) @ r"
    unfolding json_string_syms by (simp only: list.inject)
  from json_code.concat_comparable [OF ok ok this] obtain z where z: "?f s = ?f t @ z \<or> ?f t = ?f s @ z" by blast
  have one: "z = [] \<and> a = b" if "map Some a @ [None] = (map Some b @ [None]) @ z" for a b :: "nat list" and z
    using that
  proof (induction a arbitrary: b)
    case Nil
    then show ?case by (cases b) simp_all
  next
    case (Cons c a)
    then show ?case by (cases b) simp_all
  qed
  from z have "code_points s = code_points t"
  proof
    assume "?f s = ?f t @ z"
    with one [of "code_points s" "code_points t" z] show ?thesis by simp
  next
    assume "?f t = ?f s @ z"
    with one [of "code_points t" "code_points s" z] show ?thesis by simp
  qed
  then have "s = t" by (rule code_points_inj)
  with assms show ?thesis by simp
qed

lemma json_strings_inj: "length ss = length ts \<Longrightarrow> json_strings ss = json_strings ts \<longleftrightarrow> ss = ts"
proof
  have step: "ss = ts" if "length ss = length ts" "join_with [44] (map json_string ss) @ q = join_with [44] (map json_string ts) @ q"
    for ss ts q
    using that
  proof (induction ss ts rule: list_induct2)
    case (Cons s ss t ts)
    show ?case
    proof (cases ss)
      case Nil
      with Cons.hyps Cons.prems have "json_string s @ q = json_string t @ q" by simp
      from json_string_decodable [OF this] Nil Cons.hyps show ?thesis by simp
    next
      case (Cons u us)
      with \<open>length ss = length ts\<close> obtain v vs where ts: "ts = v # vs" by (cases ts) auto
      from Cons.prems Cons ts
      have "json_string s @ ([44] @ join_with [44] (map json_string ss) @ q)
          = json_string t @ ([44] @ join_with [44] (map json_string ts) @ q)" by simp
      from json_string_decodable [OF this] Cons.IH show ?thesis by simp
    qed
  qed simp
  assume "length ss = length ts" "json_strings ss = json_strings ts"
  with step [of ss ts "[]"] show "ss = ts" by (simp add: json_strings_def)
qed simp

end
