(* ===== verification/Profile.thy ===== *)
theory Profile
  imports JsonString Register Session
begin

text \<open>
  The profile page (\<open>app/dashboard/profil/page.tsx\<close>) and the dialog that crops an avatar
  (\<open>components/avatar-crop-dialog.tsx\<close>): the edited form, the avatar that waits for the save, and the
  save itself, three requests one after the other. Object URLs are numbered; the page's live ones are a
  list, so that a shown URL can be told from a revoked one.
\<close>

section \<open>The form\<close>

record profile_form =
  pf_name :: jstr
  pf_phone :: jstr
  pf_bio :: jstr
  pf_gender :: jstr

definition gender_text :: "gender \<Rightarrow> jstr" where
  "gender_text g = (case g of Male \<Rightarrow> js ''male'' | Female \<Rightarrow> js ''female'' | Other \<Rightarrow> js ''other'' | Unset \<Rightarrow> [])"

definition getProfileForm :: "user \<Rightarrow> profile_form" where
  "getProfileForm u = \<lparr>pf_name = u_name u, pf_phone = u_phone u, pf_bio = u_bio u, pf_gender = gender_text (u_gender u)\<rparr>"

definition getProfileSource :: "user \<Rightarrow> jstr" where
  "getProfileSource u = json_strings [u_id u, u_name u, u_phone u, u_bio u, gender_text (u_gender u)]"

definition profile_json :: "profile_form \<Rightarrow> json" where
  "profile_json f = JObj [(''name'', JStr (pf_name f)), (''phone'', JStr (pf_phone f)), (''bio'', JStr (pf_bio f)),
     (''gender'', JStr (pf_gender f))]"

section \<open>State\<close>

text \<open>A file; its content with one code unit for each byte.\<close>

record chosen_file =
  fl_name :: jstr
  fl_type :: jstr
  fl_size :: nat
  fl_content :: jstr

text \<open>What \<open>saveProfile\<close> captures when it starts.\<close>

record save_context =
  sv_avatar :: "chosen_file option"
  sv_preview :: "nat option"
  sv_delete :: bool
  sv_form :: profile_form

datatype pr_pending =
    AwaitUpload save_context
  | AwaitRemoval save_context
  | AwaitPatch save_context
  | AwaitImage "nat option"
  | AwaitBlob "nat option" "nat option"

record pr_state =
  pr_user :: "user option"
  pr_formState :: "(jstr \<times> profile_form) option"
  pr_saving :: bool
  pr_pendingAvatar :: "chosen_file option"
  pr_pendingPreview :: "nat option"
  pr_pendingDelete :: bool
  pr_cropSrc :: "nat option"
  pr_cropOpen :: bool
  pr_nextURL :: nat
  pr_urls :: "nat list"
  pr_pending :: "pr_pending list"

datatype pr_event =
    PrUser "user option"
  | PrName jstr
  | PrPhone jstr
  | PrGender jstr
  | PrBio jstr
  | PickAvatar
  | FileSelected "chosen_file option"
  | MarkDeleteAvatar
  | CancelAvatarChanges
  | CropZoom int
  | CropRotate int
  | CropApply
  | CropCancel
  | SaveProfile
  | BlobReady nat "jstr option"
  | UploadAnswer nat "js_error + user"
  | RemovalAnswer nat "js_error + user"
  | PatchAnswer nat "js_error + user"
  | ImageSettled nat

type_synonym pr_result = "pr_state \<times> effect list"

definition pr_init :: "user option \<Rightarrow> pr_state" where
  "pr_init u = \<lparr>pr_user = u, pr_formState = map_option (\<lambda>x. (getProfileSource x, getProfileForm x)) u,
     pr_saving = False, pr_pendingAvatar = None, pr_pendingPreview = None, pr_pendingDelete = False,
     pr_cropSrc = None, pr_cropOpen = False, pr_nextURL = 0, pr_urls = [], pr_pending = []\<rparr>"

text \<open>The form shown: the edited one while it belongs to the present account's data.\<close>

definition shown_form :: "user \<Rightarrow> pr_state \<Rightarrow> profile_form" where
  "shown_form u s =
     (case pr_formState s of
        Some (source, form) \<Rightarrow> if source = getProfileSource u then form else getProfileForm u
      | None \<Rightarrow> getProfileForm u)"

definition updateForm :: "(profile_form \<Rightarrow> profile_form) \<Rightarrow> pr_state \<Rightarrow> pr_state" where
  "updateForm f s =
     (case pr_user s of
        Some u \<Rightarrow> s\<lparr>pr_formState := Some (getProfileSource u, f (shown_form u s))\<rparr>
      | None \<Rightarrow> s)"

section \<open>Object URLs\<close>

definition create_url :: "pr_state \<Rightarrow> nat \<times> pr_state" where
  "create_url s = (pr_nextURL s, s\<lparr>pr_nextURL := Suc (pr_nextURL s), pr_urls := pr_nextURL s # pr_urls s\<rparr>)"

text \<open>\<open>if (url) URL.revokeObjectURL(url)\<close>; revoking twice does nothing more.\<close>

definition revoke :: "nat option \<Rightarrow> pr_state \<Rightarrow> pr_state" where
  "revoke u s = (case u of Some n \<Rightarrow> s\<lparr>pr_urls := removeAll n (pr_urls s)\<rparr> | None \<Rightarrow> s)"

definition revoke_effects :: "nat option \<Rightarrow> effect list" where
  "revoke_effects u = (case u of Some n \<Rightarrow> [RevokeURL n] | None \<Rightarrow> [])"

section \<open>Choosing an avatar\<close>

definition allowed_types :: "jstr list" where
  "allowed_types = [js ''image/jpeg'', js ''image/png'', js ''image/webp'']"

definition handleFileSelect :: "chosen_file option \<Rightarrow> pr_state \<Rightarrow> pr_result" where
  "handleFileSelect f s =
     (case f of
        None \<Rightarrow> (s, [])
      | Some x \<Rightarrow>
          if fl_size x > 10 * 1024 * 1024
          then (s, [Toast Failure (js ''Ukuran file terlalu besar. Pilih file yang lebih kecil.'')])
          else if fl_type x \<notin> set allowed_types
          then (s, [Toast Failure (js ''Format file harus JPEG, PNG, atau WebP.'')])
          else (let (n, t) = create_url s in (t\<lparr>pr_cropSrc := Some n, pr_cropOpen := True\<rparr>, [CreateURL n])))"

text \<open>The callback of the dialog, with the URLs the page had when the button was pressed.\<close>

definition handleCropResult :: "nat option \<Rightarrow> nat option \<Rightarrow> chosen_file \<Rightarrow> pr_state \<Rightarrow> pr_result" where
  "handleCropResult preview crop x s =
     (let (n, t) = create_url (revoke crop (revoke preview s))
      in (t\<lparr>pr_pendingAvatar := Some x, pr_pendingPreview := Some n, pr_pendingDelete := False,
            pr_cropSrc := None, pr_cropOpen := False\<rparr>,
          revoke_effects preview @ revoke_effects crop @ [CreateURL n]))"

definition handleCropCancel :: "pr_state \<Rightarrow> pr_result" where
  "handleCropCancel s =
     ((revoke (pr_cropSrc s) s)\<lparr>pr_cropSrc := None, pr_cropOpen := False\<rparr>, revoke_effects (pr_cropSrc s))"

definition set_avatar_pending :: "bool \<Rightarrow> nat option \<Rightarrow> pr_state \<Rightarrow> pr_result" where
  "set_avatar_pending removal preview s =
     ((revoke preview s)\<lparr>pr_pendingAvatar := None, pr_pendingPreview := None, pr_pendingDelete := removal\<rparr>,
      revoke_effects preview)"

definition handleMarkDeleteAvatar :: "pr_state \<Rightarrow> pr_result" where
  "handleMarkDeleteAvatar s = set_avatar_pending True (pr_pendingPreview s) s"

definition handleCancelAvatarChanges :: "pr_state \<Rightarrow> pr_result" where
  "handleCancelAvatarChanges s = set_avatar_pending False (pr_pendingPreview s) s"

text \<open>\<open>clearPending\<close> of a save, with the preview it captured.\<close>

definition clearPending :: "nat option \<Rightarrow> pr_state \<Rightarrow> pr_result" where
  "clearPending preview s = set_avatar_pending False preview s"

text \<open>
  \<open>handleCrop\<close> of the dialog: the canvas of the cropper (512 by 512) is turned into a WebP blob later;
  without a blob nothing happens.
\<close>

definition handleCrop :: "pr_state \<Rightarrow> pr_state" where
  "handleCrop s = s\<lparr>pr_pending := pr_pending s @ [AwaitBlob (pr_pendingPreview s) (pr_cropSrc s)]\<rparr>"

definition cropped_file :: "jstr \<Rightarrow> chosen_file" where
  "cropped_file content = \<lparr>fl_name = js ''avatar.webp'', fl_type = js ''image/webp'', fl_size = length content, fl_content = content\<rparr>"

definition blob_ready :: "nat option \<Rightarrow> nat option \<Rightarrow> jstr option \<Rightarrow> pr_state \<Rightarrow> pr_result" where
  "blob_ready preview crop content s =
     (case content of None \<Rightarrow> (s, []) | Some c \<Rightarrow> handleCropResult preview crop (cropped_file c) s)"

section \<open>Saving\<close>

definition await :: "pr_pending \<Rightarrow> pr_state \<Rightarrow> pr_state" where
  "await p s = s\<lparr>pr_pending := pr_pending s @ [p]\<rparr>"

definition patch_stage :: "browser \<Rightarrow> save_context \<Rightarrow> pr_state \<Rightarrow> pr_result" where
  "patch_stage b c s = (await (AwaitPatch c) s, [api b (js ''/api/profile'') (patch (profile_json (sv_form c)))])"

definition removal_stage :: "browser \<Rightarrow> save_context \<Rightarrow> pr_state \<Rightarrow> pr_result" where
  "removal_stage b c s =
     (if sv_delete c then (await (AwaitRemoval c) s, [api b (js ''/api/profile/avatar'') delete_init]) else patch_stage b c s)"

definition upload_init :: "chosen_file \<Rightarrow> request_init" where
  "upload_init x = fetch_init\<lparr>ri_method := ''POST'', ri_body := Some (FormData [(''avatar'', fl_content x)])\<rparr>"

definition saveProfile :: "browser \<Rightarrow> pr_state \<Rightarrow> pr_result" where
  "saveProfile b s =
     (case pr_user s of
        None \<Rightarrow> (s, [])
      | Some u \<Rightarrow>
          (let c = \<lparr>sv_avatar = pr_pendingAvatar s, sv_preview = pr_pendingPreview s, sv_delete = pr_pendingDelete s,
                 sv_form = shown_form u s\<rparr>;
               s' = s\<lparr>pr_saving := True\<rparr>
           in case sv_avatar c of
                Some x \<Rightarrow> (await (AwaitUpload c) s', [api b (js ''/api/profile/avatar'') (upload_init x)])
              | None \<Rightarrow> removal_stage b c s'))"

definition save_failed :: "js_error \<Rightarrow> pr_state \<Rightarrow> pr_result" where
  "save_failed e s = (s\<lparr>pr_saving := False\<rparr>, failed_toast e)"

definition upload_settled :: "browser \<Rightarrow> save_context \<Rightarrow> js_error + user \<Rightarrow> pr_state \<Rightarrow> pr_result" where
  "upload_settled b c r s = (case r of Inl e \<Rightarrow> save_failed e s | Inr _ \<Rightarrow> removal_stage b c s)"

definition removal_settled :: "browser \<Rightarrow> save_context \<Rightarrow> js_error + user \<Rightarrow> pr_state \<Rightarrow> pr_result" where
  "removal_settled b c r s = (case r of Inl e \<Rightarrow> save_failed e s | Inr _ \<Rightarrow> patch_stage b c s)"

text \<open>\<open>setUser\<close> changes the provider's user in the same update.\<close>

definition patch_settled :: "save_context \<Rightarrow> js_error + user \<Rightarrow> pr_state \<Rightarrow> pr_result" where
  "patch_settled c r s =
     (case r of
        Inl e \<Rightarrow> save_failed e s
      | Inr latest \<Rightarrow>
          (let s' = s\<lparr>pr_formState := Some (getProfileSource latest, getProfileForm latest), pr_user := Some latest,
                 pr_saving := False\<rparr>;
               done_effects = [SetUser (Some latest), Toast Success (js ''Profil berhasil diperbarui.'')]
           in if sv_avatar c \<noteq> None \<and> u_avatar latest \<noteq> []
              then (await (AwaitImage (sv_preview c)) s', done_effects @ [PreloadImage (u_avatar latest)])
              else (let (t, effs) = clearPending (sv_preview c) s' in (t, done_effects @ effs))))"

section \<open>The step\<close>

definition pr_drop :: "nat \<Rightarrow> pr_state \<Rightarrow> pr_state" where
  "pr_drop k s = s\<lparr>pr_pending := drop_nth k (pr_pending s)\<rparr>"

fun pr_step :: "browser \<Rightarrow> pr_state \<Rightarrow> pr_event \<Rightarrow> pr_result" where
  "pr_step b s (PrUser u) = (s\<lparr>pr_user := u\<rparr>, [])"
| "pr_step b s (PrName v) = (updateForm (\<lambda>f. f\<lparr>pf_name := v\<rparr>) s, [])"
| "pr_step b s (PrPhone v) = (updateForm (\<lambda>f. f\<lparr>pf_phone := v\<rparr>) s, [])"
| "pr_step b s (PrGender v) = (updateForm (\<lambda>f. f\<lparr>pf_gender := v\<rparr>) s, [])"
| "pr_step b s (PrBio v) = (updateForm (\<lambda>f. f\<lparr>pf_bio := v\<rparr>) s, [])"
| "pr_step b s PickAvatar = (s, [PickFile])"
| "pr_step b s (FileSelected f) = handleFileSelect f s"
| "pr_step b s MarkDeleteAvatar = handleMarkDeleteAvatar s"
| "pr_step b s CancelAvatarChanges = handleCancelAvatarChanges s"
| "pr_step b s (CropZoom n) = (s, [CropperZoom n])"
| "pr_step b s (CropRotate n) = (s, [CropperRotate n])"
| "pr_step b s CropApply = (handleCrop s, [])"
| "pr_step b s CropCancel = handleCropCancel s"
| "pr_step b s SaveProfile = saveProfile b s"
| "pr_step b s (BlobReady k c) =
     (case pr_pending s ! k of AwaitBlob p q \<Rightarrow> blob_ready p q c (pr_drop k s) | _ \<Rightarrow> (s, []))"
| "pr_step b s (UploadAnswer k r) =
     (case pr_pending s ! k of AwaitUpload c \<Rightarrow> upload_settled b c r (pr_drop k s) | _ \<Rightarrow> (s, []))"
| "pr_step b s (RemovalAnswer k r) =
     (case pr_pending s ! k of AwaitRemoval c \<Rightarrow> removal_settled b c r (pr_drop k s) | _ \<Rightarrow> (s, []))"
| "pr_step b s (PatchAnswer k r) =
     (case pr_pending s ! k of AwaitPatch c \<Rightarrow> patch_settled c r (pr_drop k s) | _ \<Rightarrow> (s, []))"
| "pr_step b s (ImageSettled k) =
     (case pr_pending s ! k of AwaitImage p \<Rightarrow> clearPending p (pr_drop k s) | _ \<Rightarrow> (s, []))"

section \<open>The rendered page\<close>

text \<open>An object URL as text, by its number.\<close>

definition blob_url :: "nat \<Rightarrow> jstr" where
  "blob_url n = js ''blob:'' @ nat_str n"

definition displayAvatar :: "user \<Rightarrow> pr_state \<Rightarrow> jstr option" where
  "displayAvatar u s =
     (case pr_pendingPreview s of
        Some n \<Rightarrow> Some (blob_url n)
      | None \<Rightarrow> if pr_pendingDelete s then None else if u_avatar u = [] then None else Some (u_avatar u))"

text \<open>The dialog; zooming is in tenths.\<close>

definition AvatarCropDialog :: "bool \<Rightarrow> nat \<Rightarrow> pr_event node" where
  "AvatarCropDialog opened src =
     El ''Dialog'' [Flag ''open'' opened, OnClick CropCancel]
      [El ''DialogContent'' []
        [El ''DialogHeader'' [] [El ''DialogTitle'' [] [lit ''Sesuaikan avatar''],
           El ''DialogDescription'' [] [lit ''Geser dan perbesar untuk mengatur area foto yang diinginkan.'']],
         El ''div'' [] [El ''Cropper'' [Attr ''src'' (blob_url src), Num ''height'' 320, Num ''aspectRatio'' 1, Num ''viewMode'' 1,
           Flag ''guides'' False, Flag ''center'' True, Flag ''background'' False, Flag ''responsive'' True,
           Num ''autoCropArea'' 1, Flag ''checkOrientation'' False] []],
         El ''div'' []
          [El ''Button'' [Attr ''type'' (js ''button''), Attr ''variant'' (js ''outline''), OnClick (CropZoom 1),
             Attr ''aria-label'' (js ''Perbesar'')] [El ''ZoomIn'' [] []],
           El ''Button'' [Attr ''type'' (js ''button''), Attr ''variant'' (js ''outline''), OnClick (CropZoom (- 1)),
             Attr ''aria-label'' (js ''Perkecil'')] [El ''ZoomOut'' [] []],
           El ''Button'' [Attr ''type'' (js ''button''), Attr ''variant'' (js ''outline''), OnClick (CropRotate 90),
             Attr ''aria-label'' (js ''Putar'')] [El ''RotateCw'' [] []]],
         El ''DialogFooter'' []
          [El ''Button'' [Attr ''variant'' (js ''outline''), OnClick CropCancel] [lit ''Batal''],
           El ''Button'' [OnClick CropApply] [El ''Crop'' [] [], lit ''Terapkan'']]]]"

definition small_button :: "pr_state \<Rightarrow> pr_event \<Rightarrow> pr_event node list \<Rightarrow> pr_event node" where
  "small_button s e ns =
     El ''Button'' [Attr ''variant'' (js ''ghost''), Attr ''size'' (js ''sm''), OnClick e, Flag ''disabled'' (pr_saving s)] ns"

definition avatar_card :: "(jstr \<Rightarrow> jstr) \<Rightarrow> user \<Rightarrow> pr_state \<Rightarrow> pr_event node" where
  "avatar_card upper u s =
     El ''Card'' []
      [El ''CardContent'' []
        [El ''div'' []
          [UserAvatar upper (u_name u) (displayAvatar u s) [] [],
           El ''button'' [Attr ''type'' (js ''button''), Flag ''disabled'' (pr_saving s), OnClick PickAvatar,
             Attr ''aria-label'' (js ''Ganti avatar'')] [El ''Camera'' [] []],
           El ''input'' [Attr ''type'' (js ''file''), Attr ''accept'' (js ''image/jpeg,image/png,image/webp'')] []],
         El ''p'' []
          [if pr_pendingAvatar s \<noteq> None
           then El ''span'' [] [Txt (js ''Avatar baru dipilih '' @ dash @ js '' simpan untuk menerapkan'')]
           else if pr_pendingDelete s
           then El ''span'' [] [Txt (js ''Avatar akan dihapus '' @ dash @ js '' simpan untuk menerapkan'')]
           else lit ''Klik foto untuk mengubah avatar''],
         El ''div'' []
          (show_if (pr_pendingAvatar s = None \<and> \<not> pr_pendingDelete s \<and> u_avatar u \<noteq> [])
             [small_button s MarkDeleteAvatar [El ''Trash2'' [] [], lit ''Hapus avatar'']]
           @ show_if (pr_pendingAvatar s \<noteq> None) [small_button s CancelAvatarChanges [lit ''Batalkan pilihan'']]
           @ show_if (pr_pendingDelete s) [small_button s CancelAvatarChanges [lit ''Urungkan hapus'']]),
         El ''h2'' [] [Txt (u_name u)], El ''p'' [] [Txt (u_email u)],
         El ''div'' []
          [El ''Badge'' [Attr ''variant'' (js (if u_role u = SuperAdmin then ''default'' else ''secondary''))]
             [El ''ShieldCheck'' [] [], lit (role_label u)],
           El ''Badge'' [Attr ''variant'' (js (if u_email_verified u then ''outline'' else ''destructive''))]
             [El (if u_email_verified u then ''BadgeCheck'' else ''MailWarning'') [] [],
              lit (if u_email_verified u then ''Email terverifikasi'' else ''Belum verifikasi'')]],
         El ''p'' [] [lit ''ID: '', Txt (u_id u)]]]"

definition profile_card :: "user \<Rightarrow> pr_state \<Rightarrow> pr_event node" where
  "profile_card u s =
     (let form = shown_form u s
      in El ''Card'' []
      [El ''CardHeader'' [] [El ''CardTitle'' [] [lit ''Informasi pribadi''],
         El ''CardDescription'' [] [lit ''Email dan role hanya dapat dikelola melalui kebijakan sistem.'']],
       El ''CardContent'' []
        [El ''form'' [OnSubmit SaveProfile]
          [field [label ''name'' ''Nama lengkap'', El ''Input'' [Attr ''id'' (js ''name''), Attr ''value'' (pf_name form),
             OnInput PrName, Num ''minLength'' 2, Num ''maxLength'' 120, Flag ''required'' True] []],
           field [label ''phone'' ''Nomor telepon'', El ''Input'' [Attr ''id'' (js ''phone''), Attr ''type'' (js ''tel''),
             Attr ''value'' (pf_phone form), OnInput PrPhone, Num ''maxLength'' 30] []],
           field [label ''gender'' ''Gender'',
             field [El ''select'' [Attr ''id'' (js ''gender''), Attr ''value'' (pf_gender form), OnInput PrGender]
                [option_node '''' ''Pilih gender'' False, option_node ''male'' ''Laki-laki'' False,
                 option_node ''female'' ''Perempuan'' False, option_node ''other'' ''Lainnya'' False],
               El ''ChevronDown'' [Flag ''aria-hidden'' True] []]],
           field [label ''bio'' ''Bio'', El ''Textarea'' [Attr ''id'' (js ''bio''), Attr ''value'' (pf_bio form),
             OnInput PrBio, Num ''maxLength'' 500, Num ''rows'' 4] []],
           field [El ''Button'' [Flag ''disabled'' (pr_saving s)]
             [El (if pr_saving s then ''Spinner'' else ''Save'') [] [],
              lit (if pr_saving s then ''Menyimpan...'' else ''Simpan perubahan'')]]]]])"

definition ProfilPage :: "(jstr \<Rightarrow> jstr) \<Rightarrow> pr_state \<Rightarrow> pr_event node list" where
  "ProfilPage upper s =
     (case pr_user s of
        None \<Rightarrow> []
      | Some u \<Rightarrow>
          [El ''div'' []
            ([page_header ''Profil'' ''Kelola informasi identitas yang dapat dibagikan kepada aplikasi sesuai scope yang Anda setujui.'' [],
              El ''div'' [] [avatar_card upper u s, profile_card u s]]
             @ (case pr_cropSrc s of Some n \<Rightarrow> [AvatarCropDialog (pr_cropOpen s) n] | None \<Rightarrow> []))])"

fun pr_awaits :: "pr_event \<Rightarrow> pr_pending \<Rightarrow> bool" where
  "pr_awaits (BlobReady k c) (AwaitBlob p q) = True"
| "pr_awaits (UploadAnswer k r) (AwaitUpload c) = True"
| "pr_awaits (RemovalAnswer k r) (AwaitRemoval c) = True"
| "pr_awaits (PatchAnswer k r) (AwaitPatch c) = True"
| "pr_awaits (ImageSettled k) (AwaitImage p) = True"
| "pr_awaits e p = False"

fun answer_at :: "pr_event \<Rightarrow> nat option" where
  "answer_at (BlobReady k c) = Some k"
| "answer_at (UploadAnswer k r) = Some k"
| "answer_at (RemovalAnswer k r) = Some k"
| "answer_at (PatchAnswer k r) = Some k"
| "answer_at (ImageSettled k) = Some k"
| "answer_at e = None"

text \<open>
  The provider may change the user at any time; the chooser of the browser gives back a file, or
  none; an answer needs its request.
\<close>

definition pr_ok :: "(jstr \<Rightarrow> jstr) \<Rightarrow> pr_state \<Rightarrow> pr_event \<Rightarrow> bool" where
  "pr_ok upper s e =
     (case answer_at e of
        Some k \<Rightarrow> k < length (pr_pending s) \<and> pr_awaits e (pr_pending s ! k)
      | None \<Rightarrow> (\<exists>u. e = PrUser u) \<or> (\<exists>f. e = FileSelected f \<and> pr_user s \<noteq> None)
          \<or> list_ex (\<lambda>n. offers n e) (ProfilPage upper s))"

definition pr_next :: "browser \<Rightarrow> pr_state \<Rightarrow> pr_event \<Rightarrow> pr_state" where
  "pr_next b s e = fst (pr_step b s e)"

section \<open>What the page offers\<close>

lemma header_no_acts [simp]: "acts (page_header t d []) = []" "submits (page_header t d []) = False"
  by (simp_all add: page_header_def show_if_def)

lemma profile_card_acts:
  "set (acts (profile_card u s)) = {Type PrName, Type PrPhone, Type PrGender, Type PrBio}
     \<union> (if pr_saving s then {} else {Fire SaveProfile})"
  by (auto simp: profile_card_def Let_def)

lemma avatar_card_acts:
  "a \<in> set (acts (avatar_card up u s)) \<longleftrightarrow> \<not> pr_saving s \<and>
     (a = Fire PickAvatar \<or> a = Fire MarkDeleteAvatar \<and> pr_pendingAvatar s = None \<and> \<not> pr_pendingDelete s \<and> u_avatar u \<noteq> []
      \<or> a = Fire CancelAvatarChanges \<and> (pr_pendingAvatar s \<noteq> None \<or> pr_pendingDelete s))"
  by (auto simp: avatar_card_def small_button_def show_if_def)

lemma crop_dialog_acts:
  "set (acts (AvatarCropDialog opened n)) = (if opened then {Fire CropCancel, Fire (CropZoom 1), Fire (CropZoom (- 1)),
     Fire (CropRotate 90), Fire CropApply} else {})"
  by (auto simp: AvatarCropDialog_def)

lemma profile_acts:
  "(\<exists>n\<in>set (ProfilPage up s). a \<in> set (acts n)) \<longleftrightarrow> (\<exists>u. pr_user s = Some u \<and>
     (a \<in> set (acts (avatar_card up u s)) \<or> a \<in> set (acts (profile_card u s))
      \<or> (\<exists>n. pr_cropSrc s = Some n \<and> a \<in> set (acts (AvatarCropDialog (pr_cropOpen s) n)))))"
  by (cases "pr_user s"; cases "pr_cropSrc s") (auto simp: ProfilPage_def)

lemma profile_offers:
  "list_ex (\<lambda>n. offers n e) (ProfilPage up s) \<longleftrightarrow>
     (\<exists>n\<in>set (ProfilPage up s). Fire e \<in> set (acts n)) \<or> (\<exists>f v. (\<exists>n\<in>set (ProfilPage up s). Type f \<in> set (acts n)) \<and> f v = e)"
  unfolding list_ex_iff offers_iff by blast

lemma save_offered:
  "list_ex (\<lambda>n. offers n SaveProfile) (ProfilPage up s) \<longleftrightarrow> pr_user s \<noteq> None \<and> \<not> pr_saving s"
  unfolding profile_offers profile_acts by (auto simp: avatar_card_acts profile_card_acts crop_dialog_acts split: if_splits)

section \<open>The form belongs to the account\<close>

lemma gender_text_inj [simp]: "gender_text g = gender_text h \<longleftrightarrow> g = h"
  by (cases g; cases h) (auto simp: gender_text_def)

lemma source_eq_iff:
  "getProfileSource u = getProfileSource v \<longleftrightarrow> u_id u = u_id v \<and> u_name u = u_name v \<and> u_phone u = u_phone v
     \<and> u_bio u = u_bio v \<and> u_gender u = u_gender v"
  by (simp add: getProfileSource_def json_strings_inj)

section \<open>Invariant\<close>

fun save_stage :: "pr_pending \<Rightarrow> nat" where
  "save_stage (AwaitUpload c) = 3"
| "save_stage (AwaitRemoval c) = 2"
| "save_stage (AwaitPatch c) = 1"
| "save_stage p = 0"

fun save_of :: "pr_pending \<Rightarrow> save_context option" where
  "save_of (AwaitUpload c) = Some c"
| "save_of (AwaitRemoval c) = Some c"
| "save_of (AwaitPatch c) = Some c"
| "save_of p = None"

fun captured :: "pr_pending \<Rightarrow> nat option" where
  "captured (AwaitImage p) = p"
| "captured (AwaitBlob p q) = p"
| "captured p = Option.bind (save_of p) sv_preview"

definition choice :: "chosen_file option \<Rightarrow> nat option \<Rightarrow> bool \<Rightarrow> bool" where
  "choice avatar preview removal = ((avatar = None) = (preview = None) \<and> (avatar \<noteq> None \<longrightarrow> \<not> removal))"

abbreviation save_choice :: "save_context \<Rightarrow> bool" where
  "save_choice c \<equiv> choice (sv_avatar c) (sv_preview c) (sv_delete c)"

text \<open>An upload belongs to a chosen avatar, a removal to a marked one; at most one save is under way.\<close>

definition saves_inv :: "pr_state \<Rightarrow> bool" where
  "saves_inv s =
     (choice (pr_pendingAvatar s) (pr_pendingPreview s) (pr_pendingDelete s)
      \<and> (\<forall>p\<in>set (pr_pending s). \<forall>c. save_of p = Some c \<longrightarrow> save_choice c)
      \<and> (\<forall>c. AwaitRemoval c \<in> set (pr_pending s) \<longrightarrow> sv_delete c)
      \<and> length (filter (\<lambda>p. save_of p \<noteq> None) (pr_pending s)) = (if pr_saving s then 1 else 0))"

text \<open>What is shown is live, and no continuation will revoke the picture being cropped.\<close>

definition urls_inv :: "pr_state \<Rightarrow> bool" where
  "urls_inv s =
     ((\<forall>n\<in>set (pr_urls s). n < pr_nextURL s)
      \<and> (\<forall>n. pr_pendingPreview s = Some n \<or> pr_cropSrc s = Some n \<longrightarrow> n \<in> set (pr_urls s))
      \<and> (\<forall>n. pr_pendingPreview s = Some n \<longrightarrow> pr_cropSrc s \<noteq> Some n)
      \<and> (\<forall>p\<in>set (pr_pending s). \<forall>n. captured p = Some n \<longrightarrow> n < pr_nextURL s \<and> pr_cropSrc s \<noteq> Some n))"

definition pr_inv :: "pr_state \<Rightarrow> bool" where
  "pr_inv s = (saves_inv s \<and> urls_inv s)"

lemma revoke_fields [simp]:
  "pr_urls (revoke u s) = (case u of Some n \<Rightarrow> removeAll n (pr_urls s) | None \<Rightarrow> pr_urls s)"
  "pr_user (revoke u s) = pr_user s" "pr_formState (revoke u s) = pr_formState s" "pr_saving (revoke u s) = pr_saving s"
  "pr_pendingAvatar (revoke u s) = pr_pendingAvatar s" "pr_pendingPreview (revoke u s) = pr_pendingPreview s"
  "pr_pendingDelete (revoke u s) = pr_pendingDelete s" "pr_cropSrc (revoke u s) = pr_cropSrc s"
  "pr_cropOpen (revoke u s) = pr_cropOpen s" "pr_nextURL (revoke u s) = pr_nextURL s" "pr_pending (revoke u s) = pr_pending s"
  by (simp_all add: revoke_def split: option.split)

lemma set_revoked [simp]: "set (case u of Some n \<Rightarrow> removeAll n xs | None \<Rightarrow> xs) = set xs - set_option u"
  by (cases u) auto

lemma choice_simps [simp]: "choice None None d" "choice (Some f) (Some n) False"
  by (simp_all add: choice_def)

lemma saves_inv_cong:
  assumes "pr_pending s = pr_pending t" "pr_saving s = pr_saving t"
    "choice (pr_pendingAvatar s) (pr_pendingPreview s) (pr_pendingDelete s)"
  shows "saves_inv t \<Longrightarrow> choice (pr_pendingAvatar t) (pr_pendingPreview t) (pr_pendingDelete t) \<Longrightarrow> saves_inv s"
  using assms by (simp add: saves_inv_def)

lemma pr_inv_select: "pr_inv s \<Longrightarrow> pr_inv (fst (handleFileSelect f s))"
  by (cases f) (fastforce simp: handleFileSelect_def create_url_def pr_inv_def saves_inv_def urls_inv_def Let_def)+

lemma pr_inv_crop_result:
  assumes "pr_inv s"
  shows "pr_inv (fst (handleCropResult p q x s))"
  using assms by (fastforce simp: handleCropResult_def create_url_def pr_inv_def saves_inv_def urls_inv_def Let_def)

lemma pr_inv_crop_cancel: "pr_inv s \<Longrightarrow> pr_inv (fst (handleCropCancel s))"
  by (fastforce simp: handleCropCancel_def pr_inv_def saves_inv_def urls_inv_def)

lemma pr_inv_set_avatar:
  assumes "pr_inv s" "\<And>n. p = Some n \<Longrightarrow> pr_cropSrc s \<noteq> Some n"
  shows "pr_inv (fst (set_avatar_pending r p s))"
  using assms by (fastforce simp: set_avatar_pending_def pr_inv_def saves_inv_def urls_inv_def)

lemma pr_inv_user: "pr_inv (s\<lparr>pr_user := u\<rparr>) = pr_inv s" "pr_inv (s\<lparr>pr_formState := f\<rparr>) = pr_inv s"
  by (simp_all add: pr_inv_def saves_inv_def urls_inv_def)

lemma pr_inv_form: "pr_inv (updateForm f s) = pr_inv s"
  by (simp add: updateForm_def pr_inv_user split: option.split)

lemma pr_inv_crop: "pr_inv s \<Longrightarrow> pr_inv (handleCrop s)"
  by (fastforce simp: handleCrop_def pr_inv_def saves_inv_def urls_inv_def)

text \<open>Between the answer to one request of a save and the next request.\<close>

definition between :: "save_context \<Rightarrow> pr_state \<Rightarrow> bool" where
  "between c s = (pr_inv (s\<lparr>pr_saving := False\<rparr>) \<and> save_choice c
     \<and> (\<forall>n. sv_preview c = Some n \<longrightarrow> n < pr_nextURL s \<and> pr_cropSrc s \<noteq> Some n))"

lemma between_await:
  assumes "between c s" "pr_saving s" "save_of p = Some c" "\<forall>d. p = AwaitRemoval d \<longrightarrow> sv_delete d"
  shows "pr_inv (await p s)"
proof -
  have "captured p = sv_preview c" using assms(3) by (cases p) simp_all
  then show ?thesis using assms by (auto simp: between_def await_def pr_inv_def saves_inv_def urls_inv_def)
qed

lemma between_failed: "between c s \<Longrightarrow> pr_inv (fst (save_failed e s))"
  by (simp add: between_def save_failed_def)

lemma between_stages:
  assumes "between c s" "pr_saving s"
  shows "pr_inv (fst (patch_stage b c s))" "pr_inv (fst (removal_stage b c s))"
  using between_await [OF assms] by (simp_all add: patch_stage_def removal_stage_def)

lemma between_patched:
  assumes "between c s"
  shows "pr_inv (fst (patch_settled c r s))"
proof (cases r)
  case (Inr u)
  let ?t = "s\<lparr>pr_formState := Some (getProfileSource u, getProfileForm u), pr_user := Some u, pr_saving := False\<rparr>"
  have t: "pr_inv ?t" using assms by (simp add: between_def pr_inv_def saves_inv_def urls_inv_def)
  have "pr_inv (await (AwaitImage (sv_preview c)) ?t)" using t assms
    by (auto simp: between_def await_def pr_inv_def saves_inv_def urls_inv_def)
  moreover have "pr_inv (fst (clearPending (sv_preview c) ?t))"
    unfolding clearPending_def by (rule pr_inv_set_avatar [OF t]) (use assms in \<open>simp add: between_def\<close>)
  ultimately show ?thesis by (simp add: Inr patch_settled_def Let_def case_prod_beta)
qed (use between_failed [OF assms] in \<open>simp add: patch_settled_def\<close>)

lemma pr_inv_drop:
  assumes "pr_inv s" "k < length (pr_pending s)" "save_of (pr_pending s ! k) = None"
  shows "pr_inv (pr_drop k s)"
  using assms length_filter_drop_nth [OF assms(2), of "\<lambda>p. save_of p \<noteq> None"]
  by (auto simp: pr_inv_def saves_inv_def urls_inv_def pr_drop_def)

lemma drop_between:
  assumes "pr_inv s" "k < length (pr_pending s)" "save_of (pr_pending s ! k) = Some c"
  shows "between c (pr_drop k s)" "pr_saving (pr_drop k s)"
proof -
  let ?p = "pr_pending s ! k"
  have m: "?p \<in> set (pr_pending s)" by (rule nth_mem [OF assms(2)])
  have cap: "captured ?p = sv_preview c" using assms(3) by (cases ?p) simp_all
  have pos: "0 < length (filter (\<lambda>p. save_of p \<noteq> None) (pr_pending s))"
    by (rule length_filter_nth_pos [OF assms(2)]) (simp add: assms(3))
  then have sv: "pr_saving s" using assms(1) by (auto simp: pr_inv_def saves_inv_def split: if_splits)
  then show "pr_saving (pr_drop k s)" by (simp add: pr_drop_def)
  have none: "length (filter (\<lambda>p. save_of p \<noteq> None) (drop_nth k (pr_pending s))) = 0"
    using length_filter_drop_nth [OF assms(2), of "\<lambda>p. save_of p \<noteq> None"] assms(1,3) sv
    by (simp add: pr_inv_def saves_inv_def)
  have "pr_inv ((pr_drop k s)\<lparr>pr_saving := False\<rparr>)"
    using assms(1) none by (auto simp: pr_inv_def saves_inv_def urls_inv_def pr_drop_def)
  moreover have "save_choice c" using assms(1,3) m by (auto simp: pr_inv_def saves_inv_def)
  moreover have "n < pr_nextURL s \<and> pr_cropSrc s \<noteq> Some n" if "sv_preview c = Some n" for n
    using assms(1) m cap that by (auto simp: pr_inv_def urls_inv_def)
  ultimately show "between c (pr_drop k s)" by (simp add: between_def pr_drop_def)
qed

lemma pr_inv_save:
  assumes "pr_inv s" "\<not> pr_saving s"
  shows "pr_inv (fst (saveProfile b s))"
proof (cases "pr_user s")
  case (Some u)
  let ?c = "\<lparr>sv_avatar = pr_pendingAvatar s, sv_preview = pr_pendingPreview s, sv_delete = pr_pendingDelete s,
    sv_form = shown_form u s\<rparr>"
  let ?t = "s\<lparr>pr_saving := True\<rparr>"
  have "s\<lparr>pr_saving := False\<rparr> = s" using assms(2) by simp
  then have b: "between ?c ?t" using assms(1) by (auto simp: between_def pr_inv_def saves_inv_def urls_inv_def)
  show ?thesis
  proof (cases "pr_pendingAvatar s")
    case None
    with Some between_stages(2) [OF b, of b] show ?thesis by (simp add: saveProfile_def Let_def)
  next
    case (Some x)
    with \<open>pr_user s = Some u\<close> between_await [OF b, of "AwaitUpload ?c"] show ?thesis
      by (simp add: saveProfile_def Let_def)
  qed
qed (simp add: saveProfile_def assms(1))

lemma pr_inv_answer:
  assumes i: "pr_inv s" and k: "k < length (pr_pending s)" and a: "pr_awaits e (pr_pending s ! k)" "answer_at e = Some k"
  shows "pr_inv (pr_next b s e)"
proof (cases "save_of (pr_pending s ! k)")
  case (Some c)
  note d = drop_between [OF i k Some]
  show ?thesis using a Some between_failed [OF d(1)] between_stages [OF d, of b] between_patched [OF d(1)]
    by (cases e; cases "pr_pending s ! k")
      (auto simp: pr_next_def upload_settled_def removal_settled_def split: sum.split)
next
  case None
  note d = pr_inv_drop [OF i k None]
  from a(1) None consider (blob) c p q where "e = BlobReady k c" "pr_pending s ! k = AwaitBlob p q"
    | (image) p where "e = ImageSettled k" "pr_pending s ! k = AwaitImage p"
    using a(2) by (cases e; cases "pr_pending s ! k") auto
  then show ?thesis
  proof cases
    case blob
    with d pr_inv_crop_result [OF d] show ?thesis by (simp add: pr_next_def blob_ready_def split: option.split)
  next
    case image
    have "pr_cropSrc s \<noteq> Some n" if "p = Some n" for n
      using i nth_mem [OF k] image(2) that by (auto simp: pr_inv_def urls_inv_def)
    then show ?thesis using image pr_inv_set_avatar [OF d, of p] by (simp add: pr_next_def clearPending_def pr_drop_def)
  qed
qed

lemma pr_inv_step:
  assumes i: "pr_inv s" and ok: "pr_ok up s e"
  shows "pr_inv (pr_next b s e)"
proof (cases "answer_at e")
  case (Some k)
  with ok have "k < length (pr_pending s)" "pr_awaits e (pr_pending s ! k)" by (simp_all add: pr_ok_def)
  from pr_inv_answer [OF i this Some] show ?thesis .
next
  case None
  have preview: "pr_pendingPreview s = Some n \<Longrightarrow> pr_cropSrc s \<noteq> Some n" for n using i by (simp add: pr_inv_def urls_inv_def)
  show ?thesis
  proof (cases "e = SaveProfile")
    case True
    with ok save_offered [of up s] have "\<not> pr_saving s" by (auto simp: pr_ok_def)
    with True pr_inv_save [OF i] show ?thesis by (simp add: pr_next_def)
  next
    case False
    with None i show ?thesis using pr_inv_set_avatar [OF i preview] pr_inv_crop [OF i]
      by (cases e) (simp_all add: pr_next_def pr_inv_user pr_inv_form pr_inv_select pr_inv_crop_cancel
          handleMarkDeleteAvatar_def handleCancelAvatarChanges_def)
  qed
qed

lemma pr_inv_init: "pr_inv (pr_init u)"
  by (simp add: pr_inv_def saves_inv_def urls_inv_def pr_init_def)

interpretation profile: machine_invariant "pr_init u" "pr_next b" "pr_ok up" pr_inv for u b up
  by unfold_locales (auto intro: pr_inv_init pr_inv_step)

section \<open>Every save ends\<close>

definition save_steps :: "pr_state \<Rightarrow> nat" where
  "save_steps s = sum_list (map save_stage (pr_pending s))"

lemma save_steps_drop: "k < length (pr_pending s) \<Longrightarrow> save_steps (pr_drop k s) = save_steps s - save_stage (pr_pending s ! k)
    \<and> save_stage (pr_pending s ! k) \<le> save_steps s"
proof -
  assume k: "k < length (pr_pending s)"
  have "pr_pending s = take k (pr_pending s) @ pr_pending s ! k # drop (Suc k) (pr_pending s)"
    by (rule id_take_nth_drop [OF k])
  then have "save_steps s = sum_list (map save_stage (take k (pr_pending s))) + save_stage (pr_pending s ! k)
      + sum_list (map save_stage (drop (Suc k) (pr_pending s)))"
    unfolding save_steps_def by (metis (no_types) map_append list.simps(9) sum_list.Cons sum_list_append add.assoc)
  then show ?thesis by (simp add: save_steps_def pr_drop_def drop_nth_def)
qed

lemma stage_pos: "0 < save_stage p \<longleftrightarrow> save_of p \<noteq> None"
  by (cases p) simp_all

lemma saving_iff_steps:
  assumes "pr_inv s"
  shows "pr_saving s \<longleftrightarrow> 0 < save_steps s"
proof -
  have "(0 < sum_list (map save_stage ps)) = (filter (\<lambda>p. save_of p \<noteq> None) ps \<noteq> [])" for ps
    by (induction ps) (auto simp: stage_pos)
  then show ?thesis using assms by (auto simp: save_steps_def pr_inv_def saves_inv_def split: if_splits)
qed

lemma answer_progress:
  assumes "k < length (pr_pending s)" "pr_awaits e (pr_pending s ! k)" "answer_at e = Some k" "0 < save_stage (pr_pending s ! k)"
  shows "save_steps (pr_next b s e) < save_steps s"
proof -
  have add: "save_steps (await p t) = save_steps t + save_stage p" for p t by (simp add: save_steps_def await_def)
  have keep: "save_steps (t\<lparr>pr_saving := x\<rparr>) = save_steps t" "save_steps (t\<lparr>pr_formState := y, pr_user := z\<rparr>) = save_steps t"
    "save_steps (fst (set_avatar_pending r q t)) = save_steps t" for t x y z r q
    by (simp_all add: save_steps_def set_avatar_pending_def)
  from save_steps_drop [OF assms(1)] assms(2-4) show ?thesis
    by (cases e; cases "pr_pending s ! k")
      (auto simp: pr_next_def upload_settled_def removal_settled_def patch_settled_def save_failed_def removal_stage_def
        patch_stage_def clearPending_def add keep Let_def case_prod_beta split: sum.split)
qed

fun save_answer :: "pr_event \<Rightarrow> bool" where
  "save_answer (UploadAnswer k r) = True"
| "save_answer (RemovalAnswer k r) = True"
| "save_answer (PatchAnswer k r) = True"
| "save_answer e = False"

lemma other_events_keep_steps:
  assumes "pr_ok up s e" "pr_saving s" "\<not> save_answer e"
  shows "save_steps (pr_next b s e) = save_steps s"
proof -
  have e: "e \<noteq> SaveProfile" using assms(1,2) save_offered [of up s] by (auto simp: pr_ok_def)
  have keep: "pr_pending t = pr_pending s \<Longrightarrow> save_steps t = save_steps s" for t by (simp add: save_steps_def)
  have zero: "k < length (pr_pending s) \<Longrightarrow> save_stage (pr_pending s ! k) = 0 \<Longrightarrow> pr_pending t = pr_pending (pr_drop k s)
      \<Longrightarrow> save_steps t = save_steps s" for k t
    using save_steps_drop [of k s] by (simp add: save_steps_def)
  show ?thesis
  proof (cases "answer_at e")
    case None
    show ?thesis
    proof (cases "e = CropApply")
      case True
      then show ?thesis by (simp add: pr_next_def handleCrop_def save_steps_def)
    next
      case False
      with None e have "pr_pending (pr_next b s e) = pr_pending s"
        by (cases e) (simp_all add: pr_next_def updateForm_def handleFileSelect_def create_url_def set_avatar_pending_def
            handleMarkDeleteAvatar_def handleCancelAvatarChanges_def handleCropCancel_def Let_def split: option.split)
      then show ?thesis by (rule keep)
    qed
  next
    case (Some k)
    with assms(1) have k: "k < length (pr_pending s)" and a: "pr_awaits e (pr_pending s ! k)" by (simp_all add: pr_ok_def)
    from a Some assms(3) have "save_stage (pr_pending s ! k) = 0" "pr_pending (pr_next b s e) = pr_pending (pr_drop k s)"
      by (cases e; cases "pr_pending s ! k"; simp add: pr_next_def clearPending_def set_avatar_pending_def blob_ready_def
          handleCropResult_def create_url_def Let_def split: option.split)+
    with zero [OF k] show ?thesis by blast
  qed
qed

lemma steps_go_down:
  assumes "pr_ok up s e" "pr_saving s"
  shows "save_steps (pr_next b s e) + (if save_answer e then 1 else 0) \<le> save_steps s"
proof (cases "save_answer e")
  case True
  then obtain k where k: "answer_at e = Some k" by (cases e) simp_all
  with assms(1) have l: "k < length (pr_pending s)" "pr_awaits e (pr_pending s ! k)" by (simp_all add: pr_ok_def)
  with True have "0 < save_stage (pr_pending s ! k)" by (cases e; cases "pr_pending s ! k") simp_all
  from answer_progress [OF l k this, of b] True show ?thesis by simp
qed (use other_events_keep_steps [OF assms] in simp)

lemma saves_end:
  "pr_inv s \<Longrightarrow> possible (pr_next b) (pr_ok up) s es \<Longrightarrow> save_steps s \<le> length (filter save_answer es)
   \<Longrightarrow> \<exists>n\<le>length es. \<not> pr_saving (run (pr_next b) s (take n es))"
proof (induction es arbitrary: s)
  case Nil
  then show ?case using saving_iff_steps [of s] by simp
next
  case (Cons e es)
  show ?case
  proof (cases "pr_saving s")
    case False
    then show ?thesis by (intro exI [of _ 0]) simp
  next
    case True
    from Cons.prems have ok: "pr_ok up s e" by simp
    from steps_go_down [OF ok True, of b] Cons.prems(3)
    have "save_steps (pr_next b s e) \<le> length (filter save_answer es)" by (simp split: if_splits)
    with Cons.IH [of "pr_next b s e"] Cons.prems pr_inv_step [OF _ ok]
    obtain n where "n \<le> length es" "\<not> pr_saving (run (pr_next b) (pr_next b s e) (take n es))" by auto
    then show ?thesis by (intro exI [of _ "Suc n"]) simp
  qed
qed

lemma save_steps_bound:
  assumes "pr_inv s"
  shows "save_steps s \<le> 3"
proof -
  have "sum_list (map save_stage ps) \<le> 3 * length (filter (\<lambda>p. save_of p \<noteq> None) ps)" for ps
  proof (induction ps)
    case (Cons p ps)
    then show ?case by (cases p) simp_all
  qed simp
  then have "save_steps s \<le> 3 * length (filter (\<lambda>p. save_of p \<noteq> None) (pr_pending s))" by (simp only: save_steps_def)
  moreover have "length (filter (\<lambda>p. save_of p \<noteq> None) (pr_pending s)) \<le> 1"
    using assms by (simp add: pr_inv_def saves_inv_def)
  ultimately show ?thesis by linarith
qed

section \<open>A picture nothing can revoke\<close>

text \<open>The object URLs a continuation has captured and may revoke.\<close>

fun held :: "pr_pending \<Rightarrow> nat set" where
  "held (AwaitImage p) = set_option p"
| "held (AwaitBlob p q) = set_option p \<union> set_option q"
| "held (AwaitUpload c) = set_option (sv_preview c)"
| "held (AwaitRemoval c) = set_option (sv_preview c)"
| "held (AwaitPatch c) = set_option (sv_preview c)"

definition abandoned :: "nat \<Rightarrow> pr_state \<Rightarrow> bool" where
  "abandoned n s = (n \<in> set (pr_urls s) \<and> n < pr_nextURL s \<and> pr_pendingPreview s \<noteq> Some n \<and> pr_cropSrc s \<noteq> Some n
     \<and> (\<forall>p\<in>set (pr_pending s). n \<notin> held p))"

lemma revoke_effects_iff [simp]: "RevokeURL n \<in> set (revoke_effects u) \<longleftrightarrow> u = Some n"
  by (auto simp: revoke_effects_def split: option.split)

lemma abandoned_drop: "abandoned n s \<Longrightarrow> abandoned n (pr_drop k s)"
  by (auto simp: abandoned_def pr_drop_def)

lemma abandoned_stages:
  assumes "abandoned n s" "sv_preview c \<noteq> Some n"
  shows "abandoned n (fst (patch_stage b c s))" "abandoned n (fst (removal_stage b c s))"
    "RevokeURL n \<notin> set (snd (patch_stage b c s))" "RevokeURL n \<notin> set (snd (removal_stage b c s))"
  using assms by (auto simp: abandoned_def patch_stage_def removal_stage_def await_def api_def)

lemma abandoned_cleared:
  assumes "abandoned n s" "p \<noteq> Some n"
  shows "abandoned n (fst (set_avatar_pending r p s))" "RevokeURL n \<notin> set (snd (set_avatar_pending r p s))"
  using assms by (auto simp: abandoned_def set_avatar_pending_def)

lemma abandoned_cropped:
  assumes "abandoned n s" "p \<noteq> Some n" "q \<noteq> Some n"
  shows "abandoned n (fst (blob_ready p q c s))" "RevokeURL n \<notin> set (snd (blob_ready p q c s))"
  using assms by (auto simp: abandoned_def blob_ready_def handleCropResult_def create_url_def Let_def split: option.split)

lemma abandoned_saved:
  assumes "abandoned n s" "sv_preview c \<noteq> Some n"
  shows "abandoned n (fst (upload_settled b c r s))" "abandoned n (fst (removal_settled b c r s))"
    "RevokeURL n \<notin> set (snd (upload_settled b c r s))" "RevokeURL n \<notin> set (snd (removal_settled b c r s))"
  using abandoned_stages [OF assms, of b] assms(1)
  by (auto simp: upload_settled_def removal_settled_def save_failed_def failed_toast_def abandoned_def split: sum.split js_error.split)

lemma abandoned_patched:
  assumes "abandoned n s" "sv_preview c \<noteq> Some n"
  shows "abandoned n (fst (patch_settled c r s))" "RevokeURL n \<notin> set (snd (patch_settled c r s))"
  using assms by (auto simp: patch_settled_def clearPending_def set_avatar_pending_def save_failed_def failed_toast_def
      abandoned_def await_def Let_def split: sum.split js_error.split)

lemma abandoned_step:
  assumes "abandoned n s" "pr_ok up s e"
  shows "abandoned n (pr_next b s e) \<and> RevokeURL n \<notin> set (snd (pr_step b s e))"
proof (cases "answer_at e")
  case (Some k)
  with assms(2) have k: "k < length (pr_pending s)" and a: "pr_awaits e (pr_pending s ! k)" by (simp_all add: pr_ok_def)
  have h: "n \<notin> held (pr_pending s ! k)" using assms(1) nth_mem [OF k] by (simp add: abandoned_def)
  note d = abandoned_drop [OF assms(1), of k]
  show ?thesis
    using a h Some abandoned_saved [OF d, of _ b] abandoned_patched [OF d] abandoned_cropped [OF d] abandoned_cleared [OF d]
    by (cases e; cases "pr_pending s ! k") (auto simp: pr_next_def clearPending_def)
next
  case None
  have p: "pr_pendingPreview s \<noteq> Some n" "pr_cropSrc s \<noteq> Some n" using assms(1) by (simp_all add: abandoned_def)
  from None assms(1) abandoned_cleared [OF assms(1) p(1)] show ?thesis
    by (cases e) (auto simp: pr_next_def abandoned_def updateForm_def handleFileSelect_def create_url_def handleCrop_def
        handleMarkDeleteAvatar_def handleCancelAvatarChanges_def handleCropCancel_def saveProfile_def removal_stage_def
        patch_stage_def await_def api_def Let_def split: option.split)
qed

lemma abandoned_run:
  "abandoned n s \<Longrightarrow> possible (pr_next b) (pr_ok up) s es \<Longrightarrow> abandoned n (run (pr_next b) s es)"
  by (induction es arbitrary: s) (auto dest: abandoned_step)

lemma never_revoked:
  assumes "abandoned n s" "possible (pr_next b) (pr_ok up) s (es @ [e])"
  shows "RevokeURL n \<notin> set (snd (pr_step b (run (pr_next b) s es) e))"
  using assms by (induction es arbitrary: s) (auto dest: abandoned_step)

section \<open>Events that can happen\<close>

lemma file_ok: "pr_user s \<noteq> None \<Longrightarrow> pr_ok up s (FileSelected f)"
  by (simp add: pr_ok_def)

lemma save_ok: "pr_user s \<noteq> None \<Longrightarrow> \<not> pr_saving s \<Longrightarrow> pr_ok up s SaveProfile"
  using save_offered [of up s] by (simp add: pr_ok_def)

lemma crop_ok: "pr_user s \<noteq> None \<Longrightarrow> pr_cropSrc s = Some n \<Longrightarrow> pr_cropOpen s \<Longrightarrow> pr_ok up s CropApply"
  unfolding pr_ok_def profile_offers profile_acts by (auto simp: crop_dialog_acts)

lemma answer_ok: "answer_at e = Some k \<Longrightarrow> k < length (pr_pending s) \<Longrightarrow> pr_awaits e (pr_pending s ! k) \<Longrightarrow> pr_ok up s e"
  by (simp add: pr_ok_def)

lemmas event_ok = file_ok save_ok crop_ok answer_ok

end
