(* ===== verification/AuditLog.thy ===== *)
theory AuditLog
  imports Session
begin

text \<open>
  The audit log (\<open>app/dashboard/audit-log/page.tsx\<close>): a read-only list with a delayed search, a filter
  and pages. Every request has a flag that the cleanup of its effect clears; an answer whose flag is
  cleared is dropped.
\<close>

section \<open>Labels\<close>

definition ACTION_OPTIONS :: "(string \<times> string) list" where
  "ACTION_OPTIONS =
     [(''all'', ''Semua aktivitas''),
      (''backup.requested'', ''Meminta backup database''),
      (''backup.completed'', ''Backup database berhasil''),
      (''backup.failed'', ''Backup database gagal''),
      (''backup.downloaded'', ''Otorisasi unduhan backup''),
      (''backup.pruned'', ''Retensi backup database''),
      (''user.register'', ''Registrasi pengguna''),
      (''email.verify'', ''Verifikasi email''),
      (''auth.login'', ''Login''),
      (''auth.login_failed'', ''Login gagal''),
      (''auth.logout'', ''Logout''),
      (''user.status_update'', ''Perubahan status akun''),
      (''user.role_update'', ''Perubahan role''),
      (''user.profile_update'', ''Perubahan profil''),
      (''user.password_update'', ''Perubahan kata sandi''),
      (''oauth.client_create'', ''Pembuatan aplikasi OAuth''),
      (''oauth.client_delete'', ''Penghapusan aplikasi OAuth''),
      (''oauth.client_secret_regenerate'', ''Regenerate client secret''),
      (''oauth.client_update'', ''Memperbarui aplikasi''),
      (''oauth.client_assignment_update'', ''Memperbarui akses aplikasi''),
      (''oauth.client_assignment_delete'', ''Mencabut akses aplikasi''),
      (''user.delete'', ''Menghapus pengguna''),
      (''oauth.consent'', ''Persetujuan OAuth''),
      (''oauth.grant'', ''Pemberian akses OAuth''),
      (''oauth.token_revoke'', ''Pencabutan token OAuth''),
      (''oauth.connection_revoke'', ''Pencabutan koneksi OAuth'')]"

text \<open>
  \<open>actionLabels[action]\<close> for the own keys of the object; else each run of dots, underscores and hyphens
  becomes a space.
\<close>

definition separator :: "unit16 \<Rightarrow> bool" where
  "separator u = (u \<in> {46, 95, 45})"

function spaced :: "jstr \<Rightarrow> jstr" where
  "spaced [] = []"
| "spaced (u # us) = (if separator u then 32 # spaced (dropWhile separator us) else u # spaced us)"
  by pat_completeness auto

termination
  by (relation "measure length") (auto simp: le_imp_less_Suc length_dropWhile_le)

definition actionLabel :: "jstr \<Rightarrow> jstr" where
  "actionLabel action =
     (case map_of (map (\<lambda>(v, l). (js v, js l)) ACTION_OPTIONS) action of
        Some l \<Rightarrow> l | None \<Rightarrow> spaced action)"

record audit_log =
  lg_id :: jstr
  lg_actor_name :: "jstr option"
  lg_actor_email :: "jstr option"
  lg_action :: jstr
  lg_target_type :: jstr
  lg_target_id :: "jstr option"
  lg_description :: jstr
  lg_ip_address :: jstr
  lg_device :: jstr
  lg_latitude :: "rat option"
  lg_longitude :: "rat option"
  lg_accuracy :: "rat option"
  lg_created_at :: jstr

definition actorLabel :: "audit_log \<Rightarrow> jstr" where
  "actorLabel l =
     (if truthy (lg_actor_name l) then the (lg_actor_name l)
      else if truthy (lg_actor_email l) then the (lg_actor_email l) else js ''Sistem'')"

text \<open>\<open>x.toFixed(6)\<close> (below \<open>10^21\<close>, as coordinates are) and \<open>Math.round(x)\<close>.\<close>

definition to_fixed6 :: "rat \<Rightarrow> jstr" where
  "to_fixed6 x =
     (let n = nat \<lfloor>\<bar>x\<bar> * 1000000 + 1 / 2\<rfloor>; f = nat_str (n mod 1000000)
      in (if x < 0 then [45] else []) @ nat_str (n div 1000000) @ [46] @ replicate (6 - length f) 48 @ f)"

definition math_round :: "rat \<Rightarrow> int" where
  "math_round x = \<lfloor>x + 1 / 2\<rfloor>"

definition locationLabel :: "audit_log \<Rightarrow> jstr" where
  "locationLabel l =
     (case (lg_latitude l, lg_longitude l) of
        (Some lat, Some lon) \<Rightarrow>
          to_fixed6 lat @ js '', '' @ to_fixed6 lon
          @ (case lg_accuracy l of None \<Rightarrow> [] | Some a \<Rightarrow> js '' ('' @ [0xB1] @ int_str (math_round a) @ js '' m)'')
      | _ \<Rightarrow> dash)"

section \<open>State\<close>

record logs_response =
  lr_logs :: "audit_log list option"
  lr_total :: "int option"
  lr_total_pages :: "int option"

text \<open>A request under way: the page it captured, and whether its effect is still the current one.\<close>

datatype al_pending = AwaitLogs int bool

record al_state =
  al_user :: "user option"
  al_logs :: "audit_log list"
  al_loading :: bool
  al_search :: jstr
  al_debouncedSearch :: jstr
  al_action :: jstr
  al_page :: int
  al_total :: int
  al_totalPages :: int
  al_selectedLog :: "audit_log option"
  al_timer :: "jstr option"
  al_pending :: "al_pending list"

datatype al_event =
    AlUser "user option"
  | AlSearch jstr
  | AlTimer
  | SelectAction jstr
  | AlPageChange int
  | ShowDetail audit_log
  | CloseDetail
  | LogsAnswer nat "js_error + logs_response"

type_synonym al_result = "al_state \<times> effect list"

definition logs_query :: "al_state \<Rightarrow> query" where
  "logs_query s =
     (let q0 = [(js ''page'', int_str (al_page s)), (js ''page_size'', int_str 20)];
          q1 = (if al_debouncedSearch s \<noteq> [] then query_set ''search'' (al_debouncedSearch s) q0 else q0)
      in if al_action s \<noteq> js ''all'' then query_set ''action'' (al_action s) q1 else q1)"

fun deactivate :: "al_pending \<Rightarrow> al_pending" where
  "deactivate (AwaitLogs p active) = AwaitLogs p False"

definition is_super_admin :: "user option \<Rightarrow> bool" where
  "is_super_admin u = (map_option u_role u = Some SuperAdmin)"

text \<open>The effect with its cleanup, and the rule that runs it when a dependency has changed.\<close>

definition al_load :: "browser \<Rightarrow> al_state \<Rightarrow> al_result" where
  "al_load b s =
     (let s' = s\<lparr>al_pending := map deactivate (al_pending s)\<rparr>
      in if \<not> is_super_admin (al_user s') then (s', [])
         else (s'\<lparr>al_pending := al_pending s' @ [AwaitLogs (al_page s') True]\<rparr>,
               [api b (js ''/api/admin/audit-logs?'' @ query_string (logs_query s')) get]))"

definition al_deps :: "al_state \<Rightarrow> jstr \<times> jstr \<times> int \<times> role option" where
  "al_deps s = (al_action s, al_debouncedSearch s, al_page s, map_option u_role (al_user s))"

definition al_update :: "browser \<Rightarrow> al_state \<Rightarrow> al_state \<Rightarrow> al_result" where
  "al_update b old s = (if al_deps s \<noteq> al_deps old then al_load b s else (s, []))"

definition al_init :: "browser \<Rightarrow> user option \<Rightarrow> al_result" where
  "al_init b u = al_load b \<lparr>al_user = u, al_logs = [], al_loading = True, al_search = [], al_debouncedSearch = [],
     al_action = js ''all'', al_page = 1, al_total = 0, al_totalPages = 1, al_selectedLog = None, al_timer = Some [],
     al_pending = []\<rparr>"

text \<open>Typing marks the list as loading; the timer captures the text it was armed with.\<close>

definition al_type :: "jstr \<Rightarrow> al_state \<Rightarrow> al_state" where
  "al_type v s =
     (let s' = s\<lparr>al_loading := True\<rparr> in if v = al_search s then s' else s'\<lparr>al_search := v, al_timer := Some v\<rparr>)"

definition al_timer_fires :: "browser \<Rightarrow> al_state \<Rightarrow> al_result" where
  "al_timer_fires b s =
     (case al_timer s of
        None \<Rightarrow> (s, [])
      | Some captured \<Rightarrow>
          al_update b s (s\<lparr>al_timer := None, al_debouncedSearch := trim captured, al_page := 1\<rparr>))"

definition logs_settled :: "browser \<Rightarrow> int \<Rightarrow> bool \<Rightarrow> js_error + logs_response \<Rightarrow> al_state \<Rightarrow> al_result" where
  "logs_settled b page active r s =
     (if \<not> active then (s, [])
      else case r of
        Inl e \<Rightarrow> (s\<lparr>al_loading := False\<rparr>, failed_toast e)
      | Inr data \<Rightarrow>
          (let nextTotalPages = max 1 (case lr_total_pages data of Some n \<Rightarrow> n | None \<Rightarrow> 1);
               s' = s\<lparr>al_logs := (case lr_logs data of Some l \<Rightarrow> l | None \<Rightarrow> []),
                      al_total := (case lr_total data of Some n \<Rightarrow> n | None \<Rightarrow> 0),
                      al_totalPages := nextTotalPages, al_loading := False\<rparr>
           in al_update b s (if page > nextTotalPages then s'\<lparr>al_page := nextTotalPages\<rparr> else s')))"

definition al_drop :: "nat \<Rightarrow> al_state \<Rightarrow> al_state" where
  "al_drop k s = s\<lparr>al_pending := drop_nth k (al_pending s)\<rparr>"

fun al_step :: "browser \<Rightarrow> al_state \<Rightarrow> al_event \<Rightarrow> al_result" where
  "al_step b s (AlUser u) = al_update b s (s\<lparr>al_user := u\<rparr>)"
| "al_step b s (AlSearch v) = (al_type v s, [])"
| "al_step b s AlTimer = al_timer_fires b s"
| "al_step b s (SelectAction v) = al_update b s (s\<lparr>al_loading := True, al_action := v, al_page := 1\<rparr>)"
| "al_step b s (AlPageChange p) = al_update b s (s\<lparr>al_loading := True, al_page := p\<rparr>)"
| "al_step b s (ShowDetail l) = (s\<lparr>al_selectedLog := Some l\<rparr>, [])"
| "al_step b s CloseDetail = (s\<lparr>al_selectedLog := None\<rparr>, [])"
| "al_step b s (LogsAnswer k r) =
     (case al_pending s ! k of AwaitLogs p active \<Rightarrow> logs_settled b p active r (al_drop k s))"

section \<open>The rendered page\<close>

definition or_dash :: "jstr \<Rightarrow> jstr" where
  "or_dash v = (if v = [] then dash else v)"

definition dot :: jstr where
  "dot = js '' '' @ [0xB7] @ js '' ''"

definition full_actor :: "audit_log \<Rightarrow> bool" where
  "full_actor l = (truthy (lg_actor_name l) \<and> truthy (lg_actor_email l))"

definition detail_button :: "audit_log \<Rightarrow> al_event node" where
  "detail_button l = El ''Button'' [Attr ''variant'' (js ''outline''), Attr ''size'' (js ''sm''), OnClick (ShowDetail l)]
     [lit ''Lihat detail'']"

definition AuditTableRow :: "date_formats \<Rightarrow> audit_log \<Rightarrow> al_event node" where
  "AuditTableRow d l =
     El ''TableRow'' [Attr ''key'' (lg_id l)]
      [El ''TableCell'' [] [Txt (formatJakartaDateTime d (Some (lg_created_at l)) dash)],
       El ''TableCell'' [] (El ''p'' [] [Txt (actorLabel l)]
         # show_if (full_actor l) [El ''p'' [] [Txt (the (lg_actor_email l))]]),
       El ''TableCell'' [] [El ''Badge'' [Attr ''variant'' (js ''secondary'')] [Txt (actionLabel (lg_action l))]],
       El ''TableCell'' [] [El ''p'' [] [Txt (or_dash (lg_description l))]],
       El ''TableCell'' [] [detail_button l]]"

definition AuditMobileCard :: "date_formats \<Rightarrow> audit_log \<Rightarrow> al_event node" where
  "AuditMobileCard d l =
     El ''article'' [Attr ''key'' (lg_id l)]
      [El ''div'' [] [El ''Badge'' [Attr ''variant'' (js ''secondary'')] [Txt (actionLabel (lg_action l))],
         El ''span'' [] [El ''Clock3'' [] [], Txt (formatJakartaDateTime d (Some (lg_created_at l)) dash)]],
       El ''p'' [] [Txt (or_dash (lg_description l))],
       El ''dl'' [] [El ''div'' [] [El ''UserRound'' [] [], El ''dt'' [] [lit ''Aktor''],
         El ''dd'' [] [Txt (actorLabel l), Txt (if full_actor l then dot @ the (lg_actor_email l) else [])]]],
       detail_button l]"

definition AuditDetail :: "string \<Rightarrow> jstr \<Rightarrow> string \<Rightarrow> 'e node" where
  "AuditDetail name value icon =
     El ''div'' [] [El ''dt'' [] [El ''span'' [] [El icon [] []], lit name], El ''dd'' [] [Txt value]]"

definition AuditDetailDialog :: "date_formats \<Rightarrow> audit_log option \<Rightarrow> al_event node list" where
  "AuditDetailDialog d selected =
     (case selected of
        None \<Rightarrow> []
      | Some l \<Rightarrow>
         [El ''Dialog'' [Flag ''open'' True, OnClick CloseDetail]
           [El ''DialogContent'' []
             [El ''DialogHeader'' [] [El ''DialogTitle'' [] [lit ''Detail audit log''],
                El ''DialogDescription'' [] [Txt (actionLabel (lg_action l)), Txt dot,
                  Txt (formatJakartaDateTime d (Some (lg_created_at l)) dash)]],
              El ''dl'' []
               [AuditDetail ''Aktor'' (if full_actor l then the (lg_actor_name l) @ dot @ the (lg_actor_email l) else actorLabel l) ''UserRound'',
                AuditDetail ''Alamat IP'' (or_dash (lg_ip_address l)) ''Globe2'',
                AuditDetail ''Target'' ((if lg_target_type l = [] then js ''sistem'' else lg_target_type l)
                   @ (if truthy (lg_target_id l) then dot @ the (lg_target_id l) else [])) ''Activity'',
                AuditDetail ''Lokasi'' (locationLabel l) ''MapPin'',
                El ''div'' [] [AuditDetail ''Perangkat'' (or_dash (lg_device l)) ''MonitorSmartphone''],
                El ''div'' [] [AuditDetail ''Keterangan'' (or_dash (lg_description l)) ''Clock3'']]]]])"

definition logs_list :: "date_formats \<Rightarrow> al_state \<Rightarrow> al_event node list" where
  "logs_list d s =
     (if al_loading s then [El ''div'' [] (map (\<lambda>i. El ''Skeleton'' [Num ''key'' i] []) [1, 2, 3, 4, 5])]
      else if al_logs s = [] then [empty_box ''Activity'' ''Aktivitas tidak ditemukan''
        ''Coba hapus filter atau gunakan kata kunci pencarian lain.'']
      else [El ''div'' [] [El ''Table'' []
             [El ''TableHeader'' [] [El ''TableRow'' [] (map (\<lambda>t. El ''TableHead'' [] [lit t])
                [''Waktu'', ''Aktor'', ''Aktivitas'', ''Ringkasan'', ''Detail''])],
              El ''TableBody'' [] (map (AuditTableRow d) (al_logs s))]],
            El ''div'' [] (map (AuditMobileCard d) (al_logs s))])"

definition AuditLogPage :: "date_formats \<Rightarrow> al_state \<Rightarrow> al_event node" where
  "AuditLogPage d s =
     (if \<not> is_super_admin (al_user s)
      then alert [El ''ShieldAlert'' [] [], El ''AlertTitle'' [] [lit ''Akses ditolak''],
        El ''AlertDescription'' [] [lit ''Audit log hanya tersedia untuk super admin.'']]
      else El ''div'' []
       ([page_header ''Audit log'' ''Telusuri aktivitas keamanan dan perubahan administratif pada PelajarNU Magetan ID.'' [],
         El ''Card'' []
          ([El ''CardHeader'' []
             [El ''div'' [] [El ''CardTitle'' [] [lit ''Riwayat aktivitas''],
                El ''CardDescription'' [] [lit ''Catatan bersifat hanya-baca dan diurutkan dari aktivitas terbaru.'']],
              El ''div'' []
               [El ''div'' [] [El ''Search'' [] [], El ''Input'' [Attr ''value'' (al_search s), OnInput AlSearch,
                  Attr ''placeholder'' (js ''Cari aktor, target, IP, atau deskripsi...''),
                  Attr ''aria-label'' (js ''Cari audit log'')] []],
                El ''Select'' [Attr ''value'' (al_action s)]
                 [El ''SelectTrigger'' [Attr ''aria-label'' (js ''Filter jenis aktivitas'')]
                    [El ''Filter'' [] [], El ''SelectValue'' [Attr ''placeholder'' (js ''Semua aktivitas'')] []],
                  El ''SelectContent'' [Attr ''position'' (js ''popper''), Attr ''align'' (js ''end'')]
                   (map (\<lambda>(v, l). El ''SelectItem'' [Attr ''key'' (js v), Attr ''value'' (js v), OnClick (SelectAction (js v))] [lit l])
                      ACTION_OPTIONS)]]],
            El ''CardContent'' [] (logs_list d s)]
           @ show_if (\<not> al_loading s \<and> al_logs s \<noteq> [])
               [DataPagination (al_page s) (al_totalPages s) (al_total s) ''aktivitas'' AlPageChange])]
        @ AuditDetailDialog d (al_selectedLog s)))"

text \<open>The select reports only a changed value.\<close>

definition al_ok :: "date_formats \<Rightarrow> al_state \<Rightarrow> al_event \<Rightarrow> bool" where
  "al_ok d s e =
     (case e of
        AlUser u \<Rightarrow> True
      | AlTimer \<Rightarrow> al_timer s \<noteq> None
      | LogsAnswer k r \<Rightarrow> k < length (al_pending s)
      | SelectAction v \<Rightarrow> v \<noteq> al_action s \<and> offers (AuditLogPage d s) (SelectAction v)
      | _ \<Rightarrow> offers (AuditLogPage d s) e)"

definition al_next :: "browser \<Rightarrow> al_state \<Rightarrow> al_event \<Rightarrow> al_state" where
  "al_next b s e = fst (al_step b s e)"

section \<open>Labels\<close>

lemma spaced_no_separator: "u \<in> set (spaced s) \<Longrightarrow> \<not> separator u"
  by (induction s rule: spaced.induct) (auto simp: separator_def split: if_splits)

lemma spaced_fixed: "(\<forall>u\<in>set s. \<not> separator u) \<Longrightarrow> spaced s = s"
  by (induction s rule: spaced.induct) auto

section \<open>What the page offers\<close>

lemma log_rows_acts [simp]:
  "acts (AuditTableRow d l) = [Fire (ShowDetail l)]" "acts (AuditMobileCard d l) = [Fire (ShowDetail l)]"
  "acts (AuditDetail n v i) = []"
  by (simp_all add: AuditTableRow_def AuditMobileCard_def AuditDetail_def detail_button_def show_if_def)

lemma detail_dialog_acts:
  "(\<exists>n\<in>set (AuditDetailDialog d sel). a \<in> set (acts n)) \<longleftrightarrow> sel \<noteq> None \<and> a = Fire CloseDetail"
  by (cases sel) (simp_all add: AuditDetailDialog_def)

lemma logs_list_acts:
  "(\<exists>n\<in>set (logs_list d s). a \<in> set (acts n)) \<longleftrightarrow> \<not> al_loading s \<and> (\<exists>l\<in>set (al_logs s). a = Fire (ShowDetail l))"
  by (cases "al_loading s"; cases "al_logs s = []") (auto simp: logs_list_def empty_box_def)

lemma plain_header_acts [simp]: "acts (page_header t x []) = []"
  by (simp add: page_header_def show_if_def)

lemma audit_acts:
  "a \<in> set (acts (AuditLogPage d s)) \<longleftrightarrow> is_super_admin (al_user s) \<and>
     (a = Type AlSearch \<or> (\<exists>(v, l)\<in>set ACTION_OPTIONS. a = Fire (SelectAction (js v)))
      \<or> \<not> al_loading s \<and> (\<exists>l\<in>set (al_logs s). a = Fire (ShowDetail l))
      \<or> \<not> al_loading s \<and> al_logs s \<noteq> [] \<and> a \<in> set (acts (DataPagination (al_page s) (al_totalPages s) (al_total s) ''aktivitas'' AlPageChange))
      \<or> al_selectedLog s \<noteq> None \<and> a = Fire CloseDetail)"
proof (cases "is_super_admin (al_user s)")
  case True
  have options: "concat (map (\<lambda>x. acts (case x of (v, l) \<Rightarrow> El ''SelectItem'' [Attr ''key'' (js v), Attr ''value'' (js v),
      OnClick (SelectAction (js v))] [lit l])) xs) = map (\<lambda>(v, l). Fire (SelectAction (js v))) xs" for xs
    by (induction xs) auto
  show ?thesis using True logs_list_acts [of d s a] detail_dialog_acts [of d "al_selectedLog s" a]
    by (auto simp: AuditLogPage_def options o_def)
qed (simp add: AuditLogPage_def alert_def)

lemma page_change_offered:
  assumes "offers (AuditLogPage d s) (AlPageChange p)" "1 \<le> al_page s" "al_page s \<le> al_totalPages s"
  shows "1 \<le> p \<and> p \<le> al_totalPages s"
proof -
  from assms(1) have "offers (DataPagination (al_page s) (al_totalPages s) (al_total s) ''aktivitas'' AlPageChange) (AlPageChange p)"
    by (auto simp: offers_iff audit_acts pagination_types)
  from pagination_offers_range [OF assms(2) _ this] assms(2,3) show ?thesis by auto
qed

section \<open>Invariant\<close>

fun active_request :: "al_pending \<Rightarrow> bool" where
  "active_request (AwaitLogs p a) = a"

definition al_inv :: "al_state \<Rightarrow> bool" where
  "al_inv s = (1 \<le> al_page s \<and> al_page s \<le> al_totalPages s
     \<and> (\<forall>p. AwaitLogs p True \<in> set (al_pending s) \<longrightarrow> p = al_page s)
     \<and> length (filter active_request (al_pending s)) \<le> 1)"

lemma deactivated [simp]: "active_request (deactivate p) = False" "deactivate p \<noteq> AwaitLogs q True"
  by (cases p; simp)+

lemma filter_deactivated [simp]: "filter active_request (map deactivate ps) = []"
  by (induction ps) simp_all

lemma deactivated_notin [simp]: "AwaitLogs p True \<notin> deactivate ` S"
  by (auto simp: image_iff) (metis deactivated(2))

lemma al_inv_load: "1 \<le> al_page s \<Longrightarrow> al_page s \<le> al_totalPages s \<Longrightarrow> al_inv (fst (al_load b s))"
  by (simp add: al_inv_def al_load_def Let_def)

lemma al_inv_update:
  assumes "al_inv old" "1 \<le> al_page s" "al_page s \<le> al_totalPages s" "al_pending s = al_pending old"
  shows "al_inv (fst (al_update b old s))"
proof (cases "al_deps s = al_deps old")
  case True
  then have "al_page s = al_page old" by (simp add: al_deps_def)
  with True assms show ?thesis by (simp add: al_update_def al_inv_def)
qed (use al_inv_load assms(2,3) in \<open>simp add: al_update_def\<close>)

lemma al_inv_drop: "al_inv s \<Longrightarrow> al_inv (al_drop k s)"
proof -
  have "length (filter P (drop_nth k ps)) \<le> length (filter P ps)" for P and ps :: "al_pending list"
    by (cases "k < length ps") (simp_all add: length_filter_drop_nth, simp add: drop_nth_def)
  from this [of active_request "al_pending s"] show "al_inv s \<Longrightarrow> al_inv (al_drop k s)"
    by (auto simp: al_inv_def al_drop_def)
qed

lemma drop_leaves_none:
  assumes "al_inv s" "k < length (al_pending s)" "al_pending s ! k = AwaitLogs p True"
  shows "filter active_request (al_pending (al_drop k s)) = [] \<and> p = al_page s"
proof -
  have "length (filter active_request (drop_nth k (al_pending s))) = 0"
    using length_filter_drop_nth [OF assms(2), of active_request] assms(1,3) by (simp add: al_inv_def)
  moreover have "p = al_page s" using assms nth_mem [OF assms(2)] by (auto simp: al_inv_def)
  ultimately show ?thesis by (simp add: al_drop_def)
qed

lemma al_inv_answer:
  assumes "al_inv s" "k < length (al_pending s)" "al_pending s ! k = AwaitLogs p active"
  shows "al_inv (fst (logs_settled b p active r (al_drop k s)))"
proof (cases active)
  case True
  with drop_leaves_none assms have none: "filter active_request (al_pending (al_drop k s)) = []" and p: "p = al_page s"
    by auto
  have no: "AwaitLogs q True \<notin> set (al_pending (al_drop k s))" for q
    using none by (auto simp: filter_empty_conv)
  have page: "1 \<le> al_page s" using assms(1) by (simp add: al_inv_def)
  define t where "t = al_drop k s"
  have t: "al_page t = al_page s" by (simp add: t_def al_drop_def)
  show ?thesis
  proof (cases r)
    case (Inl e)
    then show ?thesis using True al_inv_drop [OF assms(1), of k] by (simp add: logs_settled_def al_inv_def)
  next
    case (Inr data)
    define m where "m = max 1 (case lr_total_pages data of Some n \<Rightarrow> n | None \<Rightarrow> 1)"
    have m: "1 \<le> m" by (simp add: m_def)
    let ?s = "t\<lparr>al_logs := (case lr_logs data of Some l \<Rightarrow> l | None \<Rightarrow> []),
      al_total := (case lr_total data of Some n \<Rightarrow> n | None \<Rightarrow> 0), al_totalPages := m, al_loading := False\<rparr>"
    have "al_inv (fst (al_load b (?s\<lparr>al_page := m\<rparr>)))" by (rule al_inv_load) (simp_all add: m)
    moreover have "al_inv ?s" if "al_page s \<le> m"
      using that no none page t by (simp add: al_inv_def t_def [symmetric])
    ultimately show ?thesis using True Inr p t
      by (auto simp: logs_settled_def al_update_def al_deps_def Let_def m_def [symmetric] t_def [symmetric] not_less)
  qed
qed (use al_inv_drop [OF assms(1), of k] in \<open>simp add: logs_settled_def\<close>)

lemma al_inv_step:
  assumes i: "al_inv s" and ok: "al_ok d s e"
  shows "al_inv (al_next b s e)"
proof -
  have r: "1 \<le> al_page s" "al_page s \<le> al_totalPages s" using i by (simp_all add: al_inv_def)
  note up = al_inv_update [OF i, where b = b]
  show ?thesis
  proof (cases e)
    case (LogsAnswer k x)
    obtain p a where p: "al_pending s ! k = AwaitLogs p a" by (cases "al_pending s ! k") simp
    with ok LogsAnswer al_inv_answer [OF i _ p, of b x] show ?thesis by (simp add: al_next_def al_ok_def)
  next
    case (AlPageChange p)
    with ok page_change_offered [OF _ r] have "1 \<le> p \<and> p \<le> al_totalPages s" by (simp add: al_ok_def)
    with AlPageChange up show ?thesis by (simp add: al_next_def)
  next
    case AlTimer
    with up r i show ?thesis by (simp add: al_next_def al_timer_fires_def split: option.split)
  qed (use i r up in \<open>simp_all add: al_next_def al_type_def Let_def\<close>, simp_all add: al_inv_def)
qed

lemma al_inv_init: "al_inv (fst (al_init b u))"
  unfolding al_init_def by (rule al_inv_load) simp_all

interpretation audit: machine_invariant "fst (al_init b u)" "al_next b" "al_ok d" al_inv for b u d
  by unfold_locales (auto intro: al_inv_init al_inv_step)

section \<open>Further facts\<close>

text \<open>On the first page, with the list loaded and nothing under way, typing a text that differs from the
  present one only by spaces at its ends marks the list as loading; the timer then changes nothing the
  request depends on, so no request is sent and none is awaited: the list stays hidden behind its
  loading boxes until something else is searched, filtered or paged.\<close>

lemma audit_same_search_sticks:
  assumes "is_super_admin (al_user s)" and "al_page s = 1" and "al_pending s = []"
    and "v \<noteq> al_search s" and "trim v = al_debouncedSearch s"
  shows "let t = run (al_next b) s [AlSearch v, AlTimer]
    in possible (al_next b) (al_ok d) s [AlSearch v, AlTimer] \<and> snd (al_step b (al_next b s (AlSearch v)) AlTimer) = []
      \<and> al_loading t \<and> al_pending t = [] \<and> al_timer t = None
      \<and> logs_list d t = [El ''div'' [] (map (\<lambda>i. El ''Skeleton'' [Num ''key'' i] []) [1, 2, 3, 4, 5])]"
proof -
  let ?s1 = "s\<lparr>al_loading := True, al_search := v, al_timer := Some v\<rparr>"
  have s1: "al_next b s (AlSearch v) = ?s1" using assms(4) by (simp add: al_next_def al_type_def)
  have step: "al_step b ?s1 AlTimer = (?s1\<lparr>al_timer := None, al_debouncedSearch := trim v, al_page := 1\<rparr>, [])"
    using assms(2,5) by (simp add: al_timer_fires_def al_update_def al_deps_def)
  have "offers (AuditLogPage d s) (AlSearch v)" using assms(1) by (auto simp: offers_iff audit_acts)
  then show ?thesis using assms(3) step by (simp add: Let_def s1 al_next_def [of b ?s1] al_ok_def logs_list_def)
qed

end
