(* ===== verification/AppDetail.thy ===== *)
theory AppDetail
  imports Applications Users
begin

text \<open>
  The page of one OAuth application (\<open>app/dashboard/aplikasi/[id]/application-detail.tsx\<close>): the
  client, the numbered and aborted requests for its assigned users, and the revocation of an
  assignment, whose continuation works with the list, the total and the page of the moment it was
  confirmed.
\<close>

section \<open>State\<close>

text \<open>A revocation under way holds what its continuation captured: \<open>assignments.length\<close>, \<open>total\<close>, \<open>page\<close>.\<close>

datatype ad_pending =
    AwaitAssignments nat bool
  | AwaitRevoke oauth_client_assignment int int int
  | AwaitCopied

record ad_state =
  ad_client :: "oauth_client option"
  ad_assignments :: "oauth_client_assignment list"
  ad_loading :: bool
  ad_errorMessage :: jstr
  ad_search :: jstr
  ad_debouncedSearch :: jstr
  ad_page :: int
  ad_total :: int
  ad_totalPages :: int
  ad_reloadKey :: nat
  ad_revokingUserID :: "jstr option"
  ad_latestRequest :: nat
  ad_timer :: "jstr option"
  ad_pending :: "ad_pending list"

datatype ad_event =
    AdSearch jstr
  | AdTimer
  | AdPageChange int
  | AdRetry
  | AdCopy jstr
  | AdRevoke oauth_client_assignment
  | AssignmentsAnswer nat "js_error + client_assignments_response"
  | RevokeAnswer nat "js_error + unit"
  | AdCopyAnswer nat bool

type_synonym ad_result = "ad_state \<times> effect list"

section \<open>The list\<close>

definition assignments_query :: "int \<Rightarrow> jstr \<Rightarrow> query" where
  "assignments_query page debouncedSearch =
     (let query = [(js ''page'', int_str page), (js ''page_size'', int_str 20)]
      in if debouncedSearch \<noteq> [] then query_set ''search'' debouncedSearch query else query)"

fun abort_list :: "ad_pending \<Rightarrow> ad_pending" where
  "abort_list (AwaitAssignments n ab) = AwaitAssignments n True"
| "abort_list p = p"

text \<open>
  The effect with its cleanup. An identifier that \<open>encodeURIComponent\<close> refuses throws after the number
  is taken and before the request.
\<close>

definition ad_load :: "browser \<Rightarrow> jstr \<Rightarrow> ad_state \<Rightarrow> ad_result" where
  "ad_load b clientID s =
     (let requestID = Suc (ad_latestRequest s);
          s' = s\<lparr>ad_latestRequest := requestID, ad_pending := map abort_list (ad_pending s)\<rparr>
      in case client_path clientID of
           None \<Rightarrow> (s', [])
         | Some p \<Rightarrow> (s'\<lparr>ad_pending := ad_pending s' @ [AwaitAssignments requestID False]\<rparr>,
             [api b (p @ js ''/assignments?'' @ query_string (assignments_query (ad_page s') (ad_debouncedSearch s')))
                (with_signal get)]))"

definition ad_set_page :: "browser \<Rightarrow> jstr \<Rightarrow> int \<Rightarrow> ad_state \<Rightarrow> ad_result" where
  "ad_set_page b clientID p s = (if p = ad_page s then (s, []) else ad_load b clientID (s\<lparr>ad_page := p\<rparr>))"

definition ad_reload :: "browser \<Rightarrow> jstr \<Rightarrow> ad_state \<Rightarrow> ad_result" where
  "ad_reload b clientID s = ad_load b clientID (s\<lparr>ad_reloadKey := Suc (ad_reloadKey s)\<rparr>)"

definition ad_init :: "browser \<Rightarrow> jstr \<Rightarrow> ad_result" where
  "ad_init b clientID =
     ad_load b clientID \<lparr>ad_client = None, ad_assignments = [], ad_loading = True, ad_errorMessage = [], ad_search = [],
       ad_debouncedSearch = [], ad_page = 1, ad_total = 0, ad_totalPages = 1, ad_reloadKey = 0, ad_revokingUserID = None,
       ad_latestRequest = 0, ad_timer = Some [], ad_pending = []\<rparr>"

definition ad_type :: "jstr \<Rightarrow> ad_state \<Rightarrow> ad_state" where
  "ad_type v s =
     (let s' = s\<lparr>ad_errorMessage := []\<rparr> in if v = ad_search s then s' else s'\<lparr>ad_search := v, ad_timer := Some v\<rparr>)"

definition ad_timer_fires :: "browser \<Rightarrow> jstr \<Rightarrow> ad_state \<Rightarrow> ad_result" where
  "ad_timer_fires b clientID s =
     (case ad_timer s of
        None \<Rightarrow> (s, [])
      | Some captured \<Rightarrow>
          (let s' = s\<lparr>ad_timer := None\<rparr>; v = trim captured
           in if ad_debouncedSearch s' = v then (s', [])
              else ad_load b clientID (s'\<lparr>ad_page := 1, ad_loading := True, ad_debouncedSearch := v\<rparr>)))"

definition assignments_settled ::
  "nat \<Rightarrow> bool \<Rightarrow> js_error + client_assignments_response \<Rightarrow> ad_state \<Rightarrow> ad_state" where
  "assignments_settled requestID ab r s =
     (case r of
        Inr data \<Rightarrow>
          if requestID \<noteq> ad_latestRequest s then s
          else
            (let s' = s\<lparr>ad_errorMessage := [], ad_client := Some (ca_client data),
                   ad_assignments := (case ca_assignments data of Some xs \<Rightarrow> xs | None \<Rightarrow> []),
                   ad_total := (case ca_total data of Some n \<Rightarrow> n | None \<Rightarrow> 0),
                   ad_totalPages := max 1 (case ca_total_pages data of Some n \<Rightarrow> n | None \<Rightarrow> 1)\<rparr>
             in if ab then s' else s'\<lparr>ad_loading := False\<rparr>)
      | Inl e \<Rightarrow>
          if ab \<or> requestID \<noteq> ad_latestRequest s then s
          else s\<lparr>ad_errorMessage := getErrorMessage e, ad_loading := False\<rparr>)"

section \<open>Revocation\<close>

definition assignment_path :: "jstr \<Rightarrow> jstr \<Rightarrow> jstr option" where
  "assignment_path client_id user_id =
     (case (client_path client_id, encodeURIComponent user_id) of
        (Some p, Some e) \<Rightarrow> Some (p @ js ''/assignments/'' @ e) | _ \<Rightarrow> None)"

definition revoke_settled ::
  "browser \<Rightarrow> jstr \<Rightarrow> oauth_client_assignment \<Rightarrow> int \<Rightarrow> int \<Rightarrow> int \<Rightarrow> js_error + unit \<Rightarrow> ad_state \<Rightarrow> ad_result" where
  "revoke_settled b clientID a listed totalBefore pageBefore r s =
     (case r of
        Inl e \<Rightarrow> (s\<lparr>ad_revokingUserID := None\<rparr>, failed_toast e)
      | Inr _ \<Rightarrow>
          (let remainingOnPage = listed - 1; nextTotal = max 0 (totalBefore - 1);
               s' = s\<lparr>ad_assignments := remove_where a_user_id (a_user_id a) (ad_assignments s), ad_total := nextTotal,
                      ad_client := map_option (c_assignment_count_update (\<lambda>n. max 0 (n - 1))) (ad_client s),
                      ad_revokingUserID := None\<rparr>;
               (t, effs) = (if remainingOnPage = 0 \<and> pageBefore > 1
                            then ad_set_page b clientID (ad_page s' - 1) (s'\<lparr>ad_loading := True\<rparr>)
                            else ad_reload b clientID s')
           in (t, Toast Success (js ''Akses pengguna berhasil dicabut.'') # effs)))"

definition revokeAssignment :: "browser \<Rightarrow> jstr \<Rightarrow> oauth_client_assignment \<Rightarrow> ad_state \<Rightarrow> ad_result" where
  "revokeAssignment b clientID a s =
     (case ad_client s of
        None \<Rightarrow> (s, [])
      | Some c \<Rightarrow>
          if a_user_id a = c_owner_id c \<or> truthy (ad_revokingUserID s) then (s, [])
          else
            (let s' = s\<lparr>ad_revokingUserID := Some (a_user_id a)\<rparr>; n = int (length (ad_assignments s))
             in case assignment_path (c_client_id c) (a_user_id a) of
                  None \<Rightarrow> revoke_settled b clientID a n (ad_total s) (ad_page s) (Inl uri_error) s'
                | Some p \<Rightarrow> (s'\<lparr>ad_pending := ad_pending s' @ [AwaitRevoke a n (ad_total s) (ad_page s)]\<rparr>,
                    [api b p delete_init])))"

section \<open>The step\<close>

definition ad_drop :: "nat \<Rightarrow> ad_state \<Rightarrow> ad_state" where
  "ad_drop k s = s\<lparr>ad_pending := drop_nth k (ad_pending s)\<rparr>"

fun ad_step :: "browser \<Rightarrow> jstr \<Rightarrow> ad_state \<Rightarrow> ad_event \<Rightarrow> ad_result" where
  "ad_step b cid s (AdSearch v) = (ad_type v s, [])"
| "ad_step b cid s AdTimer = ad_timer_fires b cid s"
| "ad_step b cid s (AdPageChange p) = ad_set_page b cid p (s\<lparr>ad_errorMessage := [], ad_loading := True\<rparr>)"
| "ad_step b cid s AdRetry = ad_reload b cid (s\<lparr>ad_errorMessage := [], ad_loading := True\<rparr>)"
| "ad_step b cid s (AdCopy v) = (s\<lparr>ad_pending := ad_pending s @ [AwaitCopied]\<rparr>, [Clipboard v])"
| "ad_step b cid s (AdRevoke a) = revokeAssignment b cid a s"
| "ad_step b cid s (AssignmentsAnswer k r) =
     (case ad_pending s ! k of
        AwaitAssignments n ab \<Rightarrow> (assignments_settled n ab r (ad_drop k s), []) | _ \<Rightarrow> (s, []))"
| "ad_step b cid s (RevokeAnswer k r) =
     (case ad_pending s ! k of
        AwaitRevoke a n t p \<Rightarrow> revoke_settled b cid a n t p r (ad_drop k s) | _ \<Rightarrow> (s, []))"
| "ad_step b cid s (AdCopyAnswer k ok) = (ad_drop k s, copy_settled ok)"

section \<open>The rendered page\<close>

definition DetailItem :: "string \<Rightarrow> 'e node list \<Rightarrow> 'e node" where
  "DetailItem name children = El ''div'' [] (El ''p'' [] [lit name] # children)"

definition AssignmentIdentity :: "(jstr \<Rightarrow> jstr) \<Rightarrow> oauth_client_assignment \<Rightarrow> 'e node" where
  "AssignmentIdentity upper a =
     El ''div'' []
      [El ''Avatar'' [] [El ''AvatarImage'' [Attr ''src'' (a_avatar a), Attr ''alt'' (a_name a)] [],
         El ''AvatarFallback'' [] [if plain_initials upper (a_name a) \<noteq> [] then Txt (plain_initials upper (a_name a))
           else El ''UserRound'' [] []]],
       El ''div'' [] [El ''p'' [] [Txt (a_name a)], El ''p'' [] [Txt (a_email a)]]]"

definition RevokeAssignmentButton :: "oauth_client_assignment \<Rightarrow> bool \<Rightarrow> ad_event node" where
  "RevokeAssignmentButton a revoking =
     confirm_dialog [Attr ''size'' (js ''sm''), Attr ''variant'' (js ''outline''), Flag ''disabled'' revoking]
       [El (if revoking then ''Spinner'' else ''Trash2'') [] [], lit ''Cabut'']
       ''Cabut akses pengguna?''
       (a_name a @ js '' tidak dapat login lagi ke aplikasi ini. Token dan authorization code aktif pengguna juga akan dicabut.'')
       [OnClick (AdRevoke a)] [lit ''Cabut akses'']"

definition owner_badge :: "string \<Rightarrow> bool \<Rightarrow> 'e node" where
  "owner_badge owner_text isOwner =
     (if isOwner then El ''Badge'' [Attr ''variant'' (js ''secondary'')] [lit owner_text]
      else El ''Badge'' [Attr ''variant'' (js ''outline'')] [lit ''Ditugaskan''])"

definition AssignmentRow :: "(jstr \<Rightarrow> jstr) \<Rightarrow> oauth_client_assignment \<Rightarrow> jstr \<Rightarrow> bool \<Rightarrow> ad_event node" where
  "AssignmentRow upper a ownerID revoking =
     (let isOwner = (a_user_id a = ownerID)
      in El ''TableRow'' [Attr ''key'' (a_id a)]
       [El ''TableCell'' [] [AssignmentIdentity upper a],
        El ''TableCell'' [] [El ''code'' [] [Txt (a_user_id a)]],
        El ''TableCell'' [] [owner_badge ''Pemilik aplikasi'' isOwner],
        El ''TableCell'' [] (show_if (\<not> isOwner) [RevokeAssignmentButton a revoking])])"

definition AssignmentCard :: "(jstr \<Rightarrow> jstr) \<Rightarrow> oauth_client_assignment \<Rightarrow> jstr \<Rightarrow> bool \<Rightarrow> ad_event node" where
  "AssignmentCard upper a ownerID revoking =
     (let isOwner = (a_user_id a = ownerID)
      in El ''div'' [Attr ''key'' (a_id a)]
       ([El ''div'' [] [AssignmentIdentity upper a, owner_badge ''Pemilik'' isOwner],
         El ''code'' [] [Txt (a_user_id a)]]
        @ show_if (\<not> isOwner) [El ''div'' [] [RevokeAssignmentButton a revoking]]))"

definition ApplicationDetailLoading :: "'e node" where
  "ApplicationDetailLoading =
     El ''div'' []
      [El ''div'' [] [El ''Skeleton'' [] [], El ''div'' [] [El ''Skeleton'' [] [], El ''Skeleton'' [] []]],
       El ''div'' [] [El ''Skeleton'' [] [], El ''Skeleton'' [] []],
       El ''Skeleton'' [] []]"

definition assigned_only :: "oauth_client \<Rightarrow> bool" where
  "assigned_only c = (c_access_policy c = AssignedOnly)"

definition information_card :: "oauth_client \<Rightarrow> ad_event node" where
  "information_card c =
     El ''Card'' []
      [El ''CardHeader'' [] [El ''CardTitle'' [] [lit ''Informasi aplikasi''],
         El ''CardDescription'' [] [lit ''Identitas client dan alamat callback yang telah didaftarkan.'']],
       El ''CardContent'' []
        [DetailItem ''Client ID'' [El ''div'' [] [El ''code'' [] [Txt (c_client_id c)],
           El ''Button'' [Attr ''variant'' (js ''outline''), Attr ''size'' (js ''icon''), OnClick (AdCopy (c_client_id c)),
             Attr ''aria-label'' (js ''Salin client ID'')] [El ''Copy'' [] []]]],
         DetailItem ''Kebijakan akses'' [El ''Badge'' [Attr ''variant'' (js (if assigned_only c then ''default'' else ''secondary''))]
           [lit (if assigned_only c then ''Pengguna ditugaskan'' else ''Semua akun aktif'')]],
         DetailItem ''Scope'' [El ''div'' [] (map (\<lambda>scope. El ''Badge'' [Attr ''key'' scope, Attr ''variant'' (js ''outline'')]
           [Txt scope]) (c_allowed_scopes c))],
         DetailItem ''Redirect URI'' [El ''div'' [] (map (\<lambda>uri. El ''div'' [Attr ''key'' uri] [El ''ExternalLink'' [] [],
           El ''code'' [] [Txt uri]]) (c_redirect_uris c))]]]"

definition access_card :: "oauth_client \<Rightarrow> int \<Rightarrow> 'e node" where
  "access_card c n =
     El ''Card'' []
      [El ''CardHeader'' [] [El ''span'' [] [El ''Users'' [] []], El ''CardTitle'' [] [lit ''Akses pengguna''],
         El ''CardDescription'' [] [lit (if assigned_only c then ''Hanya pengguna yang ditugaskan dapat menyelesaikan login.''
           else ''Semua akun aktif dan terverifikasi dapat masuk.'')]],
       El ''CardContent'' [] [El ''p'' [] [if assigned_only c then Txt (int_str n) else lit ''Semua''],
         El ''p'' [] [lit (if assigned_only c then ''pengguna ditugaskan'' else ''akun aktif'')]]]"

definition assignment_list :: "(jstr \<Rightarrow> jstr) \<Rightarrow> oauth_client \<Rightarrow> ad_state \<Rightarrow> ad_event node list" where
  "assignment_list upper c s =
     (let revoking = (\<lambda>a. ad_revokingUserID s = Some (a_user_id a))
      in if ad_loading s \<and> ad_assignments s = []
      then [El ''div'' [] (map (\<lambda>i. El ''Skeleton'' [Num ''key'' i] []) [1, 2, 3])]
      else if ad_assignments s = [] then [empty_box ''UserRound'' ''Pengguna tidak ditemukan''
        (if ad_search s \<noteq> [] then ''Coba kata kunci lain.'' else ''Belum ada pengguna yang ditugaskan.'')]
      else [El ''div'' [Flag ''pointer-events-none'' (ad_loading s)]
        [El ''div'' [] [El ''Table'' []
          [El ''TableHeader'' [] [El ''TableRow'' [] (map (\<lambda>t. El ''TableHead'' [] [lit t])
             [''Pengguna'', ''ID pengguna'', ''Keterangan'', ''Aksi''])],
           El ''TableBody'' [] (map (\<lambda>a. AssignmentRow upper a (c_owner_id c) (revoking a)) (ad_assignments s))]],
         El ''div'' [] (map (\<lambda>a. AssignmentCard upper a (c_owner_id c) (revoking a)) (ad_assignments s))]])"

definition assignments_card :: "(jstr \<Rightarrow> jstr) \<Rightarrow> oauth_client \<Rightarrow> ad_state \<Rightarrow> ad_event node" where
  "assignments_card upper c s =
     El ''Card'' []
      ([El ''CardHeader'' []
         [El ''div'' [] [El ''CardTitle'' [] [lit ''Pengguna yang ditugaskan''],
            El ''CardDescription'' [] [lit ''Daftar akun yang diizinkan masuk ke aplikasi ini.'']],
          El ''div'' [] [El ''Search'' [] [], El ''Input'' [Attr ''value'' (ad_search s), OnInput AdSearch,
            Attr ''placeholder'' (js ''Cari nama, email, atau UUID''), Attr ''aria-label'' (js ''Cari pengguna aplikasi'')] []]],
        El ''CardContent'' [Flag ''aria-busy'' (ad_loading s)]
         (show_if (ad_errorMessage s \<noteq> [])
            [alert [El ''AlertTitle'' [] [lit ''Daftar pengguna gagal dimuat''],
              El ''AlertDescription'' [] [Txt (ad_errorMessage s)]]]
          @ assignment_list upper c s)]
       @ show_if (\<not> ad_loading s \<and> ad_assignments s \<noteq> [])
           [DataPagination (ad_page s) (ad_totalPages s) (ad_total s) ''pengguna'' AdPageChange])"

definition no_individual_list :: "'e node" where
  "no_individual_list =
     El ''Alert'' [] [El ''ShieldCheck'' [] [], El ''AlertTitle'' [] [lit ''Tidak ada daftar assignment individual''],
       El ''AlertDescription'' [] [Txt (js ''Kebijakan aplikasi ini mengizinkan seluruh akun aktif dan terverifikasi. Ubah kebijakan menjadi ''
         @ [0x201C] @ js ''Pengguna ditugaskan'' @ [0x201D] @ js '' jika membutuhkan daftar akses terbatas.'')]]"

definition detail_missing :: "ad_state \<Rightarrow> ad_event node" where
  "detail_missing s =
     El ''div'' []
      [El ''Button'' [Attr ''variant'' (js ''ghost'')] [link (js ''/dashboard/aplikasi'') [El ''ArrowLeft'' [] [], lit ''Kembali ke aplikasi'']],
       alert [El ''AlertTitle'' [] [lit ''Detail aplikasi tidak dapat dimuat''],
         El ''AlertDescription'' [] [El ''span'' [] [Txt (if ad_errorMessage s \<noteq> [] then ad_errorMessage s else js ''Aplikasi tidak ditemukan.'')],
           El ''Button'' [Attr ''variant'' (js ''outline''), Attr ''size'' (js ''sm''), OnClick AdRetry] [lit ''Coba lagi'']]]]"

definition ApplicationDetail :: "(jstr \<Rightarrow> jstr) \<Rightarrow> ad_state \<Rightarrow> ad_event node" where
  "ApplicationDetail upper s =
     (case ad_client s of
        None \<Rightarrow> if ad_loading s then ApplicationDetailLoading else detail_missing s
      | Some c \<Rightarrow>
          El ''div'' []
           [El ''div'' []
             [El ''div'' []
               [El ''Button'' [Attr ''variant'' (js ''ghost''), Attr ''size'' (js ''icon''), Attr ''aria-label'' (js ''Kembali ke daftar aplikasi'')]
                  [link (js ''/dashboard/aplikasi'') [El ''ArrowLeft'' [] []]],
                El ''div'' [] [El ''h1'' [] [Txt (c_name c)],
                  El ''p'' [] [Txt (if c_description c \<noteq> [] then c_description c
                    else js ''Detail aplikasi OAuth yang terhubung ke PelajarNU Magetan ID.'')]]],
              El ''Badge'' [Attr ''variant'' (js (if c_status c = Active then ''default'' else ''destructive''))]
                [lit (if c_status c = Active then ''Aktif'' else ''Ditangguhkan'')]],
            El ''div'' [] [information_card c, access_card c (ad_total s)],
            if assigned_only c then assignments_card upper c s else no_individual_list])"

fun ad_awaits :: "ad_event \<Rightarrow> ad_pending \<Rightarrow> bool" where
  "ad_awaits (AssignmentsAnswer k r) (AwaitAssignments n ab) = True"
| "ad_awaits (RevokeAnswer k r) (AwaitRevoke a n t p) = True"
| "ad_awaits (AdCopyAnswer k ok) AwaitCopied = True"
| "ad_awaits e p = False"

fun ad_answer :: "ad_event \<Rightarrow> nat option" where
  "ad_answer (AssignmentsAnswer k r) = Some k"
| "ad_answer (RevokeAnswer k r) = Some k"
| "ad_answer (AdCopyAnswer k ok) = Some k"
| "ad_answer e = None"

definition ad_ok :: "(jstr \<Rightarrow> jstr) \<Rightarrow> ad_state \<Rightarrow> ad_event \<Rightarrow> bool" where
  "ad_ok upper s e =
     (case ad_answer e of
        Some k \<Rightarrow> k < length (ad_pending s) \<and> ad_awaits e (ad_pending s ! k)
      | None \<Rightarrow> if e = AdTimer then ad_timer s \<noteq> None else offers (ApplicationDetail upper s) e)"

definition ad_next :: "browser \<Rightarrow> jstr \<Rightarrow> ad_state \<Rightarrow> ad_event \<Rightarrow> ad_state" where
  "ad_next b cid s e = fst (ad_step b cid s e)"

section \<open>What the page offers\<close>

lemma detail_parts_acts [simp]:
  "acts (AssignmentIdentity up a) = []" "acts (owner_badge t o') = []" "acts (access_card c n) = []"
  "acts no_individual_list = []" "acts (ApplicationDetailLoading :: 'e node) = []"
  by (simp_all add: AssignmentIdentity_def owner_badge_def access_card_def no_individual_list_def ApplicationDetailLoading_def)

lemma revoke_button_acts [simp]: "acts (RevokeAssignmentButton a v) = [Fire (AdRevoke a)]"
  by (simp add: RevokeAssignmentButton_def confirm_dialog_def)

lemma assignment_acts [simp]:
  "acts (AssignmentRow up a ow v) = (if a_user_id a = ow then [] else [Fire (AdRevoke a)])"
  "acts (AssignmentCard up a ow v) = (if a_user_id a = ow then [] else [Fire (AdRevoke a)])"
  by (simp_all add: AssignmentRow_def AssignmentCard_def Let_def)

lemma information_acts [simp]: "acts (information_card c) = [Fire (AdCopy (c_client_id c))]"
proof -
  have plain: "concat (map (\<lambda>x. acts (El t (ps x) (map Txt (ts x)))) xs) = []" if "\<And>x. ps x = [Attr n (v x)]" for t ps ts n v and xs :: "jstr list"
    using that by (induction xs) (auto simp: o_def)
  show ?thesis by (simp add: information_card_def DetailItem_def o_def)
qed

lemma assignment_list_acts:
  "(\<exists>n\<in>set (assignment_list up c s). x \<in> set (acts n)) \<longleftrightarrow>
     (\<exists>a\<in>set (ad_assignments s). a_user_id a \<noteq> c_owner_id c \<and> x = Fire (AdRevoke a))"
  by (cases "ad_assignments s = []"; cases "ad_loading s") (auto simp: assignment_list_def empty_box_def Let_def)

lemma assignments_card_acts:
  "x \<in> set (acts (assignments_card up c s)) \<longleftrightarrow>
     x = Type AdSearch \<or> (\<exists>a\<in>set (ad_assignments s). a_user_id a \<noteq> c_owner_id c \<and> x = Fire (AdRevoke a))
     \<or> \<not> ad_loading s \<and> ad_assignments s \<noteq> []
        \<and> x \<in> set (acts (DataPagination (ad_page s) (ad_totalPages s) (ad_total s) ''pengguna'' AdPageChange))"
  using assignment_list_acts [of up c s x]
  by (cases "ad_errorMessage s = []") (auto simp: assignments_card_def alert_def)

lemma detail_acts:
  "x \<in> set (acts (ApplicationDetail up s)) \<longleftrightarrow>
     (case ad_client s of
        None \<Rightarrow> \<not> ad_loading s \<and> x = Fire AdRetry
      | Some c \<Rightarrow> x = Fire (AdCopy (c_client_id c)) \<or> assigned_only c \<and> x \<in> set (acts (assignments_card up c s)))"
  by (cases "ad_client s") (auto simp: ApplicationDetail_def detail_missing_def alert_def link_def)

lemma revoke_offered:
  "offers (ApplicationDetail up s) (AdRevoke a) \<Longrightarrow>
   \<exists>c. ad_client s = Some c \<and> a \<in> set (ad_assignments s) \<and> a_user_id a \<noteq> c_owner_id c"
  by (auto simp: offers_iff detail_acts assignments_card_acts pagination_acts pagination_types split: option.splits)

section \<open>Revocations\<close>

fun revocation :: "ad_pending \<Rightarrow> jstr list" where
  "revocation (AwaitRevoke a n t p) = [a_user_id a]"
| "revocation p = []"

abbreviation revocations :: "ad_pending list \<Rightarrow> jstr list" where
  "revocations ps \<equiv> concat (map revocation ps)"

text \<open>
  The identifier kept in the state is that of the one revocation under way. The handler's guard takes
  the empty identifier for none, so the rows the backend lists must have identifiers.
\<close>

fun identified :: "ad_event \<Rightarrow> bool" where
  "identified (AssignmentsAnswer k (Inr d)) =
     (\<forall>xs. ca_assignments d = Some xs \<longrightarrow> (\<forall>a\<in>set xs. a_user_id a \<noteq> []))"
| "identified e = True"

definition revoke_inv :: "ad_state \<Rightarrow> bool" where
  "revoke_inv s =
     (revocations (ad_pending s) = (case ad_revokingUserID s of None \<Rightarrow> [] | Some u \<Rightarrow> [u])
      \<and> ad_revokingUserID s \<noteq> Some [] \<and> (\<forall>a\<in>set (ad_assignments s). a_user_id a \<noteq> []))"

lemma revocation_abort [simp]: "revocation (abort_list p) = revocation p"
  by (cases p) simp_all

lemma revocations_load: "revoke_inv (fst (ad_load b cid s)) = revoke_inv s"
  by (simp add: revoke_inv_def ad_load_def Let_def o_def split: option.split)

lemma revoke_inv_updates [simp]:
  "revoke_inv (s\<lparr>ad_loading := l\<rparr>) = revoke_inv s" "revoke_inv (s\<lparr>ad_errorMessage := v\<rparr>) = revoke_inv s"
  "revoke_inv (s\<lparr>ad_search := v\<rparr>) = revoke_inv s" "revoke_inv (s\<lparr>ad_timer := t\<rparr>) = revoke_inv s"
  "revoke_inv (s\<lparr>ad_page := n\<rparr>) = revoke_inv s" "revoke_inv (s\<lparr>ad_debouncedSearch := v\<rparr>) = revoke_inv s"
  "revoke_inv (s\<lparr>ad_client := c\<rparr>) = revoke_inv s" "revoke_inv (s\<lparr>ad_total := n\<rparr>) = revoke_inv s"
  "revoke_inv (s\<lparr>ad_totalPages := n\<rparr>) = revoke_inv s" "revoke_inv (s\<lparr>ad_reloadKey := k\<rparr>) = revoke_inv s"
  by (simp_all add: revoke_inv_def)

lemma revocations_drop:
  assumes "k < length ps"
  shows "revocation (ps ! k) = [] \<Longrightarrow> revocations (drop_nth k ps) = revocations ps"
    "revocation (ps ! k) = [v] \<Longrightarrow> revocations ps = [u] \<Longrightarrow> revocations (drop_nth k ps) = []"
proof -
  have e: "ps = take k ps @ ps ! k # drop (Suc k) ps" by (rule id_take_nth_drop [OF assms])
  have f: "revocations ps = revocations (take k ps) @ revocation (ps ! k) @ revocations (drop (Suc k) ps)"
    by (subst (1) e) (simp del: append_take_drop_id)
  show "revocation (ps ! k) = [] \<Longrightarrow> revocations (drop_nth k ps) = revocations ps" using f by (simp add: drop_nth_def)
  assume v: "revocation (ps ! k) = [v]" and u: "revocations ps = [u]"
  have "length (revocations (take k ps) @ revocation (ps ! k) @ revocations (drop (Suc k) ps)) = 1"
    unfolding f [symmetric] u by simp
  then show "revocations (drop_nth k ps) = []" using v by (simp add: drop_nth_def del: concat_eq_Nil_conv)
qed

lemma revoke_inv_drop:
  "revoke_inv s \<Longrightarrow> k < length (ad_pending s) \<Longrightarrow> revocation (ad_pending s ! k) = [] \<Longrightarrow> revoke_inv (ad_drop k s)"
  by (simp add: revoke_inv_def ad_drop_def revocations_drop(1))

lemma revoke_inv_load_page: "revoke_inv s \<Longrightarrow> revoke_inv (fst (ad_set_page b cid p s))"
  by (simp add: ad_set_page_def revocations_load)

lemma revoke_inv_reload: "revoke_inv s \<Longrightarrow> revoke_inv (fst (ad_reload b cid s))"
  by (simp add: ad_reload_def revocations_load)

lemma revoke_inv_settled:
  assumes "revoke_inv s" "k < length (ad_pending s)" "ad_pending s ! k = AwaitRevoke a n t p"
  shows "revoke_inv (fst (revoke_settled b cid a n t p r (ad_drop k s)))"
proof -
  have "revocations (ad_pending s) \<noteq> []" using nth_mem [OF assms(2)] assms(3) by force
  then obtain u where u: "revocations (ad_pending s) = [u]"
    using assms(1) by (cases "ad_revokingUserID s") (simp_all add: revoke_inv_def del: concat_eq_Nil_conv)
  have none: "revocations (ad_pending (ad_drop k s)) = []"
    using revocations_drop(2) [OF assms(2) _ u] assms(3) by (simp add: ad_drop_def)
  have ids: "\<forall>a\<in>set (ad_assignments (ad_drop k s)). a_user_id a \<noteq> []"
    using assms(1) by (simp add: revoke_inv_def ad_drop_def)
  have base: "revoke_inv ((ad_drop k s)\<lparr>ad_assignments := xs, ad_total := y, ad_client := c, ad_revokingUserID := None\<rparr>)"
    if "set xs \<subseteq> set (ad_assignments (ad_drop k s))" for xs y c
    using none ids that by (auto simp: revoke_inv_def)
  have "revoke_inv ((ad_drop k s)\<lparr>ad_revokingUserID := None\<rparr>)"
    using none ids by (simp add: revoke_inv_def)
  then show ?thesis
    using base [of "remove_where a_user_id (a_user_id a) (ad_assignments (ad_drop k s))"]
    by (cases r) (auto simp: revoke_settled_def Let_def case_prod_beta intro!: revoke_inv_load_page revoke_inv_reload)
qed

lemma revoke_inv_answered:
  assumes "revoke_inv s" "identified (AssignmentsAnswer k r)"
  shows "revoke_inv (assignments_settled n ab r s)"
  using assms by (cases r; cases "ca_assignments (projr r)") (simp_all add: assignments_settled_def revoke_inv_def Let_def)

lemma revoke_inv_revoke:
  assumes "revoke_inv s" "a \<in> set (ad_assignments s)"
  shows "revoke_inv (fst (revokeAssignment b cid a s))"
proof -
  have a: "a_user_id a \<noteq> []" using assms by (simp add: revoke_inv_def)
  show ?thesis
  proof (cases "ad_revokingUserID s")
    case None
    have "revoke_inv (s\<lparr>ad_revokingUserID := Some (a_user_id a), ad_pending := ad_pending s @ [AwaitRevoke a n t p]\<rparr>)" for n t p
      using assms None a by (simp add: revoke_inv_def)
    moreover have "revoke_inv (s\<lparr>ad_revokingUserID := None\<rparr>)" using assms None by (simp add: revoke_inv_def)
    ultimately show ?thesis using assms
      by (simp add: revokeAssignment_def Let_def revoke_settled_def split: option.split)
  next
    case (Some u)
    then have "truthy (ad_revokingUserID s)" using assms by (auto simp: revoke_inv_def truthy_def)
    then show ?thesis using assms by (simp add: revokeAssignment_def split: option.split)
  qed
qed

lemma revoke_inv_step:
  assumes i: "revoke_inv s" and ok: "ad_ok up s e" "identified e"
  shows "revoke_inv (ad_next b cid s e)"
proof (cases e)
  case (AdRevoke a)
  with ok have "a \<in> set (ad_assignments s)" by (auto simp: ad_ok_def dest: revoke_offered)
  with revoke_inv_revoke [OF i] AdRevoke show ?thesis by (simp add: ad_next_def)
next
  case (AssignmentsAnswer k r)
  with ok obtain n ab where p: "k < length (ad_pending s)" "ad_pending s ! k = AwaitAssignments n ab"
    by (cases "ad_pending s ! k") (auto simp: ad_ok_def)
  then have "revoke_inv (ad_drop k s)" using revoke_inv_drop [OF i] by simp
  with p AssignmentsAnswer ok(2) show ?thesis by (auto simp: ad_next_def intro: revoke_inv_answered)
next
  case (RevokeAnswer k r)
  with ok obtain a n t q where p: "k < length (ad_pending s)" "ad_pending s ! k = AwaitRevoke a n t q"
    by (cases "ad_pending s ! k") (auto simp: ad_ok_def)
  with revoke_inv_settled [OF i] RevokeAnswer show ?thesis by (simp add: ad_next_def)
next
  case (AdCopyAnswer k c)
  with ok have p: "k < length (ad_pending s)" "revocation (ad_pending s ! k) = []"
    by (cases "ad_pending s ! k"; simp add: ad_ok_def)+
  with revoke_inv_drop [OF i] AdCopyAnswer show ?thesis by (simp add: ad_next_def)
next
  case (AdSearch v)
  then show ?thesis using i by (simp add: ad_next_def ad_type_def Let_def)
next
  case AdTimer
  then show ?thesis using i by (simp add: ad_next_def ad_timer_fires_def Let_def revocations_load split: option.split)
next
  case (AdPageChange p)
  then show ?thesis using i by (simp add: ad_next_def revoke_inv_load_page)
next
  case AdRetry
  then show ?thesis using i by (simp add: ad_next_def revoke_inv_reload)
next
  case (AdCopy v)
  then show ?thesis using i by (simp add: ad_next_def revoke_inv_def)
qed

lemma revoke_inv_init: "revoke_inv (fst (ad_init b cid))"
  by (simp add: ad_init_def revocations_load, simp add: revoke_inv_def)

interpretation detail: machine_invariant "fst (ad_init b cid)" "ad_next b cid" "\<lambda>s e. ad_ok up s e \<and> identified e" revoke_inv
  for b cid up
  by unfold_locales (auto intro: revoke_inv_init revoke_inv_step)

interpretation detail_answers: latest_wins ad_latestRequest
  "\<lambda>s. (ad_client s, ad_assignments s, ad_total s, ad_page s, ad_totalPages s, ad_errorMessage s, ad_loading s)"
  "\<lambda>n r s. assignments_settled n ab r s" for ab
  by unfold_locales (auto simp: assignments_settled_def split: sum.splits)

section \<open>Pages\<close>

text \<open>
  The last row of a page after the first is revoked, and before the answer the user goes to page 1:
  the continuation steps back from the page now shown, to page 0.
\<close>

lemma revoke_then_first_page:
  assumes "ad_client s = Some c" "ad_assignments s = [a]" "a_user_id a \<noteq> c_owner_id c" "ad_revokingUserID s = None"
    "assignment_path (c_client_id c) (a_user_id a) = Some p" "ad_page s > 1"
  shows "ad_page (run (ad_next b cid) s [AdRevoke a, AdPageChange 1, RevokeAnswer (length (ad_pending s)) (Inr ())]) = 0"
proof -
  let ?k = "length (ad_pending s)"
  define s1 where "s1 = ad_next b cid s (AdRevoke a)"
  have s1: "s1 = s\<lparr>ad_revokingUserID := Some (a_user_id a), ad_pending := ad_pending s @ [AwaitRevoke a 1 (ad_total s) (ad_page s)]\<rparr>"
    using assms by (simp add: s1_def ad_next_def revokeAssignment_def truthy_def)
  define s2 where "s2 = ad_next b cid s1 (AdPageChange 1)"
  have page: "ad_page s2 = 1" and nth: "ad_pending s2 ! ?k = AwaitRevoke a 1 (ad_total s) (ad_page s)"
    using assms(6) by (simp_all add: s2_def ad_next_def s1 ad_set_page_def ad_load_def Let_def nth_append split: option.split)
  have "ad_page (ad_next b cid s2 (RevokeAnswer ?k (Inr ()))) = 0"
    using page assms(6) by (simp add: ad_next_def nth revoke_settled_def Let_def case_prod_beta ad_set_page_def ad_load_def
      ad_drop_def split: option.split)
  then show ?thesis by (simp add: s1_def s2_def)
qed

lemma first_page_offered:
  assumes "ad_client s = Some c" "assigned_only c" "ad_assignments s \<noteq> []" "\<not> ad_loading s" "1 < ad_page s"
  shows "offers (ApplicationDetail up s) (AdPageChange 1)"
proof -
  have "Page 1 \<in> set (pageItems (ad_page s) (max 1 (ad_totalPages s)))"
    by (auto simp: pageItems_def image_iff)
  then show ?thesis using assms by (auto simp: offers_iff detail_acts assignments_card_acts pagination_acts)
qed

lemma revoke_then_first_page_possible:
  assumes "ad_client s = Some c" "assigned_only c" "ad_assignments s = [a]" "a_user_id a \<noteq> c_owner_id c"
    "ad_revokingUserID s = None" "assignment_path (c_client_id c) (a_user_id a) = Some p" "ad_page s > 1"
    "ad_page s \<le> ad_totalPages s" "\<not> ad_loading s"
  shows "possible (ad_next b cid) (ad_ok up) s [AdRevoke a, AdPageChange 1, RevokeAnswer (length (ad_pending s)) (Inr ())]"
proof -
  define s1 where "s1 = ad_next b cid s (AdRevoke a)"
  have s1: "s1 = s\<lparr>ad_revokingUserID := Some (a_user_id a), ad_pending := ad_pending s @ [AwaitRevoke a 1 (ad_total s) (ad_page s)]\<rparr>"
    using assms by (simp add: s1_def ad_next_def revokeAssignment_def truthy_def)
  have "offers (ApplicationDetail up s) (AdRevoke a)"
    using assms by (auto simp: offers_iff detail_acts assignments_card_acts)
  moreover have "offers (ApplicationDetail up s1) (AdPageChange 1)"
    by (rule first_page_offered) (use assms in \<open>simp_all add: s1\<close>)
  moreover have "ad_ok up (ad_next b cid s1 (AdPageChange 1)) (RevokeAnswer (length (ad_pending s)) (Inr ()))"
    using assms(7) by (simp add: ad_ok_def ad_next_def s1 ad_set_page_def ad_load_def Let_def nth_append split: option.split)
  ultimately show ?thesis by (simp add: ad_ok_def s1_def)
qed

end
