(* ===== verification/Connections.thy ===== *)
theory Connections
  imports Widgets
begin

text \<open>
  The connected applications (\<open>app/dashboard/sesi/page.tsx\<close>): one load, which leaving the page
  aborts, and the revocation of a connection. The page keeps one identifier for \<open>the\<close> revocation
  under way although several can be.
\<close>

section \<open>State\<close>

record oauth_connection =
  oc_id :: jstr
  oc_client_id :: jstr
  oc_name :: jstr
  oc_description :: jstr
  oc_scopes :: "jstr list"
  oc_connected_at :: jstr
  oc_last_used_at :: "jstr option"
  oc_expires_at :: jstr

datatype cn_pending = AwaitConnections bool | AwaitDisconnect oauth_connection

record cn_state =
  cn_connections :: "oauth_connection list"
  cn_loading :: bool
  cn_revokingID :: "jstr option"
  cn_pending :: "cn_pending list"

datatype cn_event =
    Disconnect oauth_connection
  | LeaveConnections
  | ConnectionsAnswer nat "js_error + oauth_connection list option"
  | DisconnectAnswer nat "js_error + unit"

type_synonym cn_result = "cn_state \<times> effect list"

section \<open>Load and revocation\<close>

definition cn_init :: "browser \<Rightarrow> cn_result" where
  "cn_init b =
     (\<lparr>cn_connections = [], cn_loading = True, cn_revokingID = None, cn_pending = [AwaitConnections False]\<rparr>,
      [api b (js ''/api/connections'') (with_signal get)])"

text \<open>\<open>error instanceof DOMException && error.name === "AbortError"\<close>\<close>

fun is_abort_error :: "js_error \<Rightarrow> bool" where
  "is_abort_error (JsError name (Some c) m) = (name = ''AbortError'')"
| "is_abort_error e = False"

definition connections_settled :: "bool \<Rightarrow> js_error + oauth_connection list option \<Rightarrow> cn_state \<Rightarrow> cn_result" where
  "connections_settled aborted r s =
     (let (s', effs) = (case r of
            Inr data \<Rightarrow> (s\<lparr>cn_connections := (case data of Some cs \<Rightarrow> cs | None \<Rightarrow> [])\<rparr>, [])
          | Inl e \<Rightarrow> (s, if is_abort_error e then [] else failed_toast e))
      in (if aborted then s' else s'\<lparr>cn_loading := False\<rparr>, effs))"

definition leave_connections :: "cn_state \<Rightarrow> cn_state" where
  "leave_connections s =
     s\<lparr>cn_pending := map (\<lambda>p. case p of AwaitConnections _ \<Rightarrow> AwaitConnections True | _ \<Rightarrow> p) (cn_pending s)\<rparr>"

definition disconnect :: "browser \<Rightarrow> oauth_connection \<Rightarrow> cn_state \<Rightarrow> cn_result" where
  "disconnect b c s =
     (s\<lparr>cn_revokingID := Some (oc_id c), cn_pending := cn_pending s @ [AwaitDisconnect c]\<rparr>,
      [api b (js ''/api/connections/'' @ oc_id c) delete_init])"

definition disconnect_settled :: "oauth_connection \<Rightarrow> js_error + unit \<Rightarrow> cn_state \<Rightarrow> cn_result" where
  "disconnect_settled c r s =
     (let s' = s\<lparr>cn_revokingID := None\<rparr>
      in case r of
           Inr _ \<Rightarrow> (s'\<lparr>cn_connections := remove_where oc_id (oc_id c) (cn_connections s')\<rparr>,
             [Toast Success (js ''Akses '' @ oc_name c @ js '' berhasil dicabut.'')])
         | Inl e \<Rightarrow> (s', failed_toast e))"

definition cn_drop :: "nat \<Rightarrow> cn_state \<Rightarrow> cn_state" where
  "cn_drop k s = s\<lparr>cn_pending := drop_nth k (cn_pending s)\<rparr>"

fun cn_step :: "browser \<Rightarrow> cn_state \<Rightarrow> cn_event \<Rightarrow> cn_result" where
  "cn_step b s (Disconnect c) = disconnect b c s"
| "cn_step b s LeaveConnections = (leave_connections s, [])"
| "cn_step b s (ConnectionsAnswer k r) =
     (case cn_pending s ! k of AwaitConnections ab \<Rightarrow> connections_settled ab r (cn_drop k s) | _ \<Rightarrow> (s, []))"
| "cn_step b s (DisconnectAnswer k r) =
     (case cn_pending s ! k of AwaitDisconnect c \<Rightarrow> disconnect_settled c r (cn_drop k s) | _ \<Rightarrow> (s, []))"

section \<open>The rendered page\<close>

definition formatDateTime :: "date_formats \<Rightarrow> jstr option \<Rightarrow> jstr" where
  "formatDateTime d value = formatJakartaDateTime d value (js ''Belum digunakan'')"

definition ScopeList :: "jstr list \<Rightarrow> 'e node" where
  "ScopeList scopes =
     (if scopes = [] then El ''span'' [] [lit ''Tidak ada scope'']
      else El ''div'' [] (map (\<lambda>scope. El ''Badge'' [Attr ''key'' scope, Attr ''variant'' (js ''secondary'')] [Txt scope]) scopes))"

definition RevokeConnectionButton :: "oauth_connection \<Rightarrow> bool \<Rightarrow> cn_event node" where
  "RevokeConnectionButton c revoking =
     El ''AlertDialog'' []
      [El ''AlertDialogTrigger'' []
        [El ''Button'' [Attr ''variant'' (js ''destructive''), Attr ''size'' (js ''sm''), Flag ''disabled'' revoking,
           Attr ''aria-label'' (js ''Cabut akses '' @ oc_name c)]
          [El (if revoking then ''Spinner'' else ''Trash2'') [] [],
           lit (if revoking then ''Mencabut...'' else ''Cabut akses'')]],
       El ''AlertDialogContent'' []
        [El ''AlertDialogHeader'' []
          [El ''AlertDialogMedia'' [] [El ''Trash2'' [] []],
           El ''AlertDialogTitle'' [] [Txt (js ''Cabut akses '' @ oc_name c @ js ''?'')],
           El ''AlertDialogDescription'' [] [lit ''Aplikasi ini tidak lagi dapat mengakses data akun PelajarNU Magetan ID Anda. Untuk menghubungkannya kembali, Anda harus masuk dan memberi izin ulang melalui aplikasi tersebut.'']],
         El ''AlertDialogFooter'' []
          [El ''AlertDialogCancel'' [] [lit ''Batal''],
           El ''AlertDialogAction'' [Attr ''variant'' (js ''destructive''), Flag ''disabled'' revoking, OnClick (Disconnect c)]
             [lit ''Cabut akses'']]]]"

definition connection_name :: "oauth_connection \<Rightarrow> 'e node" where
  "connection_name c =
     El ''div'' [] [El ''span'' [] [El ''AppWindow'' [] []],
       El ''div'' [] [El ''p'' [] [Txt (oc_name c)],
         El ''p'' [] [Txt (if oc_description c \<noteq> [] then oc_description c else js ''Aplikasi SSO terdaftar'')]]]"

definition connected_badge :: "'e node" where
  "connected_badge = El ''Badge'' [] [El ''ShieldCheck'' [] [], lit '' Aktif'']"

definition connection_row :: "date_formats \<Rightarrow> cn_state \<Rightarrow> oauth_connection \<Rightarrow> cn_event node" where
  "connection_row d s c =
     El ''TableRow'' [Attr ''key'' (oc_id c)]
      [El ''TableCell'' [] [connection_name c],
       El ''TableCell'' [] [ScopeList (oc_scopes c)],
       El ''TableCell'' [] [Txt (formatDateTime d (oc_last_used_at c))],
       El ''TableCell'' [] [Txt (formatDateTime d (Some (oc_connected_at c)))],
       El ''TableCell'' [] [connected_badge],
       El ''TableCell'' [] [RevokeConnectionButton c (cn_revokingID s = Some (oc_id c))]]"

definition connection_card :: "date_formats \<Rightarrow> cn_state \<Rightarrow> oauth_connection \<Rightarrow> cn_event node" where
  "connection_card d s c =
     El ''div'' [Attr ''key'' (oc_id c)]
      [El ''div'' [] [connection_name c, connected_badge],
       El ''div'' [] [El ''p'' [] [lit ''Izin akses''], ScopeList (oc_scopes c)],
       El ''div'' []
        [El ''div'' [] [El ''Clock3'' [] [],
           El ''div'' [] [El ''p'' [] [lit ''Terakhir digunakan''], El ''p'' [] [Txt (formatDateTime d (oc_last_used_at c))]]],
         El ''div'' [] [El ''Link2'' [] [],
           El ''div'' [] [El ''p'' [] [lit ''Terhubung sejak''], El ''p'' [] [Txt (formatDateTime d (Some (oc_connected_at c)))]]]],
       RevokeConnectionButton c (cn_revokingID s = Some (oc_id c))]"

definition connection_list :: "date_formats \<Rightarrow> cn_state \<Rightarrow> cn_event node list" where
  "connection_list d s =
     (if cn_loading s then [El ''div'' [] (map (\<lambda>i. El ''Skeleton'' [Num ''key'' i] []) [1, 2, 3])]
      else if cn_connections s = [] then [empty_box ''AppWindow'' ''Belum ada aplikasi terhubung''
        ''Aplikasi akan muncul di sini setelah Anda menggunakan PelajarNU Magetan ID untuk masuk.'']
      else [El ''div'' [] [El ''Table'' []
             [El ''TableHeader'' [] [El ''TableRow'' [] (map (\<lambda>t. El ''TableHead'' [] [lit t])
                [''Aplikasi'', ''Izin akses'', ''Terakhir digunakan'', ''Terhubung sejak'', ''Status'', ''Aksi''])],
              El ''TableBody'' [] (map (connection_row d s) (cn_connections s))]],
            El ''div'' [] (map (connection_card d s) (cn_connections s))])"

definition SesiPage :: "date_formats \<Rightarrow> cn_state \<Rightarrow> cn_event node" where
  "SesiPage d s =
     El ''div'' []
      [El ''div'' [] [El ''h1'' [] [lit ''Sesi aplikasi''],
         El ''p'' [] [lit ''Pantau dan kelola aplikasi yang terhubung dengan akun PelajarNU Magetan ID Anda.'']],
       El ''Card'' []
        [El ''CardHeader'' []
          [El ''div'' [] [El ''span'' [] [El ''Link2'' [] []],
             El ''div'' [] [El ''CardTitle'' [] [lit ''Aplikasi terhubung''],
               El ''CardDescription'' [] [lit ''Setiap aplikasi ditampilkan satu kali meskipun Anda masuk melalui SSO dari beberapa sesi.'']]]],
         El ''CardContent'' [] (connection_list d s)],
       El ''p'' [] [El ''ShieldCheck'' [] [], lit ''Cabut akses menghentikan grant dan token di PelajarNU Magetan ID. Aplikasi dapat tetap memiliki sesi lokal sampai aplikasi tersebut melakukan logout. Access token dan refresh token tidak pernah ditampilkan di halaman ini.'']]"

fun cn_ok :: "date_formats \<Rightarrow> cn_state \<Rightarrow> cn_event \<Rightarrow> bool" where
  "cn_ok d s (ConnectionsAnswer k r) = (k < length (cn_pending s) \<and> (\<exists>ab. cn_pending s ! k = AwaitConnections ab))"
| "cn_ok d s (DisconnectAnswer k r) = (k < length (cn_pending s) \<and> (\<exists>c. cn_pending s ! k = AwaitDisconnect c))"
| "cn_ok d s LeaveConnections = True"
| "cn_ok d s (Disconnect c) = offers (SesiPage d s) (Disconnect c)"

definition cn_next :: "browser \<Rightarrow> cn_state \<Rightarrow> cn_event \<Rightarrow> cn_state" where
  "cn_next b s e = fst (cn_step b s e)"

section \<open>What the page offers\<close>

lemma revoke_connection_acts [simp]:
  "acts (RevokeConnectionButton c v) = (if v then [] else [Fire (Disconnect c)])"
  by (simp add: RevokeConnectionButton_def)

lemma connection_parts_acts [simp]: "acts (connection_name c) = []" "acts (ScopeList xs) = []" "acts connected_badge = []"
proof -
  show "acts (ScopeList xs) = []"
    by (cases xs) (simp_all add: ScopeList_def o_def)
qed (simp_all add: connection_name_def connected_badge_def)

lemma connection_list_acts:
  "(\<exists>n\<in>set (connection_list d s). x \<in> set (acts n)) \<longleftrightarrow>
     \<not> cn_loading s \<and> (\<exists>c\<in>set (cn_connections s). cn_revokingID s \<noteq> Some (oc_id c) \<and> x = Fire (Disconnect c))"
  by (cases "cn_connections s = []"; cases "cn_loading s")
     (auto simp: connection_list_def empty_box_def connection_row_def connection_card_def)

lemma disconnect_offered:
  "offers (SesiPage d s) (Disconnect c) \<longleftrightarrow>
     \<not> cn_loading s \<and> c \<in> set (cn_connections s) \<and> cn_revokingID s \<noteq> Some (oc_id c)"
  using connection_list_acts [of d s] by (auto simp: offers_iff SesiPage_def)

section \<open>Invariant\<close>

fun disconnecting :: "cn_pending \<Rightarrow> jstr list" where
  "disconnecting (AwaitDisconnect c) = [oc_id c]"
| "disconnecting p = []"

text \<open>
  The identifier shown as being revoked belongs to a revocation under way.
\<close>

definition cn_inv :: "cn_state \<Rightarrow> bool" where
  "cn_inv s = (\<forall>i. cn_revokingID s = Some i \<longrightarrow> i \<in> set (concat (map disconnecting (cn_pending s))))"

lemma concat_disconnecting_drop:
  assumes "k < length ps" "disconnecting (ps ! k) = []"
  shows "concat (map disconnecting (drop_nth k ps)) = concat (map disconnecting ps)"
proof -
  have e: "ps = take k ps @ ps ! k # drop (Suc k) ps" by (rule id_take_nth_drop [OF assms(1)])
  show ?thesis using assms(2) by (subst (2) e) (simp add: drop_nth_def del: append_take_drop_id)
qed

lemma disconnecting_left [simp]:
  "disconnecting (case p of AwaitConnections _ \<Rightarrow> AwaitConnections True | _ \<Rightarrow> p) = disconnecting p"
  by (cases p) simp_all

lemma cn_inv_step:
  assumes i: "cn_inv s" and ok: "cn_ok d s e"
  shows "cn_inv (cn_next b s e)"
proof (cases e)
  case (ConnectionsAnswer k r)
  with ok obtain ab where p: "k < length (cn_pending s)" "cn_pending s ! k = AwaitConnections ab" by auto
  then have "concat (map disconnecting (drop_nth k (cn_pending s))) = concat (map disconnecting (cn_pending s))"
    by (intro concat_disconnecting_drop) simp_all
  then have "cn_inv (cn_drop k s)" using i by (simp add: cn_inv_def cn_drop_def)
  then show ?thesis using p ConnectionsAnswer
    by (cases r) (simp_all add: cn_next_def connections_settled_def cn_inv_def)
next
  case (DisconnectAnswer k r)
  with ok obtain c where "cn_pending s ! k = AwaitDisconnect c" by auto
  with DisconnectAnswer show ?thesis by (cases r) (simp_all add: cn_next_def disconnect_settled_def cn_inv_def)
next
  case (Disconnect c)
  then show ?thesis by (simp add: cn_next_def disconnect_def cn_inv_def)
next
  case LeaveConnections
  then show ?thesis using i by (simp add: cn_next_def leave_connections_def cn_inv_def o_def)
qed

interpretation connections: machine_invariant "fst (cn_init b)" "cn_next b" "cn_ok d" cn_inv for b d
proof unfold_locales
  show "cn_inv (fst (cn_init b))" by (simp add: cn_inv_def cn_init_def)
qed (rule cn_inv_step)

text \<open>
  With two connections listed the revocation of the second hides that the first one's is under way:
  the first can be revoked a second time before any answer.
\<close>

lemma revoked_twice:
  assumes "\<not> cn_loading s" "x \<in> set (cn_connections s)" "y \<in> set (cn_connections s)" "oc_id x \<noteq> oc_id y"
    "cn_revokingID s = None"
  shows "possible (cn_next b) (cn_ok d) s [Disconnect x, Disconnect y, Disconnect x]"
  using assms by (simp add: cn_next_def disconnect_offered disconnect_def)

end
