(* ===== verification/Security.thy ===== *)
theory Security
  imports Register Widgets
begin

text \<open>
  The account security page (\<open>app/dashboard/keamanan/page.tsx\<close>): the change of the password. Its
  handler compares the two new passwords and nothing else; the lengths are left to the browser's
  validation of the fields and to the backend.
\<close>

section \<open>State\<close>

record sec_state =
  sc_currentPassword :: jstr
  sc_newPassword :: jstr
  sc_confirmPassword :: jstr
  sc_saving :: bool
  sc_requests :: nat

datatype sec_event = ScCurrent jstr | ScNew jstr | ScConfirm jstr | ScSubmit | ScAnswer "js_error + unit"

definition sec_init :: sec_state where
  "sec_init = \<lparr>sc_currentPassword = [], sc_newPassword = [], sc_confirmPassword = [], sc_saving = False, sc_requests = 0\<rparr>"

definition hasMinimumNewPasswordLength :: "sec_state \<Rightarrow> bool" where
  "hasMinimumNewPasswordLength s = (length (sc_newPassword s) \<ge> 8)"

definition changePassword :: "browser \<Rightarrow> sec_state \<Rightarrow> sec_state \<times> effect list" where
  "changePassword b s =
     (if sc_newPassword s \<noteq> sc_confirmPassword s then (s, [Toast Failure (js ''Konfirmasi kata sandi tidak sama.'')])
      else (s\<lparr>sc_saving := True, sc_requests := Suc (sc_requests s)\<rparr>,
        [api b (js ''/api/profile/password'') (post (JObj
           [(''current_password'', JStr (sc_currentPassword s)), (''new_password'', JStr (sc_newPassword s))]))]))"

definition password_settled :: "js_error + unit \<Rightarrow> sec_state \<Rightarrow> sec_state \<times> effect list" where
  "password_settled r s =
     (case r of
        Inr _ \<Rightarrow> (s\<lparr>sc_currentPassword := [], sc_newPassword := [], sc_confirmPassword := [], sc_saving := False\<rparr>,
          [Toast Success (js ''Kata sandi diperbarui dan sesi lain telah dicabut.'')])
      | Inl e \<Rightarrow> (s\<lparr>sc_saving := False\<rparr>, [Toast Failure (getErrorMessage e)]))"

fun sec_step :: "browser \<Rightarrow> sec_state \<Rightarrow> sec_event \<Rightarrow> sec_state \<times> effect list" where
  "sec_step b s (ScCurrent v) = (s\<lparr>sc_currentPassword := v\<rparr>, [])"
| "sec_step b s (ScNew v) = (s\<lparr>sc_newPassword := v\<rparr>, [])"
| "sec_step b s (ScConfirm v) = (s\<lparr>sc_confirmPassword := v\<rparr>, [])"
| "sec_step b s ScSubmit = changePassword b s"
| "sec_step b s (ScAnswer r) = password_settled r (s\<lparr>sc_requests := sc_requests s - 1\<rparr>)"

section \<open>The rendered page\<close>

definition too_short_notice :: "sec_state \<Rightarrow> 'e node list" where
  "too_short_notice s =
     show_if (0 < length (sc_newPassword s) \<and> \<not> hasMinimumNewPasswordLength s)
       [El ''div'' [Attr ''role'' (js ''status''), Attr ''aria-live'' (js ''polite'')]
         [El ''Circle'' [Attr ''aria-hidden'' (js ''true'')] [], El ''p'' [] [lit ''Gunakan minimal 8 karakter'']]]"

definition password_card :: "sec_state \<Rightarrow> sec_event node" where
  "password_card s =
     El ''Card'' []
      [El ''CardHeader'' [] [El ''div'' [] [El ''KeyRound'' [] []], El ''CardTitle'' [] [lit ''Ubah kata sandi''],
         El ''CardDescription'' [] [lit ''Perubahan akan mencabut seluruh sesi lain dan token aplikasi.'']],
       El ''CardContent'' []
        [El ''form'' [OnSubmit ScSubmit]
          [field [label ''current-password'' ''Kata sandi saat ini'',
             password_field [Attr ''id'' (js ''current-password''), Attr ''autoComplete'' (js ''current-password''),
               Attr ''value'' (sc_currentPassword s), OnInput ScCurrent, Flag ''required'' True]],
           field ([label ''new-password'' ''Kata sandi baru'',
             password_field [Attr ''id'' (js ''new-password''), Attr ''autoComplete'' (js ''new-password''),
               Attr ''value'' (sc_newPassword s), OnInput ScNew, Num ''minLength'' 8, Num ''maxLength'' 72, Flag ''required'' True]]
             @ too_short_notice s),
           field [label ''confirm-password'' ''Ulangi kata sandi baru'',
             password_field [Attr ''id'' (js ''confirm-password''), Attr ''autoComplete'' (js ''new-password''),
               Attr ''value'' (sc_confirmPassword s), OnInput ScConfirm, Num ''minLength'' 8, Num ''maxLength'' 72,
               Flag ''required'' True]],
           El ''Button'' [Flag ''disabled'' (sc_saving s)]
            [El (if sc_saving s then ''Spinner'' else ''Save'') [] [],
             lit (if sc_saving s then ''Memperbarui...'' else ''Perbarui kata sandi'')]]]]"

definition two_factor_card :: "'e node" where
  "two_factor_card =
     El ''Card'' []
      [El ''CardHeader'' []
        [El ''div'' [] [El ''div'' [] [El ''LockKeyhole'' [] []], El ''Badge'' [Attr ''variant'' (js ''secondary'')] [lit ''Roadmap'']],
         El ''CardTitle'' [] [lit ''Autentikasi dua langkah''],
         El ''CardDescription'' [] [lit ''2FA belum diaktifkan pada server ini.'']],
       El ''CardContent'' []
        [El ''Alert'' [] [El ''ShieldAlert'' [] [], El ''AlertTitle'' [] [lit ''Tidak ada keamanan palsu''],
           El ''AlertDescription'' [] [lit ''Tombol aktivasi dinonaktifkan sampai penyimpanan secret TOTP, recovery codes, dan verifikasi login tersedia di backend.'']],
         El ''Button'' [Attr ''variant'' (js ''outline''), Flag ''disabled'' True] [lit ''Aktifkan 2FA'']]]"

definition KeamananPage :: "sec_state \<Rightarrow> sec_event node" where
  "KeamananPage s =
     El ''div'' []
      [page_header ''Keamanan akun'' ''Kelola kredensial dan pahami lapisan perlindungan yang aktif pada akun Anda.'' [],
       El ''div'' [] [password_card s, two_factor_card]]"

fun sec_ok :: "sec_state \<Rightarrow> sec_event \<Rightarrow> bool" where
  "sec_ok s (ScAnswer r) = (0 < sc_requests s)"
| "sec_ok s e = offers (KeamananPage s) e"

definition sec_next :: "browser \<Rightarrow> sec_state \<Rightarrow> sec_event \<Rightarrow> sec_state" where
  "sec_next b s e = fst (sec_step b s e)"

section \<open>Lemmas\<close>

lemma keamanan_acts:
  "x \<in> set (acts (KeamananPage s)) \<longleftrightarrow>
     x = Type ScCurrent \<or> x = Type ScNew \<or> x = Type ScConfirm \<or> \<not> sc_saving s \<and> x = Fire ScSubmit"
  by (cases "sc_saving s") (auto simp: KeamananPage_def password_card_def two_factor_card_def too_short_notice_def show_if_def
    page_header_def)

lemma change_offered: "offers (KeamananPage s) ScSubmit \<longleftrightarrow> \<not> sc_saving s"
  by (auto simp: offers_iff keamanan_acts)

definition sec_inv :: "sec_state \<Rightarrow> bool" where
  "sec_inv s = (sc_requests s = (if sc_saving s then 1 else 0))"

lemma sec_inv_step: "sec_inv s \<Longrightarrow> sec_ok s e \<Longrightarrow> sec_inv (sec_next b s e)"
  by (cases e) (auto simp: sec_inv_def sec_next_def changePassword_def password_settled_def change_offered split: sum.splits if_splits)

interpretation security: machine_invariant sec_init "sec_next b" sec_ok sec_inv for b
proof unfold_locales
  show "sec_inv sec_init" by (simp add: sec_inv_def sec_init_def)
qed (rule sec_inv_step)

text \<open>A change is sent exactly for equal new passwords, and it carries the two passwords as typed.\<close>

lemma change_sent_iff:
  "snd (changePassword b s) = [api b (js ''/api/profile/password'') (post (JObj
      [(''current_password'', JStr (sc_currentPassword s)), (''new_password'', JStr (sc_newPassword s))]))]
   \<longleftrightarrow> sc_newPassword s = sc_confirmPassword s"
  by (auto simp: changePassword_def api_def)

end
