(* ===== verification/Home.thy ===== *)
theory Home
  imports AuthShell
begin

text \<open>
  The landing page (\<open>app/page.tsx\<close>): its texts, and its links, which depend on whether a user is
  signed in.
\<close>

section \<open>Data\<close>

record benefit =
  bn_icon :: string
  bn_title :: string
  bn_description :: jstr

definition benefits :: "benefit list" where
  "benefits =
     [\<lparr>bn_icon = ''Fingerprint'', bn_title = ''Satu akun untuk semua'',
       bn_description = js ''Cukup satu akun SSO untuk mengakses seluruh layanan digital milik IPNU IPPNU Magetan '' @ [0x2014]
         @ js '' tanpa perlu daftar ulang di setiap aplikasi.''\<rparr>,
      \<lparr>bn_icon = ''ShieldCheck'', bn_title = ''Aman & terverifikasi'',
       bn_description = js ''Akun Anda dilindungi dengan verifikasi email dan pengelolaan sesi yang aman. Data pribadi hanya digunakan sesuai kebutuhan layanan.''\<rparr>,
      \<lparr>bn_icon = ''Globe'', bn_title = ''Akses layanan dengan mudah'',
       bn_description = js ''Masuk ke berbagai aplikasi organisasi cukup dengan satu kali login. Praktis, cepat, dan tanpa ribet.''\<rparr>,
      \<lparr>bn_icon = ''Users'', bn_title = ''Untuk seluruh anggota'',
       bn_description = js ''SSO ini dirancang khusus untuk anggota dan pengurus IPNU IPPNU Kabupaten Magetan agar terhubung dalam ekosistem digital organisasi.''\<rparr>]"

record service =
  sv_icon :: string
  sv_name :: string
  sv_title :: string
  sv_description :: string
  sv_href :: "jstr option"

definition connectedServices :: "service list" where
  "connectedServices =
     [\<lparr>sv_icon = ''ShieldCheck'', sv_name = ''Laci'', sv_title = ''Layanan Cerdas Administrasi'',
       sv_description = ''Kelola kebutuhan administrasi organisasi dengan akses yang terhubung ke satu akun SSO.'', sv_href = None\<rparr>,
      \<lparr>sv_icon = ''UserRound'', sv_name = ''Sistem Anggota'', sv_title = ''Sistem data dan keanggotaan'',
       sv_description = ''Akses layanan keanggotaan dan informasi anggota dalam ekosistem digital organisasi.'', sv_href = None\<rparr>,
      \<lparr>sv_icon = ''Link2'', sv_name = ''Short URL'', sv_title = ''Penyingkat tautan PelajarNU'',
       sv_description = ''Buat dan kelola tautan singkat untuk kebutuhan publikasi dan layanan digital organisasi.'',
       sv_href = Some (js ''https://s.pelajarnumagetan.or.id'')\<rparr>]"

section \<open>The page\<close>

definition portalHref :: "user option \<Rightarrow> jstr" where
  "portalHref u = (if u \<noteq> None then js ''/dashboard/profil'' else js ''/login'')"

text \<open>A button rendered as its link (\<open>asChild\<close>).\<close>

definition link_button :: "'e attr list \<Rightarrow> jstr \<Rightarrow> 'e node list \<Rightarrow> 'e node" where
  "link_button ps href ns = El ''Button'' ps [link href ns]"

definition service_card :: "service \<Rightarrow> 'e node" where
  "service_card v =
     (let cardContent =
        [El ''div'' [] [],
         El ''div'' [] [El ''span'' [] [El (sv_icon v) [] []],
           El ''span'' [] [El (if sv_href v \<noteq> None then ''CheckCircle2'' else ''Clock3'') [] [],
             lit (if sv_href v \<noteq> None then ''Tersedia'' else ''Coming soon'')]],
         El ''h3'' [] [lit (sv_name v)], El ''p'' [] [lit (sv_title v)], El ''p'' [] [lit (sv_description v)]]
        @ show_if (sv_href v \<noteq> None) [El ''span'' [] [lit ''Buka layanan'', El ''ExternalLink'' [] []]]
      in case sv_href v of
           Some href \<Rightarrow> El ''a'' [Attr ''key'' (js (sv_name v)), Attr ''href'' href, Attr ''target'' (js ''_blank''),
             Attr ''rel'' (js ''noopener noreferrer''), Attr ''aria-label'' (js ''Buka layanan '' @ js (sv_name v) @ js '' di tab baru'')] cardContent
         | None \<Rightarrow> El ''article'' [Attr ''key'' (js (sv_name v))] cardContent)"

definition home_header :: "public_env \<Rightarrow> user option \<Rightarrow> bool \<Rightarrow> 'e node" where
  "home_header env u loading =
     El ''header'' []
      [El ''div'' []
        [Brand env False,
         El ''nav'' [Attr ''aria-label'' (js ''Navigasi utama'')]
          [El ''span'' [Flag ''aria-busy'' loading]
            [link_button [] (portalHref u) [lit (if u \<noteq> None then ''Buka portal'' else ''Masuk''), El ''ArrowRight'' [] []]]]]]"

definition hero_section :: "public_env \<Rightarrow> user option \<Rightarrow> bool \<Rightarrow> 'e node" where
  "hero_section env u loading =
     El ''section'' []
      [El ''div'' []
        [El ''div'' [] [El ''CheckCircle2'' [] [], Txt (PUBLIC_ORGANIZATION_NAME env)],
         El ''h1'' [] [Txt (js ''Satu akun untuk semua layanan '' @ PUBLIC_ORGANIZATION_NAME env @ js ''.'')],
         El ''p'' [] [lit ''Single Sign-On (SSO) resmi yang memudahkan anggota dan pengurus mengakses seluruh layanan digital organisasi hanya dengan satu akun.''],
         El ''div'' [Flag ''aria-busy'' loading]
          (link_button [Attr ''size'' (js ''lg'')] (portalHref u)
             [lit (if u \<noteq> None then ''Kelola akun'' else ''Masuk ke akun''), El ''LogIn'' [] []]
           # show_if (u = None)
               [link_button [Attr ''size'' (js ''lg''), Attr ''variant'' (js ''outline'')] (js ''/register'')
                  [El ''Sparkles'' [] [], lit ''Daftar sekarang'']])]]"

definition services_section :: "'e node" where
  "services_section =
     El ''section'' []
      [El ''div'' []
        [El ''div'' [] [El ''div'' [] [El ''p'' [] [lit ''Ekosistem layanan''], El ''h2'' [] [lit ''Layanan yang terhubung dengan SSO.'']],
           El ''p'' [] [lit ''Satu akun untuk layanan digital organisasi yang sedang kami siapkan.'']],
         El ''div'' [] (map service_card connectedServices)]]"

definition benefits_section :: "public_env \<Rightarrow> 'e node" where
  "benefits_section env =
     El ''section'' []
      [El ''div'' [] [El ''p'' [] [lit ''Kenapa SSO?''], El ''h2'' [] [lit ''Kemudahan akses untuk anggota organisasi.''],
         El ''p'' [] [Txt (js ''Dengan satu akun SSO, Anda bisa langsung terhubung ke semua aplikasi dan layanan digital ''
           @ PUBLIC_ORGANIZATION_NAME env @ js ''.'')]],
       El ''div'' [] (map (\<lambda>v. El ''article'' [Attr ''key'' (js (bn_title v))]
         [El ''span'' [] [El (bn_icon v) [] []], El ''h3'' [] [lit (bn_title v)], El ''p'' [] [Txt (bn_description v)]]) benefits)]"

definition join_section :: "public_env \<Rightarrow> user option \<Rightarrow> 'e node" where
  "join_section env u =
     El ''section'' []
      [El ''div'' []
        [El ''h2'' [] [lit ''Siap bergabung?''],
         El ''p'' [] [Txt (js ''Buat akun SSO Anda sekarang dan nikmati kemudahan mengakses seluruh layanan digital ''
           @ PUBLIC_ORGANIZATION_NAME env @ js '' dengan satu kali login.'')],
         El ''div'' []
          (link_button [Attr ''size'' (js ''lg'')] (if u \<noteq> None then js ''/dashboard/profil'' else js ''/register'')
             [lit (if u \<noteq> None then ''Buka portal'' else ''Daftar akun''), El ''ArrowRight'' [] []]
           # show_if (u = None) [link_button [Attr ''size'' (js ''lg''), Attr ''variant'' (js ''outline'')] (js ''/login'')
               [lit ''Sudah punya akun? Masuk'']])]]"

definition home_footer :: "public_env \<Rightarrow> 'e node" where
  "home_footer env =
     El ''footer'' []
      [El ''div'' [] [Brand env False,
         El ''p'' [] [Txt (js ''Pusat identitas dan akses resmi '' @ PUBLIC_ORGANIZATION_NAME env @ js ''.'')]]]"

definition Home :: "public_env \<Rightarrow> user option \<Rightarrow> bool \<Rightarrow> 'e node" where
  "Home env u loading =
     El ''main'' []
      [home_header env u loading, hero_section env u loading, services_section, benefits_section env, join_section env u,
       home_footer env]"

section \<open>Links\<close>

lemma link_button_hrefs: "concat (map attr_hrefs ps) = [] \<Longrightarrow> hrefs (link_button ps h [n, m]) = h # hrefs n @ hrefs m"
  "concat (map attr_hrefs ps) = [] \<Longrightarrow> hrefs (link_button ps h [n]) = h # hrefs n"
  by (simp_all add: link_button_def link_def)

lemma service_hrefs: "hrefs (service_card v) = (case sv_href v of Some h \<Rightarrow> [h] | None \<Rightarrow> [])"
  by (cases "sv_href v") (simp_all add: service_card_def lit_def show_if_def)

lemma section_hrefs:
  "hrefs services_section = [js ''https://s.pelajarnumagetan.or.id'']" "hrefs (benefits_section env) = []"
  "hrefs (home_footer env) = []" "hrefs (home_header env u l) = [portalHref u]"
  by (simp_all add: services_section_def connectedServices_def service_hrefs benefits_section_def benefits_def
      home_footer_def home_header_def link_button_hrefs lit_def)

lemma home_hrefs:
  "set (hrefs (Home env u l)) = insert (js ''https://s.pelajarnumagetan.or.id'')
     (if u = None then {js ''/login'', js ''/register''} else {js ''/dashboard/profil''})"
  by (auto simp: Home_def section_hrefs hero_section_def join_section_def link_button_hrefs show_if_def lit_def portalHref_def)

end
