(* ===== verification/Sidebar.thy ===== *)
theory Sidebar
  imports Authorize
begin

text \<open>
  The dashboard's sidebar (\<open>components/ui/sidebar.tsx\<close>, \<open>hooks/use-mobile.ts\<close>): the provider's state, with a
  sheet for narrow windows and a panel that collapses to icons otherwise, the keyboard shortcut, the
  cookie, and the elements whose rendering depends on the state. \<open>document.cookie = c\<close>, the caller's
  \<open>onOpenChange\<close> and \<open>preventDefault\<close> are effects.
\<close>

section \<open>Width of the window\<close>

definition MOBILE_BREAKPOINT :: int where
  "MOBILE_BREAKPOINT = 768"

text \<open>\<open>useSyncExternalStore\<close>: the server's snapshot until hydration, then \<open>window.innerWidth < 768\<close>.\<close>

definition getSnapshot :: "int \<Rightarrow> bool" where
  "getSnapshot innerWidth = (innerWidth < MOBILE_BREAKPOINT)"

definition getServerSnapshot :: bool where
  "getServerSnapshot = False"

definition useIsMobile :: "bool \<Rightarrow> int \<Rightarrow> bool" where
  "useIsMobile hydrated innerWidth = (if hydrated then getSnapshot innerWidth else getServerSnapshot)"

definition media_query :: jstr where
  "media_query = js ''(max-width: '' @ int_str (MOBILE_BREAKPOINT - 1) @ js ''px)''"

section \<open>The provider\<close>

record sidebar_props =
  sbp_defaultOpen :: bool
  sbp_open :: "bool option"
  sbp_onOpenChange :: bool

definition default_props :: sidebar_props where
  "default_props = \<lparr>sbp_defaultOpen = True, sbp_open = None, sbp_onOpenChange = False\<rparr>"

record sidebar_state =
  sb_isMobile :: bool
  sb_openMobile :: bool
  sb_open :: bool

datatype sidebar_effect = SetOpenProp bool | Cookie jstr | PreventDefault

datatype sidebar_event =
    Resized int
  | KeyDown jstr bool bool
  | TriggerClick
  | RailClick
  | SheetOpenChange bool

type_synonym sidebar_result = "sidebar_state \<times> sidebar_effect list"

definition SIDEBAR_COOKIE_NAME :: jstr where
  "SIDEBAR_COOKIE_NAME = js ''sidebar_state''"

definition SIDEBAR_COOKIE_MAX_AGE :: int where
  "SIDEBAR_COOKIE_MAX_AGE = 60 * 60 * 24 * 7"

definition SIDEBAR_KEYBOARD_SHORTCUT :: jstr where
  "SIDEBAR_KEYBOARD_SHORTCUT = js ''b''"

definition sidebar_init :: "sidebar_props \<Rightarrow> sidebar_state" where
  "sidebar_init p = \<lparr>sb_isMobile = getServerSnapshot, sb_openMobile = False, sb_open = sbp_defaultOpen p\<rparr>"

definition shown_open :: "sidebar_props \<Rightarrow> sidebar_state \<Rightarrow> bool" where
  "shown_open p s = (case sbp_open p of Some v \<Rightarrow> v | None \<Rightarrow> sb_open s)"

definition bool_text :: "bool \<Rightarrow> jstr" where
  "bool_text v = js (if v then ''true'' else ''false'')"

definition cookie_text :: "bool \<Rightarrow> jstr" where
  "cookie_text v = SIDEBAR_COOKIE_NAME @ js ''='' @ bool_text v @ js ''; path=/; max-age='' @ int_str SIDEBAR_COOKIE_MAX_AGE"

definition setOpen :: "sidebar_props \<Rightarrow> (bool \<Rightarrow> bool) \<Rightarrow> sidebar_state \<Rightarrow> sidebar_result" where
  "setOpen p f s =
     (let openState = f (shown_open p s)
      in if sbp_onOpenChange p then (s, [SetOpenProp openState, Cookie (cookie_text openState)])
         else (s\<lparr>sb_open := openState\<rparr>, [Cookie (cookie_text openState)]))"

definition toggleSidebar :: "sidebar_props \<Rightarrow> sidebar_state \<Rightarrow> sidebar_result" where
  "toggleSidebar p s = (if sb_isMobile s then (s\<lparr>sb_openMobile := \<not> sb_openMobile s\<rparr>, []) else setOpen p Not s)"

definition handleKeyDown :: "sidebar_props \<Rightarrow> jstr \<Rightarrow> bool \<Rightarrow> bool \<Rightarrow> sidebar_state \<Rightarrow> sidebar_result" where
  "handleKeyDown p key metaKey ctrlKey s =
     (if key = SIDEBAR_KEYBOARD_SHORTCUT \<and> (metaKey \<or> ctrlKey)
      then (let (t, effs) = toggleSidebar p s in (t, PreventDefault # effs)) else (s, []))"

fun sidebar_step :: "sidebar_props \<Rightarrow> sidebar_state \<Rightarrow> sidebar_event \<Rightarrow> sidebar_result" where
  "sidebar_step p s (Resized w) = (s\<lparr>sb_isMobile := getSnapshot w\<rparr>, [])"
| "sidebar_step p s (KeyDown k m c) = handleKeyDown p k m c s"
| "sidebar_step p s TriggerClick = toggleSidebar p s"
| "sidebar_step p s RailClick = toggleSidebar p s"
| "sidebar_step p s (SheetOpenChange v) = (s\<lparr>sb_openMobile := v\<rparr>, [])"

section \<open>Elements\<close>

definition state_text :: "sidebar_props \<Rightarrow> sidebar_state \<Rightarrow> string" where
  "state_text p s = (if shown_open p s then ''expanded'' else ''collapsed'')"

text \<open>
  The value of the context (its functions are \<open>setOpen\<close>, \<open>toggleSidebar\<close> and the event
  \<open>SheetOpenChange\<close>), \<open>useSidebar\<close> (\<open>null\<close> outside the provider) and the provider's own element.
\<close>

record sidebar_context =
  sc_state :: string
  sc_open :: bool
  sc_isMobile :: bool
  sc_openMobile :: bool

definition contextValue :: "sidebar_props \<Rightarrow> sidebar_state \<Rightarrow> sidebar_context" where
  "contextValue p s = \<lparr>sc_state = state_text p s, sc_open = shown_open p s, sc_isMobile = sb_isMobile s,
     sc_openMobile = sb_openMobile s\<rparr>"

definition useSidebar :: "sidebar_context option \<Rightarrow> js_error + sidebar_context" where
  "useSidebar context =
     (case context of
        None \<Rightarrow> Inl (JsError ''Error'' None (js ''useSidebar must be used within a SidebarProvider.''))
      | Some c \<Rightarrow> Inr c)"

definition sidebar_style :: "(string \<times> jstr) list \<Rightarrow> (string \<times> jstr) list" where
  "sidebar_style style =
     filter (\<lambda>(k, v). k \<notin> fst ` set style)
       [(''--sidebar-width'', js ''16rem''), (''--sidebar-width-icon'', js ''3rem'')] @ style"

definition SidebarProvider ::
  "sidebar_props \<Rightarrow> sidebar_state \<Rightarrow> (string \<times> jstr) list \<Rightarrow> 'e attr list \<Rightarrow> (sidebar_context \<Rightarrow> 'e node list) \<Rightarrow> 'e node" where
  "SidebarProvider p s style ps children =
     El ''div'' (Attr ''data-slot'' (js ''sidebar-wrapper'') # map (\<lambda>(k, v). Attr k v) (sidebar_style style) @ ps)
      (children (contextValue p s))"

definition SidebarPanel :: "string \<Rightarrow> string \<Rightarrow> string \<Rightarrow> sidebar_props \<Rightarrow> sidebar_state \<Rightarrow> sidebar_event node list \<Rightarrow> sidebar_event node" where
  "SidebarPanel side variant collapsible p s children =
     (if collapsible = ''none'' then El ''div'' [Attr ''data-slot'' (js ''sidebar'')] children
      else if sb_isMobile s then
        El ''Sheet'' [Flag ''open'' (sb_openMobile s), OnClick (SheetOpenChange False)]
         [El ''SheetContent'' [Attr ''data-sidebar'' (js ''sidebar''), Attr ''data-slot'' (js ''sidebar''),
             Attr ''data-mobile'' (js ''true''), Attr ''side'' (js side)]
           [El ''SheetHeader'' [] [El ''SheetTitle'' [] [lit ''Navigasi PelajarNU Magetan ID''],
              El ''SheetDescription'' [] [lit ''Menu portal identitas dan pengaturan akun.'']],
            El ''div'' [] children]]
      else El ''div'' [Attr ''data-state'' (js (state_text p s)),
          Attr ''data-collapsible'' (js (if state_text p s = ''collapsed'' then collapsible else [])),
          Attr ''data-variant'' (js variant), Attr ''data-side'' (js side), Attr ''data-slot'' (js ''sidebar'')]
        [El ''div'' [Attr ''data-slot'' (js ''sidebar-gap'')] [],
         El ''div'' [Attr ''data-slot'' (js ''sidebar-container''), Attr ''data-side'' (js side)]
          [El ''div'' [Attr ''data-sidebar'' (js ''sidebar''), Attr ''data-slot'' (js ''sidebar-inner'')] children]])"

definition SidebarTrigger :: "sidebar_event node" where
  "SidebarTrigger =
     El ''Button'' [Attr ''data-sidebar'' (js ''trigger''), Attr ''data-slot'' (js ''sidebar-trigger''), Attr ''variant'' (js ''ghost''),
         Attr ''size'' (js ''icon-sm''), OnClick TriggerClick]
      [El ''PanelLeftIcon'' [] [], El ''span'' [] [lit ''Toggle Sidebar'']]"

definition SidebarRail :: "sidebar_event node" where
  "SidebarRail =
     El ''button'' [Attr ''data-sidebar'' (js ''rail''), Attr ''data-slot'' (js ''sidebar-rail''),
       Attr ''aria-label'' (js ''Toggle Sidebar''), Num ''tabIndex'' (- 1), OnClick RailClick, Attr ''title'' (js ''Toggle Sidebar'')] []"

text \<open>A menu button; its tooltip exists only where one is given, and is hidden unless the panel shows icons.\<close>

definition SidebarMenuButton ::
  "bool \<Rightarrow> string \<Rightarrow> jstr option \<Rightarrow> sidebar_props \<Rightarrow> sidebar_state \<Rightarrow> 'e node list \<Rightarrow> 'e node" where
  "SidebarMenuButton isActive buttonSize tooltip p s children =
     (let button = El ''button'' [Attr ''data-slot'' (js ''sidebar-menu-button''), Attr ''data-sidebar'' (js ''menu-button''),
            Attr ''data-size'' (js buttonSize), Flag ''data-active'' isActive] children
      in if \<not> truthy tooltip then button
         else El ''Tooltip'' []
          [El ''TooltipTrigger'' [] [button],
           El ''TooltipContent'' [Attr ''side'' (js ''right''), Attr ''align'' (js ''center''),
             Flag ''hidden'' (state_text p s \<noteq> ''collapsed'' \<or> sb_isMobile s)] [Txt (the tooltip)]])"

text \<open>\<open>Math.random()\<close>, in \<open>[0, 1)\<close>, is an argument.\<close>

definition skeleton_width :: "rat \<Rightarrow> int" where
  "skeleton_width random = \<lfloor>random * 40\<rfloor> + 50"

definition SidebarMenuSkeleton :: "bool \<Rightarrow> rat \<Rightarrow> 'e node" where
  "SidebarMenuSkeleton showIcon random =
     El ''div'' [Attr ''data-slot'' (js ''sidebar-menu-skeleton''), Attr ''data-sidebar'' (js ''menu-skeleton'')]
      (show_if showIcon [El ''Skeleton'' [Attr ''data-sidebar'' (js ''menu-skeleton-icon'')] []]
       @ [El ''Skeleton'' [Attr ''data-sidebar'' (js ''menu-skeleton-text''),
            Attr ''--skeleton-width'' (int_str (skeleton_width random) @ js ''%'')] []])"

section \<open>The cookie\<close>

text \<open>The state together with the sidebar's cookie, as the effects write it.\<close>

fun write_cookie :: "sidebar_effect list \<Rightarrow> jstr option \<Rightarrow> jstr option" where
  "write_cookie [] c = c"
| "write_cookie (Cookie v # es) c = write_cookie es (Some v)"
| "write_cookie (e # es) c = write_cookie es c"

definition page_next :: "sidebar_props \<Rightarrow> sidebar_state \<times> jstr option \<Rightarrow> sidebar_event \<Rightarrow> sidebar_state \<times> jstr option" where
  "page_next p sc e = (let (s, effs) = sidebar_step p (fst sc) e in (s, write_cookie effs (snd sc)))"

definition cookie_inv :: "sidebar_state \<times> jstr option \<Rightarrow> bool" where
  "cookie_inv sc = (\<forall>c. snd sc = Some c \<longrightarrow> c = cookie_text (sb_open (fst sc)))"

lemma shown_open_uncontrolled [simp]: "sbp_open p = None \<Longrightarrow> shown_open p s = sb_open s"
  by (simp add: shown_open_def)

lemma toggle_uncontrolled:
  assumes "sbp_open p = None" "\<not> sbp_onOpenChange p"
  shows "toggleSidebar p s = (if sb_isMobile s then (s\<lparr>sb_openMobile := \<not> sb_openMobile s\<rparr>, [])
    else (s\<lparr>sb_open := \<not> sb_open s\<rparr>, [Cookie (cookie_text (\<not> sb_open s))]))"
  using assms by (simp add: toggleSidebar_def setOpen_def Let_def)

lemma cookie_inv_step:
  assumes "cookie_inv sc" "sbp_open p = None" "\<not> sbp_onOpenChange p"
  shows "cookie_inv (page_next p sc e)"
  using assms by (cases e) (auto simp: cookie_inv_def page_next_def handleKeyDown_def toggle_uncontrolled Let_def split: if_splits)

interpretation sidebar: machine_invariant "(sidebar_init default_props, None)" "page_next default_props" "\<lambda>s e. True" cookie_inv
proof unfold_locales
  show "cookie_inv (sidebar_init default_props, None)" by (simp add: cookie_inv_def)
qed (rule cookie_inv_step; simp add: default_props_def)

text \<open>The shortcut, the trigger and the rail are one action, and doing it twice shows the same again.\<close>

lemma toggle_twice:
  assumes "sbp_open p = None" "\<not> sbp_onOpenChange p"
  shows "fst (toggleSidebar p (fst (toggleSidebar p s))) = s"
  using assms by (simp add: toggle_uncontrolled)

lemma skeleton_width_bounds: "0 \<le> r \<Longrightarrow> r < 1 \<Longrightarrow> 50 \<le> skeleton_width r \<and> skeleton_width r < 90"
  by (simp add: skeleton_width_def floor_less_iff)

lemma cookie_age: "int_str SIDEBAR_COOKIE_MAX_AGE = js ''604800''"
  by (simp add: SIDEBAR_COOKIE_MAX_AGE_def int_str_def nat_str.simps js_def)

section \<open>Further facts\<close>

text \<open>In every reachable state of the dashboard's sidebar, a cookie it has written names the present state of
  the desktop panel, and toggling in a narrow window (by trigger, rail or shortcut) writes no cookie and
  leaves that panel alone.\<close>

lemma sidebar_cookie_current:
  assumes "reach (sidebar_init default_props, None) (page_next default_props) (\<lambda>s e. True) (s, c)"
  shows "c \<in> {None, Some (js ''sidebar_state='' @ (if sb_open s then js ''true'' else js ''false'') @ js ''; path=/; max-age=604800'')}
    \<and> toggleSidebar default_props (s\<lparr>sb_isMobile := True\<rparr>) = (s\<lparr>sb_isMobile := True, sb_openMobile := \<not> sb_openMobile s\<rparr>, [])"
proof -
  have "cookie_inv (s, c)" by (rule sidebar.reach_inv [OF assms])
  moreover have "cookie_text v = js ''sidebar_state='' @ (if v then js ''true'' else js ''false'') @ js ''; path=/; max-age=604800''" for v
    by (simp add: cookie_text_def cookie_age bool_text_def SIDEBAR_COOKIE_NAME_def flip: js_append)
  ultimately show ?thesis by (cases c) (simp_all add: cookie_inv_def toggleSidebar_def)
qed

end
