(* ===== verification/ListQueries.thy ===== *)
theory ListQueries
  imports AppDetail AuditLog
begin

text \<open>
  The query texts of the three searchable lists (users, assigned users, audit log): what a search text
  can put into an address. \<open>URLSearchParams\<close> is the serialiser of the prelude of texts.
\<close>

section \<open>Serialised queries\<close>

definition form_safe :: "unit16 \<Rightarrow> bool" where
  "form_safe u = (form_keep (unat u) \<or> u = 37 \<or> u = 43)"

lemma form_keep_small: "form_keep c \<Longrightarrow> c < 128 \<and> c \<noteq> 37 \<and> c \<noteq> 43 \<and> c \<noteq> 32"
  by (auto simp: form_keep_def alnum_def)

lemma hex_digit_form_safe: "d < 16 \<Longrightarrow> form_safe (hex_digit d)"
  using hex_digit_unat [of d] by (auto simp: form_safe_def form_keep_def alnum_def)

lemma pct_form_safe: "b < 256 \<Longrightarrow> u \<in> set (pct b) \<Longrightarrow> form_safe u"
proof -
  assume b: "b < 256" and u: "u \<in> set (pct b)"
  have "b div 16 < 16" "b mod 16 < 16" using b by auto
  then show "form_safe u" using u by (auto simp: pct_def hex_digit_form_safe) (simp add: form_safe_def)
qed

lemma form_cp_safe:
  assumes "c < 0x110000" "u \<in> set (form_cp c)"
  shows "form_safe u"
proof (cases "c = 32 \<or> form_keep c")
  case True
  have "unat (of_nat c :: unit16) = c" if "form_keep c"
    using form_keep_small [OF that] by (intro unat_of_nat_16) simp
  with True assms show ?thesis by (auto simp: form_cp_def escape_cp_def form_safe_def split: if_splits)
next
  case False
  with assms(2) obtain b where b: "b \<in> set (utf8 c)" "u \<in> set (pct b)"
    by (auto simp: form_cp_def escape_cp_def)
  with utf8_bytes [OF assms(1)] pct_form_safe show ?thesis by blast
qed

lemma usv_bound: "c < 0x110000 \<Longrightarrow> usv c < 0x110000"
  by (simp add: usv_def)

lemma form_encode_safe: "u \<in> set (form_encode s) \<Longrightarrow> form_safe u"
proof -
  assume "u \<in> set (form_encode s)"
  then obtain c where c: "c \<in> set (code_points s)" "u \<in> set (form_cp (usv c))" by (auto simp: form_encode_def)
  from usv_bound [OF code_points_bound [OF c(1)]] c(2) show ?thesis by (rule form_cp_safe)
qed

lemma form_safe_no_separator: "form_safe u \<Longrightarrow> u \<noteq> 38 \<and> u \<noteq> 61 \<and> u \<noteq> 35"
proof -
  have n: "unat (38 :: unit16) = 38" "unat (61 :: unit16) = 61" "unat (35 :: unit16) = 35" by simp_all
  assume "form_safe u"
  then show ?thesis unfolding form_safe_def form_keep_def alnum_def using n by auto
qed

lemma form_encode_kept:
  assumes "\<forall>u\<in>set s. form_keep (unat u)"
  shows "form_encode s = s"
proof -
  have "plain s" using assms form_keep_small by (fastforce simp: plain_def list_all_iff surrogate_def)
  moreover have "form_cp (usv (unat u)) = [u]" if "u \<in> set s" for u
    using assms that form_keep_small [of "unat u"] by (auto simp: form_cp_def usv_def surrogate_def escape_cp_def)
  then have "concat (map (\<lambda>u. form_cp (usv (unat u))) s) = s"
    using assms by (induction s) auto
  ultimately show ?thesis by (simp add: form_encode_def code_points_plain o_def)
qed

text \<open>The serialiser tells well-formed texts apart.\<close>

interpretation form_code: prefix_code "\<lambda>c. c < 0x110000" form_cp
proof unfold_locales
  show "form_cp c \<noteq> []" for c by (simp add: form_cp_def escape_cp_nonempty)
next
  fix x y :: nat and r s
  assume x: "x < 0x110000" and y: "y < 0x110000" and e: "form_cp x @ r = form_cp y @ s"
  have plus: "escape_cp form_keep c @ p \<noteq> 43 # q" for c p q
  proof (cases "form_keep c")
    case True
    then have "unat (of_nat c :: unit16) = c" using form_keep_small [OF True] by (intro unat_of_nat_16) simp
    moreover have "unat (43 :: unit16) = 43" by simp
    ultimately have "(of_nat c :: unit16) \<noteq> 43" using form_keep_small [OF True] by metis
    then show ?thesis using True by (simp add: escape_cp_def)
  qed (auto simp: escape_cp_def utf8_def pct_def)
  show "x = y"
  proof (cases "x = 32 \<or> y = 32")
    case True
    with e plus [of x r s] plus [of y s r] show ?thesis by (auto simp: form_cp_def split: if_splits)
  next
    case False
    with e show ?thesis
      by (intro escape_cp_code [of form_keep x y r s]) (use x y form_keep_small in \<open>auto simp: form_cp_def\<close>)
  qed
qed

lemma form_encode_inj:
  assumes "form_encode s = form_encode t" "well_formed s" "well_formed t"
  shows "s = t"
proof -
  have m: "map (\<lambda>c. form_cp (usv c)) (code_points x) = map form_cp (code_points x)" if "well_formed x" for x
    using that by (auto simp: well_formed_def list_all_iff usv_def)
  have "list_all (\<lambda>c. c < 0x110000) (code_points x)" for x
    by (simp add: list_all_iff code_points_bound)
  with assms m have "code_points s = code_points t"
    by (intro form_code.concat_inj) (simp_all add: form_encode_def)
  then show ?thesis by (rule code_points_inj)
qed

section \<open>The three lists\<close>

definition query_part :: "string \<Rightarrow> jstr \<Rightarrow> jstr" where
  "query_part n v = js n @ js ''='' @ form_encode v"

lemma kept_names:
  "form_encode (js ''page'') = js ''page''" "form_encode (js ''page_size'') = js ''page_size''"
  "form_encode (js ''search'') = js ''search''" "form_encode (js ''action'') = js ''action''"
  by (rule form_encode_kept; simp add: js_def form_keep_def alnum_def)+

lemma query_part_free: "38 \<notin> set (js n) \<Longrightarrow> 38 \<notin> set (query_part n v)"
  using form_encode_safe [of 38 v] form_safe_no_separator [of 38] by (auto simp: query_part_def js_def)

lemma split_query:
  assumes "ps \<noteq> []" "\<forall>(n, v)\<in>set ps. form_encode (js n) = js n"
  shows "split_on 38 (query_string (map (\<lambda>(n, v). (js n, v)) ps)) = map (\<lambda>(n, v). query_part n v) ps"
proof -
  have "map (\<lambda>(n, v). form_encode n @ js ''='' @ form_encode v) (map (\<lambda>(n, v). (js n, v)) ps) = map (\<lambda>(n, v). query_part n v) ps"
    using assms(2) by (auto simp: query_part_def)
  moreover have "38 \<notin> set (query_part n v)" if "(n, v) \<in> set ps" for n v
  proof (rule query_part_free)
    have "form_encode (js n) = js n" using assms(2) that by auto
    then show "38 \<notin> set (js n)" using form_encode_safe [of 38 "js n"] form_safe_no_separator by metis
  qed
  moreover have "js ''&'' = [38]" by (simp add: js_def)
  ultimately show ?thesis using assms(1)
    by (simp only: query_string_def) (intro split_join, auto)
qed

definition list_query :: "int \<Rightarrow> jstr \<Rightarrow> (string \<times> jstr) list" where
  "list_query page q = [(''page'', int_str page), (''page_size'', int_str 20)] @ (if q = [] then [] else [(''search'', q)])"

lemma list_queries:
  "users_query p q = map (\<lambda>(n, v). (js n, v)) (list_query p q)"
  "assignments_query p q = map (\<lambda>(n, v). (js n, v)) (list_query p q)"
  "logs_query s = map (\<lambda>(n, v). (js n, v)) (list_query (al_page s) (al_debouncedSearch s)
     @ (if al_action s = js ''all'' then [] else [(''action'', al_action s)]))"
  by (simp_all add: users_query_def assignments_query_def logs_query_def list_query_def query_set_def Let_def)

lemma list_query_kept: "\<forall>(n, v)\<in>set (list_query p q @ (if c then [] else [(''action'', a)])). form_encode (js n) = js n"
  by (auto simp: list_query_def kept_names)

section \<open>Asking for page 0\<close>

text \<open>The last step of \<open>revoke_then_first_page\<close> sends the request for page 0.\<close>

lemma page_zero_query: "\<exists>rest. query_string (assignments_query 0 d) = js ''page=0&page_size=20'' @ rest"
proof -
  have n: "int_str 0 = js ''0''" "int_str 20 = js ''20''"
    by (simp_all add: int_str_def nat_str.simps js_def)
  have e: "form_encode (js ''page'') = js ''page''" "form_encode (js ''page_size'') = js ''page_size''"
    "form_encode (js ''0'') = js ''0''" "form_encode (js ''20'') = js ''20''"
    by (rule form_encode_kept; simp add: js_def form_keep_def alnum_def)+
  have "assignments_query 0 d = [(js ''page'', int_str 0), (js ''page_size'', int_str 20)]
      @ (if d \<noteq> [] then [(js ''search'', d)] else [])"
    by (simp add: assignments_query_def query_set_def Let_def js_def)
  then show ?thesis by (auto simp: query_string_def n e) (simp_all add: js_def)
qed

lemma revoke_asks_page_zero:
  assumes "ad_client s = Some c" "ad_assignments s = [a]" "a_user_id a \<noteq> c_owner_id c" "ad_revokingUserID s = None"
    "assignment_path (c_client_id c) (a_user_id a) = Some p" "ad_page s > 1" "client_path cid = Some q"
  shows "\<exists>rest. map fr_url (sent (snd (ad_step b cid (run (ad_next b cid) s [AdRevoke a, AdPageChange 1])
      (RevokeAnswer (length (ad_pending s)) (Inr ()))))) = [b_api_url b @ q @ js ''/assignments?page=0&page_size=20'' @ rest]"
proof -
  let ?k = "length (ad_pending s)"
  obtain rest where r: "query_string (assignments_query 0 (ad_debouncedSearch s)) = js ''page=0&page_size=20'' @ rest"
    using page_zero_query by blast
  define s1 where "s1 = ad_next b cid s (AdRevoke a)"
  have s1: "s1 = s\<lparr>ad_revokingUserID := Some (a_user_id a), ad_pending := ad_pending s @ [AwaitRevoke a 1 (ad_total s) (ad_page s)]\<rparr>"
    using assms by (simp add: s1_def ad_next_def revokeAssignment_def truthy_def)
  define s2 where "s2 = ad_next b cid s1 (AdPageChange 1)"
  have s2: "ad_page s2 = 1" "ad_pending s2 ! ?k = AwaitRevoke a 1 (ad_total s) (ad_page s)"
      "ad_debouncedSearch s2 = ad_debouncedSearch s"
    using assms(6,7) by (simp_all add: s2_def ad_next_def s1 ad_set_page_def ad_load_def Let_def nth_append)
  have "map fr_url (sent (snd (ad_step b cid s2 (RevokeAnswer ?k (Inr ()))))) =
      [b_api_url b @ q @ js ''/assignments?'' @ query_string (assignments_query 0 (ad_debouncedSearch s))]"
    using s2 assms(6,7) by (simp add: revoke_settled_def Let_def case_prod_beta ad_set_page_def ad_load_def ad_drop_def)
  then show ?thesis using r by (simp add: s1_def s2_def js_def)
qed

end
