(* ===== verification/UiKit.thy ===== *)
theory UiKit
  imports View
begin

text \<open>
  The components of \<open>components/ui/\<close> that the pages' trees name: each is a function of its props and
  children to the tree it renders, over native elements and the primitives of the component library
  (\<open>DialogPrimitive.Root\<close>, \<open>Slot.Root\<close> and so on, which stay tags). Among props with one name the last
  counts, as in JSX; classes are left out.
\<close>

section \<open>Props\<close>

text \<open>Destructuring: the value of a prop or its default, and the props that are left to be passed on.\<close>

fun attr_named :: "string \<Rightarrow> 'e attr \<Rightarrow> bool" where
  "attr_named n (Attr m v) = (n = m)"
| "attr_named n (Num m v) = (n = m)"
| "attr_named n (Flag m v) = (n = m)"
| "attr_named n _ = False"

definition rest :: "string list \<Rightarrow> 'e attr list \<Rightarrow> 'e attr list" where
  "rest names ps = filter (\<lambda>p. \<not> list_ex (\<lambda>n. attr_named n p) names) ps"

definition copy_prop :: "string \<Rightarrow> 'e attr list \<Rightarrow> 'e attr list" where
  "copy_prop n ps = filter (attr_named n) ps"

definition str_prop :: "string \<Rightarrow> string \<Rightarrow> 'e attr list \<Rightarrow> jstr" where
  "str_prop n d ps = (case copy_prop n ps of Attr m v # _ \<Rightarrow> v | _ \<Rightarrow> js d)"

definition num_prop :: "string \<Rightarrow> int \<Rightarrow> 'e attr list \<Rightarrow> int" where
  "num_prop n d ps = (case copy_prop n ps of Num m v # _ \<Rightarrow> v | _ \<Rightarrow> d)"

definition flag_prop :: "string \<Rightarrow> bool \<Rightarrow> 'e attr list \<Rightarrow> bool" where
  "flag_prop n d ps = (case copy_prop n ps of Flag m b # _ \<Rightarrow> b | _ \<Rightarrow> d)"

text \<open>\<open>data-inset={inset}\<close>, absent where \<open>inset\<close> is.\<close>

definition inset_prop :: "'e attr list \<Rightarrow> 'e attr list" where
  "inset_prop ps = (if copy_prop ''inset'' ps = [] then [] else [Flag ''data-inset'' (flag_prop ''inset'' False ps)])"

definition slot :: "string \<Rightarrow> 'e attr" where
  "slot v = Attr ''data-slot'' (js v)"

text \<open>\<open>children &&\<close>: no children and a lone empty text count as nothing.\<close>

definition has_children :: "'e node list \<Rightarrow> bool" where
  "has_children ns = (ns \<noteq> [] \<and> ns \<noteq> [Txt []])"

section \<open>\<open>label.tsx\<close>\<close>

definition Label :: "'e attr list \<Rightarrow> 'e node list \<Rightarrow> 'e node" where
  "Label ps ns = El ''LabelPrimitive.Root'' (slot ''label'' # ps) ns"


section \<open>\<open>separator.tsx\<close>\<close>

definition Separator :: "'e attr list \<Rightarrow> 'e node list \<Rightarrow> 'e node" where
  "Separator ps ns = El ''SeparatorPrimitive.Root''
     ([slot ''separator'', Flag ''decorative'' (flag_prop ''decorative'' True ps),
      Attr ''orientation'' (str_prop ''orientation'' ''horizontal'' ps)] @ rest [''orientation'', ''decorative''] ps) ns"


section \<open>\<open>input.tsx\<close>\<close>

definition Input :: "'e attr list \<Rightarrow> 'e node list \<Rightarrow> 'e node" where
  "Input ps ns = El ''input'' (copy_prop ''type'' ps @ [slot ''input''] @ rest [''type''] ps) ns"


section \<open>\<open>textarea.tsx\<close>\<close>

definition Textarea :: "'e attr list \<Rightarrow> 'e node list \<Rightarrow> 'e node" where
  "Textarea ps ns = El ''textarea'' (slot ''textarea'' # ps) ns"


section \<open>\<open>button.tsx\<close>\<close>

definition Button :: "'e attr list \<Rightarrow> 'e node list \<Rightarrow> 'e node" where
  "Button ps ns = El (if flag_prop ''asChild'' False ps then ''Slot.Root'' else ''button'')
     ([slot ''button'', Attr ''data-variant'' (str_prop ''variant'' ''default'' ps),
      Attr ''data-size'' (str_prop ''size'' ''default'' ps)] @ rest [''variant'', ''size'', ''asChild''] ps) ns"


section \<open>\<open>skeleton.tsx\<close>\<close>

definition Skeleton :: "'e attr list \<Rightarrow> 'e node list \<Rightarrow> 'e node" where
  "Skeleton ps ns = El ''div'' (slot ''skeleton'' # ps) ns"


section \<open>\<open>spinner.tsx\<close>\<close>

definition Spinner :: "'e attr list \<Rightarrow> 'e node list \<Rightarrow> 'e node" where
  "Spinner ps ns = El ''Loader2Icon''
     ([slot ''spinner'', Attr ''role'' (js ''status''), Attr ''aria-label'' (js ''Loading'')] @ ps) ns"


section \<open>\<open>badge.tsx\<close>\<close>

definition Badge :: "'e attr list \<Rightarrow> 'e node list \<Rightarrow> 'e node" where
  "Badge ps ns = El (if flag_prop ''asChild'' False ps then ''Slot.Root'' else ''span'')
     ([slot ''badge'', Attr ''data-variant'' (str_prop ''variant'' ''default'' ps)]
       @ rest [''variant'', ''asChild''] ps) ns"


section \<open>\<open>card.tsx\<close>\<close>

definition Card :: "'e attr list \<Rightarrow> 'e node list \<Rightarrow> 'e node" where
  "Card ps ns = El ''div''
     ([slot ''card'', Attr ''data-size'' (str_prop ''size'' ''default'' ps)] @ rest [''size''] ps) ns"

definition CardHeader :: "'e attr list \<Rightarrow> 'e node list \<Rightarrow> 'e node" where
  "CardHeader ps ns = El ''div'' (slot ''card-header'' # ps) ns"

definition CardTitle :: "'e attr list \<Rightarrow> 'e node list \<Rightarrow> 'e node" where
  "CardTitle ps ns = El ''div'' (slot ''card-title'' # ps) ns"

definition CardDescription :: "'e attr list \<Rightarrow> 'e node list \<Rightarrow> 'e node" where
  "CardDescription ps ns = El ''div'' (slot ''card-description'' # ps) ns"

definition CardAction :: "'e attr list \<Rightarrow> 'e node list \<Rightarrow> 'e node" where
  "CardAction ps ns = El ''div'' (slot ''card-action'' # ps) ns"

definition CardContent :: "'e attr list \<Rightarrow> 'e node list \<Rightarrow> 'e node" where
  "CardContent ps ns = El ''div'' (slot ''card-content'' # ps) ns"

definition CardFooter :: "'e attr list \<Rightarrow> 'e node list \<Rightarrow> 'e node" where
  "CardFooter ps ns = El ''div'' (slot ''card-footer'' # ps) ns"


section \<open>\<open>alert.tsx\<close>\<close>

definition Alert :: "'e attr list \<Rightarrow> 'e node list \<Rightarrow> 'e node" where
  "Alert ps ns = El ''div'' ([slot ''alert'', Attr ''role'' (js ''alert'')] @ rest [''variant''] ps) ns"

definition AlertTitle :: "'e attr list \<Rightarrow> 'e node list \<Rightarrow> 'e node" where
  "AlertTitle ps ns = El ''div'' (slot ''alert-title'' # ps) ns"

definition AlertDescription :: "'e attr list \<Rightarrow> 'e node list \<Rightarrow> 'e node" where
  "AlertDescription ps ns = El ''div'' (slot ''alert-description'' # ps) ns"

definition AlertAction :: "'e attr list \<Rightarrow> 'e node list \<Rightarrow> 'e node" where
  "AlertAction ps ns = El ''div'' (slot ''alert-action'' # ps) ns"


section \<open>\<open>avatar.tsx\<close>\<close>

definition Avatar :: "'e attr list \<Rightarrow> 'e node list \<Rightarrow> 'e node" where
  "Avatar ps ns = El ''AvatarPrimitive.Root''
     ([slot ''avatar'', Attr ''data-size'' (str_prop ''size'' ''default'' ps)] @ rest [''size''] ps) ns"

definition AvatarImage :: "'e attr list \<Rightarrow> 'e node list \<Rightarrow> 'e node" where
  "AvatarImage ps ns = El ''AvatarPrimitive.Image'' (slot ''avatar-image'' # ps) ns"

definition AvatarFallback :: "'e attr list \<Rightarrow> 'e node list \<Rightarrow> 'e node" where
  "AvatarFallback ps ns = El ''AvatarPrimitive.Fallback'' (slot ''avatar-fallback'' # ps) ns"

definition AvatarBadge :: "'e attr list \<Rightarrow> 'e node list \<Rightarrow> 'e node" where
  "AvatarBadge ps ns = El ''span'' (slot ''avatar-badge'' # ps) ns"

definition AvatarGroup :: "'e attr list \<Rightarrow> 'e node list \<Rightarrow> 'e node" where
  "AvatarGroup ps ns = El ''div'' (slot ''avatar-group'' # ps) ns"

definition AvatarGroupCount :: "'e attr list \<Rightarrow> 'e node list \<Rightarrow> 'e node" where
  "AvatarGroupCount ps ns = El ''div'' (slot ''avatar-group-count'' # ps) ns"


section \<open>\<open>empty.tsx\<close>\<close>

definition Empty :: "'e attr list \<Rightarrow> 'e node list \<Rightarrow> 'e node" where
  "Empty ps ns = El ''div'' (slot ''empty'' # ps) ns"

definition EmptyHeader :: "'e attr list \<Rightarrow> 'e node list \<Rightarrow> 'e node" where
  "EmptyHeader ps ns = El ''div'' (slot ''empty-header'' # ps) ns"

definition EmptyMedia :: "'e attr list \<Rightarrow> 'e node list \<Rightarrow> 'e node" where
  "EmptyMedia ps ns = El ''div''
     ([slot ''empty-icon'', Attr ''data-variant'' (str_prop ''variant'' ''default'' ps)] @ rest [''variant''] ps) ns"

definition EmptyTitle :: "'e attr list \<Rightarrow> 'e node list \<Rightarrow> 'e node" where
  "EmptyTitle ps ns = El ''div'' (slot ''empty-title'' # ps) ns"

definition EmptyDescription :: "'e attr list \<Rightarrow> 'e node list \<Rightarrow> 'e node" where
  "EmptyDescription ps ns = El ''div'' (slot ''empty-description'' # ps) ns"

definition EmptyContent :: "'e attr list \<Rightarrow> 'e node list \<Rightarrow> 'e node" where
  "EmptyContent ps ns = El ''div'' (slot ''empty-content'' # ps) ns"


section \<open>\<open>table.tsx\<close>\<close>

definition Table :: "'e attr list \<Rightarrow> 'e node list \<Rightarrow> 'e node" where
  "Table ps ns = El ''div'' [slot ''table-container''] [El ''table'' (slot ''table'' # ps) ns]"

definition TableHeader :: "'e attr list \<Rightarrow> 'e node list \<Rightarrow> 'e node" where
  "TableHeader ps ns = El ''thead'' (slot ''table-header'' # ps) ns"

definition TableBody :: "'e attr list \<Rightarrow> 'e node list \<Rightarrow> 'e node" where
  "TableBody ps ns = El ''tbody'' (slot ''table-body'' # ps) ns"

definition TableFooter :: "'e attr list \<Rightarrow> 'e node list \<Rightarrow> 'e node" where
  "TableFooter ps ns = El ''tfoot'' (slot ''table-footer'' # ps) ns"

definition TableRow :: "'e attr list \<Rightarrow> 'e node list \<Rightarrow> 'e node" where
  "TableRow ps ns = El ''tr'' (slot ''table-row'' # ps) ns"

definition TableHead :: "'e attr list \<Rightarrow> 'e node list \<Rightarrow> 'e node" where
  "TableHead ps ns = El ''th'' (slot ''table-head'' # ps) ns"

definition TableCell :: "'e attr list \<Rightarrow> 'e node list \<Rightarrow> 'e node" where
  "TableCell ps ns = El ''td'' (slot ''table-cell'' # ps) ns"

definition TableCaption :: "'e attr list \<Rightarrow> 'e node list \<Rightarrow> 'e node" where
  "TableCaption ps ns = El ''caption'' (slot ''table-caption'' # ps) ns"


section \<open>\<open>tabs.tsx\<close>\<close>

definition Tabs :: "'e attr list \<Rightarrow> 'e node list \<Rightarrow> 'e node" where
  "Tabs ps ns = El ''TabsPrimitive.Root''
     ([slot ''tabs'', Attr ''data-orientation'' (str_prop ''orientation'' ''horizontal'' ps)]
       @ rest [''orientation''] ps) ns"

definition TabsList :: "'e attr list \<Rightarrow> 'e node list \<Rightarrow> 'e node" where
  "TabsList ps ns = El ''TabsPrimitive.List''
     ([slot ''tabs-list'', Attr ''data-variant'' (str_prop ''variant'' ''default'' ps)] @ rest [''variant''] ps) ns"

definition TabsTrigger :: "'e attr list \<Rightarrow> 'e node list \<Rightarrow> 'e node" where
  "TabsTrigger ps ns = El ''TabsPrimitive.Trigger'' (slot ''tabs-trigger'' # ps) ns"

definition TabsContent :: "'e attr list \<Rightarrow> 'e node list \<Rightarrow> 'e node" where
  "TabsContent ps ns = El ''TabsPrimitive.Content'' (slot ''tabs-content'' # ps) ns"


section \<open>\<open>switch.tsx\<close>\<close>

definition Switch :: "'e attr list \<Rightarrow> 'e node list \<Rightarrow> 'e node" where
  "Switch ps ns = El ''SwitchPrimitive.Root''
     ([slot ''switch'', Attr ''data-size'' (str_prop ''size'' ''default'' ps)] @ rest [''size''] ps)
     [El ''SwitchPrimitive.Thumb'' [slot ''switch-thumb''] []]"


section \<open>\<open>tooltip.tsx\<close>\<close>

definition TooltipProvider :: "'e attr list \<Rightarrow> 'e node list \<Rightarrow> 'e node" where
  "TooltipProvider ps ns = El ''TooltipPrimitive.Provider''
     ([slot ''tooltip-provider'', Num ''delayDuration'' (num_prop ''delayDuration'' 0 ps)]
       @ rest [''delayDuration''] ps) ns"

definition Tooltip :: "'e attr list \<Rightarrow> 'e node list \<Rightarrow> 'e node" where
  "Tooltip ps ns = El ''TooltipPrimitive.Root'' (slot ''tooltip'' # ps) ns"

definition TooltipTrigger :: "'e attr list \<Rightarrow> 'e node list \<Rightarrow> 'e node" where
  "TooltipTrigger ps ns = El ''TooltipPrimitive.Trigger'' (slot ''tooltip-trigger'' # ps) ns"

definition TooltipContent :: "'e attr list \<Rightarrow> 'e node list \<Rightarrow> 'e node" where
  "TooltipContent ps ns =
     El ''TooltipPrimitive.Portal'' []
      [El ''TooltipPrimitive.Content''
        ([slot ''tooltip-content'', Num ''sideOffset'' (num_prop ''sideOffset'' 0 ps)] @ rest [''sideOffset''] ps)
        (ns @ [El ''TooltipPrimitive.Arrow'' [] []])]"


end
