(* ===== verification/UiOverlays.thy ===== *)
theory UiOverlays
  imports UiKit
begin

text \<open>
  The components of \<open>components/ui/\<close> that open above the page (dialogs, sheets, menus, selects), the
  wrappers of the form fields and of the sidebar, and the toaster.
\<close>

section \<open>\<open>alert-dialog.tsx\<close>\<close>

definition AlertDialog :: "'e attr list \<Rightarrow> 'e node list \<Rightarrow> 'e node" where
  "AlertDialog ps ns = El ''AlertDialogPrimitive.Root'' (slot ''alert-dialog'' # ps) ns"

definition AlertDialogTrigger :: "'e attr list \<Rightarrow> 'e node list \<Rightarrow> 'e node" where
  "AlertDialogTrigger ps ns = El ''AlertDialogPrimitive.Trigger'' (slot ''alert-dialog-trigger'' # ps) ns"

definition AlertDialogPortal :: "'e attr list \<Rightarrow> 'e node list \<Rightarrow> 'e node" where
  "AlertDialogPortal ps ns = El ''AlertDialogPrimitive.Portal'' (slot ''alert-dialog-portal'' # ps) ns"

definition AlertDialogOverlay :: "'e attr list \<Rightarrow> 'e node list \<Rightarrow> 'e node" where
  "AlertDialogOverlay ps ns = El ''AlertDialogPrimitive.Overlay'' (slot ''alert-dialog-overlay'' # ps) ns"

definition AlertDialogContent :: "'e attr list \<Rightarrow> 'e node list \<Rightarrow> 'e node" where
  "AlertDialogContent ps ns =
     AlertDialogPortal []
      [AlertDialogOverlay [] [],
       El ''AlertDialogPrimitive.Content''
        ([slot ''alert-dialog-content'', Attr ''data-size'' (str_prop ''size'' ''default'' ps)]
       @ rest [''size''] ps) ns]"

definition AlertDialogHeader :: "'e attr list \<Rightarrow> 'e node list \<Rightarrow> 'e node" where
  "AlertDialogHeader ps ns = El ''div'' (slot ''alert-dialog-header'' # ps) ns"

definition AlertDialogFooter :: "'e attr list \<Rightarrow> 'e node list \<Rightarrow> 'e node" where
  "AlertDialogFooter ps ns = El ''div'' (slot ''alert-dialog-footer'' # ps) ns"

definition AlertDialogMedia :: "'e attr list \<Rightarrow> 'e node list \<Rightarrow> 'e node" where
  "AlertDialogMedia ps ns = El ''div'' (slot ''alert-dialog-media'' # ps) ns"

definition AlertDialogTitle :: "'e attr list \<Rightarrow> 'e node list \<Rightarrow> 'e node" where
  "AlertDialogTitle ps ns = El ''AlertDialogPrimitive.Title'' (slot ''alert-dialog-title'' # ps) ns"

definition AlertDialogDescription :: "'e attr list \<Rightarrow> 'e node list \<Rightarrow> 'e node" where
  "AlertDialogDescription ps ns = El ''AlertDialogPrimitive.Description'' (slot ''alert-dialog-description'' # ps) ns"

definition AlertDialogAction :: "'e attr list \<Rightarrow> 'e node list \<Rightarrow> 'e node" where
  "AlertDialogAction ps ns =
     Button [Attr ''variant'' (str_prop ''variant'' ''default'' ps),
      Attr ''size'' (str_prop ''size'' ''default'' ps), Flag ''asChild'' True]
      [El ''AlertDialogPrimitive.Action'' (slot ''alert-dialog-action'' # rest [''variant'', ''size''] ps) ns]"

definition AlertDialogCancel :: "'e attr list \<Rightarrow> 'e node list \<Rightarrow> 'e node" where
  "AlertDialogCancel ps ns =
     Button [Attr ''variant'' (str_prop ''variant'' ''outline'' ps),
      Attr ''size'' (str_prop ''size'' ''default'' ps), Flag ''asChild'' True]
      [El ''AlertDialogPrimitive.Cancel'' (slot ''alert-dialog-cancel'' # rest [''variant'', ''size''] ps) ns]"


section \<open>\<open>dialog.tsx\<close>\<close>

definition Dialog :: "'e attr list \<Rightarrow> 'e node list \<Rightarrow> 'e node" where
  "Dialog ps ns = El ''DialogPrimitive.Root'' (slot ''dialog'' # ps) ns"

definition DialogTrigger :: "'e attr list \<Rightarrow> 'e node list \<Rightarrow> 'e node" where
  "DialogTrigger ps ns = El ''DialogPrimitive.Trigger'' (slot ''dialog-trigger'' # ps) ns"

definition DialogPortal :: "'e attr list \<Rightarrow> 'e node list \<Rightarrow> 'e node" where
  "DialogPortal ps ns = El ''DialogPrimitive.Portal'' (slot ''dialog-portal'' # ps) ns"

definition DialogClose :: "'e attr list \<Rightarrow> 'e node list \<Rightarrow> 'e node" where
  "DialogClose ps ns = El ''DialogPrimitive.Close'' (slot ''dialog-close'' # ps) ns"

definition DialogOverlay :: "'e attr list \<Rightarrow> 'e node list \<Rightarrow> 'e node" where
  "DialogOverlay ps ns = El ''DialogPrimitive.Overlay'' (slot ''dialog-overlay'' # ps) ns"

definition DialogContent :: "'e attr list \<Rightarrow> 'e node list \<Rightarrow> 'e node" where
  "DialogContent ps ns =
     DialogPortal []
      [DialogOverlay [] [],
       El ''DialogPrimitive.Content''
        (slot ''dialog-content'' # rest [''showCloseButton''] ps)
        (ns @ show_if (flag_prop ''showCloseButton'' True ps)
          [El ''DialogPrimitive.Close'' [slot ''dialog-close'', Flag ''asChild'' True]
            [Button [Attr ''variant'' (js ''ghost''), Attr ''size'' (js ''icon-sm'')]
              [El ''XIcon'' [] [], El ''span'' [] [lit ''Close'']]]])]"

definition DialogHeader :: "'e attr list \<Rightarrow> 'e node list \<Rightarrow> 'e node" where
  "DialogHeader ps ns = El ''div'' (slot ''dialog-header'' # ps) ns"

definition DialogFooter :: "'e attr list \<Rightarrow> 'e node list \<Rightarrow> 'e node" where
  "DialogFooter ps ns =
     El ''div'' (slot ''dialog-footer'' # rest [''showCloseButton''] ps)
      (ns @ show_if (flag_prop ''showCloseButton'' False ps)

             [El ''DialogPrimitive.Close'' [Flag ''asChild'' True] [Button [Attr ''variant'' (js ''outline'')] [lit ''Close'']]])"

definition DialogTitle :: "'e attr list \<Rightarrow> 'e node list \<Rightarrow> 'e node" where
  "DialogTitle ps ns = El ''DialogPrimitive.Title'' (slot ''dialog-title'' # ps) ns"

definition DialogDescription :: "'e attr list \<Rightarrow> 'e node list \<Rightarrow> 'e node" where
  "DialogDescription ps ns = El ''DialogPrimitive.Description'' (slot ''dialog-description'' # ps) ns"


section \<open>\<open>sheet.tsx\<close>\<close>

definition Sheet :: "'e attr list \<Rightarrow> 'e node list \<Rightarrow> 'e node" where
  "Sheet ps ns = El ''SheetPrimitive.Root'' (slot ''sheet'' # ps) ns"

definition SheetTrigger :: "'e attr list \<Rightarrow> 'e node list \<Rightarrow> 'e node" where
  "SheetTrigger ps ns = El ''SheetPrimitive.Trigger'' (slot ''sheet-trigger'' # ps) ns"

definition SheetClose :: "'e attr list \<Rightarrow> 'e node list \<Rightarrow> 'e node" where
  "SheetClose ps ns = El ''SheetPrimitive.Close'' (slot ''sheet-close'' # ps) ns"

definition SheetPortal :: "'e attr list \<Rightarrow> 'e node list \<Rightarrow> 'e node" where
  "SheetPortal ps ns = El ''SheetPrimitive.Portal'' (slot ''sheet-portal'' # ps) ns"

definition SheetOverlay :: "'e attr list \<Rightarrow> 'e node list \<Rightarrow> 'e node" where
  "SheetOverlay ps ns = El ''SheetPrimitive.Overlay'' (slot ''sheet-overlay'' # ps) ns"

definition SheetContent :: "'e attr list \<Rightarrow> 'e node list \<Rightarrow> 'e node" where
  "SheetContent ps ns =
     SheetPortal []
      [SheetOverlay [] [],
       El ''SheetPrimitive.Content''
        ([slot ''sheet-content'', Attr ''data-side'' (str_prop ''side'' ''right'' ps)]
       @ rest [''side'', ''showCloseButton''] ps)
        (ns @ show_if (flag_prop ''showCloseButton'' True ps)
          [El ''SheetPrimitive.Close'' [slot ''sheet-close'', Flag ''asChild'' True]
            [Button [Attr ''variant'' (js ''ghost''), Attr ''size'' (js ''icon-sm'')]
              [El ''XIcon'' [] [], El ''span'' [] [lit ''Close'']]]])]"

definition SheetHeader :: "'e attr list \<Rightarrow> 'e node list \<Rightarrow> 'e node" where
  "SheetHeader ps ns = El ''div'' (slot ''sheet-header'' # ps) ns"

definition SheetFooter :: "'e attr list \<Rightarrow> 'e node list \<Rightarrow> 'e node" where
  "SheetFooter ps ns = El ''div'' (slot ''sheet-footer'' # ps) ns"

definition SheetTitle :: "'e attr list \<Rightarrow> 'e node list \<Rightarrow> 'e node" where
  "SheetTitle ps ns = El ''SheetPrimitive.Title'' (slot ''sheet-title'' # ps) ns"

definition SheetDescription :: "'e attr list \<Rightarrow> 'e node list \<Rightarrow> 'e node" where
  "SheetDescription ps ns = El ''SheetPrimitive.Description'' (slot ''sheet-description'' # ps) ns"


section \<open>\<open>dropdown-menu.tsx\<close>\<close>

definition DropdownMenu :: "'e attr list \<Rightarrow> 'e node list \<Rightarrow> 'e node" where
  "DropdownMenu ps ns = El ''DropdownMenuPrimitive.Root'' (slot ''dropdown-menu'' # ps) ns"

definition DropdownMenuPortal :: "'e attr list \<Rightarrow> 'e node list \<Rightarrow> 'e node" where
  "DropdownMenuPortal ps ns = El ''DropdownMenuPrimitive.Portal'' (slot ''dropdown-menu-portal'' # ps) ns"

definition DropdownMenuTrigger :: "'e attr list \<Rightarrow> 'e node list \<Rightarrow> 'e node" where
  "DropdownMenuTrigger ps ns = El ''DropdownMenuPrimitive.Trigger'' (slot ''dropdown-menu-trigger'' # ps) ns"

definition DropdownMenuContent :: "'e attr list \<Rightarrow> 'e node list \<Rightarrow> 'e node" where
  "DropdownMenuContent ps ns =
     El ''DropdownMenuPrimitive.Portal'' []
      [El ''DropdownMenuPrimitive.Content''
        ([slot ''dropdown-menu-content'', Num ''sideOffset'' (num_prop ''sideOffset'' 4 ps),
          Attr ''align'' (str_prop ''align'' ''start'' ps)] @ rest [''align'', ''sideOffset''] ps) ns]"

definition DropdownMenuGroup :: "'e attr list \<Rightarrow> 'e node list \<Rightarrow> 'e node" where
  "DropdownMenuGroup ps ns = El ''DropdownMenuPrimitive.Group'' (slot ''dropdown-menu-group'' # ps) ns"

definition DropdownMenuItem :: "'e attr list \<Rightarrow> 'e node list \<Rightarrow> 'e node" where
  "DropdownMenuItem ps ns = El ''DropdownMenuPrimitive.Item''
     ([slot ''dropdown-menu-item''] @ inset_prop ps @ [Attr ''data-variant'' (str_prop ''variant'' ''default'' ps)]
       @ rest [''inset'', ''variant''] ps) ns"

definition DropdownMenuCheckboxItem :: "'e attr list \<Rightarrow> 'e node list \<Rightarrow> 'e node" where
  "DropdownMenuCheckboxItem ps ns =
     El ''DropdownMenuPrimitive.CheckboxItem''
      ([slot ''dropdown-menu-checkbox-item''] @ inset_prop ps @ copy_prop ''checked'' ps
       @ rest [''checked'', ''inset''] ps)
      (El ''span'' [slot ''dropdown-menu-checkbox-item-indicator'']
        [El ''DropdownMenuPrimitive.ItemIndicator'' [] [El ''CheckIcon'' [] []]] # ns)"

definition DropdownMenuRadioGroup :: "'e attr list \<Rightarrow> 'e node list \<Rightarrow> 'e node" where
  "DropdownMenuRadioGroup ps ns = El ''DropdownMenuPrimitive.RadioGroup''
     (slot ''dropdown-menu-radio-group'' # ps) ns"

definition DropdownMenuRadioItem :: "'e attr list \<Rightarrow> 'e node list \<Rightarrow> 'e node" where
  "DropdownMenuRadioItem ps ns =
     El ''DropdownMenuPrimitive.RadioItem''
      ([slot ''dropdown-menu-radio-item''] @ inset_prop ps @ rest [''inset''] ps)
      (El ''span'' [slot ''dropdown-menu-radio-item-indicator'']
        [El ''DropdownMenuPrimitive.ItemIndicator'' [] [El ''CheckIcon'' [] []]] # ns)"

definition DropdownMenuLabel :: "'e attr list \<Rightarrow> 'e node list \<Rightarrow> 'e node" where
  "DropdownMenuLabel ps ns = El ''DropdownMenuPrimitive.Label''
     ([slot ''dropdown-menu-label''] @ inset_prop ps @ rest [''inset''] ps) ns"

definition DropdownMenuSeparator :: "'e attr list \<Rightarrow> 'e node list \<Rightarrow> 'e node" where
  "DropdownMenuSeparator ps ns = El ''DropdownMenuPrimitive.Separator'' (slot ''dropdown-menu-separator'' # ps) ns"

definition DropdownMenuShortcut :: "'e attr list \<Rightarrow> 'e node list \<Rightarrow> 'e node" where
  "DropdownMenuShortcut ps ns = El ''span'' (slot ''dropdown-menu-shortcut'' # ps) ns"

definition DropdownMenuSub :: "'e attr list \<Rightarrow> 'e node list \<Rightarrow> 'e node" where
  "DropdownMenuSub ps ns = El ''DropdownMenuPrimitive.Sub'' (slot ''dropdown-menu-sub'' # ps) ns"

definition DropdownMenuSubTrigger :: "'e attr list \<Rightarrow> 'e node list \<Rightarrow> 'e node" where
  "DropdownMenuSubTrigger ps ns =
     El ''DropdownMenuPrimitive.SubTrigger'' ([slot ''dropdown-menu-sub-trigger''] @ inset_prop ps
       @ rest [''inset''] ps)
      (ns @ [El ''ChevronRightIcon'' [] []])"

definition DropdownMenuSubContent :: "'e attr list \<Rightarrow> 'e node list \<Rightarrow> 'e node" where
  "DropdownMenuSubContent ps ns = El ''DropdownMenuPrimitive.SubContent''
     (slot ''dropdown-menu-sub-content'' # ps) ns"


section \<open>\<open>select.tsx\<close>\<close>

definition Select :: "'e attr list \<Rightarrow> 'e node list \<Rightarrow> 'e node" where
  "Select ps ns = El ''SelectPrimitive.Root'' (slot ''select'' # ps) ns"

definition SelectGroup :: "'e attr list \<Rightarrow> 'e node list \<Rightarrow> 'e node" where
  "SelectGroup ps ns = El ''SelectPrimitive.Group'' (slot ''select-group'' # ps) ns"

definition SelectValue :: "'e attr list \<Rightarrow> 'e node list \<Rightarrow> 'e node" where
  "SelectValue ps ns = El ''SelectPrimitive.Value'' (slot ''select-value'' # ps) ns"

definition SelectTrigger :: "'e attr list \<Rightarrow> 'e node list \<Rightarrow> 'e node" where
  "SelectTrigger ps ns =
     El ''SelectPrimitive.Trigger''
      ([slot ''select-trigger'', Attr ''data-size'' (str_prop ''size'' ''default'' ps)] @ rest [''size''] ps)
      (ns @ [El ''SelectPrimitive.Icon'' [Flag ''asChild'' True] [El ''ChevronDownIcon'' [] []]])"

definition SelectLabel :: "'e attr list \<Rightarrow> 'e node list \<Rightarrow> 'e node" where
  "SelectLabel ps ns = El ''SelectPrimitive.Label'' (slot ''select-label'' # ps) ns"

definition SelectItem :: "'e attr list \<Rightarrow> 'e node list \<Rightarrow> 'e node" where
  "SelectItem ps ns =
     El ''SelectPrimitive.Item'' (slot ''select-item'' # ps)
      [El ''span'' [] [El ''SelectPrimitive.ItemIndicator'' [] [El ''CheckIcon'' [] []]],
       El ''SelectPrimitive.ItemText'' [] ns]"

definition SelectSeparator :: "'e attr list \<Rightarrow> 'e node list \<Rightarrow> 'e node" where
  "SelectSeparator ps ns = El ''SelectPrimitive.Separator'' (slot ''select-separator'' # ps) ns"

definition SelectScrollUpButton :: "'e attr list \<Rightarrow> 'e node list \<Rightarrow> 'e node" where
  "SelectScrollUpButton ps ns =
     El ''SelectPrimitive.ScrollUpButton'' (slot ''select-scroll-up-button'' # ps) [El ''ChevronUpIcon'' [] []]"

definition SelectScrollDownButton :: "'e attr list \<Rightarrow> 'e node list \<Rightarrow> 'e node" where
  "SelectScrollDownButton ps ns =
     El ''SelectPrimitive.ScrollDownButton'' (slot ''select-scroll-down-button'' # ps) [El ''ChevronDownIcon'' [] []]"

definition SelectContent :: "'e attr list \<Rightarrow> 'e node list \<Rightarrow> 'e node" where
  "SelectContent ps ns =
     (let position = str_prop ''position'' ''item-aligned'' ps
      in El ''SelectPrimitive.Portal'' []
          [El ''SelectPrimitive.Content''
            ([slot ''select-content'', Flag ''data-align-trigger'' (position = js ''item-aligned''),
      Attr ''position'' position,
              Attr ''align'' (str_prop ''align'' ''center'' ps)] @ rest [''position'', ''align''] ps)
            [SelectScrollUpButton [] [],
             El ''SelectPrimitive.Viewport'' [Attr ''data-position'' position] ns,
             SelectScrollDownButton [] []]])"


section \<open>\<open>field.tsx\<close>\<close>

definition FieldSet :: "'e attr list \<Rightarrow> 'e node list \<Rightarrow> 'e node" where
  "FieldSet ps ns = El ''fieldset'' (slot ''field-set'' # ps) ns"

definition FieldLegend :: "'e attr list \<Rightarrow> 'e node list \<Rightarrow> 'e node" where
  "FieldLegend ps ns = El ''legend''
     ([slot ''field-legend'', Attr ''data-variant'' (str_prop ''variant'' ''legend'' ps)] @ rest [''variant''] ps) ns"

definition FieldGroup :: "'e attr list \<Rightarrow> 'e node list \<Rightarrow> 'e node" where
  "FieldGroup ps ns = El ''div'' (slot ''field-group'' # ps) ns"

definition Field_box :: "'e attr list \<Rightarrow> 'e node list \<Rightarrow> 'e node" where
  "Field_box ps ns = El ''div''
     ([Attr ''role'' (js ''group''), slot ''field'',
      Attr ''data-orientation'' (str_prop ''orientation'' ''vertical'' ps)] @ rest [''orientation''] ps) ns"

definition FieldContent :: "'e attr list \<Rightarrow> 'e node list \<Rightarrow> 'e node" where
  "FieldContent ps ns = El ''div'' (slot ''field-content'' # ps) ns"

definition FieldLabel :: "'e attr list \<Rightarrow> 'e node list \<Rightarrow> 'e node" where
  "FieldLabel ps ns = Label (slot ''field-label'' # ps) ns"

definition FieldTitle :: "'e attr list \<Rightarrow> 'e node list \<Rightarrow> 'e node" where
  "FieldTitle ps ns = El ''div'' (slot ''field-label'' # ps) ns"

definition FieldDescription :: "'e attr list \<Rightarrow> 'e node list \<Rightarrow> 'e node" where
  "FieldDescription ps ns = El ''p'' (slot ''field-description'' # ps) ns"

definition FieldSeparator :: "'e attr list \<Rightarrow> 'e node list \<Rightarrow> 'e node" where
  "FieldSeparator ps ns =
     El ''div'' ([slot ''field-separator'', Flag ''data-content'' (has_children ns)] @ ps)
      (Separator [] [] # show_if (has_children ns) [El ''span'' [slot ''field-separator-content''] ns])"

text \<open>
  An error may be \<open>undefined\<close> (\<open>None\<close>) and its message absent. The keys of \<open>new Map(...)\<close> come in the order
  of their first insertion, and the value under a key has that key as its message.
\<close>

definition unique_messages :: "jstr option option list \<Rightarrow> jstr option list" where
  "unique_messages errors =
     rev (remdups (rev (map (\<lambda>e. case e of Some (Some m) \<Rightarrow> Some m | _ \<Rightarrow> None) errors)))"

definition has_message :: "jstr option \<Rightarrow> bool" where
  "has_message m = (case m of Some s \<Rightarrow> s \<noteq> [] | None \<Rightarrow> False)"

definition field_error_content :: "jstr option option list \<Rightarrow> 'e node list \<Rightarrow> 'e node list" where
  "field_error_content errors children =
     (if has_children children then children
      else if errors = [] then []
      else let uniqueErrors = unique_messages errors
           in if length uniqueErrors = 1
              then (if has_message (hd uniqueErrors) then [Txt (the (hd uniqueErrors))] else [])
              else [El ''ul'' [] (concat (map (\<lambda>(index, m). show_if (has_message m)
                      [El ''li'' [Num ''key'' (int index)] [Txt (the m)]]) (enumerate 0 uniqueErrors)))])"

definition FieldError :: "jstr option option list \<Rightarrow> 'e attr list \<Rightarrow> 'e node list \<Rightarrow> 'e node list" where
  "FieldError errors ps children =
     (let content = field_error_content errors children
      in show_if (content \<noteq> []) [El ''div'' ([Attr ''role'' (js ''alert''), slot ''field-error''] @ ps) content])"

section \<open>The wrappers of \<open>sidebar.tsx\<close>\<close>

definition SidebarInset :: "'e attr list \<Rightarrow> 'e node list \<Rightarrow> 'e node" where
  "SidebarInset ps ns = El ''main'' (slot ''sidebar-inset'' # ps) ns"

definition SidebarInput :: "'e attr list \<Rightarrow> 'e node list \<Rightarrow> 'e node" where
  "SidebarInput ps ns = Input ([slot ''sidebar-input'', Attr ''data-sidebar'' (js ''input'')] @ ps) ns"

definition SidebarHeader :: "'e attr list \<Rightarrow> 'e node list \<Rightarrow> 'e node" where
  "SidebarHeader ps ns = El ''div'' ([slot ''sidebar-header'', Attr ''data-sidebar'' (js ''header'')] @ ps) ns"

definition SidebarFooter :: "'e attr list \<Rightarrow> 'e node list \<Rightarrow> 'e node" where
  "SidebarFooter ps ns = El ''div'' ([slot ''sidebar-footer'', Attr ''data-sidebar'' (js ''footer'')] @ ps) ns"

definition SidebarSeparator :: "'e attr list \<Rightarrow> 'e node list \<Rightarrow> 'e node" where
  "SidebarSeparator ps ns = Separator
     ([slot ''sidebar-separator'', Attr ''data-sidebar'' (js ''separator'')] @ ps) ns"

definition SidebarContent :: "'e attr list \<Rightarrow> 'e node list \<Rightarrow> 'e node" where
  "SidebarContent ps ns = El ''div'' ([slot ''sidebar-content'', Attr ''data-sidebar'' (js ''content'')] @ ps) ns"

definition SidebarGroup :: "'e attr list \<Rightarrow> 'e node list \<Rightarrow> 'e node" where
  "SidebarGroup ps ns = El ''div'' ([slot ''sidebar-group'', Attr ''data-sidebar'' (js ''group'')] @ ps) ns"

definition SidebarGroupLabel :: "'e attr list \<Rightarrow> 'e node list \<Rightarrow> 'e node" where
  "SidebarGroupLabel ps ns = El (if flag_prop ''asChild'' False ps then ''Slot.Root'' else ''div'')
     ([slot ''sidebar-group-label'', Attr ''data-sidebar'' (js ''group-label'')] @ rest [''asChild''] ps) ns"

definition SidebarGroupAction :: "'e attr list \<Rightarrow> 'e node list \<Rightarrow> 'e node" where
  "SidebarGroupAction ps ns = El (if flag_prop ''asChild'' False ps then ''Slot.Root'' else ''button'')
     ([slot ''sidebar-group-action'', Attr ''data-sidebar'' (js ''group-action'')] @ rest [''asChild''] ps) ns"

definition SidebarGroupContent :: "'e attr list \<Rightarrow> 'e node list \<Rightarrow> 'e node" where
  "SidebarGroupContent ps ns = El ''div''
     ([slot ''sidebar-group-content'', Attr ''data-sidebar'' (js ''group-content'')] @ ps) ns"

definition SidebarMenu :: "'e attr list \<Rightarrow> 'e node list \<Rightarrow> 'e node" where
  "SidebarMenu ps ns = El ''ul'' ([slot ''sidebar-menu'', Attr ''data-sidebar'' (js ''menu'')] @ ps) ns"

definition SidebarMenuItem :: "'e attr list \<Rightarrow> 'e node list \<Rightarrow> 'e node" where
  "SidebarMenuItem ps ns = El ''li'' ([slot ''sidebar-menu-item'', Attr ''data-sidebar'' (js ''menu-item'')] @ ps) ns"

definition SidebarMenuAction :: "'e attr list \<Rightarrow> 'e node list \<Rightarrow> 'e node" where
  "SidebarMenuAction ps ns = El (if flag_prop ''asChild'' False ps then ''Slot.Root'' else ''button'')
     ([slot ''sidebar-menu-action'', Attr ''data-sidebar'' (js ''menu-action'')]
       @ rest [''asChild'', ''showOnHover''] ps) ns"

definition SidebarMenuBadge :: "'e attr list \<Rightarrow> 'e node list \<Rightarrow> 'e node" where
  "SidebarMenuBadge ps ns = El ''div''
     ([slot ''sidebar-menu-badge'', Attr ''data-sidebar'' (js ''menu-badge'')] @ ps) ns"

definition SidebarMenuSub :: "'e attr list \<Rightarrow> 'e node list \<Rightarrow> 'e node" where
  "SidebarMenuSub ps ns = El ''ul'' ([slot ''sidebar-menu-sub'', Attr ''data-sidebar'' (js ''menu-sub'')] @ ps) ns"

definition SidebarMenuSubItem :: "'e attr list \<Rightarrow> 'e node list \<Rightarrow> 'e node" where
  "SidebarMenuSubItem ps ns = El ''li''
     ([slot ''sidebar-menu-sub-item'', Attr ''data-sidebar'' (js ''menu-sub-item'')] @ ps) ns"

definition SidebarMenuSubButton :: "'e attr list \<Rightarrow> 'e node list \<Rightarrow> 'e node" where
  "SidebarMenuSubButton ps ns = El (if flag_prop ''asChild'' False ps then ''Slot.Root'' else ''a'')
     ([slot ''sidebar-menu-sub-button'', Attr ''data-sidebar'' (js ''menu-sub-button''),
      Attr ''data-size'' (str_prop ''size'' ''md'' ps), Flag ''data-active'' (flag_prop ''isActive'' False ps)] @ rest [''asChild'', ''size'', ''isActive''] ps) ns"

section \<open>\<open>sonner.tsx\<close>\<close>

text \<open>The theme of \<open>useTheme\<close> (\<open>None\<close> where undefined) is an argument; the icons are children with their kind.\<close>

definition Toaster :: "jstr option \<Rightarrow> 'e attr list \<Rightarrow> 'e node" where
  "Toaster theme ps =
     El ''Sonner'' ([Attr ''theme'' (case theme of Some v \<Rightarrow> v | None \<Rightarrow> js ''system''), Flag ''closeButton'' True] @ ps)
      (map (\<lambda>(kind, icon). El ''icons'' [Attr ''kind'' (js kind)] [El icon [] []])
        [(''success'', ''CircleCheckIcon''), (''info'', ''InfoIcon''), (''warning'', ''TriangleAlertIcon''),
         (''error'', ''OctagonXIcon''), (''loading'', ''Loader2Icon'')])"

end
