(* ===== verification/UiTree.thy ===== *)
theory UiTree
  imports UiOverlays
begin

text \<open>
  A page's tree names components of \<open>components/ui/\<close>. Here each of them is replaced by what it renders,
  and the elements obtained react as the page's tree says: the same handlers, the same links, and every
  text of the page is shown. The trees of the pages may therefore be read as what the browser shows.
\<close>

section \<open>The table of components\<close>

definition basic_kit :: "(string \<times> ('e attr list \<Rightarrow> 'e node list \<Rightarrow> 'e node)) list" where
  "basic_kit = [
    (''Label'', Label), (''Separator'', Separator), (''Input'', Input), (''Textarea'', Textarea),
    (''Button'', Button), (''Skeleton'', Skeleton), (''Spinner'', Spinner), (''Badge'', Badge), (''Card'', Card),
    (''CardHeader'', CardHeader), (''CardTitle'', CardTitle), (''CardDescription'', CardDescription),
    (''CardAction'', CardAction), (''CardContent'', CardContent), (''CardFooter'', CardFooter), (''Alert'', Alert),
    (''AlertTitle'', AlertTitle), (''AlertDescription'', AlertDescription), (''AlertAction'', AlertAction),
    (''Avatar'', Avatar), (''AvatarImage'', AvatarImage), (''AvatarFallback'', AvatarFallback),
    (''AvatarBadge'', AvatarBadge), (''AvatarGroup'', AvatarGroup), (''AvatarGroupCount'', AvatarGroupCount),
    (''Empty'', Empty), (''EmptyHeader'', EmptyHeader), (''EmptyMedia'', EmptyMedia), (''EmptyTitle'', EmptyTitle),
    (''EmptyDescription'', EmptyDescription), (''EmptyContent'', EmptyContent), (''Table'', Table),
    (''TableHeader'', TableHeader), (''TableBody'', TableBody), (''TableFooter'', TableFooter),
    (''TableRow'', TableRow), (''TableHead'', TableHead), (''TableCell'', TableCell),
    (''TableCaption'', TableCaption), (''Tabs'', Tabs), (''TabsList'', TabsList), (''TabsTrigger'', TabsTrigger),
    (''TabsContent'', TabsContent), (''TooltipProvider'', TooltipProvider), (''Tooltip'', Tooltip),
    (''TooltipTrigger'', TooltipTrigger), (''TooltipContent'', TooltipContent)]"

definition alert_dialog_kit :: "(string \<times> ('e attr list \<Rightarrow> 'e node list \<Rightarrow> 'e node)) list" where
  "alert_dialog_kit = [
    (''AlertDialog'', AlertDialog), (''AlertDialogTrigger'', AlertDialogTrigger),
    (''AlertDialogPortal'', AlertDialogPortal), (''AlertDialogOverlay'', AlertDialogOverlay),
    (''AlertDialogContent'', AlertDialogContent), (''AlertDialogHeader'', AlertDialogHeader),
    (''AlertDialogFooter'', AlertDialogFooter), (''AlertDialogMedia'', AlertDialogMedia),
    (''AlertDialogTitle'', AlertDialogTitle), (''AlertDialogDescription'', AlertDialogDescription),
    (''AlertDialogAction'', AlertDialogAction), (''AlertDialogCancel'', AlertDialogCancel)]"

definition dialog_kit :: "(string \<times> ('e attr list \<Rightarrow> 'e node list \<Rightarrow> 'e node)) list" where
  "dialog_kit = [
    (''Dialog'', Dialog), (''DialogTrigger'', DialogTrigger), (''DialogPortal'', DialogPortal),
    (''DialogClose'', DialogClose), (''DialogOverlay'', DialogOverlay), (''DialogContent'', DialogContent),
    (''DialogHeader'', DialogHeader), (''DialogFooter'', DialogFooter), (''DialogTitle'', DialogTitle),
    (''DialogDescription'', DialogDescription)]"

definition sheet_kit :: "(string \<times> ('e attr list \<Rightarrow> 'e node list \<Rightarrow> 'e node)) list" where
  "sheet_kit = [
    (''Sheet'', Sheet), (''SheetTrigger'', SheetTrigger), (''SheetClose'', SheetClose),
    (''SheetPortal'', SheetPortal), (''SheetOverlay'', SheetOverlay), (''SheetContent'', SheetContent),
    (''SheetHeader'', SheetHeader), (''SheetFooter'', SheetFooter), (''SheetTitle'', SheetTitle),
    (''SheetDescription'', SheetDescription)]"

definition menu_kit :: "(string \<times> ('e attr list \<Rightarrow> 'e node list \<Rightarrow> 'e node)) list" where
  "menu_kit = [
    (''DropdownMenu'', DropdownMenu), (''DropdownMenuPortal'', DropdownMenuPortal),
    (''DropdownMenuTrigger'', DropdownMenuTrigger), (''DropdownMenuContent'', DropdownMenuContent),
    (''DropdownMenuGroup'', DropdownMenuGroup), (''DropdownMenuItem'', DropdownMenuItem),
    (''DropdownMenuCheckboxItem'', DropdownMenuCheckboxItem), (''DropdownMenuRadioGroup'', DropdownMenuRadioGroup),
    (''DropdownMenuRadioItem'', DropdownMenuRadioItem), (''DropdownMenuLabel'', DropdownMenuLabel),
    (''DropdownMenuSeparator'', DropdownMenuSeparator), (''DropdownMenuShortcut'', DropdownMenuShortcut),
    (''DropdownMenuSub'', DropdownMenuSub), (''DropdownMenuSubTrigger'', DropdownMenuSubTrigger),
    (''DropdownMenuSubContent'', DropdownMenuSubContent)]"

definition select_kit :: "(string \<times> ('e attr list \<Rightarrow> 'e node list \<Rightarrow> 'e node)) list" where
  "select_kit = [
    (''Select'', Select), (''SelectGroup'', SelectGroup), (''SelectValue'', SelectValue),
    (''SelectTrigger'', SelectTrigger), (''SelectLabel'', SelectLabel), (''SelectItem'', SelectItem),
    (''SelectSeparator'', SelectSeparator), (''SelectContent'', SelectContent)]"

definition field_kit :: "(string \<times> ('e attr list \<Rightarrow> 'e node list \<Rightarrow> 'e node)) list" where
  "field_kit = [
    (''FieldSet'', FieldSet), (''FieldLegend'', FieldLegend), (''FieldGroup'', FieldGroup), (''Field'', Field_box),
    (''FieldContent'', FieldContent), (''FieldLabel'', FieldLabel), (''FieldTitle'', FieldTitle),
    (''FieldDescription'', FieldDescription), (''FieldSeparator'', FieldSeparator)]"

definition sidebar_kit :: "(string \<times> ('e attr list \<Rightarrow> 'e node list \<Rightarrow> 'e node)) list" where
  "sidebar_kit = [
    (''SidebarInset'', SidebarInset), (''SidebarInput'', SidebarInput), (''SidebarHeader'', SidebarHeader),
    (''SidebarFooter'', SidebarFooter), (''SidebarSeparator'', SidebarSeparator),
    (''SidebarContent'', SidebarContent), (''SidebarGroup'', SidebarGroup),
    (''SidebarGroupLabel'', SidebarGroupLabel), (''SidebarGroupAction'', SidebarGroupAction),
    (''SidebarGroupContent'', SidebarGroupContent), (''SidebarMenu'', SidebarMenu),
    (''SidebarMenuItem'', SidebarMenuItem), (''SidebarMenuAction'', SidebarMenuAction),
    (''SidebarMenuBadge'', SidebarMenuBadge), (''SidebarMenuSub'', SidebarMenuSub),
    (''SidebarMenuSubItem'', SidebarMenuSubItem), (''SidebarMenuSubButton'', SidebarMenuSubButton)]"

definition kit_table :: "(string \<times> ('e attr list \<Rightarrow> 'e node list \<Rightarrow> 'e node)) list" where
  "kit_table = basic_kit @ alert_dialog_kit @ dialog_kit @ sheet_kit @ menu_kit @ select_kit @ field_kit @ sidebar_kit"

definition kit :: "string \<Rightarrow> 'e attr list \<Rightarrow> 'e node list \<Rightarrow> 'e node" where
  "kit t = (case map_of kit_table t of Some w \<Rightarrow> w | None \<Rightarrow> El t)"

text \<open>The components replaced, from the leaves up.\<close>

fun rendered :: "'e node \<Rightarrow> 'e node" where
  "rendered (Txt s) = Txt s"
| "rendered (El t ps ns) = kit t ps (map rendered ns)"

text \<open>
  What the elements react to: as \<open>acts\<close>, but it is a native button that submits a form.
\<close>

fun dom_submits :: "'e node \<Rightarrow> bool" where
  "dom_submits (Txt s) = False"
| "dom_submits (El t ps ns) =
     ((t = ''button'' \<and> \<not> disabled ps \<and> \<not> list_ex (attr_is ''type'' ''button'') ps) \<or> list_ex dom_submits ns)"

fun dom_acts :: "'e node \<Rightarrow> 'e act list" where
  "dom_acts (Txt s) = []"
| "dom_acts (El t ps ns) =
     (if closed ps then []
      else (if disabled ps then [] else concat (map (attr_acts (list_ex dom_submits ns)) ps)) @ concat (map dom_acts ns))"

fun is_submit :: "'e attr \<Rightarrow> bool" where
  "is_submit (OnSubmit e) = True"
| "is_submit _ = False"

text \<open>
  The trees the pages write: forms are native elements, and inside a form there are no dialogs, no native
  button without a type, no button that renders its child and no footer with a close button.
\<close>

definition outside_forms :: "string list" where
  "outside_forms = [''DialogContent'', ''SheetContent'', ''SidebarGroupAction'', ''SidebarMenuAction'']"

fun form_part :: "'e node \<Rightarrow> bool" where
  "form_part (Txt s) = True"
| "form_part (El t ps ns) =
     (t \<notin> set outside_forms \<and> (t = ''button'' \<longrightarrow> list_ex (attr_is ''type'' ''button'') ps)
      \<and> (t = ''Button'' \<longrightarrow> \<not> flag_prop ''asChild'' False ps)
      \<and> (t = ''DialogFooter'' \<longrightarrow> \<not> flag_prop ''showCloseButton'' False ps) \<and> list_all form_part ns)"

fun page_tree :: "'e node \<Rightarrow> bool" where
  "page_tree (Txt s) = True"
| "page_tree (El t ps ns) =
     ((list_ex is_submit ps \<longrightarrow> t = ''form'' \<and> list_all form_part ns) \<and> list_all page_tree ns)"

section \<open>What each component passes on\<close>

lemma rest_simps [simp]:
  "rest names [] = []"
  "rest names (p # ps) = (if list_ex (\<lambda>n. attr_named n p) names then rest names ps else p # rest names ps)"
  by (simp_all add: rest_def)

lemma rest_acts [simp]: "concat (map (attr_acts b) (rest names ps)) = concat (map (attr_acts b) ps)"
proof (induction ps)
  case (Cons p ps)
  then show ?case by (cases p) (auto simp: list_ex_iff)
qed simp

lemma rest_disabled [simp]: "''disabled'' \<notin> set names \<Longrightarrow> disabled (rest names ps) = disabled ps"
proof (induction ps)
  case (Cons p ps)
  then show ?case by (cases p) (auto simp: list_ex_iff)
qed simp

lemma rest_closed [simp]: "''open'' \<notin> set names \<Longrightarrow> closed (rest names ps) = closed ps"
proof (induction ps)
  case (Cons p ps)
  then show ?case by (cases p) (auto simp: list_ex_iff)
qed simp

lemma rest_hrefs [simp]: "''href'' \<notin> set names \<Longrightarrow> concat (map attr_hrefs (rest names ps)) = concat (map attr_hrefs ps)"
proof (induction ps)
  case (Cons p ps)
  then show ?case by (cases p) (auto simp: list_ex_iff)
qed simp

lemma rest_type [simp]: "''type'' \<notin> set names \<Longrightarrow> list_ex (attr_is ''type'' v) (rest names ps) = list_ex (attr_is ''type'' v) ps"
proof (induction ps)
  case (Cons p ps)
  then show ?case by (cases p) (auto simp: list_ex_iff)
qed simp

lemma copied_acts [simp]: "concat (map (attr_acts b) (copy_prop n ps)) = []"
proof (induction ps)
  case (Cons p ps)
  then show ?case by (cases p) (auto simp: copy_prop_def)
qed (simp add: copy_prop_def)

lemma copied_props [simp]:
  "disabled (copy_prop ''type'' ps) = False" "closed (copy_prop ''type'' ps) = False"
  "disabled (copy_prop ''checked'' ps) = False" "closed (copy_prop ''checked'' ps) = False"
  by (auto simp: copy_prop_def disabled_def closed_def list_ex_iff elim!: flag_set.elims)

lemma copied_hrefs [simp]:
  "n \<noteq> ''href'' \<Longrightarrow> concat (map attr_hrefs (copy_prop n ps)) = []"
proof (induction ps)
  case (Cons p ps)
  then show ?case by (cases p) (auto simp: copy_prop_def)
qed (simp add: copy_prop_def)

lemma map_show_if [simp]: "concat (map f (show_if c ns)) = show_if c (concat (map f ns))"
  by (simp add: show_if_def)

lemma childless [simp]:
  "show_if (has_children ns) (concat (map dom_acts ns)) = concat (map dom_acts ns)"
  "show_if (has_children ns) (concat (map hrefs ns)) = concat (map hrefs ns)"
  by (auto simp: has_children_def show_if_def)

lemma childless_texts: "\<not> has_children ns \<Longrightarrow> (\<Union>n\<in>set ns. set (texts n)) \<subseteq> {[]}"
  by (auto simp: has_children_def)

lemma appended_props [simp]:
  "disabled (ps @ qs) = (disabled ps \<or> disabled qs)" "closed (ps @ qs) = (closed ps \<or> closed qs)"
  by (simp_all add: disabled_def closed_def)

lemma slot_props [simp]:
  "attr_acts b (slot v) = []" "attr_hrefs (slot v) = []" "flag_set n c (slot v) = False" "attr_is ''type'' w (slot v) = False"
  by (simp_all add: slot_def)

lemma inset_props [simp]:
  "concat (map (attr_acts b) (inset_prop ps)) = []" "disabled (inset_prop ps) = False" "closed (inset_prop ps) = False"
  "concat (map attr_hrefs (inset_prop ps)) = []"
  by (simp_all add: inset_prop_def)

lemma childless_submits [simp]: "(has_children ns \<and> list_ex dom_submits ns) = list_ex dom_submits ns"
  by (auto simp: has_children_def)

lemma flag_prop_simps [simp]:
  "flag_prop n d [] = d"
  "flag_prop n d (p # ps) = (if attr_named n p then (case p of Flag m b \<Rightarrow> b | _ \<Rightarrow> d) else flag_prop n d ps)"
  by (simp_all add: flag_prop_def copy_prop_def split: attr.splits)

lemma lit_simps [simp]: "dom_acts (lit s) = []" "hrefs (lit s) = []" "dom_submits (lit s) = False"
  by (simp_all add: lit_def)

lemma show_nothing [simp]: "show_if c [] = []" "list_ex p (show_if c ns) = (c \<and> list_ex p ns)"
  by (simp_all add: show_if_def)

lemma no_submit_acts:
  "NO_MATCH False b \<Longrightarrow> \<not> list_ex is_submit ps \<Longrightarrow> concat (map (attr_acts b) ps) = concat (map (attr_acts False) ps)"
proof (induction ps)
  case (Cons p ps)
  then show ?case by (cases p) auto
qed simp

text \<open>
  A component passes on its handlers (\<open>passes_acts\<close>), its links and its texts; most also leave open
  whether the form around them has a button (\<open>passes_submits\<close>).
\<close>

definition passes_acts :: "('e attr list \<Rightarrow> 'e node list \<Rightarrow> 'e node) \<Rightarrow> bool" where
  "passes_acts w \<longleftrightarrow> (\<forall>ps ns. \<not> list_ex is_submit ps \<longrightarrow> dom_acts (w ps ns) =
     (if closed ps then []
      else (if disabled ps then [] else concat (map (attr_acts False) ps)) @ concat (map dom_acts ns)))"

definition passes_links :: "('e attr list \<Rightarrow> 'e node list \<Rightarrow> 'e node) \<Rightarrow> bool" where
  "passes_links w \<longleftrightarrow> (\<forall>ps ns. hrefs (w ps ns) = concat (map attr_hrefs ps) @ concat (map hrefs ns))"

definition passes_texts :: "('e attr list \<Rightarrow> 'e node list \<Rightarrow> 'e node) \<Rightarrow> bool" where
  "passes_texts w \<longleftrightarrow> (\<forall>ps ns. \<not> closed ps \<longrightarrow> set (concat (map texts ns)) - {[]} \<subseteq> set (texts (w ps ns)))"

definition passes_submits :: "('e attr list \<Rightarrow> 'e node list \<Rightarrow> 'e node) \<Rightarrow> bool" where
  "passes_submits w \<longleftrightarrow> (\<forall>ps ns. dom_submits (w ps ns) = list_ex dom_submits ns)"

definition passes :: "('e attr list \<Rightarrow> 'e node list \<Rightarrow> 'e node) \<Rightarrow> bool" where
  "passes w \<longleftrightarrow> passes_acts w \<and> passes_links w \<and> passes_texts w"

lemmas passing = passes_def passes_acts_def passes_links_def passes_texts_def passes_submits_def no_submit_acts

lemmas kit_defs =
  Label_def Separator_def Input_def Textarea_def Button_def Skeleton_def Spinner_def Badge_def Card_def CardHeader_def
  CardTitle_def CardDescription_def CardAction_def CardContent_def CardFooter_def Alert_def AlertTitle_def
  AlertDescription_def AlertAction_def Avatar_def AvatarImage_def AvatarFallback_def AvatarBadge_def AvatarGroup_def
  AvatarGroupCount_def Empty_def EmptyHeader_def EmptyMedia_def EmptyTitle_def EmptyDescription_def EmptyContent_def
  Table_def TableHeader_def TableBody_def TableFooter_def TableRow_def TableHead_def TableCell_def TableCaption_def
  Tabs_def TabsList_def TabsTrigger_def TabsContent_def Switch_def TooltipProvider_def Tooltip_def TooltipTrigger_def
  TooltipContent_def AlertDialog_def AlertDialogTrigger_def AlertDialogPortal_def AlertDialogOverlay_def
  AlertDialogContent_def AlertDialogHeader_def AlertDialogFooter_def AlertDialogMedia_def AlertDialogTitle_def
  AlertDialogDescription_def AlertDialogAction_def AlertDialogCancel_def Dialog_def DialogTrigger_def DialogPortal_def
  DialogClose_def DialogOverlay_def DialogContent_def DialogHeader_def DialogFooter_def DialogTitle_def
  DialogDescription_def Sheet_def SheetTrigger_def SheetClose_def SheetPortal_def SheetOverlay_def SheetContent_def
  SheetHeader_def SheetFooter_def SheetTitle_def SheetDescription_def DropdownMenu_def DropdownMenuPortal_def
  DropdownMenuTrigger_def DropdownMenuContent_def DropdownMenuGroup_def DropdownMenuItem_def
  DropdownMenuCheckboxItem_def DropdownMenuRadioGroup_def DropdownMenuRadioItem_def DropdownMenuLabel_def
  DropdownMenuSeparator_def DropdownMenuShortcut_def DropdownMenuSub_def DropdownMenuSubTrigger_def
  DropdownMenuSubContent_def Select_def SelectGroup_def SelectValue_def SelectTrigger_def SelectLabel_def
  SelectItem_def SelectSeparator_def SelectScrollUpButton_def SelectScrollDownButton_def SelectContent_def
  FieldSet_def FieldLegend_def FieldGroup_def Field_box_def FieldContent_def FieldLabel_def FieldTitle_def
  FieldDescription_def FieldSeparator_def SidebarInset_def SidebarInput_def SidebarHeader_def SidebarFooter_def
  SidebarSeparator_def SidebarContent_def SidebarGroup_def SidebarGroupLabel_def SidebarGroupAction_def
  SidebarGroupContent_def SidebarMenu_def SidebarMenuItem_def SidebarMenuAction_def SidebarMenuBadge_def
  SidebarMenuSub_def SidebarMenuSubItem_def SidebarMenuSubButton_def


lemma field_passes: "list_all (\<lambda>(t, w). passes w) field_kit"
  using childless_texts by (simp add: field_kit_def passing kit_defs) blast

lemma sidebar_passes: "list_all (\<lambda>(t, w). passes w) sidebar_kit"
  by (simp add: sidebar_kit_def passing kit_defs Let_def)

lemma basic_passes: "list_all (\<lambda>(t, w). passes w) basic_kit"
  by (simp add: basic_kit_def passing kit_defs Let_def)

lemma alert_dialog_passes: "list_all (\<lambda>(t, w). passes w) alert_dialog_kit"
  by (simp add: alert_dialog_kit_def passing kit_defs Let_def)

lemma dialog_passes: "list_all (\<lambda>(t, w). passes w) dialog_kit"
  by (simp add: dialog_kit_def passing kit_defs Let_def) blast

lemma sheet_passes: "list_all (\<lambda>(t, w). passes w) sheet_kit"
  by (simp add: sheet_kit_def passing kit_defs Let_def) blast

lemma menu_passes: "list_all (\<lambda>(t, w). passes w) menu_kit"
  by (simp add: menu_kit_def passing kit_defs Let_def)

lemma select_passes: "list_all (\<lambda>(t, w). passes w) select_kit"
  by (simp add: select_kit_def passing kit_defs Let_def)

text \<open>What a form's buttons are is changed by \<open>Button\<close>, \<open>DialogFooter\<close> and by the components kept outside forms only.\<close>

lemma sidebar_submits:
  "list_all (\<lambda>(t, w). t = ''Button'' \<or> t = ''DialogFooter'' \<or> t \<in> set outside_forms \<or> passes_submits w) sidebar_kit"
  by (simp add: sidebar_kit_def outside_forms_def passing kit_defs Let_def)

lemma basic_submits:
  "list_all (\<lambda>(t, w). t = ''Button'' \<or> t = ''DialogFooter'' \<or> t \<in> set outside_forms \<or> passes_submits w) basic_kit"
  by (simp add: basic_kit_def outside_forms_def passing kit_defs Let_def)

lemma alert_dialog_submits:
  "list_all (\<lambda>(t, w). t = ''Button'' \<or> t = ''DialogFooter'' \<or> t \<in> set outside_forms \<or> passes_submits w) alert_dialog_kit"
  by (simp add: alert_dialog_kit_def outside_forms_def passing kit_defs Let_def)

lemma dialog_submits:
  "list_all (\<lambda>(t, w). t = ''Button'' \<or> t = ''DialogFooter'' \<or> t \<in> set outside_forms \<or> passes_submits w) dialog_kit"
  by (simp add: dialog_kit_def outside_forms_def passing kit_defs Let_def)

lemma sheet_submits:
  "list_all (\<lambda>(t, w). t = ''Button'' \<or> t = ''DialogFooter'' \<or> t \<in> set outside_forms \<or> passes_submits w) sheet_kit"
  by (simp add: sheet_kit_def outside_forms_def passing kit_defs Let_def)

lemma menu_submits:
  "list_all (\<lambda>(t, w). t = ''Button'' \<or> t = ''DialogFooter'' \<or> t \<in> set outside_forms \<or> passes_submits w) menu_kit"
  by (simp add: menu_kit_def outside_forms_def passing kit_defs Let_def)

lemma select_submits:
  "list_all (\<lambda>(t, w). t = ''Button'' \<or> t = ''DialogFooter'' \<or> t \<in> set outside_forms \<or> passes_submits w) select_kit"
  by (simp add: select_kit_def outside_forms_def passing kit_defs Let_def)

lemma field_submits:
  "list_all (\<lambda>(t, w). t = ''Button'' \<or> t = ''DialogFooter'' \<or> t \<in> set outside_forms \<or> passes_submits w) field_kit"
  by (simp add: field_kit_def outside_forms_def passing kit_defs Let_def)

lemma kit_table_passes: "list_all (\<lambda>(t, w). passes w) kit_table"
  by (simp add: kit_table_def basic_passes alert_dialog_passes dialog_passes sheet_passes menu_passes select_passes
      field_passes sidebar_passes)

lemma kit_table_submits: "list_all (\<lambda>(t, w). t = ''Button'' \<or> t = ''DialogFooter'' \<or> t \<in> set outside_forms \<or> passes_submits w) kit_table"
  by (simp add: kit_table_def basic_submits alert_dialog_submits dialog_submits sheet_submits menu_submits select_submits
      field_submits sidebar_submits)

lemma native_passes: "passes (El t)"
  by (auto simp: passing)

lemma kit_passes: "passes (kit t :: 'e attr list \<Rightarrow> 'e node list \<Rightarrow> 'e node)"
proof (cases "map_of (kit_table :: (string \<times> ('e attr list \<Rightarrow> 'e node list \<Rightarrow> 'e node)) list) t")
  case (Some w)
  from map_of_SomeD [OF this] kit_table_passes Some show ?thesis by (auto simp: kit_def list_all_iff)
qed (simp add: kit_def native_passes)

lemma kit_hrefs: "hrefs (kit t ps ns) = concat (map attr_hrefs ps) @ concat (map hrefs ns)"
  using kit_passes unfolding passes_def passes_links_def by blast

lemma kit_acts:
  "\<not> list_ex is_submit ps \<Longrightarrow> dom_acts (kit t ps ns) =
     (if closed ps then []
      else (if disabled ps then [] else concat (map (attr_acts False) ps)) @ concat (map dom_acts ns))"
  using kit_passes unfolding passes_def passes_acts_def by blast

lemma kit_native: "kit ''form'' = El ''form''" "kit ''button'' = El ''button''"
  by (simp_all add: kit_def kit_table_def basic_kit_def alert_dialog_kit_def dialog_kit_def sheet_kit_def menu_kit_def
      select_kit_def field_kit_def sidebar_kit_def)

lemma kit_own: "kit ''Button'' = Button" "kit ''DialogFooter'' = DialogFooter"
  by (simp_all add: kit_def kit_table_def basic_kit_def alert_dialog_kit_def dialog_kit_def)

lemma kit_submits:
  fixes ns :: "'e node list"
  assumes "t \<notin> set outside_forms" "t \<noteq> ''Button''" "t \<noteq> ''DialogFooter''" "t \<noteq> ''button''"
  shows "dom_submits (kit t ps ns) = list_ex dom_submits ns"
proof (cases "map_of (kit_table :: (string \<times> ('e attr list \<Rightarrow> 'e node list \<Rightarrow> 'e node)) list) t")
  case (Some w)
  from map_of_SomeD [OF this] kit_table_submits assms have "passes_submits w" by (auto simp: list_all_iff)
  with Some show ?thesis by (simp add: kit_def passes_submits_def)
qed (simp add: kit_def assms)

section \<open>Page trees as the browser shows them\<close>

lemma rendered_hrefs: "hrefs (rendered n) = hrefs n"
proof (induction n rule: rendered.induct)
  case (2 t ps ns)
  then have "map hrefs (map rendered ns) = map hrefs ns" by simp
  then show ?case by (simp add: kit_hrefs del: map_map)
qed simp

lemma rendered_texts: "set (texts n) - {[]} \<subseteq> set (texts (rendered n))"
proof (induction n rule: rendered.induct)
  case (2 t ps ns)
  show ?case
  proof (cases "closed ps")
    case False
    have "set (concat (map texts (map rendered ns))) - {[]} \<subseteq> set (texts (kit t ps (map rendered ns)))"
      using kit_passes [of t] False unfolding passes_def passes_texts_def by blast
    moreover have "set (concat (map texts ns)) - {[]} \<subseteq> set (concat (map texts (map rendered ns)))"
      using 2 by fastforce
    ultimately show ?thesis using False by (auto simp del: set_concat)
  qed simp
qed simp

lemma rendered_form_submits: "form_part n \<Longrightarrow> dom_submits (rendered n) = submits n"
proof (induction n rule: rendered.induct)
  case (2 t ps ns)
  then have ns: "list_ex dom_submits (map rendered ns) = list_ex submits ns"
    by (auto simp: list_ex_iff list_all_iff)
  consider "t = ''Button''" | "t = ''button''" | "t = ''DialogFooter''"
    | "t \<noteq> ''Button''" "t \<noteq> ''button''" "t \<noteq> ''DialogFooter''" by blast
  then show ?case
  proof cases
    case 1
    with 2(2) ns show ?thesis by (simp add: kit_own Button_def)
  next
    case 2
    with \<open>form_part (El t ps ns)\<close> ns show ?thesis by (simp add: kit_native)
  next
    case 3
    with 2(2) ns show ?thesis by (simp add: kit_own DialogFooter_def)
  next
    case 4
    with 2(2) ns show ?thesis by (simp add: kit_submits)
  qed
qed simp

lemma rendered_acts: "page_tree n \<Longrightarrow> dom_acts (rendered n) = acts n"
proof (induction n rule: rendered.induct)
  case (2 t ps ns)
  then have ns: "map dom_acts (map rendered ns) = map acts ns" by (simp add: list_all_iff)
  show ?case
  proof (cases "list_ex is_submit ps")
    case True
    with 2(2) have "t = ''form''" "list_all form_part ns" by simp_all
    moreover from this have "list_ex dom_submits (map rendered ns) = list_ex submits ns"
      by (auto simp: list_ex_iff list_all_iff rendered_form_submits)
    ultimately show ?thesis using ns by (simp add: kit_native del: map_map)
  next
    case False
    with ns show ?thesis by (simp add: kit_acts no_submit_acts del: map_map)
  qed
qed simp

section \<open>What a page shows and offers\<close>

definition shown_faithfully :: "'e node \<Rightarrow> bool" where
  "shown_faithfully n \<longleftrightarrow> dom_acts (rendered n) = acts n \<and> hrefs (rendered n) = hrefs n
     \<and> set (texts n) - {[]} \<subseteq> set (texts (rendered n))"

lemma page_tree_faithful: "page_tree n \<Longrightarrow> shown_faithfully n"
  unfolding shown_faithfully_def using rendered_acts rendered_hrefs rendered_texts by blast

text \<open>Of a list of errors, \<open>FieldError\<close> shows each message once, in the order of first occurrence.\<close>

lemma texts_of_list:
  "concat (map texts (concat (map (\<lambda>(i, m). show_if (has_message m) [El ''li'' [Num ''key'' (int i)] [Txt (the m)]])
     (enumerate k ms)))) = map the (filter has_message ms)"
  by (induction ms arbitrary: k) auto

lemma field_error_shows:
  "\<not> closed ps \<Longrightarrow>
   concat (map texts (FieldError errors ps [])) = map the (filter has_message (unique_messages errors))"
proof -
  assume ps: "\<not> closed ps"
  consider "errors = []" | m where "errors \<noteq> []" "unique_messages errors = [m]"
    | "errors \<noteq> []" "length (unique_messages errors) \<noteq> 1"
    by (cases "length (unique_messages errors) = 1") (auto simp: length_Suc_conv)
  then show ?thesis
  proof cases
    case 1
    then show ?thesis by (simp add: FieldError_def field_error_content_def has_children_def unique_messages_def)
  next
    case 2
    with ps show ?thesis by (simp add: FieldError_def field_error_content_def has_children_def)
  next
    case 3
    with ps show ?thesis
      by (simp add: FieldError_def field_error_content_def has_children_def Let_def texts_of_list del: concat_eq_Nil_conv)
  qed
qed

lemma unique_messages_distinct: "distinct (unique_messages errors)"
  by (simp add: unique_messages_def)

text \<open>Two different errors without a text leave an alert with nothing in it.\<close>

lemma empty_alert:
  "FieldError [None, Some (Some [])] [] [] =
     [El ''div'' [Attr ''role'' (js ''alert''), slot ''field-error''] [El ''ul'' [] []]]"
  by (simp add: FieldError_def field_error_content_def unique_messages_def has_children_def has_message_def Let_def)

end
