(* ===== verification/UiPages.thy ===== *)
theory UiPages
  imports UiTree Login Register VerifyEmail ResetPassword Authorize Home Session Turnstile Skeletons Profile Security Connections
    Applications AppDetail Users AuditLog Backup
begin

text \<open>
  Every page writes a tree in the form \<open>UiTree\<close> asks for, so the browser offers the handlers, links and
  texts the page's tree has, whatever the state of the page.
\<close>

text \<open>Only below a form is \<open>form_part\<close> asked for.\<close>

lemma page_tree_El [simp]:
  "\<not> list_ex is_submit ps \<Longrightarrow> page_tree (El t ps ns) = list_all page_tree ns"
  "list_ex is_submit ps \<Longrightarrow> page_tree (El ''form'' ps ns) = (list_all form_part ns \<and> list_all page_tree ns)"
  by simp_all

declare page_tree.simps(2) [simp del]

lemma list_all_show_if [simp]: "list_all p (show_if c ns) = (c \<longrightarrow> list_all p ns)"
  by (simp add: show_if_def)

lemma list_all_concat [simp]: "list_all p (concat xss) = list_all (list_all p) xss"
  by (induction xss) auto

text \<open>Conditions move outwards, so that no case is split.\<close>

lemma tree_if [simp]:
  "page_tree (if c then m else n) = (if c then page_tree m else page_tree n)"
  "form_part (if c then m else n) = (if c then form_part m else form_part n)"
  "list_all p (if c then ms else ns) = (if c then list_all p ms else list_all p ns)"
  "list_ex q (if c then ps else qs) = (if c then list_ex q ps else list_ex q qs)"
  by simp_all

lemma tree_option [simp]:
  "page_tree (case v of None \<Rightarrow> n | Some x \<Rightarrow> f x) = (case v of None \<Rightarrow> page_tree n | Some x \<Rightarrow> page_tree (f x))"
  "form_part (case v of None \<Rightarrow> n | Some x \<Rightarrow> f x) = (case v of None \<Rightarrow> form_part n | Some x \<Rightarrow> form_part (f x))"
  "list_all p (case v of None \<Rightarrow> ns | Some x \<Rightarrow> fs x) = (case v of None \<Rightarrow> list_all p ns | Some x \<Rightarrow> list_all p (fs x))"
  "list_ex q (case v of None \<Rightarrow> ps | Some x \<Rightarrow> gs x) = (case v of None \<Rightarrow> list_ex q ps | Some x \<Rightarrow> list_ex q (gs x))"
  "(case v of None \<Rightarrow> True | Some x \<Rightarrow> True) = True"
  "(case v of None \<Rightarrow> False | Some x \<Rightarrow> False) = False"
  by (simp_all split: option.split)

lemma tag_if [simp]: "((if c then t else u) = (v :: string)) = (if c then t = v else u = v)"
  by simp

lemma all_true [simp]: "list_all (\<lambda>x. True) xs" "\<not> list_ex (\<lambda>x. False) xs"
  by (simp_all add: list_all_iff list_ex_iff)

text \<open>Texts are not looked into.\<close>

lemma text_cong: "lit v = lit v" "js v = js v" "Attr n w = Attr n w" "Txt w = Txt w"
  by (rule refl)+

lemma lit_tree [simp]: "page_tree (lit v)" "form_part (lit v)"
  by (simp_all add: lit_def)

lemmas tree_tests = outside_forms_def list.pred_map comp_def split_beta Let_def

lemmas shared_views =
  alert_def error_alert_def label_def link_def throwing_node_def uri_link_def UserAvatar_def Brand_def AuthShell_def
  PasswordInput_def password_field_def TurnstileSkeleton_def Turnstile_def page_header_def confirm_dialog_def
  empty_box_def field_def option_node_def too_short_hint_def

lemma skeleton_parts [simp]:
  "page_tree skel" "page_tree (box ns) = list_all page_tree ns" "page_tree (PageHeadingSkeleton a)" "page_tree FieldSkeleton"
  "page_tree (TableRowsSkeleton k)"
  by (simp_all add: skel_def box_def PageHeadingSkeleton_def FieldSkeleton_def TableRowsSkeleton_def list.pred_map comp_def)

lemma skeleton_trees [simp]:
  "page_tree ProfileSkeleton" "page_tree SecuritySkeleton" "page_tree SessionsSkeleton" "page_tree OAuthClientCardSkeleton"
  "page_tree ApplicationDetailSkeleton" "page_tree AuditLogSkeleton" "page_tree ApplicationsSkeleton" "page_tree UsersSkeleton"
  by (simp_all add: ProfileSkeleton_def SecuritySkeleton_def SessionsSkeleton_def OAuthClientCardSkeleton_def
      ApplicationDetailSkeleton_def AuditLogSkeleton_def ApplicationsSkeleton_def UsersSkeleton_def)

lemma backup_skeleton_trees [simp]: "page_tree BackupContentSkeleton" "page_tree BackupPageSkeleton"
  by (simp_all add: BackupContentSkeleton_def BackupPageSkeleton_def page_header_def lit_def list.pred_map comp_def)

lemma loading_tree [simp]: "page_tree (DashboardLoadingSkeleton p)"
  by (simp add: DashboardLoadingSkeleton_def RouteSkeleton_def lit_def)

lemma page_button_tree: "page_tree (page_button page f item)"
  by (cases item) (simp_all add: page_button_def)

lemma pagination_tree [simp]: "page_tree (DataPagination page totalPages totalItems l f)"
  by (simp add: DataPagination_def Let_def list.pred_map comp_def page_button_tree)

lemma LoginPage_tree: "page_tree (LoginPage env b s)"
  by (simp add: shared_views tree_tests
    LoginForm_def LoginPage_def split del: if_split cong: if_cong option.case_cong text_cong)

lemma RegisterPage_tree: "page_tree (RegisterPage env s)"
  by (simp add: shared_views tree_tests
    field_def option_node_def too_short_hint_def RegisterForm_def RegisterPage_def split del: if_split cong: if_cong option.case_cong text_cong)

lemma VerifyEmailPage_tree: "page_tree (VerifyEmailPage env b s)"
  by (simp add: shared_views tree_tests
    VerifyEmailForm_def VerifyEmailPage_def split del: if_split cong: if_cong option.case_cong text_cong)

lemma PasswordResetForm_tree: "page_tree (PasswordResetForm env s)"
  by (simp add: shared_views tree_tests
    sent_screen_def new_password_fields_def request_fields_def PasswordResetForm_def split del: if_split cong: if_cong option.case_cong text_cong)

lemma AuthorizeContent_tree: "page_tree (AuthorizeContent env b s)"
  by (simp add: shared_views tree_tests
    loading_screen_def account_screen_def scope_rows_def client_rows_def consent_screen_def AuthorizeContent_def split del: if_split cong: if_cong option.case_cong text_cong)

lemma Home_tree: "page_tree (Home env u loading)"
  by (simp add: shared_views tree_tests
    link_button_def service_card_def home_header_def hero_section_def services_section_def benefits_section_def
    join_section_def home_footer_def Home_def split del: if_split cong: if_cong option.case_cong text_cong)

lemma DashboardShell_tree: "list_all page_tree children \<Longrightarrow> list_all page_tree (DashboardShell env upper pathname s children)"
  by (simp add: shared_views tree_tests
    nav_item_def account_menu_def DashboardShell_def split del: if_split cong: if_cong option.case_cong text_cong)

lemma ProfilPage_tree: "list_all page_tree (ProfilPage upper s)"
  by (simp add: shared_views tree_tests
    AvatarCropDialog_def small_button_def avatar_card_def profile_card_def ProfilPage_def split del: if_split cong: if_cong option.case_cong text_cong)

lemma KeamananPage_tree: "page_tree (KeamananPage s)"
  by (simp add: shared_views tree_tests
    too_short_notice_def password_card_def two_factor_card_def KeamananPage_def split del: if_split cong: if_cong option.case_cong text_cong)

lemma ScopeList_tree [simp]: "page_tree (ScopeList scopes)"
  by (simp add: shared_views tree_tests ScopeList_def split del: if_split cong: if_cong option.case_cong text_cong)

lemma RevokeConnectionButton_tree [simp]: "page_tree (RevokeConnectionButton c revoking)"
  by (simp add: shared_views tree_tests RevokeConnectionButton_def split del: if_split cong: if_cong option.case_cong text_cong)

lemma connection_name_tree [simp]: "page_tree (connection_name c)"
  by (simp add: shared_views tree_tests connection_name_def split del: if_split cong: if_cong option.case_cong text_cong)

lemma connected_badge_tree [simp]: "page_tree (connected_badge)"
  by (simp add: shared_views tree_tests connected_badge_def split del: if_split cong: if_cong option.case_cong text_cong)

lemma connection_row_tree [simp]: "page_tree (connection_row d s c)"
  by (simp add: shared_views tree_tests connection_row_def split del: if_split cong: if_cong option.case_cong text_cong)

lemma connection_card_tree [simp]: "page_tree (connection_card d s c)"
  by (simp add: shared_views tree_tests connection_card_def split del: if_split cong: if_cong option.case_cong text_cong)

lemma connection_list_tree [simp]: "list_all page_tree (connection_list d s)"
  by (simp add: shared_views tree_tests connection_list_def split del: if_split cong: if_cong option.case_cong text_cong)

lemma SesiPage_tree [simp]: "page_tree (SesiPage d s)"
  by (simp add: shared_views tree_tests SesiPage_def split del: if_split cong: if_cong option.case_cong text_cong)

lemma uri_row_tree [simp]: "page_tree (uri_row s index uri)" "form_part (uri_row s index uri)"
  by (simp_all add: shared_views tree_tests uri_row_def split del: if_split cong: if_cong option.case_cong text_cong)

lemma client_dialog_tree [simp]: "page_tree (client_dialog s)"
  by (simp add: shared_views tree_tests client_dialog_def split del: if_split cong: if_cong option.case_cong text_cong)

lemma candidate_rows_tree [simp]: "page_tree (candidate_rows s c u)" "form_part (candidate_rows s c u)"
  by (simp_all add: shared_views tree_tests candidate_rows_def split del: if_split cong: if_cong option.case_cong text_cong)

lemma access_dialog_tree [simp]: "page_tree (access_dialog s)"
  by (simp add: shared_views tree_tests access_dialog_def split del: if_split cong: if_cong option.case_cong text_cong)

lemma secret_rows_tree [simp]: "page_tree (secret_rows s c)"
  by (simp add: shared_views tree_tests secret_rows_def split del: if_split cong: if_cong option.case_cong text_cong)

lemma client_card_tree [simp]: "page_tree (client_card s c)"
  by (simp add: shared_views tree_tests client_card_def split del: if_split cong: if_cong option.case_cong text_cong)

lemma AplikasiPage_tree [simp]: "page_tree (AplikasiPage s)"
  by (simp add: shared_views tree_tests AplikasiPage_def split del: if_split cong: if_cong option.case_cong text_cong)

lemma ApplicationDetail_tree: "page_tree (ApplicationDetail upper s)"
  by (simp add: shared_views tree_tests
    DetailItem_def AssignmentIdentity_def RevokeAssignmentButton_def owner_badge_def AssignmentRow_def
    AssignmentCard_def ApplicationDetailLoading_def information_card_def access_card_def assignment_list_def
    assignments_card_def no_individual_list_def detail_missing_def ApplicationDetail_def split del: if_split cong: if_cong option.case_cong text_cong)

lemma PenggunaPage_tree: "page_tree (PenggunaPage d upper s)"
  by (simp add: shared_views tree_tests
    MetricValue_def metric_def UserIdentity_def active_badge_def verified_badge_def role_badge_def UserActions_def
    UserTableRow_def UserMobileCard_def status_dialog_def delete_dialog_def users_list_def PenggunaPage_def split del: if_split cong: if_cong option.case_cong text_cong)

lemma AuditLogPage_tree: "page_tree (AuditLogPage d s)"
  by (simp add: shared_views tree_tests
    detail_button_def AuditTableRow_def AuditMobileCard_def AuditDetail_def AuditDetailDialog_def logs_list_def
    AuditLogPage_def split del: if_split cong: if_cong option.case_cong text_cong)

lemma BackupDatabasePage_tree: "page_tree (BackupDatabasePage d f s)"
  by (simp add: shared_views tree_tests
    status_cell_def backup_row_def history_card_def schedule_section_def notices_def action_dialog_def
    BackupDatabasePage_def split del: if_split cong: if_cong option.case_cong text_cong)

lemmas page_trees =
  LoginPage_tree RegisterPage_tree VerifyEmailPage_tree PasswordResetForm_tree AuthorizeContent_tree Home_tree
  DashboardShell_tree ProfilPage_tree KeamananPage_tree SesiPage_tree AplikasiPage_tree ApplicationDetail_tree
  PenggunaPage_tree AuditLogPage_tree BackupDatabasePage_tree

end
