(* ===== verification/ProductionBuild.thy ===== *)
theory ProductionBuild
  imports Browser
begin

text \<open>
  The production build (\<open>src/frontend/scripts/build-production.mjs\<close>): the file \<open>.env.production\<close> is
  parsed and checked, the framework's build runs with its values, and a script checks the artifact. The
  URL parser is an argument, and so are the exit status of the two processes (\<open>None\<close> where the
  process did not exit by itself).
\<close>

section \<open>The environment file\<close>

type_synonym environment = "jstr \<rightharpoonup> jstr"

text \<open>\<open>source.split(/\r?\n/)\<close>\<close>

definition drop_cr :: "jstr \<Rightarrow> jstr" where
  "drop_cr w = (if w \<noteq> [] \<and> last w = 13 then butlast w else w)"

definition env_lines :: "jstr \<Rightarrow> jstr list" where
  "env_lines source = (let ws = split_on 10 source in map drop_cr (butlast ws) @ [last ws])"

text \<open>The pattern \<open>/^([A-Z][A-Z0-9_]*)=(.*)$/\<close>, whose dot stands for no line terminator.\<close>

definition capital :: "unit16 \<Rightarrow> bool" where
  "capital u = (65 \<le> unat u \<and> unat u \<le> 90)"

definition key_unit :: "unit16 \<Rightarrow> bool" where
  "key_unit u = (capital u \<or> digit16 u \<or> u = 95)"

definition line_end :: "unit16 \<Rightarrow> bool" where
  "line_end u = (unat u \<in> {10, 13, 0x2028, 0x2029})"

definition match_entry :: "jstr \<Rightarrow> (jstr \<times> jstr) option" where
  "match_entry line =
     (let key = takeWhile key_unit line; r = dropWhile key_unit line
      in if key \<noteq> [] \<and> capital (hd key) \<and> r \<noteq> [] \<and> hd r = 61 \<and> \<not> list_ex line_end (tl r)
         then Some (key, tl r) else None)"

definition unquote :: "jstr \<Rightarrow> jstr" where
  "unquote value =
     (if 2 \<le> length value \<and> (hd value = 34 \<and> last value = 34 \<or> hd value = 39 \<and> last value = 39)
      then butlast (tl value) else value)"

definition format_error :: "nat \<Rightarrow> js_error" where
  "format_error index =
     JsError ''Error'' None (js ''Format .env.production tidak valid pada baris '' @ nat_str (index + 1) @ js ''.'')"

fun parse_lines :: "nat \<Rightarrow> jstr list \<Rightarrow> environment \<Rightarrow> js_error + environment" where
  "parse_lines index [] result = Inr result"
| "parse_lines index (rawLine # ls) result =
     (let line = trim rawLine
      in if line = [] \<or> hd line = 35 then parse_lines (Suc index) ls result
         else case match_entry line of
             None \<Rightarrow> Inl (format_error index)
           | Some (key, v) \<Rightarrow> parse_lines (Suc index) ls (result(key \<mapsto> unquote (trim v))))"

definition parseEnvironment :: "jstr \<Rightarrow> js_error + environment" where
  "parseEnvironment source = parse_lines 0 (env_lines source) Map.empty"

section \<open>The checks\<close>

definition local_hosts :: "jstr list" where
  "local_hosts = [js ''localhost'', js ''127.0.0.1'', js ''[::1]'']"

definition missing_error :: "string \<Rightarrow> js_error" where
  "missing_error name = JsError ''Error'' None (js name @ js '' wajib diatur di .env.production.'')"

definition requireHttpsUrl ::
  "(jstr \<Rightarrow> jstr option \<Rightarrow> url option) \<Rightarrow> string \<Rightarrow> jstr option \<Rightarrow> js_error + jstr" where
  "requireHttpsUrl parse name value =
     (case value of
        None \<Rightarrow> Inl (missing_error name)
      | Some v \<Rightarrow>
          if v = [] then Inl (missing_error name)
          else case parse v None of
              None \<Rightarrow> Inl (JsError ''TypeError'' None (js ''Invalid URL''))
            | Some parsed \<Rightarrow>
                if url_protocol parsed \<noteq> js ''https:'' \<or> url_hostname parsed \<in> set local_hosts
                then Inl (JsError ''Error'' None (js name @ js '' harus menggunakan URL HTTPS non-localhost.''))
                else Inr (drop_slash v))"

fun require_present :: "environment \<Rightarrow> string list \<Rightarrow> js_error + unit" where
  "require_present env [] = Inr ()"
| "require_present env (name # names) =
     (case env (js name) of
        None \<Rightarrow> Inl (missing_error name)
      | Some v \<Rightarrow> if trim v = [] then Inl (missing_error name) else require_present env names)"

definition turnstileTestSiteKeys :: "jstr list" where
  "turnstileTestSiteKeys = [js ''1x00000000000000000000AA'', js ''2x00000000000000000000AB'',
     js ''1x00000000000000000000BB'', js ''2x00000000000000000000BB'', js ''3x00000000000000000000FF'']"

definition own_site_key :: "jstr \<Rightarrow> bool" where
  "own_site_key key = (\<not> starts_with (js ''replace-'') key \<and> key \<notin> set turnstileTestSiteKeys)"

definition site_key_error :: js_error where
  "site_key_error = JsError ''Error'' None
     (js ''NEXT_PUBLIC_TURNSTILE_SITE_KEY production wajib memakai sitekey widget Cloudflare milik sendiri.'')"

text \<open>The file's outcome: what reading it threw, or its text. Checked are the seven public values.\<close>

definition checked_environment ::
  "(jstr \<Rightarrow> jstr option \<Rightarrow> url option) \<Rightarrow> js_error + jstr \<Rightarrow> js_error + environment \<times> jstr \<times> jstr" where
  "checked_environment parse file_text =
     (case file_text of Inl e \<Rightarrow> Inl e
      | Inr source \<Rightarrow>
     (case parseEnvironment source of Inl e \<Rightarrow> Inl e
      | Inr env \<Rightarrow>
     (case require_present env public_names of Inl e \<Rightarrow> Inl e
      | Inr _ \<Rightarrow>
     (if \<not> own_site_key (trim (the (env (js ''NEXT_PUBLIC_TURNSTILE_SITE_KEY'')))) then Inl site_key_error
      else
     (case requireHttpsUrl parse ''NEXT_PUBLIC_BACKEND_URL'' (env (js ''NEXT_PUBLIC_BACKEND_URL'')) of Inl e \<Rightarrow> Inl e
      | Inr backendUrl \<Rightarrow>
     (case requireHttpsUrl parse ''NEXT_PUBLIC_DOCUMENTATION_URL'' (env (js ''NEXT_PUBLIC_DOCUMENTATION_URL'')) of
        Inl e \<Rightarrow> Inl e
      | Inr documentationUrl \<Rightarrow> Inr (env, backendUrl, documentationUrl)))))))"

section \<open>The two processes\<close>

text \<open>\<open>path.join\<close> of an absolute directory and plain names, and the directory above.\<close>

definition path_join :: "jstr \<Rightarrow> string list \<Rightarrow> jstr" where
  "path_join d names = join_with [47] ((if d = [47] then [] else d) # map js names)"

definition path_parent :: "jstr \<Rightarrow> jstr" where
  "path_parent d = (let p = join_with [47] (butlast (split_on 47 d)) in if p = [] then [47] else p)"

record child_process =
  cp_command :: jstr
  cp_args :: "jstr list"
  cp_cwd :: jstr
  cp_env :: "environment option"

definition build_environment :: "environment \<Rightarrow> environment \<Rightarrow> jstr \<Rightarrow> jstr \<Rightarrow> environment" where
  "build_environment processEnv env backendUrl documentationUrl =
     (processEnv ++ env)(js ''NODE_ENV'' \<mapsto> js ''production'', js ''NEXT_PUBLIC_BACKEND_URL'' \<mapsto> backendUrl,
        js ''NEXT_PUBLIC_DOCUMENTATION_URL'' \<mapsto> documentationUrl)"

definition build_process :: "jstr \<Rightarrow> jstr \<Rightarrow> environment \<Rightarrow> child_process" where
  "build_process execPath frontendDirectory e =
     \<lparr>cp_command = execPath,
      cp_args = [path_join frontendDirectory [''node_modules'', ''next'', ''dist'', ''bin'', ''next''], js ''build'', js ''--webpack''],
      cp_cwd = frontendDirectory, cp_env = Some e\<rparr>"

definition validation_process :: "jstr \<Rightarrow> jstr \<Rightarrow> jstr \<Rightarrow> child_process" where
  "validation_process frontendDirectory backendUrl documentationUrl =
     (let repositoryDirectory = path_parent frontendDirectory
      in \<lparr>cp_command = js ''bash'',
          cp_args = [path_join repositoryDirectory [''deploy'', ''verify-frontend-artifact.sh''], frontendDirectory,
            backendUrl, documentationUrl],
          cp_cwd = repositoryDirectory, cp_env = None\<rparr>)"

text \<open>What the script does: the processes it starts and its own exit status, or what it throws before any.\<close>

definition build_production ::
  "(jstr \<Rightarrow> jstr option \<Rightarrow> url option) \<Rightarrow> jstr \<Rightarrow> jstr \<Rightarrow> environment \<Rightarrow> js_error + jstr \<Rightarrow> int option \<Rightarrow> int option
     \<Rightarrow> js_error + child_process list \<times> int" where
  "build_production parse execPath scriptDirectory processEnv file_text buildStatus validationStatus =
     (let frontendDirectory = path_parent scriptDirectory
      in case checked_environment parse file_text of
           Inl e \<Rightarrow> Inl e
         | Inr (env, backendUrl, documentationUrl) \<Rightarrow>
             let build = build_process execPath frontendDirectory
                   (build_environment processEnv env backendUrl documentationUrl);
                 status = (\<lambda>v. case v of Some n \<Rightarrow> n | None \<Rightarrow> 1)
             in Inr (if buildStatus \<noteq> Some 0 then ([build], status buildStatus)
                     else ([build, validation_process frontendDirectory backendUrl documentationUrl],
                       status validationStatus)))"

section \<open>The file's format\<close>

text \<open>An entry as one would write it: the value in double quotes.\<close>

definition env_entry :: "jstr \<times> jstr \<Rightarrow> jstr" where
  "env_entry kv = fst kv @ [61, 34] @ snd kv @ [34]"

definition print_environment :: "(jstr \<times> jstr) list \<Rightarrow> jstr" where
  "print_environment es = join_with [10] (map env_entry es)"

definition admissible :: "jstr \<times> jstr \<Rightarrow> bool" where
  "admissible kv = (fst kv \<noteq> [] \<and> capital (hd (fst kv)) \<and> list_all key_unit (fst kv) \<and> \<not> list_ex line_end (snd kv))"

lemma key_unit_facts: "key_unit u \<Longrightarrow> \<not> js_ws u \<and> u \<noteq> 61 \<and> u \<noteq> 10 \<and> u \<noteq> 35"
proof -
  assume k: "key_unit u"
  then have "48 \<le> unat u \<and> unat u \<le> 95 \<and> unat u \<noteq> 61"
    by (auto simp: key_unit_def capital_def digit16_def)
  then show ?thesis by (auto simp: js_ws_def)
qed

lemma ascii_not_ws [simp]: "\<not> js_ws 34" "\<not> js_ws 61" "\<not> line_end 34" "\<not> key_unit 61"
  by (simp_all add: js_ws_def line_end_def key_unit_def capital_def digit16_def)

lemma trim_solid: "s \<noteq> [] \<Longrightarrow> \<not> js_ws (hd s) \<Longrightarrow> \<not> js_ws (last s) \<Longrightarrow> trim s = s"
proof -
  assume s: "s \<noteq> []" "\<not> js_ws (hd s)" "\<not> js_ws (last s)"
  then have "dropWhile js_ws s = s" "dropWhile js_ws (rev s) = rev s"
    by (metis dropWhile_eq_self_iff, metis dropWhile_eq_self_iff hd_rev)
  then show ?thesis by (simp add: trim_def)
qed

lemma entry_parses:
  assumes "admissible kv"
  shows "trim (env_entry kv) = env_entry kv" "hd (env_entry kv) \<noteq> 35" "env_entry kv \<noteq> []"
    "match_entry (env_entry kv) = Some (fst kv, 34 # snd kv @ [34])" "10 \<notin> set (env_entry kv)"
    "drop_cr (env_entry kv) = env_entry kv"
proof -
  have k: "\<forall>u\<in>set (fst kv). key_unit u" "fst kv \<noteq> []" "capital (hd (fst kv))" "\<not> list_ex line_end (snd kv)"
    using assms by (auto simp: admissible_def list_all_iff)
  then have h: "hd (env_entry kv) = hd (fst kv)" "key_unit (hd (fst kv))" by (simp_all add: env_entry_def)
  show "env_entry kv \<noteq> []" by (simp add: env_entry_def)
  show "hd (env_entry kv) \<noteq> 35" using h key_unit_facts by metis
  have l: "last (env_entry kv) = 34" by (simp add: env_entry_def)
  show "trim (env_entry kv) = env_entry kv"
    using h l key_unit_facts by (intro trim_solid) (auto simp: env_entry_def)
  show "drop_cr (env_entry kv) = env_entry kv" using l by (simp add: drop_cr_def)
  have "takeWhile key_unit (env_entry kv) = fst kv" "dropWhile key_unit (env_entry kv) = [61, 34] @ snd kv @ [34]"
    using k(1) by (simp_all add: env_entry_def takeWhile_append2 dropWhile_append2)
  then show "match_entry (env_entry kv) = Some (fst kv, 34 # snd kv @ [34])"
    using k by (simp add: match_entry_def list_ex_iff)
  show "10 \<notin> set (env_entry kv)"
    using k key_unit_facts by (auto simp: env_entry_def list_ex_iff line_end_def)
qed

lemma unquote_quoted: "unquote (trim (34 # v @ [34])) = v"
proof -
  have "trim (34 # v @ [34]) = 34 # v @ [34]" by (rule trim_solid) simp_all
  then show ?thesis by (simp add: unquote_def)
qed

lemma parse_entries:
  "list_all admissible es \<Longrightarrow> parse_lines i (map env_entry es) m = Inr (m ++ map_of (rev es))"
proof (induction es arbitrary: i m)
  case (Cons kv es)
  then have a: "admissible kv" and r: "list_all admissible es" by simp_all
  have "parse_lines i (map env_entry (kv # es)) m = parse_lines (Suc i) (map env_entry es) (m(fst kv \<mapsto> snd kv))"
    using entry_parses [OF a] by (simp add: Let_def unquote_quoted)
  also have "\<dots> = Inr (m(fst kv \<mapsto> snd kv) ++ map_of (rev es))" by (rule Cons.IH [OF r])
  finally show ?case by (cases kv) (simp add: map_add_def fun_eq_iff split: option.split)
qed simp

lemma environment_round_trip:
  assumes "list_all admissible es"
  shows "parseEnvironment (print_environment es) = Inr (map_of (rev es))"
proof (cases "es = []")
  case False
  have "split_on 10 (print_environment es) = map env_entry es"
    unfolding print_environment_def using False assms entry_parses(5) by (intro split_join) (auto simp: list_all_iff)
  moreover have "map drop_cr (butlast (map env_entry es)) = butlast (map env_entry es)"
    using assms entry_parses(6) by (intro map_idI) (auto simp: list_all_iff dest!: in_set_butlastD)
  ultimately have "env_lines (print_environment es) = map env_entry es"
    using False by (simp add: env_lines_def)
  with parse_entries [OF assms] show ?thesis by (simp add: parseEnvironment_def)
qed (simp add: print_environment_def parseEnvironment_def env_lines_def)

text \<open>Blank lines and comments change nothing but the numbering of errors.\<close>

lemma skipped_line:
  "trim l = [] \<or> hd (trim l) = 35 \<Longrightarrow> parse_lines i (l # ls) m = parse_lines (Suc i) ls m"
  by (auto simp: Let_def)

section \<open>What a build has passed\<close>

definition https_address :: "(jstr \<Rightarrow> jstr option \<Rightarrow> url option) \<Rightarrow> environment \<Rightarrow> string \<Rightarrow> jstr \<Rightarrow> bool" where
  "https_address parse env name u =
     (case env (js name) of None \<Rightarrow> False
      | Some v \<Rightarrow> u = drop_slash v \<and> (case parse v None of None \<Rightarrow> False
          | Some p \<Rightarrow> url_protocol p = js ''https:'' \<and> url_hostname p \<notin> set local_hosts))"

lemma require_present_ok:
  "require_present env names = Inr x \<longleftrightarrow>
     list_all (\<lambda>n. case env (js n) of None \<Rightarrow> False | Some v \<Rightarrow> trim v \<noteq> []) names"
  by (induction names) (auto split: option.splits)

lemma requireHttpsUrl_ok:
  "requireHttpsUrl parse name (env (js name)) = Inr u \<Longrightarrow> https_address parse env name u"
  by (auto simp: requireHttpsUrl_def https_address_def split: option.splits if_splits)

lemma checked_environment_ok:
  assumes "checked_environment parse file_text = Inr (env, b, d)"
  shows "\<exists>source. file_text = Inr source \<and> parseEnvironment source = Inr env"
    and "list_all (\<lambda>n. case env (js n) of None \<Rightarrow> False | Some v \<Rightarrow> trim v \<noteq> []) public_names"
    and "own_site_key (trim (the (env (js ''NEXT_PUBLIC_TURNSTILE_SITE_KEY''))))"
    and "https_address parse env ''NEXT_PUBLIC_BACKEND_URL'' b" "https_address parse env ''NEXT_PUBLIC_DOCUMENTATION_URL'' d"
  using assms by (auto simp: checked_environment_def require_present_ok requireHttpsUrl_ok split: sum.splits if_splits)

lemma build_production_ok:
  assumes "build_production parse execPath scriptDirectory processEnv file_text bs vs = Inr (ps, code)"
  shows "\<exists>env b d. checked_environment parse file_text = Inr (env, b, d)
    \<and> cp_env (hd ps) = Some (build_environment processEnv env b d)
    \<and> (code = 0 \<longleftrightarrow> bs = Some 0 \<and> vs = Some 0) \<and> length ps = (if bs = Some 0 then 2 else 1)"
proof (cases "checked_environment parse file_text")
  case (Inl e)
  with assms show ?thesis by (simp add: build_production_def)
next
  case (Inr r)
  then show ?thesis using assms
    by (cases r) (auto simp: build_production_def build_process_def Let_def split: if_splits option.splits)
qed

text \<open>The public configuration of the built program is the file's, not that of the machine.\<close>

lemma require_all_cong: "\<forall>n\<in>set ns. f n = g n \<Longrightarrow> require_all f ns = require_all g ns"
  by (induction ns) (auto split: sum.splits)

lemma build_environment_public:
  assumes "list_all (\<lambda>n. case env (js n) of None \<Rightarrow> False | Some v \<Rightarrow> trim v \<noteq> []) public_names"
  shows "load_public_env (\<lambda>n. build_environment processEnv env b d (js n))
    = load_public_env (\<lambda>n. build_environment Map.empty env b d (js n))"
proof -
  have "require_all (\<lambda>n. build_environment processEnv env b d (js n)) public_names
      = require_all (\<lambda>n. build_environment Map.empty env b d (js n)) public_names"
    using assms by (intro require_all_cong)
      (auto simp: list_all_iff build_environment_def map_add_def split: option.splits)
  then show ?thesis by (simp add: load_public_env_def)
qed

text \<open>
  The check is weaker than what the program asks for: a name that is a lone slash passes it, but the
  module of the public configuration then throws.
\<close>

lemma lone_slash:
  assumes "env (js ''NEXT_PUBLIC_APP_NAME'') = Some [47]"
  shows "requiredPublicValue ''NEXT_PUBLIC_APP_NAME'' (env (js ''NEXT_PUBLIC_APP_NAME'')) = Inl (missing_env ''NEXT_PUBLIC_APP_NAME'')"
    and "require_present env [''NEXT_PUBLIC_APP_NAME''] = Inr ()"
  using assms by (simp_all add: requiredPublicValue_def drop_slash_def trim_def js_ws_def)

end
