(* ===== verification/SiteConfig.thy ===== *)
theory SiteConfig
  imports Session UiOverlays
begin

text \<open>
  What frames every page: the headers the server adds (\<open>src/frontend/next.config.ts\<close>), the root layout
  with its metadata (\<open>app/layout.tsx\<close>), the layouts of single routes and the redirect of \<open>/dashboard\<close>.
  How the framework merges metadata is not modelled.
\<close>

section \<open>Server configuration\<close>

record next_config =
  nc_devIndicators :: bool
  nc_output :: string
  nc_headers :: "(string \<times> (string \<times> string) list) list"

definition nextConfig :: next_config where
  "nextConfig = \<lparr>nc_devIndicators = False, nc_output = ''standalone'',
     nc_headers = [(''/reset-password'', [(''Cache-Control'', ''no-store''), (''Referrer-Policy'', ''no-referrer''),
       (''X-Robots-Tag'', ''noindex, nofollow'')])]\<rparr>"

text \<open>A source without parameters is the path itself.\<close>

definition added_headers :: "next_config \<Rightarrow> jstr \<Rightarrow> (string \<times> string) list" where
  "added_headers cfg path = concat (map snd (filter (\<lambda>h. js (fst h) = path) (nc_headers cfg)))"

section \<open>Metadata\<close>

record site_metadata =
  sm_title_default :: jstr
  sm_title_template :: jstr
  sm_description :: jstr
  sm_applicationName :: jstr
  sm_keywords :: "string list"
  sm_icons :: "(string \<times> string) list"
  sm_og_title :: jstr
  sm_og_description :: jstr
  sm_og_url :: string
  sm_og_siteName :: jstr
  sm_og_images :: "(string \<times> int \<times> int \<times> jstr) list"
  sm_og_locale :: string
  sm_og_type :: string

definition root_metadata :: "public_env \<Rightarrow> site_metadata" where
  "root_metadata env =
     \<lparr>sm_title_default = PUBLIC_APP_NAME env, sm_title_template = js ''%s | '' @ PUBLIC_APP_NAME env,
      sm_description = PUBLIC_APP_DESCRIPTION env, sm_applicationName = PUBLIC_APP_NAME env,
      sm_keywords = [''IPNU'', ''IPPNU'', ''SSO'', ''OAuth 2.0'', ''OpenID Connect''],
      sm_icons = [(''icon'', ''/images/logo-sso.png''), (''shortcut'', ''/images/logo-sso.png''),
        (''apple'', ''/images/logo-sso.png'')],
      sm_og_title = PUBLIC_APP_NAME env, sm_og_description = PUBLIC_APP_DESCRIPTION env,
      sm_og_url = ''https://pelajarnumagetan.id'', sm_og_siteName = PUBLIC_APP_NAME env,
      sm_og_images = [(''https://pelajarnumagetan.id/images/logo-sso.png'', 512, 512, js ''Logo '' @ PUBLIC_APP_NAME env)],
      sm_og_locale = ''id_ID'', sm_og_type = ''website''\<rparr>"

text \<open>A route's own title and its \<open>robots\<close> (\<open>index\<close> and \<open>follow\<close>).\<close>

record route_metadata =
  rm_title :: string
  rm_robots :: "(bool \<times> bool) option"

definition login_metadata :: route_metadata where
  "login_metadata = \<lparr>rm_title = ''Masuk'', rm_robots = None\<rparr>"

definition register_metadata :: route_metadata where
  "register_metadata = \<lparr>rm_title = ''Buat akun SSO'', rm_robots = None\<rparr>"

definition reset_metadata :: route_metadata where
  "reset_metadata = \<lparr>rm_title = ''Atur ulang kata sandi'', rm_robots = Some (False, False)\<rparr>"

section \<open>Layouts\<close>

text \<open>The tree, and the state the provider in it starts with.\<close>

definition RootLayout :: "jstr option \<Rightarrow> user option \<Rightarrow> 'e node list \<Rightarrow> 'e node \<times> auth_state" where
  "RootLayout theme initialUser children =
     (El ''html'' [Attr ''lang'' (js ''id''), Flag ''suppressHydrationWarning'' True]
       [El ''body'' []
         [El ''AuthProvider'' [] [TooltipProvider [] children],
          Toaster theme [Attr ''position'' (js ''top-right'')]]],
      auth_init initialUser)"

definition LoginLayout :: "'e node list \<Rightarrow> 'e node list" where
  "LoginLayout children = children"

definition RegisterLayout :: "'e node list \<Rightarrow> 'e node list" where
  "RegisterLayout children = children"

definition ResetPasswordLayout :: "'e node list \<Rightarrow> 'e node list" where
  "ResetPasswordLayout children = children"

definition DashboardLayout ::
  "public_env \<Rightarrow> (jstr \<Rightarrow> jstr) \<Rightarrow> jstr \<Rightarrow> shell_state \<Rightarrow> shell_event node list \<Rightarrow> shell_event node list" where
  "DashboardLayout env upper pathname s children = DashboardShell env upper pathname s children"

text \<open>Where \<open>/dashboard\<close> redirects to.\<close>

definition DashboardPage :: jstr where
  "DashboardPage = js ''/dashboard/profil''"

text \<open>\<open>useAuth\<close>, where the context is \<open>null\<close> outside the provider.\<close>

definition useAuth :: "auth_state option \<Rightarrow> js_error + auth_state" where
  "useAuth context =
     (case context of None \<Rightarrow> Inl (JsError ''Error'' None (js ''useAuth must be used inside AuthProvider''))
      | Some c \<Rightarrow> Inr c)"

section \<open>Lemmas\<close>

text \<open>
  The page that carries a reset token in its address is neither stored, nor named as a referrer, nor
  indexed; no other page gets these headers.
\<close>

lemma reset_page_headers:
  "added_headers nextConfig path =
     (if path = js ''/reset-password''
      then [(''Cache-Control'', ''no-store''), (''Referrer-Policy'', ''no-referrer''), (''X-Robots-Tag'', ''noindex, nofollow'')]
      else [])"
  by (auto simp: added_headers_def nextConfig_def)

lemma root_layout_user: "useAuth (Some (snd (RootLayout theme u children))) = Inr (auth_init u)"
  by (simp add: RootLayout_def useAuth_def)

end
