(* ===== verification/DocsSite.thy ===== *)
theory DocsSite
  imports Api
begin

text \<open>
  The configuration of the documentation site (\<open>src/documentation/docusaurus.config.ts\<close>,
  \<open>sidebars.ts\<close>) and its one component. The environment is an argument; the generator itself is
  third-party code.
\<close>

definition requiredEnvironment :: "string \<Rightarrow> jstr option \<Rightarrow> js_error + jstr" where
  "requiredEnvironment name value =
     (case map_option trim value of
        None \<Rightarrow> Inl (JsError ''Error'' None (js name @ js '' wajib diatur melalui documentation/.env''))
      | Some normalized \<Rightarrow>
          if normalized = [] then Inl (JsError ''Error'' None (js name @ js '' wajib diatur melalui documentation/.env''))
          else Inr normalized)"

text \<open>An item of the bar: its target, its label and its position.\<close>

datatype navbar_item = SidebarItem string string string | LinkItem string string string

record docs_config =
  dc_title :: jstr
  dc_tagline :: jstr
  dc_favicon :: string
  dc_organizationName :: jstr
  dc_url :: jstr
  dc_baseUrl :: jstr
  dc_trailingSlash :: bool
  dc_onBrokenLinks :: string
  dc_locales :: "string list"
  dc_sidebarPath :: string
  dc_customCss :: string
  dc_respectPrefersColorScheme :: bool
  dc_footerStyle :: string
  dc_themes :: "string \<times> string"
  dc_routeBasePath :: string
  dc_breadcrumbs :: bool
  dc_blog :: bool
  dc_navbar :: "jstr \<times> jstr \<times> string \<times> navbar_item list"
  dc_footer :: "(string \<times> (string \<times> string) list) list"
  dc_copyright :: jstr
  dc_languages :: "string list"
  dc_headings :: "nat \<times> nat"

definition navbar_items :: "navbar_item list" where
  "navbar_items = [SidebarItem ''integrationSidebar'' ''Panduan integrasi'' ''left'', LinkItem ''/reference/endpoints'' ''Endpoint'' ''left'']"

definition footer_links :: "(string \<times> (string \<times> string) list) list" where
  "footer_links =
     [(''Dokumentasi'', [(''Quickstart'', ''/getting-started/quickstart''), (''Contoh integrasi'', ''/integrations/nextjs-node'')]),
      (''Referensi'', [(''Endpoint'', ''/reference/endpoints''), (''Scope dan claim'', ''/reference/scopes-claims'')])]"

text \<open>The five values are read in this order; the first that is missing or blank ends the load.\<close>

fun required_values :: "(string \<rightharpoonup> jstr) \<Rightarrow> string list \<Rightarrow> js_error + jstr list" where
  "required_values env [] = Inr []"
| "required_values env (n # ns) =
     (case requiredEnvironment n (env n) of Inl e \<Rightarrow> Inl e | Inr v \<Rightarrow> map_sum id ((#) v) (required_values env ns))"

definition docs_names :: "string list" where
  "docs_names = [''DOCS_APP_NAME'', ''DOCS_TAGLINE'', ''DOCS_ORGANIZATION_NAME'', ''DOCS_SITE_URL'', ''DOCS_BASE_URL'']"

definition docs_site :: "(string \<rightharpoonup> jstr) \<Rightarrow> nat \<Rightarrow> js_error + docs_config" where
  "docs_site env year = map_sum id (\<lambda>vs.
     \<lparr>dc_title = vs ! 0, dc_tagline = vs ! 1, dc_favicon = ''img/logo-sso.png'', dc_organizationName = vs ! 2,
      dc_url = vs ! 3, dc_baseUrl = vs ! 4, dc_trailingSlash = False, dc_onBrokenLinks = ''throw'', dc_locales = [''id''],
      dc_sidebarPath = ''./sidebars.ts'', dc_customCss = ''./src/css/custom.css'', dc_respectPrefersColorScheme = True,
      dc_footerStyle = ''dark'', dc_themes = (''github'', ''dracula''),
      dc_routeBasePath = ''/'', dc_breadcrumbs = True, dc_blog = False,
      dc_navbar = (vs ! 0, js ''Logo '' @ vs ! 0, ''img/logo-sso.png'', navbar_items), dc_footer = footer_links,
      dc_copyright = [0xA9] @ js '' '' @ nat_str year @ js '' '' @ vs ! 0 @ js ''. Dokumentasi integrasi SSO.'',
      dc_languages = [''bash'', ''go'', ''php''], dc_headings = (2, 3)\<rparr>) (required_values env docs_names)"

text \<open>A category of the sidebar: its label, \<open>collapsed\<close> where given, its documents.\<close>

definition integrationSidebar :: "(string \<times> bool option \<times> string list) list" where
  "integrationSidebar =
     [(''Mulai'', Some False, [''index'', ''getting-started/quickstart'', ''getting-started/register-client'']),
      (''Cara kerja SSO'', Some False, [''protocol/authorization-code-pkce'', ''protocol/application-access'',
         ''protocol/provisioning'', ''security/validation'', ''security/tokens-revocation'']),
      (''Referensi'', None, [''protocol/discovery-jwks'', ''reference/endpoints'', ''reference/scopes-claims'',
         ''security/errors'', ''reference/standards'']),
      (''Contoh integrasi'', None, [''integrations/nextjs-node'', ''integrations/laravel'', ''integrations/go''])]"

text \<open>\<open>String(siteConfig.customFields?.organizationName ?? '')\<close>\<close>

definition OrganizationName :: "jstr option \<Rightarrow> 'e node" where
  "OrganizationName v = Txt (case v of Some s \<Rightarrow> s | None \<Rightarrow> [])"

section \<open>Lemmas\<close>

text \<open>The configuration loads exactly when the five values are there, and gives them trimmed.\<close>

lemma docs_site_loads:
  "(\<exists>c. docs_site env year = Inr c) =
     list_all (\<lambda>n. case env n of None \<Rightarrow> False | Some v \<Rightarrow> trim v \<noteq> []) docs_names"
proof -
  have "(\<exists>vs. required_values env ns = Inr vs) = list_all (\<lambda>n. case env n of None \<Rightarrow> False | Some v \<Rightarrow> trim v \<noteq> []) ns" for ns
  proof (induction ns)
    case (Cons n ns)
    then show ?case by (cases "required_values env ns") (auto simp: requiredEnvironment_def split: option.splits)
  qed simp
  then show ?thesis by (simp add: docs_site_def)
qed

text \<open>
  No document is listed twice, and the links of the bar and the footer lead to documents of the sidebar,
  so that \<open>onBrokenLinks: 'throw'\<close> does not stop the build on their account.
\<close>

definition sidebar_documents :: "string list" where
  "sidebar_documents = concat (map (\<lambda>(label, collapsed, items). items) integrationSidebar)"

definition site_links :: "string list" where
  "site_links = concat (map (\<lambda>i. case i of LinkItem t l p \<Rightarrow> [t] | SidebarItem s l p \<Rightarrow> []) navbar_items)
     @ concat (map (\<lambda>(title, items). map snd items) footer_links)"

lemma documents_distinct: "distinct sidebar_documents"
  by code_simp

lemma site_links_resolve: "list_all (\<lambda>t. t \<in> set (map ((@) ''/'') sidebar_documents)) site_links"
  by code_simp

end
