(* ===== verification/Journey.thy ===== *)
theory Journey
  imports Session
begin

text \<open>
  A visit of the consent page, over as many changes to the login page and back as it takes: the two
  pages (\<open>src/frontend/src/app/oauth/authorize/page.tsx\<close>, \<open>src/frontend/src/app/login/page.tsx\<close>) share the
  signed-in user of the provider (\<open>src/frontend/src/components/auth-provider.tsx\<close>) and send the browser to
  each other. A page that was left still gets the answers of its requests, and its continuations still
  act. The effects of both pages are recorded in their order.
\<close>

section \<open>State\<close>

datatype screen = ConsentScreen authorize_state | LoginScreen login_state | OtherScreen jstr

text \<open>
  The browser holds the address of the page shown. \<open>vi_left\<close> are the pages left, each with the browser
  of its last render; \<open>vi_going\<close> is the navigation under way inside the site (the last one asked for),
  \<open>vi_leaving\<close> the address of \<open>window.location.assign\<close>.
\<close>

record visit =
  vi_user :: "user option"
  vi_browser :: browser
  vi_screen :: screen
  vi_left :: "(browser \<times> screen) list"
  vi_going :: "jstr option"
  vi_leaving :: "jstr option"
  vi_effects :: "effect list"

datatype page_event = ConsentEvent authorize_event | LoginEvent login_event

datatype visit_event = OnPage page_event | OnLeft nat page_event | Arrive | Leave

section \<open>Operations\<close>

text \<open>The page the site has at an address, mounted for a visitor.\<close>

definition mount_screen :: "browser \<Rightarrow> user option \<Rightarrow> screen \<times> effect list" where
  "mount_screen b u =
     (if b_pathname b = js ''/oauth/authorize''
      then map_prod ConsentScreen id (authorize_mount b u False)
      else if b_pathname b = js ''/login'' then (LoginScreen login_init, [])
      else (OtherScreen (b_pathname b @ b_search b), []))"

fun screen_step :: "browser \<Rightarrow> bool \<Rightarrow> screen \<Rightarrow> page_event \<Rightarrow> screen \<times> effect list" where
  "screen_step b geo (ConsentScreen s) (ConsentEvent e) = map_prod ConsentScreen id (authorize_step b s e)"
| "screen_step b geo (LoginScreen s) (LoginEvent e) = map_prod LoginScreen id (login_step b geo s e)"
| "screen_step b geo s e = (s, [])"

text \<open>What an effect does to the visit. All effects but \<open>SetUser\<close> leave the pages alone.\<close>

definition plain_effect :: "effect \<Rightarrow> visit \<Rightarrow> visit" where
  "plain_effect ef v =
     (let v' = v\<lparr>vi_effects := vi_effects v @ [ef]\<rparr>
      in case ef of
           RouterReplace d \<Rightarrow> v'\<lparr>vi_going := Some d\<rparr>
         | LocationAssign d \<Rightarrow> v'\<lparr>vi_leaving := Some d\<rparr>
         | _ \<Rightarrow> v')"

text \<open>
  \<open>setUser\<close> of the provider: a user from an answer is a new object, so the effect of a consent page on
  the screen is cleaned up and runs again.
\<close>

definition provide_user :: "user option \<Rightarrow> visit \<Rightarrow> visit" where
  "provide_user u v =
     (case vi_screen v of
        ConsentScreen s \<Rightarrow>
          if u = None \<and> vi_user v = None then v
          else (let (s', effs) = load_effect (vi_browser v) (load_cleanup (s\<lparr>az_user := u\<rparr>))
                in fold plain_effect effs (v\<lparr>vi_user := u, vi_screen := ConsentScreen s'\<rparr>))
      | _ \<Rightarrow> v\<lparr>vi_user := u\<rparr>)"

definition visit_effect :: "effect \<Rightarrow> visit \<Rightarrow> visit" where
  "visit_effect ef v =
     (case ef of SetUser u \<Rightarrow> provide_user u (v\<lparr>vi_effects := vi_effects v @ [ef]\<rparr>) | _ \<Rightarrow> plain_effect ef v)"

definition page_browser :: "browser \<Rightarrow> url \<Rightarrow> browser" where
  "page_browser b t = b\<lparr>b_pathname := url_pathname t, b_search := url_search t, b_params := url_params t\<rparr>"

text \<open>A page that is left runs the cleanup of its effect.\<close>

definition leave_screen :: "screen \<Rightarrow> screen" where
  "leave_screen p = (case p of ConsentScreen s \<Rightarrow> ConsentScreen (load_cleanup s) | _ \<Rightarrow> p)"

text \<open>
  The router arrives: at another address of the same page the page stays mounted (its effect runs again
  if the request has changed), otherwise the page at the address is mounted.
\<close>

definition arrive_at :: "browser \<Rightarrow> visit \<Rightarrow> visit" where
  "arrive_at b v =
     (if b_pathname b = b_pathname (vi_browser v)
      then (case vi_screen v of
              ConsentScreen s \<Rightarrow>
                if oauth_request_of (b_params b) = oauth_request_of (b_params (vi_browser v))
                then v\<lparr>vi_browser := b\<rparr>
                else (let (s', effs) = load_effect b (load_cleanup s)
                      in fold plain_effect effs (v\<lparr>vi_browser := b, vi_screen := ConsentScreen s'\<rparr>))
            | _ \<Rightarrow> v\<lparr>vi_browser := b\<rparr>)
      else (let (p, effs) = mount_screen b (vi_user v)
            in fold plain_effect effs (v\<lparr>vi_left := vi_left v @ [(vi_browser v, leave_screen (vi_screen v))],
                 vi_browser := b, vi_screen := p\<rparr>)))"

text \<open>
  The continuation of a page that was left sees the query of its last render and the current location.
\<close>

definition left_browser :: "browser \<Rightarrow> browser \<Rightarrow> browser" where
  "left_browser current b = b\<lparr>b_pathname := b_pathname current, b_search := b_search current\<rparr>"

fun visit_step :: "bool \<Rightarrow> visit \<Rightarrow> visit_event \<Rightarrow> visit" where
  "visit_step geo v (OnPage e) =
     (let (p, effs) = screen_step (vi_browser v) geo (vi_screen v) e
      in fold visit_effect effs (v\<lparr>vi_screen := p\<rparr>))"
| "visit_step geo v (OnLeft k e) =
     (let (b, p) = vi_left v ! k; (p', effs) = screen_step (left_browser (vi_browser v) b) geo p e
      in fold visit_effect effs (v\<lparr>vi_left := (vi_left v)[k := (b, p')]\<rparr>))"
| "visit_step geo v Arrive =
     (case vi_going v of
        None \<Rightarrow> v
      | Some d \<Rightarrow>
          (case b_parse_url (vi_browser v) d (Some (b_origin (vi_browser v))) of
             None \<Rightarrow> v\<lparr>vi_going := None\<rparr>
           | Some t \<Rightarrow> arrive_at (page_browser (vi_browser v) t) (v\<lparr>vi_going := None\<rparr>)))"
| "visit_step geo v Leave =
     (case vi_leaving v of
        None \<Rightarrow> v
      | Some d \<Rightarrow> v\<lparr>vi_screen := OtherScreen d, vi_left := [], vi_going := None, vi_leaving := None\<rparr>)"

text \<open>A visit starts with a document of the site, rendered for the user the server found.\<close>

definition visit_start :: "browser \<Rightarrow> user option \<Rightarrow> visit" where
  "visit_start b u =
     (let (p, effs) = mount_screen b u
      in fold plain_effect effs \<lparr>vi_user = u, vi_browser = b, vi_screen = p, vi_left = [],
           vi_going = None, vi_leaving = None, vi_effects = []\<rparr>)"

text \<open>
  What can happen: on the page shown whatever its own model allows (the user of the provider changes by
  \<open>SetUser\<close> only), on a page that was left the answers of what is pending there.
\<close>

fun is_answer :: "page_event \<Rightarrow> bool" where
  "is_answer (ConsentEvent (ContextAnswer k r)) = True"
| "is_answer (ConsentEvent (IncompleteTask k)) = True"
| "is_answer (ConsentEvent (AuthorizeAnswer k r)) = True"
| "is_answer (ConsentEvent (LogoutAnswer k r)) = True"
| "is_answer (LoginEvent (LocationAnswer k r)) = True"
| "is_answer (LoginEvent (LoginAnswer k r)) = True"
| "is_answer e = False"

fun screen_ok :: "public_env \<Rightarrow> browser \<Rightarrow> screen \<Rightarrow> page_event \<Rightarrow> bool" where
  "screen_ok env b (ConsentScreen s) (ConsentEvent e) =
     (authorize_ok env b s e \<and> (case e of AuthChange u l \<Rightarrow> False | _ \<Rightarrow> True))"
| "screen_ok env b (LoginScreen s) (LoginEvent e) = login_ok env b s e"
| "screen_ok env b s e = False"

fun visit_ok :: "public_env \<Rightarrow> visit \<Rightarrow> visit_event \<Rightarrow> bool" where
  "visit_ok env v (OnPage e) = screen_ok env (vi_browser v) (vi_screen v) e"
| "visit_ok env v (OnLeft k e) =
     (k < length (vi_left v) \<and> is_answer e \<and> screen_ok env (fst (vi_left v ! k)) (snd (vi_left v ! k)) e)"
| "visit_ok env v Arrive = (vi_going v \<noteq> None)"
| "visit_ok env v Leave = (vi_leaving v \<noteq> None)"

section \<open>The addresses of the two pages\<close>

definition address :: "browser \<Rightarrow> jstr" where
  "address b = b_pathname b @ b_search b"

text \<open>
  What the URL parser does with them: a path is resolved against the origin, and the query of the login
  address gives the encoded value back.
\<close>

definition addresses_resolve :: "browser \<Rightarrow> jstr \<Rightarrow> url \<Rightarrow> url \<Rightarrow> bool" where
  "addresses_resolve b login t l =
     (b_pathname b = js ''/oauth/authorize'' \<and> login_callback (address b) = Some login
      \<and> b_parse_url b (address b) (Some (b_origin b)) = Some t \<and> page_browser b t = b \<and> url_origin t = b_origin b
      \<and> b_parse_url b login (Some (b_origin b)) = Some l \<and> url_pathname l = js ''/login''
      \<and> query_get (url_params l) ''callbackUrl'' = Some (address b))"

section \<open>Invariant\<close>

text \<open>
  Every authorization sent is the one of the address (with or without consent), and the navigations
  inside the site lead to the two addresses.
\<close>

definition authorize_url :: "browser \<Rightarrow> jstr" where
  "authorize_url b = b_api_url b @ js ''/oauth/authorize''"

definition authorization :: "browser \<Rightarrow> bool \<Rightarrow> fetch_request" where
  "authorization b c = apiFetch_request (b_api_url b) (js ''/oauth/authorize'')
     (post (authorize_body (oauth_request_of (b_params b)) c))"

definition journey_effect :: "browser \<Rightarrow> jstr \<Rightarrow> effect \<Rightarrow> bool" where
  "journey_effect b login ef =
     (case ef of
        RouterReplace d \<Rightarrow> d = address b \<or> d = login
      | Send r \<Rightarrow> fr_url r = authorize_url b \<longrightarrow> (\<exists>c. r = authorization b c)
      | _ \<Rightarrow> True)"

definition left_ok :: "browser \<Rightarrow> url \<Rightarrow> browser \<times> screen \<Rightarrow> bool" where
  "left_ok b l p =
     (case snd p of
        ConsentScreen s \<Rightarrow> fst p = b \<and> filter is_action (az_pending s) = []
      | LoginScreen s \<Rightarrow> fst p = page_browser b l
      | OtherScreen d \<Rightarrow> False)"

text \<open>
  On the consent page a navigation to the login page starts when nothing is under way, and nothing can be
  started any more: there is no user, or the logout keeps the buttons disabled.
\<close>

definition shown_ok :: "browser \<Rightarrow> jstr \<Rightarrow> url \<Rightarrow> visit \<Rightarrow> bool" where
  "shown_ok b login l v =
     (case vi_screen v of
        ConsentScreen s \<Rightarrow> vi_browser v = b \<and> authorize_inv s \<and> \<not> az_authLoading s
          \<and> (vi_going v = Some login \<longrightarrow>
               (az_user s = None \<or> az_approving s) \<and> filter is_action (az_pending s) = [])
      | LoginScreen s \<Rightarrow> vi_browser v = page_browser b l
      | OtherScreen d \<Rightarrow> vi_left v = [] \<and> vi_going v = None)"

definition journey_inv :: "browser \<Rightarrow> jstr \<Rightarrow> url \<Rightarrow> visit \<Rightarrow> bool" where
  "journey_inv b login l v =
     (list_all (journey_effect b login) (vi_effects v)
      \<and> vi_going v \<in> {None, Some (address b), Some login}
      \<and> shown_ok b login l v \<and> list_all (left_ok b l) (vi_left v))"

lemmas journey_defs = journey_inv_def shown_ok_def left_ok_def

lemma fr_url_api: "fr_url (apiFetch_request u p i) = u @ p"
  by (simp add: apiFetch_request_def Let_def)

lemma journey_sends:
  "p \<noteq> js ''/oauth/authorize'' \<Longrightarrow> b_api_url b' = b_api_url b \<Longrightarrow> journey_effect b login (api b' p i)"
  by (simp add: journey_effect_def api_def authorize_url_def fr_url_api)

lemma addresses_differ: "addresses_resolve b login t l \<Longrightarrow> address b \<noteq> login"
  by (auto simp: addresses_resolve_def page_browser_def js_def dest!: arg_cong [where f = b_pathname])

lemma page_browser_fields [simp]:
  "b_api_url (page_browser b t) = b_api_url b" "b_origin (page_browser b t) = b_origin b"
  "b_parse_url (page_browser b t) = b_parse_url b" "b_params (page_browser b t) = url_params t"
  "b_pathname (page_browser b t) = url_pathname t" "page_browser (page_browser b u) t = page_browser b t"
  by (simp_all add: page_browser_def)

lemma left_browser_fields [simp]:
  "b_api_url (left_browser c b) = b_api_url b" "b_origin (left_browser c b) = b_origin b"
  "b_parse_url (left_browser c b) = b_parse_url b" "b_params (left_browser c b) = b_params b"
  by (simp_all add: left_browser_def)

text \<open>The login page leads back here.\<close>

lemma login_leads_here:
  assumes "addresses_resolve b login t l" "complete (oauth_request_of (b_params b))"
    and "b_origin b' = b_origin b" "b_parse_url b' = b_parse_url b" "b_params b' = url_params l"
  shows "safeLoginDestination True b' (query_get (b_params b') ''callbackUrl'') = address b"
proof -
  have t: "url_pathname t = b_pathname b" "url_search t = b_search b" "url_params t = b_params b"
    using assms(1) by (auto simp: addresses_resolve_def page_browser_def
        dest!: arg_cong [where f = "\<lambda>b. (b_pathname b, b_search b, b_params b)"])
  moreover have "address b \<noteq> []" using assms(1) by (simp add: addresses_resolve_def address_def js_def)
  ultimately show ?thesis
    using assms by (auto simp: safeLoginDestination_def addresses_resolve_def truthy_def complete_iff address_def)
qed

text \<open>The effect of the consent page when a user is known, and its cleanup.\<close>

lemma load_effect_user:
  assumes "complete (oauth_request_of (b_params b))" "az_user s = Some u" "\<not> az_authLoading s"
  shows "\<exists>p i. load_effect b s = (s\<lparr>az_pending := az_pending s @ [AwaitContext True]\<rparr>, [api b p i])
    \<and> p \<noteq> js ''/oauth/authorize''"
  using assms by (auto simp: load_effect_def Let_def js_def)

lemma is_action_simps [simp]:
  "\<not> is_action (AwaitContext a)" "\<not> is_action AwaitIncomplete" "is_action AwaitAuthorize" "is_action AwaitLogout"
  by (simp_all add: is_action_def)

lemma filter_actions_drop:
  "filter is_action ps = [] \<Longrightarrow> filter is_action (drop_nth k ps) = []"
  by (auto simp: filter_empty_conv)

lemma action_pending: "k < length ps \<Longrightarrow> is_action (ps ! k) \<Longrightarrow> filter is_action ps \<noteq> []"
  using length_filter_nth_pos by fastforce

lemma journey_plain:
  assumes "journey_inv b login l v" "journey_effect b login ef"
    and "\<And>d. ef \<noteq> RouterReplace d"
  shows "journey_inv b login l (plain_effect ef v)"
  using assms by (cases ef) (auto simp: journey_defs plain_effect_def Let_def split: screen.splits)

text \<open>Steps of the consent page shown.\<close>

lemma consent_shown_step:
  assumes site: "addresses_resolve b login t l" and inv: "journey_inv b login l v"
    and p: "vi_screen v = ConsentScreen s"
    and ok: "authorize_ok env b s e" "\<And>u a. e \<noteq> AuthChange u a"
  shows "journey_inv b login l (visit_step geo v (OnPage (ConsentEvent e)))"
proof -
  let ?s = "authorize_next b s e"
  have b: "vi_browser v = b" and ai: "authorize_inv s" using inv p by (simp_all add: journey_defs)
  have ai': "authorize_inv ?s" using authorize_inv_step [OF ai ok(1)] .
  have going: "vi_going v = Some login \<Longrightarrow> (az_user s = None \<or> az_approving s) \<and> filter is_action (az_pending s) = []"
    using inv p by (simp add: journey_defs)
  note rest = inv [unfolded journey_inv_def]
  have call: "login_callback (address b) = Some login" using site by (simp add: addresses_resolve_def)
  show ?thesis
  proof (cases e)
    case (ContextAnswer k r)
    then show ?thesis using rest b p ai' going ok(1)
      by (auto simp: journey_defs authorize_next_def filter_actions_drop Let_def split: sum.splits)
  next
    case (IncompleteTask k)
    then show ?thesis using rest b p ai' going ok(1)
      by (auto simp: journey_defs authorize_next_def filter_actions_drop)
  next
    case (AuthorizeAnswer k r)
    with ok(1) going have "vi_going v \<noteq> Some login" using action_pending [of k "az_pending s"] by auto
    then show ?thesis using AuthorizeAnswer rest b p ai'
      by (auto simp: journey_defs authorize_next_def authorization_settled_def visit_effect_def plain_effect_def
          journey_effect_def Let_def split: sum.splits option.splits)
  next
    case (LogoutAnswer k r)
    with ok(1) going have g: "vi_going v \<noteq> Some login" using action_pending [of k "az_pending s"] by auto
    have one: "az_approving s" "length (filter is_action (az_pending s)) = 1"
      using ai ok(1) LogoutAnswer action_pending [of k "az_pending s"]
      by (auto simp: authorize_inv_def le_Suc_eq split: if_splits)
    then have "filter is_action (drop_nth k (az_pending s)) = []"
      using ok(1) LogoutAnswer length_filter_drop_nth [of k "az_pending s" is_action] by simp
    then show ?thesis using LogoutAnswer rest b p ai' g one call
      by (auto simp: journey_defs authorize_next_def logout_settled_def visit_effect_def plain_effect_def
          journey_effect_def address_def Let_def split: sum.splits option.splits)
  next
    case (AuthChange u a)
    with ok(2) show ?thesis by blast
  next
    case Approve
    with ok(1) going have g: "vi_going v \<noteq> Some login" by (auto simp: authorize_offers)
    have "journey_effect b login (snd (approve b s) ! 0)"
      by (auto simp: approve_def submitAuthorization_def journey_effect_def api_def authorization_def)
    then show ?thesis using Approve rest b p ai' g
      by (auto simp: journey_defs authorize_next_def approve_def submitAuthorization_def visit_effect_def
          plain_effect_def api_def)
  next
    case Cancel
    then show ?thesis using rest b p ai' going
      by (auto simp: journey_defs authorize_next_def cancel_def visit_effect_def plain_effect_def
          journey_effect_def Let_def split: option.splits)
  next
    case UseAnotherAccount
    with ok(1) going have g: "vi_going v \<noteq> Some login" by (auto simp: authorize_offers)
    have "journey_effect b login (api b (js ''/api/auth/logout'') post_empty)"
      by (rule journey_sends) (simp_all add: js_def)
    then show ?thesis using UseAnotherAccount rest b p ai' g
      by (auto simp: journey_defs authorize_next_def useAnotherAccount_def visit_effect_def plain_effect_def api_def)
  qed
qed

text \<open>What the login page does, shown or left.\<close>

definition login_effects :: "browser \<Rightarrow> effect list \<Rightarrow> bool" where
  "login_effects b effs =
     (effs = [] \<or> (\<exists>ef. effs = [ef] \<and> (\<forall>d u. ef \<noteq> RouterReplace d \<and> ef \<noteq> SetUser u) \<and> (\<forall>login. journey_effect b login ef))
      \<or> (\<exists>u m. effs = [SetUser (Some u), Toast Success m, RouterReplace (address b), RouterRefresh]))"

lemma login_step_effects:
  assumes "addresses_resolve b login t l" "complete (oauth_request_of (b_params b))"
    and "b_api_url b' = b_api_url b" "b_origin b' = b_origin b" "b_parse_url b' = b_parse_url b" "b_params b' = url_params l"
  shows "login_effects b (snd (login_step b' geo s e))"
proof -
  have a: "journey_effect b x (api b' (js ''/api/auth/login'') i)" for x i
    by (rule journey_sends) (simp_all add: js_def assms(3))
  show ?thesis
    using login_leads_here [OF assms(1,2,4-6)] a
    by (cases e) (auto simp: login_effects_def login_failed_def api_def Let_def journey_effect_def
        split: sum.splits login_pending.splits js_error.splits)
qed

lemma journey_signed_in:
  assumes site: "addresses_resolve b login t l" "complete (oauth_request_of (b_params b))"
    and inv: "journey_inv b login l v" "\<And>d. vi_screen v \<noteq> OtherScreen d"
  shows "journey_inv b login l (fold visit_effect [SetUser (Some u), Toast Success m, RouterReplace (address b), RouterRefresh] v)"
proof (cases "vi_screen v")
  case (ConsentScreen s)
  let ?v = "v\<lparr>vi_effects := vi_effects v @ [SetUser (Some u)]\<rparr>"
  let ?s = "load_cleanup (s\<lparr>az_user := Some u\<rparr>)"
  from inv ConsentScreen have s: "vi_browser v = b" "authorize_inv s" "\<not> az_authLoading s"
    by (simp_all add: journey_defs)
  obtain q i where load: "load_effect b ?s = (?s\<lparr>az_pending := az_pending ?s @ [AwaitContext True]\<rparr>, [api b q i])"
    and q: "q \<noteq> js ''/oauth/authorize''"
    using load_effect_user [OF site(2), of ?s u] s(3) by (auto simp: load_cleanup_def)
  have "authorize_inv (?s\<lparr>az_pending := az_pending ?s @ [AwaitContext True]\<rparr>)"
    using s(2) load_cleanup_fields(2) [of "s\<lparr>az_user := Some u\<rparr>"] by (simp add: authorize_inv_def load_cleanup_def)
  moreover have "journey_effect b login (api b q i)" by (rule journey_sends [OF q refl])
  ultimately show ?thesis
    using inv ConsentScreen s load addresses_differ [OF site(1)]
    by (auto simp: journey_defs visit_effect_def provide_user_def plain_effect_def journey_effect_def load_cleanup_def api_def)
next
  case (LoginScreen s)
  then show ?thesis using inv
    by (auto simp: journey_defs visit_effect_def provide_user_def plain_effect_def journey_effect_def)
qed (use inv(2) in blast)

lemma journey_login_effects:
  assumes "addresses_resolve b login t l" "complete (oauth_request_of (b_params b))"
    and "journey_inv b login l v" "\<And>d. vi_screen v \<noteq> OtherScreen d" and "login_effects b effs"
  shows "journey_inv b login l (fold visit_effect effs v)"
proof -
  have one: "journey_inv b login l (fold visit_effect [ef] v)"
    if "\<forall>d u. ef \<noteq> RouterReplace d \<and> ef \<noteq> SetUser u" "\<forall>login. journey_effect b login ef" for ef
    using that journey_plain [OF assms(3), of ef] by (cases ef) (simp_all add: visit_effect_def)
  show ?thesis
    using assms(3,5) one journey_signed_in [OF assms(1-4)] unfolding login_effects_def by auto
qed

lemma login_shown_step:
  assumes site: "addresses_resolve b login t l" "complete (oauth_request_of (b_params b))"
    and inv: "journey_inv b login l v" and p: "vi_screen v = LoginScreen s"
  shows "journey_inv b login l (visit_step geo v (OnPage (LoginEvent e)))"
proof -
  have b: "vi_browser v = page_browser b l" using inv p by (simp add: journey_defs)
  let ?v = "v\<lparr>vi_screen := LoginScreen (fst (login_step (vi_browser v) geo s e))\<rparr>"
  have "login_effects b (snd (login_step (vi_browser v) geo s e))"
    using login_step_effects [OF site, of "vi_browser v"] by (simp add: b)
  moreover have "journey_inv b login l ?v" using inv p by (simp add: journey_defs)
  ultimately show ?thesis
    using journey_login_effects [OF site, of ?v] p by (simp add: case_prod_beta Let_def)
qed

text \<open>Answers for pages that were left.\<close>

lemma left_step:
  assumes site: "addresses_resolve b login t l" "complete (oauth_request_of (b_params b))"
    and inv: "journey_inv b login l v" and ok: "visit_ok env v (OnLeft k e)"
  shows "journey_inv b login l (visit_step geo v (OnLeft k e))"
proof -
  obtain b' p where k: "k < length (vi_left v)" "vi_left v ! k = (b', p)" by (cases "vi_left v ! k") (use ok in auto)
  with inv have left: "left_ok b l (b', p)"
    by (metis journey_inv_def list_all_length)
  have shown: "vi_screen v \<noteq> OtherScreen d" for d using inv k by (auto simp: journey_defs)
  have put: "journey_inv b login l (v\<lparr>vi_left := (vi_left v)[k := q]\<rparr>)" if "left_ok b l q" for q
    using inv that shown set_update_subset_insert [of "vi_left v" k q]
    by (cases "vi_screen v") (auto simp: journey_inv_def shown_ok_def list_all_iff)
  show ?thesis
  proof (cases p)
    case (LoginScreen s)
    with left have b': "b' = page_browser b l" by (simp add: left_ok_def)
    obtain f where e: "e = LoginEvent f" using ok k LoginScreen by (cases e) auto
    let ?r = "login_step (left_browser (vi_browser v) b') geo s f"
    have "login_effects b (snd ?r)" by (rule login_step_effects [OF site]) (simp_all add: b')
    moreover have "left_ok b l (b', LoginScreen (fst ?r))" using b' by (simp add: left_ok_def)
    ultimately show ?thesis
      using journey_login_effects [OF site put] shown k LoginScreen e by (simp add: case_prod_beta Let_def)
  next
    case (ConsentScreen s)
    with left have s: "b' = b" "filter is_action (az_pending s) = []" by (simp_all add: left_ok_def)
    obtain f where e: "e = ConsentEvent f" and f: "authorize_ok env b s f" "is_answer (ConsentEvent f)"
      using ok k ConsentScreen s by (cases e) auto
    have "az_pending s ! j \<notin> {AwaitAuthorize, AwaitLogout}" if "j < length (az_pending s)" for j
      using s(2) action_pending [OF that] by (auto simp del: filter_empty_conv)
    with f obtain j where "(\<exists>r. f = ContextAnswer j r) \<or> f = IncompleteTask j" by (cases f) auto
    then have "snd (authorize_step (left_browser (vi_browser v) b) s f) = []
        \<and> filter is_action (az_pending (fst (authorize_step (left_browser (vi_browser v) b) s f))) = []"
      using s(2) filter_actions_drop by (auto simp: Let_def split: sum.split)
    then show ?thesis using put [of "(b, ConsentScreen (fst (authorize_step (left_browser (vi_browser v) b) s f)))"]
        k ConsentScreen e s(1)
      by (simp add: case_prod_beta Let_def left_ok_def)
  next
    case (OtherScreen d)
    with left show ?thesis by (simp add: left_ok_def)
  qed
qed

text \<open>Arrivals, departures and the start.\<close>

lemma mount_here:
  assumes "addresses_resolve b login t l" "complete (oauth_request_of (b_params b))"
    and "journey_inv b login l v" "vi_going v = None"
  shows "journey_inv b login l (let (p, effs) = mount_screen b u in fold plain_effect effs
    (v\<lparr>vi_browser := b, vi_screen := p\<rparr>))"
proof -
  let ?s = "\<lparr>az_user = u, az_authLoading = False, az_client = None, az_loading = True,
       az_approving = False, az_error = [], az_pending = []\<rparr>"
  have b: "b_pathname b = js ''/oauth/authorize''" "login_callback (address b) = Some login"
    using assms(1) by (simp_all add: addresses_resolve_def)
  show ?thesis
  proof (cases u)
    case None
    then show ?thesis using assms b
      by (auto simp: mount_screen_def authorize_mount_def load_effect_def address_def journey_defs plain_effect_def
          journey_effect_def authorize_inv_def)
  next
    case (Some x)
    obtain q i where "load_effect b ?s = (?s\<lparr>az_pending := az_pending ?s @ [AwaitContext True]\<rparr>, [api b q i])"
      and q: "q \<noteq> js ''/oauth/authorize''"
      using load_effect_user [OF assms(2), of ?s x] Some by auto
    moreover have "journey_effect b login (api b q i)" by (rule journey_sends [OF q refl])
    ultimately show ?thesis using assms b
      by (auto simp: mount_screen_def authorize_mount_def journey_defs plain_effect_def authorize_inv_def api_def)
  qed
qed

lemma arrive_step:
  assumes site: "addresses_resolve b login t l" "complete (oauth_request_of (b_params b))"
    and inv: "journey_inv b login l v"
  shows "journey_inv b login l (visit_step geo v Arrive)"
proof (cases "vi_going v")
  case None
  with inv show ?thesis by simp
next
  case (Some d)
  have at: "page_browser b t = b" "b_pathname b = js ''/oauth/authorize''" "url_pathname l = js ''/login''"
    "js ''/login'' \<noteq> js ''/oauth/authorize''"
    "b_parse_url b (address b) (Some (b_origin b)) = Some t" "b_parse_url b login (Some (b_origin b)) = Some l"
    using site(1) by (simp_all add: addresses_resolve_def js_def)
  let ?w = "v\<lparr>vi_going := None\<rparr>"
  have target: "d = address b \<or> d = login" using inv Some by (auto simp: journey_inv_def)
  show ?thesis
  proof (cases "vi_screen v")
    case (ConsentScreen s)
    with inv Some have s: "vi_browser v = b" "d = login \<Longrightarrow> filter is_action (az_pending s) = []"
      by (simp_all add: journey_defs)
    have "journey_inv b login l (arrive_at b ?w)"
      using inv ConsentScreen s(1) by (simp add: arrive_at_def journey_defs)
    moreover have "journey_inv b login l (arrive_at (page_browser b l) ?w)" if "d = login"
      using inv ConsentScreen s(1) s(2) [OF that] at load_cleanup_fields(2) [of s]
      by (simp add: arrive_at_def mount_screen_def journey_defs leave_screen_def)
    ultimately show ?thesis using target Some s(1) at by auto
  next
    case (LoginScreen s)
    with inv have br: "vi_browser v = page_browser b l" by (simp add: journey_defs)
    let ?x = "?w\<lparr>vi_left := vi_left v @ [(page_browser b l, LoginScreen s)]\<rparr>"
    have "journey_inv b login l ?x" "vi_going ?x = None" using inv LoginScreen by (simp_all add: journey_defs)
    from mount_here [OF site this, of "vi_user v"]
    have "journey_inv b login l (arrive_at b ?w)"
      using LoginScreen br at by (simp add: arrive_at_def leave_screen_def case_prod_beta Let_def)
    moreover have "journey_inv b login l (arrive_at (page_browser b l) ?w)"
      using inv LoginScreen br by (simp add: arrive_at_def journey_defs)
    ultimately show ?thesis using target Some br at by auto
  next
    case (OtherScreen x)
    with inv Some show ?thesis by (simp add: journey_defs)
  qed
qed

lemma journey_start:
  assumes "addresses_resolve b login t l" "complete (oauth_request_of (b_params b))"
  shows "journey_inv b login l (visit_start b u)"
proof -
  let ?v = "\<lparr>vi_user = u, vi_browser = b, vi_screen = LoginScreen login_init, vi_left = [],
     vi_going = None, vi_leaving = None, vi_effects = []\<rparr>"
  let ?w = "?v\<lparr>vi_browser := page_browser b l\<rparr>"
  have "journey_inv b login l ?w" by (simp add: journey_defs)
  from mount_here [OF assms this, of u] show ?thesis
    by (simp add: visit_start_def case_prod_beta Let_def)
qed

lemma journey_step:
  assumes "addresses_resolve b login t l" "complete (oauth_request_of (b_params b))"
    and inv: "journey_inv b login l v" and ok: "visit_ok env v x"
  shows "journey_inv b login l (visit_step geo v x)"
proof (cases x)
  case (OnPage e)
  with ok show ?thesis
  proof (cases "vi_screen v")
    case (ConsentScreen s)
    with ok OnPage inv obtain f where f: "e = ConsentEvent f" "authorize_ok env b s f"
      "case f of AuthChange u a \<Rightarrow> False | _ \<Rightarrow> True"
      by (cases e) (auto simp: journey_defs)
    from f(3) have "\<And>u a. f \<noteq> AuthChange u a" by auto
    with f show ?thesis using consent_shown_step [OF assms(1) inv ConsentScreen] OnPage by blast
  next
    case (LoginScreen s)
    with ok OnPage obtain f where "e = LoginEvent f" by (cases e) auto
    then show ?thesis using login_shown_step [OF assms(1-2) inv LoginScreen] OnPage by blast
  qed auto
next
  case (OnLeft k e)
  then show ?thesis using left_step [OF assms(1-2) inv] ok by blast
next
  case Arrive
  then show ?thesis using arrive_step [OF assms(1-2) inv] by blast
next
  case Leave
  with ok inv show ?thesis by (auto simp: journey_defs)
qed

interpretation visit: machine_invariant "visit_start b u" "visit_step geo" "visit_ok env"
  "\<lambda>v. addresses_resolve b login t l \<and> complete (oauth_request_of (b_params b)) \<longrightarrow> journey_inv b login l v"
  for b :: browser and u :: "user option" and geo :: bool and env :: public_env
    and login :: jstr and t :: url and l :: url
  by unfold_locales (use journey_start journey_step in blast)+

section \<open>Further facts\<close>

text \<open>The events of a login with a position, and of an approval once the application is loaded.\<close>

definition sign_in :: "jstr \<Rightarrow> jstr \<Rightarrow> position \<Rightarrow> user \<Rightarrow> visit_event list" where
  "sign_in email password pos u =
     [Arrive, OnPage (LoginEvent (LoginEmail email)), OnPage (LoginEvent (LoginPassword password)),
      OnPage (LoginEvent LoginSubmit), OnPage (LoginEvent (LocationAnswer 0 (Inr pos))),
      OnPage (LoginEvent (LoginAnswer 0 (Inr u))), Arrive]"

definition approval :: "client_info \<Rightarrow> visit_event list" where
  "approval c = [OnPage (ConsentEvent (ContextAnswer 0 (Inr c))), OnPage (ConsentEvent Approve)]"

lemma login_offers_typing:
  "offers (LoginPage env b s) (LoginEmail x)" "offers (LoginPage env b s) (LoginPassword x)"
  by (auto simp: offers_def LoginPage_def LoginForm_def show_if_def alert_def password_field_def PasswordInput_def)

lemma sign_in_run:
  assumes site: "addresses_resolve b login t l" and full: "complete (oauth_request_of (b_params b))"
  shows "let v = run (visit_step True) (visit_start b None) (sign_in email password pos u)
    in possible (visit_step True) (visit_ok env) (visit_start b None) (sign_in email password pos u)
      \<and> vi_user v = Some u \<and> vi_browser v = b
      \<and> (\<exists>s. vi_screen v = ConsentScreen s \<and> az_user s = Some u \<and> \<not> az_authLoading s \<and> \<not> az_approving s
           \<and> az_pending s = [AwaitContext True])"
proof -
  let ?b = "page_browser b l"
  have at: "page_browser b t = b" "b_pathname b = js ''/oauth/authorize''" "url_pathname l = js ''/login''"
    "js ''/login'' \<noteq> js ''/oauth/authorize''" "login_callback (address b) = Some login"
    "b_parse_url b (address b) (Some (b_origin b)) = Some t" "b_parse_url b login (Some (b_origin b)) = Some l"
    using site by (simp_all add: addresses_resolve_def js_def)
  have dest: "safeLoginDestination True ?b (query_get (url_params l) ''callbackUrl'') = address b"
    using login_leads_here [OF site full, of ?b] by simp
  show ?thesis
    using at dest full
    by (simp add: sign_in_def visit_start_def mount_screen_def authorize_mount_def load_effect_def address_def
        plain_effect_def arrive_at_def leave_screen_def load_cleanup_def login_init_def login_offers_typing
        login_offers_submit visit_effect_def provide_user_def Let_def api_def requestLocation_def)
qed

lemma approval_run:
  assumes "vi_screen v = ConsentScreen s" "az_user s = Some u" "\<not> az_authLoading s" "\<not> az_approving s"
    and "az_pending s = [AwaitContext True]"
  shows "let w = run (visit_step geo) v (approval c)
    in possible (visit_step geo) (visit_ok env) v (approval c) \<and> vi_user w = vi_user v \<and> vi_browser w = vi_browser v
      \<and> vi_effects w = vi_effects v @ [Send (authorization (vi_browser v) (ci_consent_required c))]"
  using assms by (auto simp: approval_def authorize_offers approve_def submitAuthorization_def visit_effect_def
      plain_effect_def api_def authorization_def Let_def)

lemma approved_visit:
  fixes email password pos u c
  assumes "addresses_resolve b login t l" "complete (oauth_request_of (b_params b))"
  defines "events \<equiv> sign_in email password pos u @ approval c"
  shows "let v = run (visit_step True) (visit_start b None) events
    in possible (visit_step True) (visit_ok env) (visit_start b None) events \<and> vi_user v = Some u \<and> vi_browser v = b
      \<and> (\<exists>effs. vi_effects v = effs @ [Send (authorization b (ci_consent_required c))])"
proof -
  let ?v = "run (visit_step True) (visit_start b None) (sign_in email password pos u)"
  obtain s where v: "possible (visit_step True) (visit_ok env) (visit_start b None) (sign_in email password pos u)"
    "vi_user ?v = Some u" "vi_browser ?v = b" "vi_screen ?v = ConsentScreen s" "az_user s = Some u"
    "\<not> az_authLoading s" "\<not> az_approving s" "az_pending s = [AwaitContext True]"
    using sign_in_run [OF assms(1,2), of email password pos u env] by (auto simp: Let_def)
  from approval_run [OF v(4-8), where c = c and geo = True and env = env] v(1-3) show ?thesis
    by (simp add: events_def run_append possible_append Let_def)
qed

text \<open>After a change of account the provider still holds the account that was logged out.\<close>

lemma logged_out_user_stays:
  assumes "vi_screen v = ConsentScreen s"
  shows "vi_user (visit_step geo v (OnPage (ConsentEvent (LogoutAnswer k (Inr ()))))) = vi_user v"
  using assms by (auto simp: logout_settled_def visit_effect_def plain_effect_def Let_def split: option.split)

end
