(* ===== verification/Spec2Isabelle.thy ===== *)
theory Spec2Isabelle
  imports Prelude JsText View Api Browser AuthShell EmailOtp Login UserAvatar Authorize Register VerifyEmail ResetPassword Widgets Skeletons Applications Session Turnstile Users Backup JsonString Profile AuditLog AppDetail Connections Security Home Sidebar ListQueries UiKit UiOverlays UiTree UiPages ProductionBuild SiteConfig DocsSite Journey
begin

text \<open>
  A model of the frontend of an identity provider (single sign-on): a Next.js client under
  \<open>src/frontend/src/\<close>. Paths below are relative to that directory. Its pages sign users in, take
  their consent to OAuth requests and let them and the super admins administer accounts. The pages
  talk to a backend in Go through one client function, \<open>apiFetch\<close>; the backend is another program
  and appears here as the answers it may give.

  The parts and their theories.

    \<^item> \<open>Prelude\<close>: reachable states (\<open>reach\<close>, \<open>run\<close>, \<open>possible\<close>), the locales \<open>machine_invariant\<close>,
      \<open>latest_wins\<close> and \<open>prefix_code\<close>, facts on lists and maps.
    \<^item> \<open>JsText\<close>: strings of 16-bit units; trimming, code points, UTF-8, \<open>encodeURIComponent\<close>,
      \<open>URLSearchParams\<close>. \<open>JsonString\<close>: \<open>JSON.stringify\<close> of a list of strings. \<open>ListQueries\<close>: the query
      texts of the searchable lists.
    \<^item> \<open>View\<close>: what a component renders; the texts a tree shows are its text nodes, never props or keys. \<open>Browser\<close>: location, query, URL parser, requests.
    \<^item> \<open>Api\<close>: \<open>lib/api.ts\<close>, \<open>lib/public-env.ts\<close>, \<open>lib/server-env.ts\<close>. \<open>EmailOtp\<close>:
      \<open>lib/email-verification.ts\<close>, the deadlines of the resend cooldown in \<open>localStorage\<close>.
    \<^item> \<open>AuthShell\<close>, \<open>UserAvatar\<close>, \<open>Widgets\<close>, \<open>Skeletons\<close>: components that several pages share
      (form frame, brand, password input, avatar, pagination, dates, page header, loading boxes).
    \<^item> The public pages: \<open>Login\<close>, \<open>Register\<close> with \<open>Turnstile\<close> (its security check), \<open>VerifyEmail\<close>,
      \<open>ResetPassword\<close>, \<open>Authorize\<close> (consent), \<open>Home\<close> (landing page).
    \<^item> The frame of the dashboard: \<open>Session\<close> (user of the first render, provider of the signed-in user,
      redirect and logout of the shell, navigation) and \<open>Sidebar\<close> (\<open>components/ui/sidebar.tsx\<close> with
      \<open>hooks/use-mobile.ts\<close>).
    \<^item> The dashboard's pages: \<open>Profile\<close>, \<open>Security\<close>, \<open>Connections\<close>, \<open>Applications\<close>, \<open>AppDetail\<close>,
      \<open>Users\<close>, \<open>AuditLog\<close>, \<open>Backup\<close> (\<open>app/dashboard/\<close> \<open>profil\<close>, \<open>keamanan\<close>, \<open>sesi\<close>, \<open>aplikasi\<close>,
      \<open>aplikasi/[id]\<close>, \<open>pengguna\<close>, \<open>audit-log\<close>, \<open>backup-database\<close>).

    \<^item> The UI kit: \<open>UiKit\<close> and \<open>UiOverlays\<close> have a definition for each component of \<open>components/ui/\<close> (what it
      renders for its props and children), \<open>UiTree\<close> replaces the components of a tree by what they render
      and proves that handlers, links and texts are kept, \<open>UiPages\<close> that every page is such a tree.
    \<^item> Around the program: \<open>SiteConfig\<close> (\<open>app/layout.tsx\<close> and the other layouts, \<open>next.config.ts\<close>),
      \<open>ProductionBuild\<close> (\<open>src/frontend/scripts/build-production.mjs\<close>: environment file, checks, the two
      processes), \<open>DocsSite\<close> (the configuration under \<open>src/documentation/\<close>).

  How a page corresponds to the code. A page is a record of its \<open>useState\<close> and \<open>useRef\<close> values, named
  as in the source with a prefix; a datatype of events (one constructor per handler of the page, per
  answer of a request and per timer); a function \<open>..._step\<close> from event and state to the new state and
  the list of effects (requests, navigation, toasts, writes of the store); and a predicate \<open>..._ok\<close>
  saying when an event can happen. A function of the source is one definition of the same name.
  Code before an \<open>await\<close> is the handler; code after it is a definition of its own (\<open>..._settled\<close>,
  \<open>..._done\<close>), applied to the outcome: \<open>Inl\<close> what was thrown, \<open>Inr\<close> the payload. A request under way is
  an entry of the page's list \<open>..._pending\<close>, with the values its continuation captured, so answers may
  come in any order and after any other event. An effect of React is a definition with its cleanup,
  run by the step that changes one of its dependencies. The predicate \<open>..._ok\<close> asks, for an event of the user, that the
  rendered tree offers it (\<open>offers\<close>: an enabled element in an open dialog carries the event), for an answer that the request is in the list, for
  a timer that it is armed; so what can be done follows from the rendered tree, which is a definition named as
  the component. Texts are those of the source; styling props are left out. \<open>reach\<close> closes the initial
  state under possible events: the properties of the pages hold in every reachable state.

  How the parts interact. The consent page sends a visitor without a session to the login page with
  its own address as \<open>callbackUrl\<close>. \<open>Journey\<close> puts the two pages together, as visits: the page shown, the
  user of \<open>components/auth-provider.tsx\<close> they share, the navigation under way, the pages that were left
  (their late answers still act) and the effects so far; its events are those of the pages, arrivals
  and departures, and its invariant says where a visit goes and what it sends. The registration page
  starts the cooldown which the verification page reads; the security check feeds the registration page its token (\<open>feed\<close>); the shell decides
  what the dashboard's pages see, and the provider gives them the user. Every page's requests go
  through \<open>api\<close> of \<open>Browser\<close>, and every answer has the form \<open>apiFetch_settle\<close> gives it.

  What the lemmas show. Each page theory has an invariant (\<open>..._inv\<close>) kept by every step, lemmas that
  say which events its trees offer, the behaviour of its handlers on each branch, and an
  interpretation of \<open>machine_invariant\<close> that carries the invariant to all reachable states. \<open>latest_wins\<close>
  is the contract of numbered requests, interpreted for the users and the detail page; \<open>prefix_code\<close> that of
  encodings in which no code is ambiguous, interpreted for UTF-8, percent escapes, \<open>encodeURIComponent\<close>,
  form encoding and JSON strings: their injectivity follows. \<open>resend_store\<close> is the contract of the
  cooldown store; \<open>implements_run\<close> is its refinement of a map from addresses to deadlines. The
  properties below combine these: safety of the redirects, consent and secrets, invariants of the
  pages, exact conditions for what is sent, equivalence of a button with its handler, the termination
  of a save, bounds of pages and sizes, and the behaviours in which the program falls short of its
  intention (the last ones of the list).

  Parameters. The record \<open>browser\<close> holds the URL parser, the lower-casing and the
  location; the formatters of \<open>Intl\<close> and of file sizes, the clock, the acceptance of storage writes, the
  coercion of answers and the script of the security check are arguments. Hypotheses about them are
  stated in the properties (a parsed path keeps its parts, a query gives its value back) and each has a
  witness on a concrete browser. Three properties restrict the events of a run: \<open>identified\<close> (listed users have an
  identifier), \<open>keeps_account\<close> (while the user
  administration is shown no other account signs in; \<open>setUser\<close> of another account is called by the login page only)
  and \<open>secret_where_expected\<close> (the server sends a client secret only in the answer to a registration).

  Bounds. Every definition is total by structural recursion or a measure; no fuel is used. Numbers of
  JavaScript are rationals or integers: clock values stay below \<open>2^52\<close> and sizes below \<open>2^53\<close>, where
  doubles are exact, and the definitions or hypotheses say so. Identifiers of requests and timers grow
  with their use and never wrap.

  Not modelled. The primitives of the component library under the UI kit are tags; styling, the merge of
  metadata by the framework, the backend in Go, the documentation generator and the shell scripts. The
  native checks of form fields (\<open>minLength\<close>, \<open>maxLength\<close>, \<open>required\<close>) are props of the trees and do not
  restrict the events; so the properties do not rest on them. React's strict mode, which runs effects
  twice in development, the history buttons of the browser and the restarts of the server are outside
  the model. The shell of the dashboard and its pages are modelled one by one, not as one visit.
\<close>

section \<open>Concrete instances for the witnesses\<close>

text \<open>
  One browser on \<open>https://id.example\<close> whose URL parser knows four addresses: the consent page with
  a complete request, the consent page without one, a callback of an application and the address of
  the reset page. Lower-casing maps the ASCII capitals.
\<close>

definition ascii_lower :: "jstr \<Rightarrow> jstr" where
  "ascii_lower s = map (\<lambda>u. if 65 \<le> unat u \<and> unat u \<le> 90 then u + 32 else u) s"

definition good_query :: query where
  "good_query = map (\<lambda>(k, v). (js k, js v))
     [(''client_id'', ''app''), (''redirect_uri'', ''https://app.example/cb''), (''response_type'', ''code''),
      (''scope'', ''openid email''), (''state'', ''xyz''), (''code_challenge'', ''abc''),
      (''code_challenge_method'', ''S256''), (''nonce'', ''n1'')]"

definition consent_search :: jstr where
  "consent_search = js (''?client_id=app&redirect_uri=https%3A%2F%2Fapp.example%2Fcb&response_type=code'' @
     ''&scope=openid+email&state=xyz&code_challenge=abc&code_challenge_method=S256&nonce=n1'')"

definition id_origin :: jstr where
  "id_origin = js ''https://id.example''"

definition page_url :: "jstr \<Rightarrow> jstr \<Rightarrow> jstr \<Rightarrow> jstr \<Rightarrow> query \<Rightarrow> url" where
  "page_url orig host path search q = \<lparr>url_origin = orig, url_protocol = js ''https:'', url_hostname = host,
     url_pathname = path, url_search = search, url_hash = [], url_params = q\<rparr>"

definition sample_parse :: "jstr \<Rightarrow> jstr option \<Rightarrow> url option" where
  "sample_parse v base =
     (if v = js ''/oauth/authorize'' @ consent_search
      then Some (page_url id_origin (js ''id.example'') (js ''/oauth/authorize'') consent_search good_query)
      else if v = js ''https://app.example/cb''
      then Some (page_url (js ''https://app.example'') (js ''app.example'') (js ''/cb'') [] [])
      else None)"

definition sample_browser :: "query \<Rightarrow> browser" where
  "sample_browser q = \<lparr>b_api_url = js ''https://api.example'', b_origin = id_origin,
     b_pathname = js ''/oauth/authorize'', b_search = consent_search, b_params = q,
     b_parse_url = sample_parse, b_url_string = (\<lambda>u. url_origin u @ url_pathname u @ url_search u @ url_hash u),
     b_lower = ascii_lower, b_upper = id, b_platform = js ''Linux'', b_language = js ''id'',
     b_timezone = js ''Asia/Jakarta''\<rparr>"

definition sample_env :: public_env where
  "sample_env = \<lparr>PUBLIC_BACKEND_URL = js ''https://api.example'', PUBLIC_DOCUMENTATION_URL = js ''https://docs.example'',
     PUBLIC_APP_NAME = js ''ID'', PUBLIC_APP_TAGLINE = js ''SSO'', PUBLIC_APP_DESCRIPTION = js ''SSO'',
     PUBLIC_ORGANIZATION_NAME = js ''Org'', PUBLIC_TURNSTILE_SITE_KEY = js ''key''\<rparr>"

definition sample_store :: local_storage where
  "sample_store = \<lparr>ls_items = Map.empty, ls_window = True, ls_access = True, ls_write = True\<rparr>"

definition sample_user :: user where
  "sample_user = \<lparr>u_id = js ''u1'', u_email = js ''a@x.id'', u_name = js ''Ani'', u_phone = [], u_bio = [],
     u_gender = Unset, u_avatar = [], u_role = Anggota, u_is_active = True, u_email_verified = True,
     u_email_verified_at = None, u_created_at = [], u_updated_at = []\<rparr>"

definition sample_client_info :: client_info where
  "sample_client_info = \<lparr>ci_client_id = js ''app'', ci_name = js ''App'', ci_description = [],
     ci_allowed_scopes = [], ci_consent_required = True, ci_select_account = False\<rparr>"

definition sample_consent :: authorize_state where
  "sample_consent = \<lparr>az_user = Some sample_user, az_authLoading = False, az_client = Some sample_client_info,
     az_loading = False, az_approving = False, az_error = [], az_pending = []\<rparr>"

lemma good_query_complete: "complete (oauth_request_of good_query)"
  by code_simp

lemma reach_first: "ok i e \<Longrightarrow> reach i step ok (step i e)"
  by (rule reach_step [OF reach_init])

lemma sample_consent_reachable:
  "reach (fst (authorize_mount (sample_browser good_query) (Some sample_user) False)) (authorize_next (sample_browser good_query))
     (authorize_ok sample_env (sample_browser good_query)) sample_consent"
proof -
  let ?b = "sample_browser good_query"
  let ?i = "sample_consent\<lparr>az_client := None, az_loading := True, az_pending := [AwaitContext True]\<rparr>"
  have "complete (oauth_request_of (b_params ?b))" using good_query_complete by (simp add: sample_browser_def)
  then have i: "fst (authorize_mount ?b (Some sample_user) False) = ?i"
    by (simp add: authorize_mount_def load_effect_def sample_consent_def Let_def)
  have "authorize_next ?b ?i (ContextAnswer 0 (Inr sample_client_info)) = sample_consent"
    by (simp add: authorize_next_def sample_consent_def Let_def)
  moreover have "authorize_ok sample_env ?b ?i (ContextAnswer 0 (Inr sample_client_info))" by auto
  ultimately show ?thesis
    using reach_first [of "authorize_ok sample_env ?b" ?i "ContextAnswer 0 (Inr sample_client_info)" "authorize_next ?b"]
    by (simp add: i)
qed

lemma sample_destination:
  "safeLoginDestination True (sample_browser [(js ''callbackUrl'', js ''/oauth/authorize'' @ consent_search)])
     (query_get (b_params (sample_browser [(js ''callbackUrl'', js ''/oauth/authorize'' @ consent_search)])) ''callbackUrl'')
   = js ''/oauth/authorize'' @ consent_search"
proof -
  have "safeLoginDestination True (sample_browser []) (Some (js ''/oauth/authorize'' @ consent_search))
    = js ''/oauth/authorize'' @ consent_search"
    by code_simp
  moreover have "safeLoginDestination True (sample_browser q) v = safeLoginDestination True (sample_browser []) v" for q v
    by (rule safe_destination_cong) (simp_all add: sample_browser_def)
  moreover have "query_get (b_params (sample_browser [(js n, v)])) n = Some v" for n v
    by (simp add: sample_browser_def query_get_def)
  ultimately show ?thesis by metis
qed

lemma consent_here_well_formed:
  "\<exists>e. encodeURIComponent (js ''/oauth/authorize'' @ consent_search) = Some e"
  by (simp add: encodeURIComponent_def consent_search_def well_formed_plain)

text \<open>The browser of a whole visit: its URL parser knows the login addresses as well.\<close>

definition journey_browser :: browser where
  "journey_browser = (sample_browser good_query)\<lparr>b_parse_url := (\<lambda>v base.
     if take 7 v = js ''/login?''
     then Some (page_url id_origin (js ''id.example'') (js ''/login'') (drop 6 v)
       [(js ''callbackUrl'', js ''/oauth/authorize'' @ consent_search)])
     else sample_parse v base)\<rparr>"

definition sample_position :: position where
  "sample_position = \<lparr>latitude = -7, longitude = 111, accuracy = 20\<rparr>"

lemma journey_addresses: "\<exists>login t l. addresses_resolve journey_browser login t l"
proof -
  obtain e where e: "encodeURIComponent (js ''/oauth/authorize'' @ consent_search) = Some e"
    using consent_here_well_formed by blast
  let ?b = "journey_browser"
  have fields: "b_pathname ?b = js ''/oauth/authorize''" "b_search ?b = consent_search" "b_origin ?b = id_origin"
    "b_params ?b = good_query"
    by (simp_all add: journey_browser_def sample_browser_def)
  have login: "take 7 (js ''/login?callbackUrl='' @ e) = js ''/login?''"
    "take 7 (js ''/oauth/authorize'' @ consent_search) \<noteq> js ''/login?''"
    by (simp_all add: js_def)
  have "b_parse_url ?b (address ?b) (Some id_origin) =
      Some (page_url id_origin (js ''id.example'') (js ''/oauth/authorize'') consent_search good_query)"
    using login(2) by (simp add: address_def fields) (simp add: journey_browser_def sample_parse_def)
  moreover have "\<exists>s. b_parse_url ?b (js ''/login?callbackUrl='' @ e) (Some id_origin) =
      Some (page_url id_origin (js ''id.example'') (js ''/login'') s
        [(js ''callbackUrl'', js ''/oauth/authorize'' @ consent_search)])"
    using login(1) by (auto simp: journey_browser_def page_url_def)
  moreover have "page_browser ?b (page_url id_origin (js ''id.example'') (js ''/oauth/authorize'') consent_search good_query) = ?b"
    by (simp add: page_browser_def page_url_def journey_browser_def sample_browser_def)
  ultimately show ?thesis
    by (auto simp: addresses_resolve_def address_def fields login_callback_def e page_url_def query_get_def)
qed

lemma good_query_values:
  "query_get good_query ''redirect_uri'' = Some (js ''https://app.example/cb'')"
  "query_get good_query ''state'' = Some (js ''xyz'')"
  by (simp_all add: good_query_def query_get_def)

definition sample_client :: oauth_client where
  "sample_client = \<lparr>c_client_id = js ''app'', c_client_secret = None, c_secret_available = True,
     c_secret_version = 1, c_name = js ''App'', c_description = [], c_redirect_uris = [],
     c_allowed_scopes = [], c_owner_id = js ''u1'', c_access_policy = AssignedOnly, c_status = Active,
     c_assignment_count = 0\<rparr>"

definition secret_run :: "ap_event list" where
  "secret_run = [ClientsAnswer 0 (Inr [sample_client]), ToggleSecret sample_client,
     SecretAnswer 0 (Inr (js ''s3cret''))]"


lemma sample_path: "\<exists>p. client_path (js ''app'') = Some p"
  by (simp add: client_path_def encodeURIComponent_def well_formed_plain)

lemma secret_asked:
  "run (ap_next (sample_browser [])) (ap_init True True) (butlast secret_run) =
   (ap_init True True)\<lparr>ap_clients := [sample_client], ap_loading := False,
      ap_loadingSecretID := Some (js ''app''), ap_pending := [AwaitSecret (js ''app'') 0]\<rparr>"
  using sample_path by (auto simp: secret_run_def ap_next_def toggleClientSecret_def sample_client_def ap_init_def Let_def)

lemma secret_asked_possible:
  "possible (ap_next (sample_browser [])) ap_ok (ap_init True True) (butlast secret_run)"
  by (simp add: secret_run_def ap_ok_def ap_next_def ap_init_def toggle_offered sample_client_def)

lemma secret_run_split: "secret_run = butlast secret_run @ [SecretAnswer 0 (Inr (js ''s3cret''))]"
  by (simp add: secret_run_def)

lemma secret_run_possible:
  "possible (ap_next (sample_browser [])) ap_ok (ap_init True True) secret_run"
  by (subst secret_run_split, rule possible_append [OF secret_asked_possible])
    (simp add: secret_asked ap_ok_def)

lemma secret_run_result:
  "ap_clientSecrets (run (ap_next (sample_browser [])) (ap_init True True) secret_run) (js ''app'') = Some (js ''s3cret'')"
  by (subst secret_run_split) (simp add: run_append secret_asked ap_next_def secret_settled_def retain_secret_def
      canRetainClientSecret_def, simp add: ap_init_def)




lemma sample_emails:
  "normalize_email ascii_lower (js ''a'') = js ''a''" "normalize_email ascii_lower (js ''b'') = js ''b''"
  "has_key ascii_lower (js ''a'')" "has_key ascii_lower (js ''b'')"
  by (simp_all add: normalize_email_def has_key_def trim_def js_ws_def ascii_lower_def js_def well_formed_def surrogate_def)

lemma sample_email:
  "has_key (b_lower (sample_browser q)) (js ''a'')"
  "normalize_email (b_lower (sample_browser q)) (js ''a'') = js ''a''"
  "param (b_params (sample_browser [(js ''email'', js ''a'')])) ''email'' = js ''a''"
  by (simp_all add: sample_emails sample_browser_def param_def query_get_def)

definition sample_dates :: date_formats where
  "sample_dates = \<lparr>df_parse = (\<lambda>_. Some 0), df_date = (\<lambda>_. js ''1 Jan''), df_date_time = (\<lambda>_. js ''1 Jan 07.00'')\<rparr>"

definition admin_user :: user where
  "admin_user = sample_user\<lparr>u_id := js ''u2'', u_role := SuperAdmin\<rparr>"

definition sample_users :: us_state where
  "sample_users = (fst (us_init (sample_browser []) (Some admin_user) False))
     \<lparr>us_users := [sample_user, admin_user], us_loading := False, us_currentUser := Some admin_user, us_authLoading := False\<rparr>"

definition dashboard_url :: url where
  "dashboard_url = page_url id_origin (js ''id.example'') (js ''/dashboard/sesi'') [] []"

definition dashboard_browser :: browser where
  "dashboard_browser = (sample_browser [(js ''callbackUrl'', js ''/dashboard/sesi'')])
     \<lparr>b_parse_url := \<lambda>v base. Some dashboard_url\<rparr>"

definition sample_backup :: backup where
  "sample_backup = \<lparr>bk_id = js ''b1'', bk_kind = js ''manual'', bk_status = js ''succeeded'', bk_phase = [], bk_size_bytes = 3,
     bk_created_at = [], bk_finished_at = None, bk_next_attempt_at = None, bk_last_error = None, bk_sha256 = None\<rparr>"

definition sample_sizes :: size_formats where
  "sample_sizes = \<lparr>sf_index = (\<lambda>_. 0), sf_number = (\<lambda>_. [])\<rparr>"

lemma js_three: "js_number (js ''3'') = Some 3"
proof -
  have "nat_str 3 = js ''3''" by (simp add: nat_str.simps js_def)
  then show ?thesis using js_number_nat_str [of 3] by simp
qed

definition sample_assignment :: oauth_client_assignment where
  "sample_assignment = \<lparr>a_id = js ''a1'', a_user_id = js ''u7'', a_name = js ''Budi'', a_email = [], a_avatar = []\<rparr>"

text \<open>An avatar is chosen and saved; while its picture loads another one is chosen.\<close>

definition sample_file :: chosen_file where
  "sample_file = \<lparr>fl_name = js ''a.png'', fl_type = js ''image/png'', fl_size = 3, fl_content = []\<rparr>"

definition choose_run :: "pr_event list" where
  "choose_run = [FileSelected (Some sample_file), CropApply, BlobReady 0 (Some [])]"

definition chosen_state :: pr_state where
  "chosen_state = (pr_init (Some sample_user))\<lparr>pr_pendingAvatar := Some (cropped_file []), pr_pendingPreview := Some 1,
     pr_nextURL := 2, pr_urls := [1]\<rparr>"

lemma choose_runs:
  assumes "pr_user s = Some u" "k = length (pr_pending s)"
  shows "possible (pr_next b) (pr_ok up) s [FileSelected (Some sample_file), CropApply, BlobReady k (Some [])]"
proof -
  let ?s1 = "s\<lparr>pr_nextURL := Suc (pr_nextURL s), pr_urls := pr_nextURL s # pr_urls s, pr_cropSrc := Some (pr_nextURL s),
    pr_cropOpen := True\<rparr>"
  let ?s2 = "?s1\<lparr>pr_pending := pr_pending s @ [AwaitBlob (pr_pendingPreview s) (Some (pr_nextURL s))]\<rparr>"
  have s1: "pr_next b s (FileSelected (Some sample_file)) = ?s1"
    by (simp add: pr_next_def handleFileSelect_def create_url_def sample_file_def allowed_types_def)
  have s2: "pr_next b ?s1 CropApply = ?s2" by (simp add: pr_next_def handleCrop_def)
  have "pr_ok up s (FileSelected (Some sample_file))" by (rule file_ok) (simp add: assms)
  moreover have "pr_ok up ?s1 CropApply" by (rule crop_ok [where n = "pr_nextURL s"]) (simp_all add: assms)
  moreover have "pr_ok up ?s2 (BlobReady k (Some []))" by (rule answer_ok [where k = k]) (simp_all add: assms)
  ultimately show ?thesis by (simp add: s1 s2)
qed

lemma choose_result: "run (pr_next b) (pr_init (Some sample_user)) choose_run = chosen_state"
  by (simp add: choose_run_def pr_next_def handleFileSelect_def create_url_def sample_file_def allowed_types_def handleCrop_def
      blob_ready_def handleCropResult_def pr_drop_def chosen_state_def revoke_def pr_init_def)

lemma chosen_reachable: "reach (pr_init (Some sample_user)) (pr_next b) (pr_ok up) chosen_state"
proof -
  have "possible (pr_next b) (pr_ok up) (pr_init (Some sample_user)) choose_run"
    unfolding choose_run_def by (rule choose_runs [where u = sample_user]) (simp_all add: pr_init_def)
  from reach_run [OF reach_init this] show ?thesis by (simp only: choose_result)
qed

lemma chosen_saving_reachable:
  "reach (pr_init (Some sample_user)) (pr_next b) (pr_ok up) (pr_next b chosen_state SaveProfile)"
  by (rule reach_step [OF chosen_reachable], rule save_ok) (simp_all add: chosen_state_def pr_init_def)

definition save_run :: "pr_event list" where
  "save_run = [UploadAnswer 0 (Inr sample_user), PatchAnswer 0 (Inl uri_error), SaveProfile, UploadAnswer 0 (Inl uri_error)]"

lemmas save_steps_simps = pr_next_def saveProfile_def await_def Let_def upload_settled_def removal_stage_def patch_stage_def
  patch_settled_def save_failed_def pr_drop_def

lemma save_run_possible:
  "possible (pr_next (sample_browser [])) (pr_ok id) (pr_next (sample_browser []) chosen_state SaveProfile) save_run"
  by (auto simp: save_run_def save_steps_simps chosen_state_def pr_init_def intro!: event_ok)

lemma save_run_answers: "3 \<le> length (filter save_answer save_run)"
  by (simp add: save_run_def)

definition avatar_user :: user where
  "avatar_user = sample_user\<lparr>u_avatar := js ''/a.webp''\<rparr>"

definition saved_run :: "pr_event list" where
  "saved_run = [SaveProfile, UploadAnswer 0 (Inr avatar_user), PatchAnswer 0 (Inr avatar_user)]"

definition rechosen_state :: pr_state where
  "rechosen_state = run (pr_next (sample_browser [])) (run (pr_next (sample_browser [])) chosen_state saved_run)
     [FileSelected (Some sample_file), CropApply, BlobReady 1 (Some [])]"

lemma saved_state: "run (pr_next b) chosen_state saved_run = chosen_state\<lparr>pr_formState := Some (getProfileSource avatar_user,
    getProfileForm avatar_user), pr_user := Some avatar_user, pr_pending := [AwaitImage (Some 1)]\<rparr>"
  by (simp add: saved_run_def save_steps_simps chosen_state_def pr_init_def avatar_user_def)

lemma saved_run_possible: "possible (pr_next b) (pr_ok up) chosen_state saved_run"
  by (auto simp: saved_run_def save_steps_simps chosen_state_def pr_init_def intro!: event_ok)

lemma rechosen_reachable: "reach (pr_init (Some sample_user)) (pr_next (sample_browser [])) (pr_ok id) rechosen_state"
  unfolding rechosen_state_def
  by (rule reach_run [OF reach_run [OF chosen_reachable saved_run_possible] choose_runs [where u = avatar_user]])
    (simp_all add: saved_state)

lemma rechosen_fields:
  "pr_pending rechosen_state = [AwaitImage (Some 1)]" "pr_pendingPreview rechosen_state = Some 3"
  "pr_user rechosen_state = Some avatar_user" "\<not> pr_saving rechosen_state"
  unfolding rechosen_state_def saved_state
  by (simp_all add: pr_next_def handleFileSelect_def create_url_def sample_file_def
      allowed_types_def handleCrop_def blob_ready_def handleCropResult_def pr_drop_def chosen_state_def revoke_def pr_init_def)

lemma rechosen_answer: "pr_ok id rechosen_state (ImageSettled 0)"
  by (rule answer_ok [where k = 0]) (simp_all add: rechosen_fields)

lemma rechosen_pending: "pr_pending rechosen_state ! 0 = AwaitImage (Some 1)"
  by (simp add: rechosen_fields)


lemma trim_plain: "list_all (\<lambda>c. \<not> js_ws (of_char c)) s \<Longrightarrow> trim (js s) = js s"
  by (rule trim_no_ws) (auto simp: js_def list_all_iff)



text \<open>The super admin's list has arrived; the dialog for the deletion of another account can be opened and confirmed.\<close>

definition listed_users :: us_state where
  "listed_users = us_next (sample_browser []) (fst (us_init (sample_browser []) (Some admin_user) False))
     (UsersAnswer 0 (Inr \<lparr>ur_users = Some [sample_user, admin_user], ur_total = Some 2, ur_total_pages = Some 1\<rparr>))"

definition lookup_run :: "ap_event list" where
  "lookup_run = [ClientsAnswer 0 (Inr [sample_client]), OpenAccess sample_client, UpdateIdentifier (js ''a@b.id'')]"

lemma sample_identifier:
  "trim (js ''a@b.id'') = js ''a@b.id''" "isCompleteAssignmentIdentifier (js ''a@b.id'')"
proof -
  show t: "trim (js ''a@b.id'') = js ''a@b.id''" by (rule trim_plain) (simp add: js_ws_def)
  have "email_pattern (js ''a@b.id'')" by (simp add: email_pattern_def js_def js_ws_def upt_rec)
  with t show "isCompleteAssignmentIdentifier (js ''a@b.id'')" by (simp add: isCompleteAssignmentIdentifier_def)
qed

lemma lookup_opened:
  "run (ap_next (sample_browser [])) (ap_init True True) (butlast lookup_run) =
     (ap_init True True)\<lparr>ap_clients := [sample_client], ap_loading := False, ap_accessClient := Some sample_client,
        ap_pending := [AwaitAccess (js ''app'')]\<rparr>"
  using sample_path by (auto simp: lookup_run_def ap_next_def ap_init_def openAccessDialog_def sample_client_def reset_candidate_def
      lookup_effect_def lookup_cleanup_def isCompleteAssignmentIdentifier_def uuid_pattern_def email_pattern_def trim_def Let_def)

lemma lookup_run_split: "lookup_run = butlast lookup_run @ [UpdateIdentifier (js ''a@b.id'')]"
  by (simp add: lookup_run_def)

lemma lookup_run_result:
  "ap_lookupTimer (run (ap_next (sample_browser [])) (ap_init True True) lookup_run) = Some (js ''app'', js ''a@b.id'')"
  "ap_accessClient (run (ap_next (sample_browser [])) (ap_init True True) lookup_run) = Some sample_client"
  "trim (ap_assignmentIdentifier (run (ap_next (sample_browser [])) (ap_init True True) lookup_run)) = js ''a@b.id''"
proof -
  have r: "run (ap_next (sample_browser [])) (ap_init True True) lookup_run = updateAssignmentIdentifier (js ''a@b.id'')
      (run (ap_next (sample_browser [])) (ap_init True True) (butlast lookup_run))"
    by (subst lookup_run_split) (simp only: run_append run.simps, simp add: ap_next_def)
  note defs = updateAssignmentIdentifier_def set_identifier_def reset_candidate_def lookup_effect_def lookup_cleanup_def
    sample_identifier Let_def
  show "ap_lookupTimer (run (ap_next (sample_browser [])) (ap_init True True) lookup_run) = Some (js ''app'', js ''a@b.id'')"
    "ap_accessClient (run (ap_next (sample_browser [])) (ap_init True True) lookup_run) = Some sample_client"
    "trim (ap_assignmentIdentifier (run (ap_next (sample_browser [])) (ap_init True True) lookup_run)) = js ''a@b.id''"
    unfolding r lookup_opened by (simp_all add: defs ap_init_def) (simp_all add: sample_client_def)
qed

lemma identifier_offered:
  assumes "ap_accessClient s = Some c" "c_access_policy c = AssignedOnly"
  shows "offers (AplikasiPage s) (UpdateIdentifier v)"
  using assms by (auto simp: offers_def AplikasiPage_def access_dialog_def show_if_def Let_def)

lemma lookup_run_possible: "possible (ap_next (sample_browser [])) ap_ok (ap_init True True) lookup_run"
proof -
  have "possible (ap_next (sample_browser [])) ap_ok (ap_init True True) (butlast lookup_run)"
    by (simp add: lookup_run_def ap_ok_def ap_next_def ap_init_def access_offered)
  moreover have "offers (AplikasiPage ((ap_init True True)\<lparr>ap_clients := [sample_client], ap_loading := False,
      ap_accessClient := Some sample_client, ap_pending := [AwaitAccess (js ''app'')]\<rparr>)) (UpdateIdentifier (js ''a@b.id''))"
    by (rule identifier_offered [where c = sample_client]) (simp_all add: sample_client_def)
  ultimately show ?thesis
    by (subst lookup_run_split, intro possible_append) (simp_all add: lookup_opened ap_ok_def)
qed

lemma secret_run_expected:
  "possible (ap_next (sample_browser [])) (\<lambda>s e. ap_ok s e \<and> secret_where_expected s e) (ap_init True True) secret_run"
  by (subst secret_run_split, rule possible_append)
    (simp_all add: secret_asked, simp_all add: secret_run_def ap_ok_def ap_next_def ap_init_def toggle_offered sample_client_def no_secret_def)

definition second_page :: ad_state where
  "second_page = run (ad_next (sample_browser []) (js ''app'')) (fst (ad_init (sample_browser []) (js ''app'')))
     [AssignmentsAnswer 0 (Inr \<lparr>ca_client = sample_client, ca_assignments = Some [sample_assignment], ca_total = Some 21, ca_page = 1, ca_page_size = 20, ca_total_pages = Some 2\<rparr>),
      AdPageChange 2,
      AssignmentsAnswer 0 (Inr \<lparr>ca_client = sample_client, ca_assignments = Some [sample_assignment], ca_total = Some 21, ca_page = 1, ca_page_size = 20, ca_total_pages = Some 2\<rparr>)]"

lemma second_page_fields:
  "ad_client second_page = Some sample_client" "ad_assignments second_page = [sample_assignment]" "ad_revokingUserID second_page = None"
  "ad_page second_page > 1" "ad_page second_page \<le> ad_totalPages second_page" "\<not> ad_loading second_page" "length (ad_pending second_page) = 0"
  unfolding second_page_def using sample_path
  by (auto simp: ad_init_def ad_load_def ad_next_def assignments_settled_def ad_drop_def ad_set_page_def Let_def)

lemma second_page_reachable:
  "reach (fst (ad_init (sample_browser []) (js ''app''))) (ad_next (sample_browser []) (js ''app'')) (ad_ok id) second_page"
proof -
  obtain q where q: "client_path (js ''app'') = Some q" using sample_path by blast
  have "offers (ApplicationDetail id s) (AdPageChange 2)" if "ad_client s = Some sample_client" "ad_assignments s \<noteq> []"
    "\<not> ad_loading s" "ad_page s = 1" "ad_totalPages s = 2" for s
  proof -
    have "Page 2 \<in> set (pageItems 1 2)" by (simp add: pageItems_def)
    then show ?thesis using that
      by (auto simp: offers_iff detail_acts assignments_card_acts pagination_acts sample_client_def assigned_only_def)
  qed
  then show ?thesis unfolding second_page_def
    by (intro reach_run [OF reach_init])
      (simp add: q ad_ok_def ad_init_def ad_load_def ad_next_def assignments_settled_def ad_drop_def ad_set_page_def Let_def)
qed

lemma rechosen_later:
  "possible (pr_next (sample_browser [])) (pr_ok id) (pr_next (sample_browser []) rechosen_state (ImageSettled 0))
     ([SaveProfile] @ [FileSelected (Some sample_file)])"
proof -
  let ?t = "pr_next (sample_browser []) rechosen_state (ImageSettled 0)"
  have t: "pr_user ?t \<noteq> None" "\<not> pr_saving ?t"
    by (simp_all add: pr_next_def rechosen_fields clearPending_def set_avatar_pending_def pr_drop_def)
  then have "pr_user (pr_next (sample_browser []) ?t SaveProfile) \<noteq> None"
    by (auto simp: pr_next_def saveProfile_def await_def removal_stage_def patch_stage_def Let_def split: option.split)
  with t show ?thesis by (simp add: save_ok file_ok del: pr_step.simps)
qed

lemma listed_fields:
  "us_users listed_users = [sample_user, admin_user]" "us_currentUser listed_users = Some admin_user"
  "\<not> us_authLoading listed_users" "\<not> us_loading listed_users"
  "\<not> us_deletingUser listed_users"
  by (simp_all add: listed_users_def us_next_def us_init_def us_load_def users_settled_def us_drop_def is_super_def admin_user_def Let_def)

lemma listed_users_reachable:
  "reach (fst (us_init (sample_browser []) (Some admin_user) False)) (us_next (sample_browser []))
     (\<lambda>s e. us_ok sample_dates id s e \<and> keeps_account (js ''u2'') e) listed_users"
  unfolding listed_users_def by (rule reach_first) (simp add: us_ok_def us_init_def us_load_def is_super_def admin_user_def Let_def)

lemma deletion_offered: "offers (PenggunaPage sample_dates id listed_users) (OpenDelete sample_user)"
proof -
  have "u_id sample_user \<noteq> u_id admin_user" by (simp add: sample_user_def admin_user_def js_def)
  moreover have "super_user listed_users = Some admin_user" by (simp add: super_user_def listed_fields admin_user_def)
  ultimately show ?thesis by (simp add: offers_iff pengguna_acts user_actions_acts listed_fields)
qed

lemma confirmation_offered:
  "offers (PenggunaPage sample_dates id (us_next (sample_browser []) listed_users (OpenDelete sample_user))) DeleteUser"
proof -
  have "super_user (us_next (sample_browser []) listed_users (OpenDelete sample_user)) = Some admin_user"
    by (simp add: us_next_def super_user_def listed_fields admin_user_def)
  then show ?thesis by (simp add: offers_iff pengguna_acts dialog_acts us_next_def listed_fields)
qed

section \<open>Properties\<close>

text \<open>C1: a login leads to the profile page, or to the consent page of this very origin with a request the
  consent page itself accepts as complete. No \<open>callbackUrl\<close>, whatever it holds, can send the user to
  another site or another path.\<close>

theorem login_redirect_stays_home:
  assumes "RouterReplace d \<in> set (snd (login_step b geo s e))"
  shows "d = js ''/dashboard/profil'' \<or>
    (\<exists>t. b_parse_url b (param (b_params b) ''callbackUrl'') (Some (b_origin b)) = Some t
       \<and> url_origin t = b_origin b \<and> url_pathname t = js ''/oauth/authorize''
       \<and> complete (oauth_request_of (url_params t)) \<and> d = js ''/oauth/authorize'' @ url_search t)"
proof -
  from assms have d: "d = safeLoginDestination True b (query_get (b_params b) ''callbackUrl'')"
    by (cases e) (auto simp: login_failed_def Let_def api_def split: sum.splits login_pending.splits js_error.splits)
  then show ?thesis
    by (auto simp: safeLoginDestination_def DEFAULT_LOGIN_DESTINATION_def complete_iff param_def truthy_def
        split: option.splits if_splits)
qed

theorem login_redirect_stays_home_witness:
  "let b = sample_browser [(js ''callbackUrl'', js ''/oauth/authorize'' @ consent_search)];
       d = js ''/oauth/authorize'' @ consent_search
   in d = js ''/dashboard/profil'' \<or>
      (\<exists>t. b_parse_url b (param (b_params b) ''callbackUrl'') (Some (b_origin b)) = Some t
         \<and> url_origin t = b_origin b \<and> url_pathname t = js ''/oauth/authorize''
         \<and> complete (oauth_request_of (url_params t)) \<and> d = js ''/oauth/authorize'' @ url_search t)"
  unfolding Let_def
proof (rule login_redirect_stays_home)
  show "RouterReplace (js ''/oauth/authorize'' @ consent_search) \<in> set (snd (login_step
      (sample_browser [(js ''callbackUrl'', js ''/oauth/authorize'' @ consent_search)]) True login_init
      (LoginAnswer 0 (Inr sample_user))))"
    by (simp add: login_init_def sample_destination)
qed

text \<open>C2: the consent page without a signed-in user sends the visitor to the login page with its own address
  as \<open>callbackUrl\<close>, and the login page leads back to exactly that address if the request in it is
  complete (and to the profile page otherwise): the login page's check of the parameters and the
  consent page's own check agree on every query. The hypotheses say that \<open>URLSearchParams\<close> gives the
  value back and that \<open>new URL\<close> resolves a path against the origin.\<close>

theorem consent_login_round_trip:
  fixes b b' :: browser and t :: url
  defines "here \<equiv> b_pathname b @ b_search b"
  assumes "az_authLoading s = False" "az_user s = None"
    and encoded: "encodeURIComponent here = Some e"
    and path: "b_pathname b = js ''/oauth/authorize''"
    and decoded: "query_get (b_params b') ''callbackUrl'' = Some here"
    and resolved: "b_parse_url b' here (Some (b_origin b')) = Some t"
      "url_origin t = b_origin b'" "url_pathname t = b_pathname b" "url_search t = b_search b"
      "url_params t = b_params b"
  shows "snd (load_effect b s) = [RouterReplace (js ''/login?callbackUrl='' @ e)] \<and>
    safeLoginDestination True b' (query_get (b_params b') ''callbackUrl'') =
      (if complete (oauth_request_of (b_params b)) then here else js ''/dashboard/profil'')"
proof -
  have "here \<noteq> []" using path by (simp add: here_def js_def)
  then show ?thesis using assms
    by (simp add: safeLoginDestination_def load_effect_def login_callback_def truthy_def complete_iff
        DEFAULT_LOGIN_DESTINATION_def)
qed

theorem consent_login_round_trip_witness:
  "let b = sample_browser good_query; here = js ''/oauth/authorize'' @ consent_search;
       b' = sample_browser [(js ''callbackUrl'', here)]
   in \<exists>e. snd (load_effect b (sample_consent\<lparr>az_user := None\<rparr>)) = [RouterReplace (js ''/login?callbackUrl='' @ e)]
     \<and> safeLoginDestination True b' (query_get (b_params b') ''callbackUrl'') = here"
proof -
  let ?b = "sample_browser good_query"
  let ?here = "b_pathname ?b @ b_search ?b"
  let ?b' = "sample_browser [(js ''callbackUrl'', ?here)]"
  let ?t = "page_url id_origin (js ''id.example'') (js ''/oauth/authorize'') consent_search good_query"
  obtain e where e: "encodeURIComponent (js ''/oauth/authorize'' @ consent_search) = Some e"
    using consent_here_well_formed by blast
  have "snd (load_effect ?b (sample_consent\<lparr>az_user := None\<rparr>)) = [RouterReplace (js ''/login?callbackUrl='' @ e)]
     \<and> safeLoginDestination True ?b' (query_get (b_params ?b') ''callbackUrl'') =
      (if complete (oauth_request_of (b_params ?b)) then ?here else js ''/dashboard/profil'')"
    by (rule consent_login_round_trip [where t = ?t])
      (simp_all add: e sample_consent_def sample_browser_def sample_parse_def page_url_def query_get_def)
  moreover have "complete (oauth_request_of (b_params ?b))" using good_query_complete by (simp add: sample_browser_def)
  ultimately show ?thesis by (auto simp: Let_def sample_browser_def)
qed

text \<open>C3: an authorization request is sent by no other event than the approval, which the page offers only to
  a signed-in user, with the application loaded and nothing else under way; the screen that offers it
  names the application, and the request claims consent (\<open>consent_approved\<close>) only if that screen
  lists every scope the request asks for.\<close>

theorem authorization_needs_informed_approval:
  assumes "authorize_ok env b s e" and "authorization_sent b (snd (authorize_step b s e)) c"
  shows "e = Approve \<and> \<not> az_approving s \<and>
    (\<exists>u i. az_user s = Some u \<and> az_client s = Some i \<and> c = ci_consent_required i
       \<and> ci_name i \<in> set (texts (AuthorizeContent env b s))
       \<and> (\<forall>w. c \<and> w \<noteq> [] \<and> w \<in> set (split_on 32 (param (b_params b) ''scope''))
            \<longrightarrow> w \<in> set (texts (AuthorizeContent env b s))))"
proof -
  from authorization_sent_only_by_approve [OF assms(2)]
  have e: "e = Approve" and c: "c = (case az_client s of Some i \<Rightarrow> ci_consent_required i | None \<Rightarrow> False)"
    by auto
  with assms(1) obtain u i where s: "az_user s = Some u" "az_client s = Some i" "\<not> az_approving s"
    "\<not> az_authLoading s" "\<not> az_loading s"
    by (auto simp: authorize_offers)
  have screen: "AuthorizeContent env b s =
    (if ci_consent_required i then consent_screen env b s u else account_screen env b s u i)"
    using s by (simp add: AuthorizeContent_def)
  have name: "ci_name i \<in> set (texts (account_screen env b s u i))"
    by (simp add: account_screen_def)
  show ?thesis
    using e c s screen name consent_screen_scopes [OF s(2)] consent_screen_name [OF s(2)]
    by (auto simp: requested_scopes_set oauth_request_of_def)
qed

theorem authorization_needs_informed_approval_witness:
  "\<exists>u i. az_user sample_consent = Some u \<and> az_client sample_consent = Some i \<and> True = ci_consent_required i
     \<and> ci_name i \<in> set (texts (AuthorizeContent sample_env (sample_browser good_query) sample_consent))"
  using authorization_needs_informed_approval
    [of sample_env "sample_browser good_query" sample_consent Approve True]
  by (auto simp: authorize_offers sample_consent_def authorization_sent_def approve_def submitAuthorization_def
      sample_client_info_def)

text \<open>C4: however a visit goes on, through logins, changes of account, answers that come late to pages that
  were left, in any order: every authorization it sends is the request of the address it started with,
  and inside the site it goes only to that address and to the login page that leads back to it. The
  hypotheses say that the request is complete and what the URL parser makes of the two addresses.\<close>

theorem visit_keeps_its_request:
  assumes "reach (visit_start b u) (visit_step geo) (visit_ok env) v"
    and "addresses_resolve b login t l" and "complete (oauth_request_of (b_params b))"
  shows "(\<forall>r. Send r \<in> set (vi_effects v) \<and> fr_url r = b_api_url b @ js ''/oauth/authorize''
      \<longrightarrow> (\<exists>c. fr_body r = Some (JsonText (authorize_body (oauth_request_of (b_params b)) c))))
    \<and> (\<forall>d. RouterReplace d \<in> set (vi_effects v) \<longrightarrow> d = address b \<or> d = login)"
proof -
  have "journey_inv b login l v" using visit.reach_inv [OF assms(1)] assms(2,3) by blast
  then have "\<forall>ef\<in>set (vi_effects v). journey_effect b login ef" by (simp add: journey_inv_def list_all_iff)
  then show ?thesis
    by (force simp: journey_effect_def authorize_url_def authorization_def post_bodies)
qed

theorem visit_keeps_its_request_witness:
  "\<exists>(v :: visit) login r. vi_browser v = journey_browser \<and> Send r \<in> set (vi_effects v)
     \<and> fr_url r = js ''https://api.example/oauth/authorize''
     \<and> (\<exists>c. fr_body r = Some (JsonText (authorize_body (oauth_request_of good_query) c)))
     \<and> (\<forall>d. RouterReplace d \<in> set (vi_effects v) \<longrightarrow> d = address journey_browser \<or> d = login)"
proof -
  obtain login t l where site: "addresses_resolve journey_browser login t l" using journey_addresses by blast
  have full: "complete (oauth_request_of (b_params journey_browser))" using good_query_complete by (simp add: journey_browser_def sample_browser_def)
  note go = approved_visit [OF site full, where env = sample_env and email = "js ''a@b.id''" and password = "js ''rahasia''"
    and pos = sample_position and u = sample_user and c = sample_client_info]
  let ?v = "run (visit_step True) (visit_start journey_browser None)
    (sign_in (js ''a@b.id'') (js ''rahasia'') sample_position sample_user @ approval sample_client_info)"
  have "reach (visit_start journey_browser None) (visit_step True) (visit_ok sample_env) ?v"
    by (rule reach_run [OF reach_init]) (use go in \<open>simp add: Let_def\<close>)
  note kept = visit_keeps_its_request [OF this site full]
  have "Send (authorization journey_browser (ci_consent_required sample_client_info)) \<in> set (vi_effects ?v)"
    "vi_browser ?v = journey_browser"
    using go by (auto simp: Let_def)
  moreover have "fr_url (authorization journey_browser k) = js ''https://api.example/oauth/authorize''"
    "fr_body (authorization journey_browser k) = Some (JsonText (authorize_body (oauth_request_of good_query) k))" for k
    by (simp_all add: authorization_def fr_url_api post_bodies journey_browser_def sample_browser_def flip: js_append)
  ultimately show ?thesis using kept by blast
qed

text \<open>C5: a visitor who opens the consent page without a session, logs in with a position and approves gets
  there: every step is offered by the page on the screen, the provider holds the user of the login's
  answer, and the last thing sent is the authorization of the very address the visit started with, with
  consent exactly if the application asks for it.\<close>

theorem login_and_approval_authorize:
  fixes email password :: jstr and pos :: position and u :: user and c :: client_info
  assumes "addresses_resolve b login t l" and "complete (oauth_request_of (b_params b))"
  defines "events \<equiv> sign_in email password pos u @ approval c"
  shows "let v = run (visit_step True) (visit_start b None) events
    in possible (visit_step True) (visit_ok env) (visit_start b None) events
      \<and> vi_user v = Some u \<and> vi_browser v = b
      \<and> vi_effects v \<noteq> [] \<and> last (vi_effects v) = api b (js ''/oauth/authorize'')
          (post (authorize_body (oauth_request_of (b_params b)) (ci_consent_required c)))"
  using approved_visit [OF assms(1,2), where env = env and email = email and password = password and pos = pos and u = u and c = c]
  by (auto simp: events_def authorization_def api_def Let_def)

theorem login_and_approval_authorize_witness:
  "\<exists>es. possible (visit_step True) (visit_ok sample_env) (visit_start journey_browser None) es
     \<and> vi_user (run (visit_step True) (visit_start journey_browser None) es) = Some sample_user
     \<and> last (vi_effects (run (visit_step True) (visit_start journey_browser None) es)) =
       api journey_browser (js ''/oauth/authorize'') (post (authorize_body (oauth_request_of good_query) True))"
proof -
  obtain login t l where site: "addresses_resolve journey_browser login t l" using journey_addresses by blast
  have "complete (oauth_request_of (b_params journey_browser))" using good_query_complete by (simp add: journey_browser_def sample_browser_def)
  from login_and_approval_authorize [OF site this, where email = "[]" and password = "[]" and pos = sample_position
      and u = sample_user and c = sample_client_info and env = sample_env]
  show ?thesis
    by (intro exI [of _ "sign_in [] [] sample_position sample_user @ approval sample_client_info"])
      (simp add: Let_def journey_browser_def sample_browser_def sample_client_info_def)
qed

text \<open>C6: when the account (or its loading) changes, the answer of a load of the request's context started before
  changes neither the application shown, nor the error, nor the loading state; in whatever goes on until the
  next change, at most as many answers are listened to as the change itself has sent requests, which is one
  for a signed-in user and none otherwise; and as long as none is, the application is the one shown before
  the change (at most with consent marked as required). So the page does not drop that application: see \<open>former_application_offered\<close> in \<open>Authorize\<close>.\<close>

theorem stale_context_ignored:
  assumes "u \<noteq> az_user s \<or> l \<noteq> az_authLoading s"
    and "possible (authorize_next b) (authorize_ok env b) (authorize_next b s (AuthChange u l)) es"
    and "\<not> list_ex is_auth_change es"
  shows "let s' = authorize_next b s (AuthChange u l); n = length (sent (snd (authorize_step b s (AuthChange u l))))
    in (\<forall>k r. k < length (az_pending s) \<longrightarrow> (let t = authorize_next b s' (ContextAnswer k r)
          in az_client t = az_client s' \<and> az_error t = az_error s' \<and> az_loading t = az_loading s'))
       \<and> listened b s' es \<le> n \<and> n \<le> (if u = None \<or> l then 0 else 1)
       \<and> (listened b s' es = 0 \<longrightarrow> same_application (az_client (run (authorize_next b) s' es)) (az_client s))"
proof -
  define s' where "s' = authorize_next b s (AuthChange u l)"
  define n where "n = length (sent (snd (authorize_step b s (AuthChange u l))))"
  note run = listened_run [OF assms(2,3), folded s'_def] and load = change_starts_load [OF assms(1), of b, folded s'_def n_def]
  have "az_client t = az_client s' \<and> az_error t = az_error s' \<and> az_loading t = az_loading s'"
    if "k < length (az_pending s)" "t = authorize_next b s' (ContextAnswer k r)" for k r t
  proof -
    have "az_pending s' ! k \<noteq> AwaitContext True" unfolding s'_def by (rule change_kills_loads [OF assms(1) that(1)])
    then show ?thesis using that(2) by (simp add: authorize_next_def Let_def)
  qed
  moreover have "listened b s' es \<le> n" using run(1) load(1) by simp
  moreover have "listened b s' es = 0 \<longrightarrow> same_application (az_client (run (authorize_next b) s' es)) (az_client s)"
    using run(2) load(3) by simp
  ultimately show ?thesis using load(2) by (simp only: Let_def flip: s'_def n_def) blast
qed

theorem stale_context_ignored_witness:
  "let b = sample_browser good_query; s = sample_consent\<lparr>az_pending := [AwaitContext True]\<rparr>;
       s' = authorize_next b s (AuthChange (Some admin_user) False);
       t = authorize_next b s' (ContextAnswer 0 (Inr (sample_client_info\<lparr>ci_name := js ''Other''\<rparr>)))
    in az_client t = az_client s' \<and> az_client t = Some sample_client_info
      \<and> listened b s' [ContextAnswer 0 (Inr sample_client_info), ContextAnswer 0 (Inr sample_client_info)] \<le> 1"
proof -
  let ?b = "sample_browser good_query" and ?s = "sample_consent\<lparr>az_pending := [AwaitContext True]\<rparr>"
  let ?s' = "authorize_next ?b ?s (AuthChange (Some admin_user) False)"
  let ?es = "[ContextAnswer 0 (Inr sample_client_info), ContextAnswer 0 (Inr sample_client_info)]"
  have other: "Some admin_user \<noteq> az_user ?s" by (simp add: sample_consent_def admin_user_def sample_user_def js_def)
  have "complete (oauth_request_of (b_params ?b))" using good_query_complete by (simp add: sample_browser_def)
  then have s': "az_pending ?s' = [AwaitContext False, AwaitContext True]" "az_client ?s' = Some sample_client_info"
    using other unfolding authorize_next_def authorize_step.simps load_effect_def load_cleanup_def Let_def
    by (auto simp: sample_consent_def)
  have "possible (authorize_next ?b) (authorize_ok sample_env ?b) t ?es"
    if "az_pending t = [AwaitContext False, AwaitContext True]" for t
    using that by (auto simp: authorize_next_def Let_def)
  from this [OF s'(1)] have "possible (authorize_next ?b) (authorize_ok sample_env ?b) ?s' ?es" .
  moreover have "\<not> list_ex is_auth_change ?es" by simp
  ultimately have ignored: "(\<forall>k r. k < length (az_pending ?s) \<longrightarrow> az_client (authorize_next ?b ?s' (ContextAnswer k r)) = az_client ?s')
      \<and> listened ?b ?s' ?es \<le> 1"
    using stale_context_ignored [OF disjI1 [OF other], where b = ?b and env = sample_env and es = ?es and l = False] unfolding Let_def by (auto simp del: authorize_step.simps listened.simps)
  then show ?thesis using s'(2) by (simp del: authorize_step.simps listened.simps add: Let_def)
qed

text \<open>C7: in every reachable state of the application page a client secret is held in memory only while the
  document is visible and has the focus, the eye is open exactly for the secrets held, and without
  visibility or focus every card shows the dots. The list of applications holds no secret at all, not even
  of one just registered, as long as the server sends a secret only in the answer to a registration.\<close>

theorem secrets_only_in_front:
  assumes "reach (ap_init visible focused) (ap_next b) ap_ok s"
  shows "(ap_clientSecrets s = Map.empty \<or> ap_docVisible s \<and> ap_docFocused s)
    \<and> (\<forall>cid. ap_visibleSecrets s cid = Some True \<longleftrightarrow> ap_clientSecrets s cid \<noteq> None)
    \<and> (ap_docVisible s \<and> ap_docFocused s \<or> shown_secret s cid = hidden_secret)
    \<and> (reach (ap_init visible focused) (ap_next b) (\<lambda>s e. ap_ok s e \<and> secret_where_expected s e) s \<longrightarrow>
        (\<forall>c\<in>set (ap_clients s). c_client_secret c = None))"
  using ap.reach_inv [OF assms] listing.reach_inv [of visible focused b s]
  by (auto simp: ap_inv_def secrets_inv_def canRetainClientSecret_def shown_secret_def list_inv_def no_secret_def list_all_iff)

theorem secrets_only_in_front_witness:
  "let s = run (ap_next (sample_browser [])) (ap_init True True) secret_run
   in ap_clientSecrets s (js ''app'') = Some (js ''s3cret'') \<and>
     (ap_clientSecrets s = Map.empty \<or> ap_docVisible s \<and> ap_docFocused s)
     \<and> (\<forall>c\<in>set (ap_clients s). c_client_secret c = None)"
  using secrets_only_in_front [OF reach_run [OF reach_init secret_run_possible]] secret_run_result
    reach_run [OF reach_init secret_run_expected]
  by (simp add: Let_def)

text \<open>C8: after the document was hidden or lost the focus, and as long as the user does not ask for a secret
  again (open the eye, regenerate, register an application), no secret enters the memory, whatever
  answers arrive and in whatever order, even when the page is in front again.\<close>

theorem wiped_secrets_stay_wiped:
  assumes "reach (ap_init visible focused) (ap_next b) ap_ok s"
    and "e = VisibilityChange False \<or> e = WindowBlur"
    and "possible (ap_next b) ap_ok (ap_next b s e) es" and "\<not> list_ex asks_for_secret es"
  shows "ap_clientSecrets (run (ap_next b) (ap_next b s e) es) = Map.empty"
proof -
  have "stamped s" using ap.reach_inv [OF assms(1)] by (simp add: ap_inv_def)
  with assms(2) have "wiped (ap_next b s e)"
    by (auto simp: wiped_def stamped_def ap_next_def handleVisibilityChange_def handleBlur_def clear_simps Let_def less_Suc_eq_le)
  from wiped_run [OF this assms(3,4)] show ?thesis by (simp add: wiped_def)
qed

theorem wiped_secrets_stay_wiped_witness:
  "ap_clientSecrets (run (ap_next (sample_browser []))
     (ap_next (sample_browser []) (run (ap_next (sample_browser [])) (ap_init True True) (butlast secret_run)) WindowBlur)
     [WindowFocus, SecretAnswer 0 (Inr (js ''s3cret''))]) = Map.empty"
proof (rule wiped_secrets_stay_wiped [of True True])
  show "reach (ap_init True True) (ap_next (sample_browser [])) ap_ok
     (run (ap_next (sample_browser [])) (ap_init True True) (butlast secret_run))"
    by (rule reach_run [OF reach_init secret_asked_possible])
  show "possible (ap_next (sample_browser [])) ap_ok
     (ap_next (sample_browser []) (run (ap_next (sample_browser [])) (ap_init True True) (butlast secret_run)) WindowBlur)
     [WindowFocus, SecretAnswer 0 (Inr (js ''s3cret''))]"
    unfolding secret_asked by (simp add: ap_next_def ap_ok_def handleBlur_def clearSecrets_def)
qed simp_all

text \<open>C9: the check of the form accepts a list of redirect addresses exactly when every trimmed address is non-empty,
  parses, uses HTTPS or HTTP on \<open>localhost\<close> / \<open>127.0.0.1\<close>, has no fragment, and no two are equal.\<close>

theorem redirect_check_exact:
  "validateRedirectURIs parse values = [] \<longleftrightarrow>
   list_all (\<lambda>v. valid_redirect parse (trim v)) values \<and> distinct (map trim values)"
  by (simp add: validate_Nil_iff list_all_iff)



text \<open>C11: when the answer of a download comes in, a file is saved exactly if the response is a success, its type
  starts with \<open>application/sql\<close>, its body was read, and the size it declares is the number of bytes that
  arrived, more than none and less than \<open>2^53\<close>; the file holds exactly these bytes.\<close>

theorem saved_backup_is_complete:
  assumes "bd_pending s ! k = AwaitDownload d ab"
  shows "(SaveFile n bytes \<in> set (snd (bd_step b co s (DownloadAnswer k r)))) =
    (n = js ''backup-'' @ bk_id d @ js ''.sql'' \<and>
     (\<exists>resp. r = Inr resp \<and> sr_ok resp \<and> (\<exists>t. sr_content_type resp = Some t \<and> starts_with (js ''application/sql'') t)
        \<and> sr_blob resp = Inr bytes \<and> expected_size resp = Some (of_nat (length bytes))
        \<and> 0 < length bytes \<and> length bytes < 2 ^ 53))"
proof (cases r)
  case (Inr resp)
  have none: "SaveFile n bytes \<notin> set (snd (action_done b ab t))" for t
    by (simp add: action_done_def refresh_def api_def)
  show ?thesis
    using Inr assms none read_ok_iff [of co resp bytes]
    by (cases "readBackupSQL co resp") (auto simp: download_settled_def case_prod_beta simp del: of_nat_eq_iff)
qed (use assms in \<open>simp add: download_settled_def\<close>)

theorem saved_backup_is_complete_witness:
  "let s = (bd_init (Some admin_user) True)\<lparr>bd_pending := [AwaitDownload sample_backup False]\<rparr>;
       resp = \<lparr>sr_ok = True, sr_json = Inl uri_error, sr_sql_size = Some (js ''3''), sr_content_length = None,
         sr_content_type = Some (js ''application/sql''), sr_blob = Inr [1, 2]\<rparr>
   in SaveFile (js ''backup-b1.sql'') [1, 2] \<notin> set (snd (bd_step (sample_browser []) (\<lambda>_. []) s (DownloadAnswer 0 (Inr resp))))"
  unfolding Let_def
  by (subst saved_backup_is_complete [where d = sample_backup and ab = False])
    (auto simp: expected_size_def js_three)

text \<open>C12: in every reachable state of the backup page a typed password exists only while a dialog is open and
  nothing is under way; at most one action and at most one request for the status are live; and the page
  polls every 5 seconds while a backup runs, every 30 otherwise, and not at all for others than super
  admins or after it is left.\<close>

theorem backup_password_short_lived:
  assumes "reach (bd_init u v) (bd_next b co) (bd_ok d f) s"
  shows "(bd_action s = None \<or> bd_busy s \<longrightarrow> bd_password s = [])
    \<and> length (filter live_action (bd_pending s)) \<le> 1 \<and> length (filter live_refresh (bd_pending s)) \<le> 1
    \<and> bd_interval s = (if bd_mounted s \<and> super_admin (bd_user s) then Some (if running s then 5000 else 30000) else None)"
proof -
  have "bd_inv s" by (rule backups.reach_inv [OF assms])
  then show ?thesis by (cases "bd_mounted s") (simp_all add: bd_inv_def polling_def)
qed

theorem backup_password_short_lived_witness:
  "let s = bd_next (sample_browser []) (\<lambda>_. []) (bd_init (Some admin_user) True) (OpenAction CreateBackup)
   in length (filter live_action (bd_pending s)) \<le> 1"
proof -
  have "bd_ok sample_dates sample_sizes (bd_init (Some admin_user) True) (OpenAction CreateBackup)"
    by (simp add: offers_iff backup_page_acts bd_init_def poll_effect_def Let_def super_admin_def admin_user_def)
  from backup_password_short_lived [OF reach_first [of "bd_ok sample_dates sample_sizes", OF this], of "sample_browser []" "\<lambda>_. []"]
  show ?thesis by (simp add: Let_def bd_next_def)
qed

text \<open>C13: in every reachable state of the profile page a chosen avatar has a preview and is not combined with
  the removal of the avatar, the preview and the picture being cropped are object URLs that have not been
  revoked, and the requests of at most one save are under way, none while the button is enabled.\<close>

theorem avatar_choice_consistent:
  assumes "reach (pr_init u) (pr_next b) (pr_ok up) s"
  shows "(pr_pendingAvatar s = None) = (pr_pendingPreview s = None) \<and> (pr_pendingAvatar s = None \<or> \<not> pr_pendingDelete s)
    \<and> set_option (pr_pendingPreview s) \<union> set_option (pr_cropSrc s) \<subseteq> set (pr_urls s)
    \<and> length (filter (\<lambda>p. save_of p \<noteq> None) (pr_pending s)) = (if pr_saving s then 1 else 0)
    \<and> list_ex (\<lambda>n. offers n SaveProfile) (ProfilPage up s) = (pr_user s \<noteq> None \<and> \<not> pr_saving s)"
proof -
  have "saves_inv s" "urls_inv s" using profile.reach_inv [OF assms] by (simp_all add: pr_inv_def)
  then show ?thesis using save_offered [of up s] by (auto simp: saves_inv_def choice_def urls_inv_def)
qed

theorem avatar_choice_consistent_witness:
  "let s = pr_next (sample_browser []) chosen_state SaveProfile
   in \<not> pr_pendingDelete s \<and> 1 \<in> set (pr_urls s) \<and> length (filter (\<lambda>p. save_of p \<noteq> None) (pr_pending s)) = 1
     \<and> \<not> list_ex (\<lambda>n. offers n SaveProfile) (ProfilPage id s)"
proof -
  let ?s = "pr_next (sample_browser []) chosen_state SaveProfile"
  have "pr_pendingAvatar ?s \<noteq> None" "pr_pendingPreview ?s = Some 1" "pr_saving ?s"
    by (simp_all add: save_steps_simps chosen_state_def pr_init_def)
  then show ?thesis
    using avatar_choice_consistent [OF chosen_saving_reachable [of "sample_browser []" id]] by (auto simp: Let_def)
qed

text \<open>C14: while a save is under way one of its requests is, and once three answers to requests of saves have come
  in, in whatever order with other events, the page has been out of the saving state at some point
  (upload, removal and update follow each other, and a failure ends the save at once).\<close>

theorem saves_end_after_three_answers:
  assumes "reach (pr_init u) (pr_next b) (pr_ok up) s"
    and "possible (pr_next b) (pr_ok up) s es" and "3 \<le> length (filter save_answer es)"
  shows "(pr_saving s = (\<exists>p\<in>set (pr_pending s). save_of p \<noteq> None))
    \<and> (\<exists>n\<le>length es. \<not> pr_saving (run (pr_next b) s (take n es)))"
proof -
  have i: "pr_inv s" by (rule profile.reach_inv [OF assms(1)])
  then have "pr_saving s = (\<exists>p\<in>set (pr_pending s). save_of p \<noteq> None)"
    by (cases "pr_saving s") (auto simp: pr_inv_def saves_inv_def filter_empty_conv length_Suc_conv filter_eq_Cons_iff)
  moreover have "save_steps s \<le> length (filter save_answer es)"
    using save_steps_bound [OF i] assms(3) by simp
  ultimately show ?thesis using saves_end [OF i assms(2)] by blast
qed

theorem saves_end_after_three_answers_witness:
  "\<exists>n\<le>length save_run. \<not> pr_saving (run (pr_next (sample_browser [])) (pr_next (sample_browser []) chosen_state SaveProfile) (take n save_run))"
  using saves_end_after_three_answers [OF chosen_saving_reachable save_run_possible save_run_answers] by blast





text \<open>C17: run on a store without deadlines, any sequence of starts, clears and reads whose clock does not go back
  reads exactly what a map from normalised addresses to deadlines would give (zero for none and for one
  that has passed): the percent-encoded keys, the deadlines kept as texts and the removal of expired
  entries cannot be seen. The addresses are those that have a key (not blank, without lone surrogates).\<close>

theorem otp_store_implements_map:
  assumes "usable st"
    and "\<And>e k. has_key lower e \<Longrightarrow> storageKey lower e = Some k \<Longrightarrow> ls_items st k = None"
    and "in_order lower 0 ops"
  shows "otp_run lower st ops = spec_run lower Map.empty ops"
  by (rule implements_run [OF implements_fresh [OF assms(1,2)] assms(3)])

theorem otp_store_implements_map_witness:
  "otp_run ascii_lower sample_store [StartOp (js ''a'') 1000, StartOp (js ''b'') 1500, ReadOp (js ''a'') 2000, ClearOp (js ''b''),
     ReadOp (js ''b'') 2500, ReadOp (js ''a'') 70000] = [61000, 0, 0]"
proof -
  have "in_order ascii_lower 0 [StartOp (js ''a'') 1000, StartOp (js ''b'') 1500, ReadOp (js ''a'') 2000, ClearOp (js ''b''),
     ReadOp (js ''b'') 2500, ReadOp (js ''a'') 70000]"
    by (simp add: sample_emails clock_def)
  from otp_store_implements_map [OF _ _ this, of sample_store] show ?thesis
    by (simp add: sample_store_def usable_def sample_emails spec_read_def)
qed

text \<open>C18: a refusal sends the browser to the registered redirect address with \<open>error=access_denied\<close> and the
  \<open>state\<close> of the request, each given once; the query is written from the address's parameters, of which all
  others stay in their order, and origin, path and fragment are those of the redirect address.\<close>

theorem cancel_reports_denial:
  assumes "az_client s = Some i"
    and "b_parse_url b (param (b_params b) ''redirect_uri'') None = Some target"
  shows "\<exists>u. cancel b s = (s, [LocationAssign (b_url_string b u)])
    \<and> query_get (url_params u) ''error'' = Some (js ''access_denied'')
    \<and> query_get (url_params u) ''state'' = Some (param (b_params b) ''state'')
    \<and> filter (\<lambda>(k, v). k \<notin> {js ''error'', js ''state''}) (url_params u)
      = filter (\<lambda>(k, v). k \<notin> {js ''error'', js ''state''}) (url_params target)
    \<and> filter (\<lambda>p. fst p = js ''error'') (url_params u) = [(js ''error'', js ''access_denied'')]
    \<and> filter (\<lambda>p. fst p = js ''state'') (url_params u) = [(js ''state'', param (b_params b) ''state'')]
    \<and> u = target\<lparr>url_params := url_params u, url_search := js ''?'' @ query_string (url_params u)\<rparr>"
proof -
  let ?q = "query_set ''error'' (js ''access_denied'') (url_params target)"
  let ?r = "query_set ''state'' (param (b_params b) ''state'') ?q"
  let ?u = "target\<lparr>url_params := ?r, url_search := js ''?'' @ query_string ?r\<rparr>"
  have "cancel b s = (s, [LocationAssign (b_url_string b ?u)])"
    using assms by (simp add: cancel_def oauth_request_of_def set_param_def Let_def)
  moreover have "query_get ?r ''error'' = Some (js ''access_denied'')" by (simp add: query_get_set_other)
  moreover have "filter (\<lambda>(k, v). k \<notin> {js ''error'', js ''state''}) ?r
      = filter (\<lambda>(k, v). k \<notin> {js ''error'', js ''state''}) (url_params target)"
    by (simp add: query_set_others)
  moreover have "filter (\<lambda>p. fst p = js ''error'') ?r = [(js ''error'', js ''access_denied'')]"
    by (simp add: query_set_others query_set_once)
  ultimately show ?thesis by (intro exI [of _ ?u]) (simp add: query_set_once)
qed

theorem cancel_reports_denial_witness:
  "let b = (sample_browser good_query)\<lparr>b_parse_url := \<lambda>v base. Some (page_url (js ''https://app.example'') (js ''app.example'')
         (js ''/cb'') (js ''?tenant=7&error=old'') [(js ''tenant'', js ''7''), (js ''error'', js ''old'')])\<rparr>
   in \<exists>u. cancel b sample_consent = (sample_consent, [LocationAssign (b_url_string b u)])
    \<and> query_get (url_params u) ''error'' = Some (js ''access_denied'')
    \<and> query_get (url_params u) ''state'' = Some (js ''xyz'')
    \<and> filter (\<lambda>(k, v). k \<notin> {js ''error'', js ''state''}) (url_params u) = [(js ''tenant'', js ''7'')]
    \<and> url_origin u = js ''https://app.example''"
proof -
  let ?t = "page_url (js ''https://app.example'') (js ''app.example'') (js ''/cb'') (js ''?tenant=7&error=old'')
    [(js ''tenant'', js ''7''), (js ''error'', js ''old'')]"
  let ?b = "(sample_browser good_query)\<lparr>b_parse_url := \<lambda>v base. Some ?t\<rparr>"
  have c: "az_client sample_consent = Some sample_client_info" by (simp add: sample_consent_def)
  have t: "b_parse_url ?b (param (b_params ?b) ''redirect_uri'') None = Some ?t" by simp
  have s: "param (b_params ?b) ''state'' = js ''xyz''"
    by (simp add: param_def good_query_values sample_browser_def)
  have k: "filter (\<lambda>(k, v). k \<notin> {js ''error'', js ''state''}) (url_params ?t) = [(js ''tenant'', js ''7'')]"
    "url_origin ?t = js ''https://app.example''"
    by (simp_all add: page_url_def)
  obtain u where u: "cancel ?b sample_consent = (sample_consent, [LocationAssign (b_url_string ?b u)])"
    "query_get (url_params u) ''error'' = Some (js ''access_denied'')" "query_get (url_params u) ''state'' = Some (js ''xyz'')"
    "filter (\<lambda>(k, v). k \<notin> {js ''error'', js ''state''}) (url_params u) = [(js ''tenant'', js ''7'')]"
    "u = ?t\<lparr>url_params := url_params u, url_search := js ''?'' @ query_string (url_params u)\<rparr>"
    using cancel_reports_denial [OF c t] unfolding s k by blast
  have "url_origin u = js ''https://app.example''" by (subst u(5)) (simp add: page_url_def)
  with u(1-4) show ?thesis unfolding Let_def by blast
qed

text \<open>C19: in every reachable state of the consent page at most one authorization or logout is under way, and
  none while the buttons are enabled: two approvals, or an approval and a change of account, never race.\<close>

theorem consent_one_action:
  assumes "reach (fst (authorize_mount b u l)) (authorize_next b) (authorize_ok env b) s"
  shows "length (filter is_action (az_pending s)) \<le> 1 \<and>
    (offers (AuthorizeContent env b s) Approve \<longrightarrow> filter is_action (az_pending s) = [])"
proof -
  from authorize.reach_inv [OF assms] have "authorize_inv s" .
  then show ?thesis by (auto simp: authorize_inv_def authorize_offers split: if_splits)
qed

theorem consent_one_action_witness:
  "filter is_action (az_pending sample_consent) = []
   \<and> length (filter is_action (az_pending (authorize_next (sample_browser good_query) sample_consent Approve))) \<le> 1"
proof -
  let ?b = "sample_browser good_query"
  have a: "offers (AuthorizeContent sample_env ?b sample_consent) Approve"
    by (simp add: authorize_offers sample_consent_def)
  have r: "reach (fst (authorize_mount ?b (Some sample_user) False)) (authorize_next ?b) (authorize_ok sample_env ?b) sample_consent"
    by (rule sample_consent_reachable)
  have "reach (fst (authorize_mount ?b (Some sample_user) False)) (authorize_next ?b) (authorize_ok sample_env ?b)
    (authorize_next ?b sample_consent Approve)"
    by (rule reach_step [OF r]) (simp add: a)
  from consent_one_action [OF r] consent_one_action [OF this] a show ?thesis by blast
qed

text \<open>C20: while one account uses the page (the provider's user may come, go and be renewed; another account signs
  in on the login page only), the page offers nothing to anyone but a super admin; what it offers on an
  account is offered only for a listed account other than the administrator's own, a role only where it
  differs from the present one; and every request of the page that changes something changes the role, the
  status or the existence of an account that is not the administrator's own, also when the dialog was
  opened long before.\<close>

theorem administration_spares_oneself:
  assumes "reach (fst (us_init b cu l)) (us_next b) (\<lambda>s e. us_ok d upper s e \<and> keeps_account i e) s"
    and "account_is i cu" and "us_ok d upper s e"
  shows "(offers (PenggunaPage d upper s) e \<longrightarrow> (\<exists>me. us_currentUser s = Some me \<and> u_id me = i \<and> u_role me = SuperAdmin
        \<and> \<not> us_authLoading s
        \<and> (\<forall>u r. e = UpdateRole u r \<longrightarrow> u \<in> set (us_users s) \<and> u_id u \<noteq> u_id me \<and> u_role u \<noteq> r)
        \<and> (\<forall>u. e = OpenStatus u \<or> e = OpenDelete u \<longrightarrow> u \<in> set (us_users s) \<and> u_id u \<noteq> u_id me)))
    \<and> (\<forall>r\<in>set (sent (snd (us_step b s e))). fr_method r \<noteq> ''GET'' \<longrightarrow>
        (\<exists>x path init. u_id x \<noteq> i \<and> r = apiFetch_request (b_api_url b) (js ''/api/admin/users/'' @ u_id x @ path) init
          \<and> ((\<exists>q. e = UpdateRole x q \<and> u_role x \<noteq> q \<and> path = js ''/role'' \<and> init = patch (JObj [(''role'', JStr (role_text q))]))
            \<or> e = UpdateStatus \<and> us_pendingStatusUser s = Some x \<and> path = js ''/status''
                \<and> init = patch (JObj [(''is_active'', JBool (\<not> u_is_active x))])
            \<or> e = DeleteUser \<and> us_pendingDeleteUser s = Some x \<and> path = [] \<and> init = delete_init)))"
proof -
  have i: "spares i s" using sparing.reach_inv [OF assms(1)] assms(2) by blast
  have "\<exists>me. us_currentUser s = Some me \<and> u_id me = i \<and> u_role me = SuperAdmin \<and> \<not> us_authLoading s
        \<and> (\<forall>u r. e = UpdateRole u r \<longrightarrow> u \<in> set (us_users s) \<and> u_id u \<noteq> u_id me \<and> u_role u \<noteq> r)
        \<and> (\<forall>u. e = OpenStatus u \<or> e = OpenDelete u \<longrightarrow> u \<in> set (us_users s) \<and> u_id u \<noteq> u_id me)"
    if o: "offers (PenggunaPage d upper s) e"
  proof -
    from offered_needs_super [OF o] obtain me where me: "super_user s = Some me" by blast
    then have "us_currentUser s = Some me \<and> u_role me = SuperAdmin \<and> \<not> us_authLoading s"
      by (auto simp: super_user_def split: if_splits option.splits)
    with i user_events_offered [OF o me] show ?thesis by (auto simp: spares_def account_is_def)
  qed
  moreover have "\<exists>x path init. u_id x \<noteq> i \<and> r = apiFetch_request (b_api_url b) (js ''/api/admin/users/'' @ u_id x @ path) init
          \<and> ((\<exists>q. e = UpdateRole x q \<and> u_role x \<noteq> q \<and> path = js ''/role'' \<and> init = patch (JObj [(''role'', JStr (role_text q))]))
            \<or> e = UpdateStatus \<and> us_pendingStatusUser s = Some x \<and> path = js ''/status''
                \<and> init = patch (JObj [(''is_active'', JBool (\<not> u_is_active x))])
            \<or> e = DeleteUser \<and> us_pendingDeleteUser s = Some x \<and> path = [] \<and> init = delete_init)"
    if "r \<in> set (sent (snd (us_step b s e)))" "fr_method r \<noteq> ''GET''" for r
    using change_requests [OF i assms(3) that] by (metis append_Nil2)
  ultimately show ?thesis by blast
qed

theorem administration_spares_oneself_witness:
  "let s = us_next (sample_browser []) listed_users (OpenDelete sample_user)
   in offers (PenggunaPage sample_dates id s) DeleteUser
     \<and> map fr_url (sent (snd (us_step (sample_browser []) s DeleteUser))) = [js ''https://api.example/api/admin/users/u1'']
     \<and> (\<exists>me. us_currentUser s = Some me \<and> u_id me = js ''u2'')
     \<and> \<not> offers (PenggunaPage sample_dates id listed_users) (OpenDelete admin_user)"
proof -
  let ?b = "sample_browser []" and ?s = "us_next (sample_browser []) listed_users (OpenDelete sample_user)"
  let ?ok = "\<lambda>s e. us_ok sample_dates id s e \<and> keeps_account (js ''u2'') e"
  have me: "account_is (js ''u2'') (Some admin_user)" by (simp add: account_is_def admin_user_def)
  have s: "reach (fst (us_init ?b (Some admin_user) False)) (us_next ?b) ?ok ?s"
    by (rule reach_step [OF listed_users_reachable]) (use deletion_offered in \<open>simp add: us_ok_def\<close>)
  have d: "us_ok sample_dates id ?s DeleteUser" using confirmation_offered by (simp add: us_ok_def)
  have sends: "map fr_url (sent (snd (us_step ?b ?s DeleteUser))) = [js ''https://api.example/api/admin/users/u1'']"
    by (simp add: us_next_def deleteUser_def user_path_def sample_user_def js_def) (simp add: sample_browser_def js_def)
  have "\<not> offers (PenggunaPage sample_dates id listed_users) (OpenDelete admin_user)"
  proof
    assume o: "offers (PenggunaPage sample_dates id listed_users) (OpenDelete admin_user)"
    with administration_spares_oneself [OF listed_users_reachable me, of "OpenDelete admin_user"] show False
      by (auto simp: us_ok_def admin_user_def)
  qed
  with administration_spares_oneself [OF s me d] confirmation_offered sends show ?thesis by auto
qed



text \<open>C22: in every reachable state the delayed lookup is for the client the dialog shows and the trimmed
  identifier the field holds, which is a complete UUID or e-mail, under the assignment policy; when its
  delay is over the one request it sends posts exactly this identifier to the lookup of that client; and at
  most one lookup is live (not aborted), none while one is delayed.\<close>

theorem lookup_matches_dialog:
  assumes "reach (ap_init visible focused) (ap_next b) ap_ok s"
  shows "length (live_lookups s) \<le> (if ap_lookupTimer s = None then 1 else 0) \<and>
    (\<forall>cid identifier. ap_lookupTimer s = Some (cid, identifier) \<longrightarrow>
       identifier = trim (ap_assignmentIdentifier s) \<and> isCompleteAssignmentIdentifier identifier \<and>
       (\<exists>c. ap_accessClient s = Some c \<and> c_client_id c = cid \<and> c_access_policy c = AssignedOnly)
       \<and> (client_path cid \<noteq> None \<longrightarrow> sent (snd (ap_step b s LookupTimer)) \<noteq> [])) \<and>
    (sent (snd (ap_step b s LookupTimer)) \<noteq> [] \<longrightarrow>
       (\<exists>c p. ap_accessClient s = Some c \<and> c_access_policy c = AssignedOnly \<and> client_path (c_client_id c) = Some p
          \<and> isCompleteAssignmentIdentifier (trim (ap_assignmentIdentifier s))
          \<and> map (\<lambda>r. (fr_method r, fr_url r, fr_body r)) (sent (snd (ap_step b s LookupTimer))) =
              [(''POST'', b_api_url b @ p @ js ''/assignment-lookup'',
                Some (JsonText (JObj [(''identifier'', JStr (trim (ap_assignmentIdentifier s)))])))]))"
proof -
  from ap.reach_inv [OF assms] have i: "lookup_inv s" by (simp add: ap_inv_def)
  have "length (live_lookups s) \<le> (if ap_lookupTimer s = None then 1 else 0) \<and>
    (\<forall>cid identifier. ap_lookupTimer s = Some (cid, identifier) \<longrightarrow>
       identifier = trim (ap_assignmentIdentifier s) \<and> isCompleteAssignmentIdentifier identifier \<and>
       (\<exists>c. ap_accessClient s = Some c \<and> c_client_id c = cid \<and> c_access_policy c = AssignedOnly)
       \<and> (client_path cid \<noteq> None \<longrightarrow> sent (snd (ap_step b s LookupTimer)) \<noteq> []))"
    using i armed_lookup_sends [of s _ _ _ b] by (auto simp: lookup_inv_def timer_inv_def split: option.splits)
  moreover have "\<exists>c p. ap_accessClient s = Some c \<and> c_access_policy c = AssignedOnly \<and> client_path (c_client_id c) = Some p
          \<and> isCompleteAssignmentIdentifier (trim (ap_assignmentIdentifier s))
          \<and> map (\<lambda>r. (fr_method r, fr_url r, fr_body r)) (sent (snd (ap_step b s LookupTimer))) =
              [(''POST'', b_api_url b @ p @ js ''/assignment-lookup'',
                Some (JsonText (JObj [(''identifier'', JStr (trim (ap_assignmentIdentifier s)))])))]"
    if "sent (snd (ap_step b s LookupTimer)) \<noteq> []"
    using lookup_request [OF i that] by (auto simp: with_signal_def post_def fetch_init_def apiFetch_request_def)
  ultimately show ?thesis by blast
qed

theorem lookup_matches_dialog_witness:
  "let s = run (ap_next (sample_browser [])) (ap_init True True) lookup_run
   in \<exists>p. client_path (js ''app'') = Some p
     \<and> map (\<lambda>r. (fr_method r, fr_url r, fr_body r)) (sent (snd (ap_step (sample_browser []) s LookupTimer))) =
         [(''POST'', js ''https://api.example'' @ p @ js ''/assignment-lookup'',
           Some (JsonText (JObj [(''identifier'', JStr (js ''a@b.id''))])))]"
proof -
  let ?s = "run (ap_next (sample_browser [])) (ap_init True True) lookup_run"
  have "reach (ap_init True True) (ap_next (sample_browser [])) ap_ok ?s"
    by (rule reach_run [OF reach_init lookup_run_possible])
  note this [THEN lookup_matches_dialog]
  moreover have "ap_lookupTimer ?s = Some (js ''app'', js ''a@b.id'')" "ap_accessClient ?s = Some sample_client"
    "trim (ap_assignmentIdentifier ?s) = js ''a@b.id''"
    using lookup_run_result by simp_all
  moreover have "client_path (js ''app'') \<noteq> None" using sample_path by auto
  ultimately show ?thesis by (auto simp: Let_def sample_client_def sample_browser_def)
qed

text \<open>C23: the components of the kit are transparent: when every component a page names is replaced by what
  it renders, the elements react with the same handlers (a form is then submitted by its native
  buttons), lead to the same addresses and show every text of the page, in every state of every page.
  So what the properties say of the pages' trees holds of what the browser shows.\<close>

theorem pages_shown_faithfully:
  "shown_faithfully (LoginPage env b login) \<and> shown_faithfully (RegisterPage env register)
   \<and> shown_faithfully (VerifyEmailPage env b verify) \<and> shown_faithfully (PasswordResetForm env reset)
   \<and> shown_faithfully (AuthorizeContent env b consent) \<and> shown_faithfully (Home env u loading)
   \<and> list_all shown_faithfully (ProfilPage upper profile) \<and> shown_faithfully (KeamananPage security)
   \<and> shown_faithfully (SesiPage d sessions) \<and> shown_faithfully (AplikasiPage apps)
   \<and> shown_faithfully (ApplicationDetail upper detail) \<and> shown_faithfully (PenggunaPage d upper users)
   \<and> shown_faithfully (AuditLogPage d audit) \<and> shown_faithfully (BackupDatabasePage d f backups)"
  by (intro conjI page_tree_faithful page_trees list.pred_mono_strong [OF ProfilPage_tree])

text \<open>C24: \<open>apiFetch\<close> returns a value exactly when a response arrives, its status is in the 200s and its body
  parses if the content type says JSON; a response outside the 200s with a readable body becomes an
  \<open>APIError\<close> that carries its status.\<close>

theorem request_outcomes:
  "((\<exists>p. apiFetch_settle coerce outcome = Inr p) =
     (\<exists>r. outcome = Inr r \<and> 200 \<le> hr_status r \<and> hr_status r < 300 \<and> readable r))
   \<and> (\<forall>r. outcome = Inr r \<and> \<not> (200 \<le> hr_status r \<and> hr_status r < 300) \<and> readable r
        \<longrightarrow> (\<exists>m c p. apiFetch_settle coerce outcome = Inl (APIError m (hr_status r) c p)))"
proof (intro conjI allI impI)
  show "(\<exists>p. apiFetch_settle coerce outcome = Inr p) =
     (\<exists>r. outcome = Inr r \<and> 200 \<le> hr_status r \<and> hr_status r < 300 \<and> readable r)"
    using settle_ok_iff [of coerce outcome] by (auto simp: hr_ok_def readable_def)
  show "\<exists>m c p. apiFetch_settle coerce outcome = Inl (APIError m (hr_status r) c p)"
    if "outcome = Inr r \<and> \<not> (200 \<le> hr_status r \<and> hr_status r < 300) \<and> readable r" for r
    using that settle_error [of r coerce] by (auto simp: hr_ok_def)
qed

theorem request_outcomes_witness:
  "\<exists>m c p. apiFetch_settle (\<lambda>_. []) (Inr \<lparr>hr_status = 404, hr_content_type = None, hr_json = Inr JNull\<rparr>)
     = Inl (APIError m 404 c p)"
  using request_outcomes [of "\<lambda>_. []" "Inr \<lparr>hr_status = 404, hr_content_type = None, hr_json = Inr JNull\<rparr>"]
  by (simp add: readable_def)



text \<open>C26: pressing the registration button sends a request exactly when the phone number (trimmed, without spaces,
  brackets and dashes) is 8 to 15 digits after an optional plus, the gender is one of the three values and
  the security check has given a token; the one request carries the name, the normalised address, the
  normalised number, the gender, the password and the token, and otherwise an error is shown.\<close>

theorem registration_sends_checked_values:
  "let (t, effs) = register_step b s RegSubmit; phone = filter (\<lambda>u. u \<notin> set (js '' ()-'')) (trim (rg_phone s))
   in if (\<exists>plus ds. phone = plus @ ds \<and> plus \<in> {[], js ''+''} \<and> list_all digit16 ds \<and> 8 \<le> length ds \<and> length ds \<le> 15)
        \<and> rg_gender s \<in> {js ''male'', js ''female'', js ''other''} \<and> rg_turnstileToken s \<noteq> []
      then map (\<lambda>r. (fr_method r, fr_url r, fr_body r)) (sent effs) =
          [(''POST'', b_api_url b @ js ''/api/auth/register'', Some (JsonText (JObj
             [(''name'', JStr (rg_name s)), (''email'', JStr (b_lower b (trim (rg_email s)))), (''phone'', JStr phone),
              (''gender'', JStr (rg_gender s)), (''password'', JStr (rg_password s)),
              (''turnstile_token'', JStr (rg_turnstileToken s))])))]
        \<and> rg_submitting t \<and> rg_error t = []
      else sent effs = [] \<and> rg_error t \<noteq> [] \<and> rg_submitting t = rg_submitting s"
proof -
  have phone: "normalizedPhone p = filter (\<lambda>u. u \<notin> set (js '' ()-'')) (trim p)" for p
    unfolding normalizedPhone_def by (rule filter_cong) (auto simp: js_def unsigned_word_eqI)
  show ?thesis unfolding phone [symmetric] phone_pattern_iff [symmetric]
    by (auto simp: register_submit_def genders_def register_body_def normalize_email_def post_def fetch_init_def api_def
        apiFetch_request_def Let_def js_def)
qed

text \<open>C27: a login request is sent only by the answer of the position, to the login endpoint, and carries the
  address and password the user submitted and the position the browser gave; only the answer of the login
  endpoint signs someone in, as the user it names; and when the position or the request fails, the only
  effect is the message, which the page shows with the button enabled again.\<close>

theorem login_needs_position:
  assumes "login_ok env b s e"
  shows "let (t, effs) = login_step b geo s e
    in (sent effs \<noteq> [] \<longrightarrow> (\<exists>k p email password j. e = LocationAnswer k (Inr p) \<and> geo
          \<and> k < length (li_pending s) \<and> li_pending s ! k = AwaitLocation email password
          \<and> map (\<lambda>r. (fr_url r, fr_body r)) (sent effs) = [(b_api_url b @ js ''/api/auth/login'', Some (JsonText j))]
          \<and> json_prop (Some j) ''email'' = Some (JStr email) \<and> json_prop (Some j) ''password'' = Some (JStr password)
          \<and> json_prop (Some j) ''location'' = Some (JObj [(''latitude'', JNum (latitude p)), (''longitude'', JNum (longitude p)),
              (''accuracy'', JNum (accuracy p))])))
      \<and> (\<forall>x. SetUser x \<in> set effs \<longrightarrow> (\<exists>k u. e = LoginAnswer k (Inr u) \<and> k < length (li_pending s)
          \<and> li_pending s ! k = AwaitLogin \<and> x = Some u))
      \<and> ((\<exists>k x. e = LoginAnswer k (Inl x) \<or> e = LocationAnswer k (Inl x)) \<or> (\<exists>k r. e = LocationAnswer k r \<and> \<not> geo) \<longrightarrow>
          (\<exists>m. effs = [Toast Failure m] \<and> li_error t = m \<and> \<not> li_submitting t))"
  using assms
  by (cases e) (auto simp: login_failed_def requestLocation_def login_body_def json_prop_def Let_def post_bodies api_def
      split: sum.splits login_pending.splits js_error.splits if_splits)

theorem login_needs_position_witness:
  "let s = login_init\<lparr>li_submitting := True, li_pending := [AwaitLocation (js ''a@x.id'') (js ''pw'')]\<rparr>; b = sample_browser [];
       sends = sent (snd (login_step b True s (LocationAnswer 0 (Inr sample_position))))
   in (\<exists>j. map fr_body sends = [Some (JsonText j)] \<and> json_prop (Some j) ''email'' = Some (JStr (js ''a@x.id''))
        \<and> json_prop (Some j) ''location'' = Some (JObj [(''latitude'', JNum (- 7)), (''longitude'', JNum 111), (''accuracy'', JNum 20)]))
     \<and> (\<exists>m. snd (login_step b True s (LocationAnswer 0 (Inl uri_error))) = [Toast Failure m])"
proof -
  let ?s = "login_init\<lparr>li_submitting := True, li_pending := [AwaitLocation (js ''a@x.id'') (js ''pw'')]\<rparr>" and ?b = "sample_browser []"
  have ok: "login_ok sample_env ?b ?s (LocationAnswer 0 r)" for r by simp
  define sends where "sends = sent (snd (login_step ?b True ?s (LocationAnswer 0 (Inr sample_position))))"
  have "sends \<noteq> []" by (simp add: sends_def requestLocation_def Let_def api_def)
  with login_needs_position [OF ok, of True "Inr sample_position", unfolded Let_def case_prod_beta, THEN conjunct1, folded sends_def]
  obtain j where "map (\<lambda>r. (fr_url r, fr_body r)) sends = [(b_api_url ?b @ js ''/api/auth/login'', Some (JsonText j))]"
    "json_prop (Some j) ''email'' = Some (JStr (js ''a@x.id''))"
    "json_prop (Some j) ''location'' = Some (JObj [(''latitude'', JNum (- 7)), (''longitude'', JNum 111), (''accuracy'', JNum 20)])"
    by (auto simp: sample_position_def)
  moreover have "\<exists>m. snd (login_step ?b True ?s (LocationAnswer 0 (Inl uri_error))) = [Toast Failure m]"
    using login_needs_position [OF ok, of True "Inl uri_error", unfolded Let_def case_prod_beta, THEN conjunct2, THEN conjunct2]
    by blast
  ultimately show ?thesis unfolding Let_def sends_def [symmetric] by (auto simp: map_eq_Cons_conv)
qed

text \<open>C28: in every reachable state of the verification page the code field holds at most six characters, all
  digits; at most one check and one resend are under way; and the check is offered only with six digits.\<close>

theorem verification_code_digits:
  assumes "reach (verify_init b st) (verify_next b) (verify_ok env b) s"
  shows "list_all digit16 (ve_otp s) \<and> length (ve_otp s) \<le> 6
    \<and> length (filter is_verify (ve_pending s)) \<le> 1 \<and> length (filter (Not \<circ> is_verify) (ve_pending s)) \<le> 1
    \<and> (offers (VerifyEmailPage env b s) VerSubmit = (length (ve_otp s) = 6 \<and> filter is_verify (ve_pending s) = []))"
  using verify.reach_inv [OF assms]
  by (auto simp: verify_inv_def verify_offers split: if_splits)

theorem verification_code_digits_witness:
  "list_all digit16 (ve_otp (verify_init (sample_browser []) sample_store))"
  using verification_code_digits [of "sample_browser []" sample_store sample_env, OF reach_init] by simp

text \<open>C29: the button for the new password is enabled exactly in the states in which its handler sends the
  request (with a link's token and nothing under way), and the password then has at least 8 code points,
  at most 72 UTF-8 bytes, and equals its repetition.\<close>

theorem reset_button_matches_handler:
  "offers (PasswordResetForm env s) ResConfirm =
     (isResetFlow s \<and> \<not> rp_submitting s \<and> sent (snd (reset_step b s ResConfirm)) \<noteq> [])
   \<and> (sent (snd (reset_step b s ResConfirm)) \<noteq> []) =
     (8 \<le> length (code_points (rp_newPassword s)) \<and> length (text_encode (rp_newPassword s)) \<le> 72
      \<and> rp_newPassword s = rp_confirmPassword s)"
  by (auto simp: reset_offers confirm_sends_iff acceptable_def)

text \<open>C30: when the page was opened with a reset token, its address is replaced by one without a \<open>token\<close>
  parameter that keeps the path, the fragment and every other parameter.\<close>

theorem reset_token_leaves_address:
  fixes location :: url
  assumes "rp_token s \<noteq> []"
  shows "\<exists>u :: url. clean_effect location s = [HistoryReplace (url_pathname location @ url_search u @ url_hash location)]
    \<and> query_get (url_params u) ''token'' = None
    \<and> (\<forall>n. n \<noteq> ''token'' \<longrightarrow> query_get (url_params u) n = query_get (url_params location) n)
    \<and> url_search u = (if url_params u = [] then [] else js ''?'' @ query_string (url_params u))"
proof (intro exI [of _ "delete_param ''token'' location"] conjI allI impI)
  show "clean_effect location s = [HistoryReplace (url_pathname location
      @ url_search (delete_param ''token'' location) @ url_hash location)]"
    using assms by (simp add: clean_effect_def delete_param_def Let_def)
qed (simp_all add: delete_param_gone delete_param_other, simp add: delete_param_def Let_def)

theorem reset_token_leaves_address_witness:
  "let b = sample_browser [(js ''token'', js ''t''), (js ''lang'', js ''id'')];
       location = page_url id_origin (js ''id.example'') (js ''/reset-password'') [] (b_params b)
   in \<exists>u :: url. clean_effect location (reset_init b) = [HistoryReplace (js ''/reset-password'' @ url_search u)]
    \<and> query_get (url_params u) ''token'' = None"
proof -
  let ?b = "sample_browser [(js ''token'', js ''t''), (js ''lang'', js ''id'')]"
  let ?l = "page_url id_origin (js ''id.example'') (js ''/reset-password'') [] (b_params ?b)"
  have "rp_token (reset_init ?b) \<noteq> []"
    by (simp add: reset_init_def param_def query_get_def sample_browser_def trim_def js_def js_ws_def)
  from reset_token_leaves_address [OF this, of ?l]
  obtain u :: url where "clean_effect ?l (reset_init ?b) = [HistoryReplace (url_pathname ?l @ url_search u @ url_hash ?l)]"
    "query_get (url_params u) ''token'' = None" by (elim exE conjE) (rule that)
  moreover have "url_pathname ?l = js ''/reset-password''" "url_hash ?l = []" by (simp_all add: page_url_def)
  ultimately show ?thesis unfolding Let_def by auto
qed

text \<open>C31: the path built from a client identifier splits at its slashes into \<open>api\<close>, \<open>clients\<close> and one more segment,
  holds no question mark or hash, and no two identifiers have the same path: a request never reaches the
  resource of another client. The exception is plain: a URL parser drops a segment that is empty, \<open>.\<close> or
  \<open>..\<close> (or their escaped forms), and the segment is one of these exactly for the empty identifier and the
  identifiers \<open>.\<close> and \<open>..\<close>, which \<open>encodeURIComponent\<close> leaves as they are.\<close>

theorem client_path_faithful:
  assumes "client_path cid = Some p"
  shows "\<exists>e. split_on 47 p = [[], js ''api'', js ''clients'', e] \<and> 63 \<notin> set p \<and> 35 \<notin> set p
    \<and> (e = [] \<longleftrightarrow> cid = []) \<and> (dot_segment e \<longleftrightarrow> cid \<in> {js ''.'', js ''..''})
    \<and> (\<forall>d. client_path d = Some p \<longrightarrow> d = cid)"
proof -
  from assms obtain e where e: "encodeURIComponent cid = Some e" "p = js ''/api/clients/'' @ e"
    by (auto simp: client_path_def)
  have free: "47 \<notin> set e \<and> 63 \<notin> set e \<and> 35 \<notin> set e"
    by (auto dest!: encodeURIComponent_safe [OF e(1)] simp: uri_safe_def uri_keep_def alnum_def)
  have "p = join_with [47] [[], js ''api'', js ''clients'', e]" by (simp add: e(2) js_def)
  moreover have "split_on 47 (join_with [47] [[], js ''api'', js ''clients'', e]) = [[], js ''api'', js ''clients'', e]"
    by (rule split_join) (use free in \<open>simp_all add: js_def\<close>)
  ultimately have "split_on 47 p = [[], js ''api'', js ''clients'', e]" by simp
  moreover have "e = [] \<longleftrightarrow> cid = []"
    using encodeURIComponent_inj [OF e(1), of "[]"] e(1) by (auto simp: encodeURIComponent_def well_formed_def)
  moreover have "\<forall>d. client_path d = Some p \<longrightarrow> d = cid"
    using encodeURIComponent_inj e by (auto simp: client_path_def)
  ultimately show ?thesis using free encode_dot_segment [OF e(1)] by (auto simp: e(2) js_def)
qed

theorem client_path_faithful_witness:
  "\<exists>p e. client_path (js ''a/b?c'') = Some p \<and> split_on 47 p = [[], js ''api'', js ''clients'', e] \<and> \<not> dot_segment e \<and> 63 \<notin> set p"
proof -
  have "client_path (js ''a/b?c'') = Some (the (client_path (js ''a/b?c'')))"
    by (simp add: client_path_def encodeURIComponent_def well_formed_plain)
  from client_path_faithful [OF this] this show ?thesis by auto
qed

text \<open>C32: a file of lines \<open>NAME="value"\<close> is parsed to exactly these values, whatever quotes, equal signs, hash
  signs or white space the values hold, as long as no value has a line terminator.\<close>

theorem environment_file_round_trip:
  assumes "list_all admissible es"
  shows "parseEnvironment (print_environment es) = Inr (map_of (rev es))"
  by (rule environment_round_trip [OF assms])

theorem environment_file_round_trip_witness:
  "parseEnvironment (print_environment [(js ''A_1'', js ''x=# ''), (js ''B'', [34])]) = Inr (map_of (rev [(js ''A_1'', js ''x=# ''), (js ''B'', [34])]))"
proof (rule environment_file_round_trip)
  show "list_all admissible [(js ''A_1'', js ''x=# ''), (js ''B'', [34])]"
    by (simp add: admissible_def js_def capital_def key_unit_def digit16_def line_end_def)
qed

text \<open>C33: the query of the three searchable lists, cut at \<open>&\<close>, is the page, the page size and, when there are
  any, the search and the filter, each serialised with its value; a serialised value holds letters,
  digits and \<open>* - . _ + %\<close> only, so no search text can add or close a parameter; and well-formed
  texts are told apart by their serialisation.\<close>

theorem search_stays_one_parameter:
  "split_on 38 (query_string (users_query p q)) = map (\<lambda>(n, v). query_part n v) (list_query p q)
   \<and> split_on 38 (query_string (assignments_query p q)) = map (\<lambda>(n, v). query_part n v) (list_query p q)
   \<and> split_on 38 (query_string (logs_query s)) = map (\<lambda>(n, v). query_part n v)
       (list_query (al_page s) (al_debouncedSearch s) @ (if al_action s = js ''all'' then [] else [(''action'', al_action s)]))
   \<and> list_all form_safe (form_encode q) \<and> inj_on form_encode (Collect well_formed)"
proof (intro conjI)
  have kept: "\<forall>(n, v)\<in>set (list_query p q). form_encode (js n) = js n"
    using list_query_kept [of p q False] by (auto simp: list_query_def kept_names)
  have ne: "list_query p q \<noteq> []" by (simp add: list_query_def)
  show "split_on 38 (query_string (users_query p q)) = map (\<lambda>(n, v). query_part n v) (list_query p q)"
    "split_on 38 (query_string (assignments_query p q)) = map (\<lambda>(n, v). query_part n v) (list_query p q)"
    unfolding list_queries by (rule split_query [OF ne kept])+
  show "split_on 38 (query_string (logs_query s)) = map (\<lambda>(n, v). query_part n v)
      (list_query (al_page s) (al_debouncedSearch s) @ (if al_action s = js ''all'' then [] else [(''action'', al_action s)]))"
    unfolding list_queries by (rule split_query [OF _ list_query_kept]) (simp add: list_query_def)
  show "list_all form_safe (form_encode q)" using form_encode_safe by (auto simp: list_all_iff)
  show "inj_on form_encode (Collect well_formed)" by (rule inj_onI) (auto intro: form_encode_inj)
qed

text \<open>C34: for a page in range the navigation's items, with each ellipsis written out, are exactly the pages
  \<open>1..totalPages\<close> in order; an ellipsis hides at least two pages, the page shown is among the numbers,
  and there are at most seven items.\<close>

theorem page_numbers_cover:
  assumes "1 \<le> page" "page \<le> totalPages"
  shows "fill 0 (pageItems page totalPages) = [1..totalPages] \<and> gaps_wide 0 (pageItems page totalPages)
    \<and> Page page \<in> set (pageItems page totalPages) \<and> length (pageItems page totalPages) \<le> 7"
  using fill_pageItems gaps_pageItems current_in_items length_pageItems assms by blast

theorem page_numbers_cover_witness: "fill 0 (pageItems 10 20) = [1..20]"
  using page_numbers_cover [of 10 20] by simp





text \<open>C37: when a registration at time \<open>t\<close> has queued or sent its e-mail and the verification page is opened for the
  same address at a later time \<open>u\<close>, the page's first frame finds the deadline; while 60 seconds have not
  passed the interval runs, so every later tick can come; and after any ticks, the last at time \<open>w\<close>, the page
  shows the seconds left of the 60, rounded up, down to zero, and offers the resend exactly when none are
  left.\<close>

theorem registration_starts_cooldown:
  assumes "usable (rg_store s)" and "has_key (b_lower b) email" and "clock t" and "0 < t" "t \<le> u"
    and "rr_queued res \<or> rr_sent res"
    and same: "b_lower b' = b_lower b" "param (b_params b') ''email'' = email" "normalize_email (b_lower b) email = email"
    and "sorted (u # ws)"
  shows "let st = rg_store (fst (register_settled b email t (Inr res) s)); w = last (u # ws);
             v = run (verify_next b') (verify_init b' st) (VerFrame u # map VerTick ws)
    in (u < t + 60000 \<or> ws = [] \<longrightarrow>
          possible (verify_next b') (verify_ok env b') (verify_init b' st) (VerFrame u # map VerTick ws))
       \<and> resendIn v = max 0 \<lceil>of_int (t + 60000 - w) / (1000 :: rat)\<rceil> \<and> resendIn v \<le> 60
       \<and> (0 < resendIn v) = (w < t + 60000)
       \<and> offers (VerifyEmailPage env b' v) VerResend = (t + 60000 \<le> w)"
proof -
  let ?st = "rg_store (fst (register_settled b email t (Inr res) s))" and ?w = "last (u # ws)"
  let ?i = "verify_next b' (verify_init b' ?st) (VerFrame u)"
  let ?v = "?i\<lparr>ve_now := ?w\<rparr>"
  have st: "?st = snd (startOTPResendCooldown (b_lower b) email t (rg_store s))"
    using assms by (auto simp: register_settled_def)
  have r: "fst (readOTPResendDeadline (b_lower b) email u ?st) = (if u < t + 60000 then of_int (t + 60000) else 0)"
    unfolding st by (rule read_after_start) (use assms in simp_all)
  have d: "ve_resendDeadline ?i = (if u < t + 60000 then of_int (t + 60000) else 0)" and n: "ve_now ?i = u"
    using frame_reads [of b' ?st u] r unfolding same by simp_all
  have u: "0 < u" "u \<le> ?w" using assms(4,5) \<open>sorted (u # ws)\<close> by (auto simp: last_in_set)
  have run: "run (verify_next b') (verify_init b' ?st) (VerFrame u # map VerTick ws) = ?v"
    using ticks_run [of b' ?i ws] by (simp add: n)
  have left: "resendIn ?v = max 0 \<lceil>of_int (t + 60000 - ?w) / (1000 :: rat)\<rceil>"
    using countdown_value [of ?v u t] d u by simp
  have over: "(resendIn ?v \<le> 0) = (t + 60000 \<le> ?w)"
    using countdown_over [of "t + 60000 - ?w"] unfolding left by (simp del: last.simps of_int_diff of_int_add)
  have "email \<noteq> []" using assms(2) by (auto simp: has_key_def trim_def)
  then have offered: "offers (VerifyEmailPage env b' ?v) VerResend = (t + 60000 \<le> ?w)"
    using same over by (simp add: verify_offers ve_normalized_def frame_keeps del: last.simps)
  have "ve_interval ?i" if "u < t + 60000"
    by (rule frame_starts_interval) (use that r u in \<open>simp_all add: same\<close>)
  then have "possible (verify_next b') (verify_ok env b') (verify_init b' ?st) (VerFrame u # map VerTick ws)" if "u < t + 60000 \<or> ws = []"
    using that ticks_possible [of ?i ws b' env] u(1) \<open>sorted (u # ws)\<close>
    by (auto simp: n) (simp_all add: verify_init_def Let_def)
  moreover have "resendIn ?v \<le> 60"
    using assms(5) u(2) unfolding left by (simp add: ceiling_le_iff)
  moreover have "(0 < resendIn ?v) = (?w < t + 60000)"
    using over by linarith
  ultimately show ?thesis unfolding Let_def run using left offered by blast
qed

theorem registration_starts_cooldown_witness:
  "let b = sample_browser [(js ''email'', js ''a'')];
       st = rg_store (fst (register_settled b (js ''a'') 1000 (Inr \<lparr>rr_message = None, rr_queued = True, rr_sent = False\<rparr>)
              (register_init sample_store)));
       es = [VerFrame 2000, VerTick 3000, VerTick 61000];
       v = run (verify_next b) (verify_init b st) es
    in possible (verify_next b) (verify_ok sample_env b) (verify_init b st) es \<and> resendIn v = 0
       \<and> offers (VerifyEmailPage sample_env b v) VerResend"
  using registration_starts_cooldown [of "register_init sample_store" "sample_browser [(js ''email'', js ''a'')]" "js ''a''"
      1000 2000 "\<lparr>rr_message = None, rr_queued = True, rr_sent = False\<rparr>" "sample_browser [(js ''email'', js ''a'')]" "[3000, 61000]"
      sample_env]
  by (simp add: sample_email register_init_def sample_store_def usable_def clock_def Let_def)

text \<open>C38: the dashboard sends a visitor without a session to the login page with its own path as \<open>callbackUrl\<close>,
  but the login page accepts only the consent page: the visitor ends on the profile page, whatever the
  dashboard page was. The hypotheses say that the login page reads the value back and resolves it
  against the origin.\<close>

theorem dashboard_callback_not_honoured:
  assumes "\<not> sh_loading s" "sh_user s = None" "\<not> sh_logoutStarted s"
    and "encodeURIComponent pathname = Some e"
    and "query_get (b_params b) ''callbackUrl'' = Some pathname"
    and "b_parse_url b pathname (Some (b_origin b)) = Some t" "url_pathname t = pathname"
    and "pathname \<noteq> js ''/oauth/authorize''"
  shows "shell_effect pathname s = [RouterReplace (js ''/login?callbackUrl='' @ e)]
    \<and> safeLoginDestination True b (query_get (b_params b) ''callbackUrl'') = js ''/dashboard/profil''"
  using assms
  by (simp add: shell_effect_def login_callback_def safeLoginDestination_def DEFAULT_LOGIN_DESTINATION_def split: option.split)

theorem dashboard_callback_not_honoured_witness:
  "let p = js ''/dashboard/sesi''; b = dashboard_browser
   in safeLoginDestination True b (query_get (b_params b) ''callbackUrl'') = js ''/dashboard/profil''"
proof -
  obtain e where e: "encodeURIComponent (js ''/dashboard/sesi'') = Some e"
    by (auto simp: encodeURIComponent_def well_formed_plain)
  show ?thesis unfolding Let_def
    by (rule dashboard_callback_not_honoured [THEN conjunct2, OF _ _ _ e,
          of "fst (shell_mount (js ''/dashboard/sesi'') None False)" dashboard_browser dashboard_url])
      (simp_all add: shell_mount_def Let_def dashboard_browser_def dashboard_url_def page_url_def query_get_def sample_browser_def js_def)
qed

text \<open>C39: when, in a reachable state, the only user listed on a page after the first is revoked and the user goes to
  page 1 before the answer, both offered by the page, the successful answer steps back from page 1: the
  reachable state it leads to is on page 0, and the request it sends asks the server for page 0.\<close>

theorem revoking_can_reach_page_zero:
  assumes "ad_client s = Some c" and "assigned_only c" and "ad_assignments s = [a]" and "a_user_id a \<noteq> c_owner_id c"
    and "ad_revokingUserID s = None" and "assignment_path (c_client_id c) (a_user_id a) = Some p"
    and "ad_page s > 1" and "ad_page s \<le> ad_totalPages s" and "\<not> ad_loading s"
    and "reach (fst (ad_init b cid)) (ad_next b cid) (ad_ok up) s" and "client_path cid = Some q"
  shows "let es = [AdRevoke a, AdPageChange 1]; e = RevokeAnswer (length (ad_pending s)) (Inr ()); t = run (ad_next b cid) s es
    in possible (ad_next b cid) (ad_ok up) s (es @ [e]) \<and> ad_page (ad_next b cid t e) = 0
      \<and> reach (fst (ad_init b cid)) (ad_next b cid) (ad_ok up) (ad_next b cid t e)
      \<and> (\<exists>rest. map fr_url (sent (snd (ad_step b cid t e))) = [b_api_url b @ q @ js ''/assignments?page=0&page_size=20'' @ rest])"
proof -
  let ?es = "[AdRevoke a, AdPageChange 1, RevokeAnswer (length (ad_pending s)) (Inr ())]"
  note possible = revoke_then_first_page_possible [OF assms(1-9), of b cid up]
  have last: "run (ad_next b cid) s ?es = ad_next b cid (run (ad_next b cid) s [AdRevoke a, AdPageChange 1])
      (RevokeAnswer (length (ad_pending s)) (Inr ()))"
    by (simp del: ad_step.simps)
  from reach_run [OF assms(10) possible] revoke_then_first_page [OF assms(1,3,4,5,6,7), of b cid]
    revoke_asks_page_zero [OF assms(1,3,4,5,6,7,11), of b] possible
  show ?thesis unfolding Let_def append_Cons append_Nil last by blast
qed

theorem revoking_can_reach_page_zero_witness:
  "\<exists>s q rest. reach (fst (ad_init (sample_browser []) (js ''app''))) (ad_next (sample_browser []) (js ''app'')) (ad_ok id) s
     \<and> ad_page s = 0 \<and> map fr_url (sent (snd (ad_step (sample_browser []) (js ''app'')
           (run (ad_next (sample_browser []) (js ''app'')) second_page [AdRevoke sample_assignment, AdPageChange 1]) (RevokeAnswer 0 (Inr ())))))
       = [js ''https://api.example'' @ q @ js ''/assignments?page=0&page_size=20'' @ rest]"
proof -
  obtain p where p: "assignment_path (c_client_id sample_client) (a_user_id sample_assignment) = Some p"
    using sample_path by (auto simp: assignment_path_def sample_client_def sample_assignment_def encodeURIComponent_def well_formed_plain)
  obtain q where q: "client_path (js ''app'') = Some q" using sample_path by blast
  have a: "assigned_only sample_client" "a_user_id sample_assignment \<noteq> c_owner_id sample_client"
    by (simp_all add: sample_client_def sample_assignment_def assigned_only_def)
  have api: "b_api_url (sample_browser []) = js ''https://api.example''" by (simp add: sample_browser_def)
  from revoking_can_reach_page_zero [OF second_page_fields(1) a(1) second_page_fields(2) a(2) second_page_fields(3) p
      second_page_fields(4-6) second_page_reachable q]
  show ?thesis unfolding Let_def second_page_fields(7) api by (elim conjE exE, intro exI conjI)
qed

text \<open>C40: the picture of a finished save is loaded in the background and its arrival clears the choice of
  avatar; if the user has chosen another avatar in the meantime, that choice is lost. If no other request,
  picture or crop under way has captured its object URL, the URL stays alive: in everything that can happen
  on the page afterwards no step revokes it.\<close>

theorem late_image_discards_choice:
  assumes "reach (pr_init u) (pr_next b) (pr_ok up) s" and "pr_ok up s (ImageSettled k)"
    and "pr_pending s ! k = AwaitImage old" and "pr_pendingPreview s = Some n" and "old \<noteq> Some n"
  shows "let (t, effs) = pr_step b s (ImageSettled k)
    in pr_pendingAvatar s \<noteq> None \<and> pr_pendingAvatar t = None \<and> pr_pendingPreview t = None
      \<and> n \<in> set (pr_urls t) \<and> RevokeURL n \<notin> set effs
      \<and> ((\<forall>p\<in>set (pr_pending s). n \<notin> held p) \<longrightarrow>
          (\<forall>es e. possible (pr_next b) (pr_ok up) t (es @ [e]) \<longrightarrow>
             n \<in> set (pr_urls (run (pr_next b) t es)) \<and> RevokeURL n \<notin> set (snd (pr_step b (run (pr_next b) t es) e))))"
proof -
  let ?t = "pr_next b s (ImageSettled k)"
  have i: "saves_inv s" "urls_inv s" using profile.reach_inv [OF assms(1)] by (simp_all add: pr_inv_def)
  then have n: "n \<in> set (pr_urls s)" "pr_pendingAvatar s \<noteq> None" "n < pr_nextURL s" "pr_cropSrc s \<noteq> Some n"
    using assms(4) by (auto simp: saves_inv_def choice_def urls_inv_def)
  have step: "pr_step b s (ImageSettled k) = (?t, revoke_effects old)"
    using assms(3) by (simp add: pr_next_def clearPending_def set_avatar_pending_def)
  have "abandoned n ?t" if "\<forall>p\<in>set (pr_pending s). n \<notin> held p"
    using n assms(3,5) that by (auto simp: abandoned_def pr_next_def clearPending_def set_avatar_pending_def pr_drop_def)
  then have "n \<in> set (pr_urls (run (pr_next b) ?t es)) \<and> RevokeURL n \<notin> set (snd (pr_step b (run (pr_next b) ?t es) e))"
    if "\<forall>p\<in>set (pr_pending s). n \<notin> held p" "possible (pr_next b) (pr_ok up) ?t (es @ [e])" for es e
    using that never_revoked [of n ?t b up es e] abandoned_run [of n ?t b up es] by (auto simp: abandoned_def possible_prefix)
  moreover have "pr_pendingAvatar ?t = None" "pr_pendingPreview ?t = None" "n \<in> set (pr_urls ?t)"
    using n assms(3,5) by (auto simp: pr_next_def clearPending_def set_avatar_pending_def pr_drop_def)
  ultimately show ?thesis unfolding step using n assms(5) by auto
qed

theorem late_image_discards_choice_witness:
  "let t = pr_next (sample_browser []) rechosen_state (ImageSettled 0); saved = pr_next (sample_browser []) t SaveProfile
   in pr_pendingAvatar rechosen_state \<noteq> None \<and> pr_pendingAvatar t = None
     \<and> 3 \<in> set (pr_urls saved) \<and> RevokeURL 3 \<notin> set (snd (pr_step (sample_browser []) saved (FileSelected (Some sample_file))))"
proof -
  let ?t = "pr_next (sample_browser []) rechosen_state (ImageSettled 0)"
  have old: "Some 1 \<noteq> Some (3 :: nat)" by simp
  note late = late_image_discards_choice [OF rechosen_reachable rechosen_answer rechosen_pending rechosen_fields(2) old,
      unfolded Let_def case_prod_beta, folded pr_next_def]
  have "possible (pr_next (sample_browser [])) (pr_ok id) ?t ([SaveProfile] @ [FileSelected (Some sample_file)])"
    by (rule rechosen_later)
  moreover have "\<forall>p\<in>set (pr_pending rechosen_state). 3 \<notin> held p" by (simp add: rechosen_fields)
  ultimately have "3 \<in> set (pr_urls (run (pr_next (sample_browser [])) ?t [SaveProfile]))
      \<and> RevokeURL 3 \<notin> set (snd (pr_step (sample_browser []) (run (pr_next (sample_browser [])) ?t [SaveProfile]) (FileSelected (Some sample_file))))"
    using late by blast
  moreover have "pr_pendingAvatar rechosen_state \<noteq> None \<and> pr_pendingAvatar ?t = None" using late by blast
  ultimately show ?thesis unfolding Let_def run.simps by blast
qed

end
